(* ===== verification/Prelude.thy ===== *)
theory Prelude
  imports Complex_Main "HOL-Library.Multiset" "HOL-Library.Product_Lexorder"
begin

text \<open>
  Shared vocabulary of the development: the Python string operations and the pandas
  comparison semantics that the scripts under \<open>src/04_SCRIPTS\<close> rely on, the sort key
  that puts missing values last (pandas' \<open>na_position='last'\<close>), and the generic
  lemmas on lists and multisets that the matcher proofs share.

  Strings are HOL \<open>string\<close>s (lists of 8-bit \<open>char\<close>s). Python's \<open>str.upper\<close> and
  \<open>str.lower\<close> are modelled on ASCII letters only; every other character is left
  unchanged, which is what Python does for the ASCII inputs of the USACE and Panjiva
  files (Python would also case-map Latin-1 letters). A missing pandas cell (NaN or NaT)
  is \<open>None\<close>.
\<close>

named_theorems py_simps "evaluation rules of the Python string primitives"
named_theorems pd_simps "evaluation rules of the pandas comparison primitives"

type_synonym day = int
type_synonym row_idx = nat

section \<open>Characters\<close>

definition py_space :: "char \<Rightarrow> bool" where
  "py_space c \<longleftrightarrow>
     (let n = (of_char c :: nat) in (9 \<le> n \<and> n \<le> 13) \<or> (28 \<le> n \<and> n \<le> 32) \<or> n = 133 \<or> n = 160)"

definition is_ascii_lower :: "char \<Rightarrow> bool" where
  "is_ascii_lower c \<longleftrightarrow> (let n = (of_char c :: nat) in 97 \<le> n \<and> n \<le> 122)"

definition is_ascii_upper :: "char \<Rightarrow> bool" where
  "is_ascii_upper c \<longleftrightarrow> (let n = (of_char c :: nat) in 65 \<le> n \<and> n \<le> 90)"

definition is_ascii_digit :: "char \<Rightarrow> bool" where
  "is_ascii_digit c \<longleftrightarrow> (let n = (of_char c :: nat) in 48 \<le> n \<and> n \<le> 57)"

definition is_ascii_alnum :: "char \<Rightarrow> bool" where
  "is_ascii_alnum c \<longleftrightarrow> is_ascii_lower c \<or> is_ascii_upper c \<or> is_ascii_digit c"

definition upper_char :: "char \<Rightarrow> char" where
  "upper_char c = (if is_ascii_lower c then char_of (of_char c - (32::nat)) else c)"

definition lower_char :: "char \<Rightarrow> char" where
  "lower_char c = (if is_ascii_upper c then char_of (of_char c + (32::nat)) else c)"

section \<open>Python string methods\<close>

text \<open>\<open>s.upper()\<close>, \<open>s.lower()\<close>, \<open>s.strip()\<close>.\<close>

definition py_upper :: "string \<Rightarrow> string" where
  "py_upper s = map upper_char s"

definition py_lower :: "string \<Rightarrow> string" where
  "py_lower s = map lower_char s"

definition py_strip :: "string \<Rightarrow> string" where
  "py_strip s = rev (dropWhile py_space (rev (dropWhile py_space s)))"

text \<open>\<open>s.split(sep)[0]\<close>: the text before the first separator (all of \<open>s\<close> if none).\<close>

definition py_split_first :: "char \<Rightarrow> string \<Rightarrow> string" where
  "py_split_first sep s = takeWhile (\<lambda>c. c \<noteq> sep) s"

text \<open>\<open>s.split()\<close>: the maximal runs of non-whitespace characters.\<close>

function py_split_ws :: "string \<Rightarrow> string list" where
  "py_split_ws s =
     (let s' = dropWhile py_space s in
      if s' = [] then []
      else takeWhile (\<lambda>c. \<not> py_space c) s' # py_split_ws (dropWhile (\<lambda>c. \<not> py_space c) s'))"
  by pat_completeness auto
termination
proof (relation "measure length")
  fix s s' :: string
  assume s': "s' = dropWhile py_space s" and ne: "s' \<noteq> []"
  then have "py_space (hd s') = False"
    by (metis hd_dropWhile)
  with ne have "length (dropWhile (\<lambda>c. \<not> py_space c) s') < length s'"
    by (cases s') (auto simp: le_imp_less_Suc length_dropWhile_le)
  moreover have "length s' \<le> length s"
    using s' by (simp add: length_dropWhile_le)
  ultimately show "(dropWhile (\<lambda>c. \<not> py_space c) s', s) \<in> measure length"
    by simp
qed simp

declare py_split_ws.simps [simp del]

text \<open>\<open>sep.join(ws)\<close>.\<close>

fun py_join :: "string \<Rightarrow> string list \<Rightarrow> string" where
  "py_join sep [] = []"
| "py_join sep [w] = w"
| "py_join sep (w # ws) = w @ sep @ py_join sep ws"

text \<open>
  \<open>s.replace(old, new)\<close>: every non-overlapping occurrence of \<open>old\<close>, scanning from
  the left, is replaced by \<open>new\<close>; an empty \<open>old\<close> inserts \<open>new\<close> around every
  character, as CPython does.
\<close>

function py_replace :: "string \<Rightarrow> string \<Rightarrow> string \<Rightarrow> string" where
  "py_replace old new [] = (if old = [] then new else [])"
| "py_replace old new (c # cs) =
     (if old = [] then new @ c # py_replace old new cs
      else if take (length old) (c # cs) = old then new @ py_replace old new (drop (length old) (c # cs))
      else c # py_replace old new cs)"
  by pat_completeness auto
termination
  by (relation "measure (\<lambda>(old, new, s). length s)") auto

text \<open>\<open>needle in hay\<close> on strings: \<open>needle\<close> occurs contiguously in \<open>hay\<close> (the empty string always does).\<close>

definition py_in :: "string \<Rightarrow> string \<Rightarrow> bool" where
  "py_in needle hay =
     list_ex (\<lambda>i. take (length needle) (drop i hay) = needle) [0..<Suc (length hay)]"

text \<open>\<open>s.split(sep)\<close> with a one-character separator: the pieces between separators.\<close>

fun py_split :: "char \<Rightarrow> string \<Rightarrow> string list" where
  "py_split sep [] = [[]]"
| "py_split sep (c # cs) =
     (if c = sep then [] # py_split sep cs
      else (case py_split sep cs of w # ws \<Rightarrow> (c # w) # ws | [] \<Rightarrow> [[c]]))"

section \<open>pandas comparisons\<close>

text \<open>
  An elementwise comparison of a pandas column with a value is \<open>False\<close> wherever either
  side is missing (\<open>NaN == NaN\<close> is \<open>False\<close>).
\<close>

definition pd_eq :: "'a option \<Rightarrow> 'a option \<Rightarrow> bool" where
  "pd_eq x y = (case (x, y) of (Some a, Some b) \<Rightarrow> a = b | _ \<Rightarrow> False)"

definition pd_less :: "'a::ord option \<Rightarrow> 'a option \<Rightarrow> bool" where
  "pd_less x y = (case (x, y) of (Some a, Some b) \<Rightarrow> a < b | _ \<Rightarrow> False)"

definition pd_le :: "'a::ord option \<Rightarrow> 'a option \<Rightarrow> bool" where
  "pd_le x y = (case (x, y) of (Some a, Some b) \<Rightarrow> a \<le> b | _ \<Rightarrow> False)"

text \<open>
  \<open>sort_values\<close> with \<open>na_position='last'\<close>: the sort key of a cell puts every
  missing value after every present one.
\<close>

definition nan_last :: "'a::zero option \<Rightarrow> bool \<times> 'a" where
  "nan_last x = (case x of None \<Rightarrow> (True, 0) | Some v \<Rightarrow> (False, v))"

text \<open>\<open>str(v)\<close> of a cell of a string column: a missing cell prints as \<open>nan\<close>.\<close>

definition py_str_cell :: "string option \<Rightarrow> string" where
  "py_str_cell c = (case c of None \<Rightarrow> ''nan'' | Some s \<Rightarrow> s)"

text \<open>\<open>Series.unique()\<close>: the distinct values in order of first appearance.\<close>

fun pd_unique_from :: "'a list \<Rightarrow> 'a list \<Rightarrow> 'a list" where
  "pd_unique_from seen [] = []"
| "pd_unique_from seen (x # xs) =
     (if x \<in> set seen then pd_unique_from seen xs else x # pd_unique_from (x # seen) xs)"

definition pd_unique :: "'a list \<Rightarrow> 'a list" where
  "pd_unique xs = pd_unique_from [] xs"

text \<open>
  The aggregations \<open>'first'\<close> (the first non-missing value of the group) and \<open>'sum'\<close>
  (missing values skipped, \<open>0\<close> for an empty group).
\<close>

definition pd_first :: "'a option list \<Rightarrow> 'a option" where
  "pd_first xs = (case [x. Some x \<leftarrow> xs] of [] \<Rightarrow> None | x # _ \<Rightarrow> Some x)"

definition pd_sum :: "'a::comm_monoid_add option list \<Rightarrow> 'a" where
  "pd_sum xs = sum_list [x. Some x \<leftarrow> xs]"

section \<open>Shared lemmas\<close>

text \<open>The rules with which \<open>simp\<close> evaluates the string primitives on literals.\<close>

declare py_space_def [py_simps] is_ascii_lower_def [py_simps] is_ascii_upper_def [py_simps]
  is_ascii_digit_def [py_simps] is_ascii_alnum_def [py_simps] upper_char_def [py_simps]
  lower_char_def [py_simps] py_upper_def [py_simps] py_lower_def [py_simps]
  py_strip_def [py_simps] py_split_first_def [py_simps] py_split_ws.simps [py_simps]
  char_of_def [py_simps] bit_0 [py_simps] py_in_def [py_simps]

lemma pd_eq_iff [pd_simps]: "pd_eq x y \<longleftrightarrow> (\<exists>a. x = Some a \<and> y = Some a)"
  by (auto simp: pd_eq_def split: option.splits)

lemma pd_less_iff [pd_simps]: "pd_less x y \<longleftrightarrow> (\<exists>a b. x = Some a \<and> y = Some b \<and> a < b)"
  by (auto simp: pd_less_def split: option.splits)

lemma pd_le_iff [pd_simps]: "pd_le x y \<longleftrightarrow> (\<exists>a b. x = Some a \<and> y = Some b \<and> a \<le> b)"
  by (auto simp: pd_le_def split: option.splits)

lemma pd_simps_None [simp, pd_simps]:
  "\<not> pd_eq None y" "\<not> pd_eq x None" "\<not> pd_less None y" "\<not> pd_less x None"
  "\<not> pd_le None y" "\<not> pd_le x None"
  by (simp_all add: pd_eq_def pd_less_def pd_le_def split: option.splits)

lemma pd_simps_Some [simp, pd_simps]:
  "pd_eq (Some a) (Some b) \<longleftrightarrow> a = b" "pd_less (Some a) (Some b) \<longleftrightarrow> a < b"
  "pd_le (Some a) (Some b) \<longleftrightarrow> a \<le> b"
  by (simp_all add: pd_eq_def pd_less_def pd_le_def)

lemma nan_last_simps [simp]: "nan_last None = (True, 0)" "nan_last (Some v) = (False, v)"
  by (simp_all add: nan_last_def)

text \<open>A list of distinct indices below \<open>n\<close>, split by a set, recombines to \<open>[0..<n]\<close>.\<close>

lemma mset_filter_upt_partition:
  "mset (filter P [0..<n]) + mset (filter (\<lambda>i. \<not> P i) [0..<n]) = mset [0..<n]"
  by (metis mset_filter multiset_partition)

lemma mset_filter_upt_set:
  assumes "M \<subseteq> {..<n}"
  shows "mset (filter (\<lambda>i. i \<in> M) [0..<n]) = mset_set M"
proof -
  have "set (filter (\<lambda>i. i \<in> M) [0..<n]) = M" using assms by auto
  moreover have "distinct (filter (\<lambda>i. i \<in> M) [0..<n])" by simp
  ultimately show ?thesis by (metis mset_set_set)
qed

lemma image_mset_nth_upt: "image_mset (\<lambda>i. xs ! i) (mset [0..<length xs]) = mset xs"
  by (metis map_nth mset_map)

lemma map_filter_append [simp]:
  "List.map_filter f (xs @ ys) = List.map_filter f xs @ List.map_filter f ys"
  by (simp add: List.map_filter_def)

lemma map_filter_map_Some [simp]: "List.map_filter (\<lambda>x. Some (f x)) xs = map f xs"
  by (induction xs) auto

lemma map_filter_None [simp]: "\<forall>x \<in> set xs. f x = None \<Longrightarrow> List.map_filter f xs = []"
  by (induction xs) auto

lemma card_image_distinct_map: "distinct (map f xs) \<Longrightarrow> card (f ` set xs) = length xs"
  by (metis distinct_card length_map set_map)

lemma count_list_pos: "x \<in> set xs \<Longrightarrow> 0 < count_list xs x"
  by (metis count_list_0_iff gr0I)

lemma card_Un_disjoint_distinct:
  "finite A \<Longrightarrow> f ` set xs \<subseteq> K \<Longrightarrow> A \<inter> K = {} \<Longrightarrow> distinct (map f xs) \<Longrightarrow>
   card (A \<union> f ` set xs) = card A + length xs"
  by (subst card_Un_disjoint) (auto simp: card_image_distinct_map)

lemma Un_disjoint_sub: "A \<inter> K = {} \<Longrightarrow> B \<subseteq> K' \<Longrightarrow> K' \<inter> K = {} \<Longrightarrow> (A \<union> B) \<inter> K = {}"
  by blast

lemma py_in_Nil [simp]: "py_in [] hay"
  by (auto simp: py_in_def list_ex_iff)

lemma py_split_ne [simp]: "py_split sep s \<noteq> []"
  by (induction s) (auto split: list.split)

text \<open>Round trip: joining the pieces with the separator gives the string back.\<close>

lemma py_join_py_split: "py_join [sep] (py_split sep s) = s"
proof (induction s)
  case (Cons c cs)
  obtain w ws where ws: "py_split sep cs = w # ws" using py_split_ne[of sep cs] by (cases "py_split sep cs") auto
  show ?case using Cons ws by (cases ws) auto
qed simp

lemma set_pd_unique_from: "set (pd_unique_from seen xs) = set xs - set seen"
  by (induction seen xs rule: pd_unique_from.induct) auto

lemma distinct_pd_unique_from: "distinct (pd_unique_from seen xs)"
  by (induction seen xs rule: pd_unique_from.induct) (auto simp: set_pd_unique_from)

lemma set_pd_unique [simp]: "set (pd_unique xs) = set xs"
  by (simp add: pd_unique_def set_pd_unique_from)

lemma distinct_pd_unique [simp]: "distinct (pd_unique xs)"
  by (simp add: pd_unique_def distinct_pd_unique_from)

text \<open>Summing a list group by group, over distinct keys covering every element, sums it.\<close>

lemma sum_list_groups:
  fixes f :: "'a \<Rightarrow> 'b::comm_monoid_add"
  assumes "distinct ks" "set (map key xs) \<subseteq> set ks"
  shows "sum_list (map (\<lambda>k. sum_list (map f (filter (\<lambda>x. key x = k) xs))) ks) = sum_list (map f xs)"
  using assms(2)
proof (induction xs)
  case Nil
  then show ?case by (simp add: sum_list_0)
next
  case (Cons x xs)
  have single: "sum_list (map (\<lambda>k. if key x = k then f x else 0) ks) = f x"
    using assms(1) Cons.prems
    by (simp add: sum_list_distinct_conv_sum_set sum.delta)
  have "sum_list (map (\<lambda>k. sum_list (map f (filter (\<lambda>y. key y = k) (x # xs)))) ks) =
        sum_list (map (\<lambda>k. (if key x = k then f x else 0) + sum_list (map f (filter (\<lambda>y. key y = k) xs))) ks)"
    by (rule arg_cong[where f = sum_list], rule map_cong) simp_all
  also have "\<dots> = f x + sum_list (map f xs)"
    using Cons by (simp add: sum_list_addf single)
  finally show ?case by simp
qed

text \<open>\<open>df['RECID'] = range(1, len(df) + 1)\<close>: a column that reads back the row position.\<close>

lemma map_enumerate_col:
  "(\<And>i r. g (f i r) = i) \<Longrightarrow> map g (map (\<lambda>(i, r). f (Suc i) r) (enumerate n xs)) = [Suc n..<Suc n + length xs]"
  by (induction xs arbitrary: n) (simp_all add: upt_conv_Cons del: upt_Suc)

text \<open>A \<open>dict\<close> filled by a loop with a guard: every entry comes from the start or from a row.\<close>

lemma foldl_dict_Some:
  "foldl (\<lambda>m x. if P x then m(K x \<mapsto> V x) else m) m0 xs k = Some v \<Longrightarrow>
   m0 k = Some v \<or> (\<exists>x \<in> set xs. P x \<and> K x = k \<and> V x = v)"
proof (induction xs arbitrary: m0)
  case (Cons x xs)
  then show ?case by (cases "P x") (fastforce split: if_splits)+
qed simp


lemma foldl_map_Some:
  "foldl (\<lambda>m x. m(K x \<mapsto> V x)) m0 xs k = Some v \<Longrightarrow> m0 k = Some v \<or> (\<exists>x \<in> set xs. K x = k \<and> V x = v)"
  using foldl_dict_Some [where P = "\<lambda>_. True"] by simp

lemma set_py_strip: "set (py_strip s) \<subseteq> set s"
  unfolding py_strip_def by (auto dest!: set_dropWhileD)

lemma dropWhile_keep: "c \<in> set s \<Longrightarrow> \<not> P c \<Longrightarrow> c \<in> set (dropWhile P s)"
  by (induction s) auto

lemma py_strip_keep: "c \<in> set s \<Longrightarrow> \<not> py_space c \<Longrightarrow> c \<in> set (py_strip s)"
  unfolding py_strip_def by (simp add: dropWhile_keep)


lemma py_strip_Cons_keep: "\<not> py_space c \<Longrightarrow> \<exists>cs'. py_strip (c # cs) = c # cs'"
proof -
  assume c: "\<not> py_space c"
  have "\<exists>ys. dropWhile py_space (rev cs @ [c]) = ys @ [c]"
    by (induction cs rule: rev_induct) (auto simp: c dropWhile_append)
  then obtain ys where "dropWhile py_space (rev cs @ [c]) = ys @ [c]" by blast
  then show ?thesis using c by (simp add: py_strip_def)
qed

lemma digit_not_space_dot: "is_ascii_digit c \<Longrightarrow> \<not> py_space c \<and> c \<noteq> CHR ''.''"
  by (auto simp: is_ascii_digit_def py_space_def Let_def)

lemma mset_filter_disj:
  "(\<And>x. \<not> (P x \<and> Q x)) \<Longrightarrow> mset (filter P xs) + mset (filter Q xs) = mset (filter (\<lambda>x. P x \<or> Q x) xs)"
  by (induction xs) auto

lemma mset_concat_filters:
  "distinct ys \<Longrightarrow>
   mset (concat (map (\<lambda>y. filter (\<lambda>r. g r = Some y) xs) ys)) = mset (filter (\<lambda>r. \<exists>y \<in> set ys. g r = Some y) xs)"
proof (induction ys)
  case (Cons y ys)
  then have "mset (filter (\<lambda>r. g r = Some y) xs) + mset (filter (\<lambda>r. \<exists>y' \<in> set ys. g r = Some y') xs) =
             mset (filter (\<lambda>r. g r = Some y \<or> (\<exists>y' \<in> set ys. g r = Some y')) xs)"
    by (intro mset_filter_disj) auto
  with Cons show ?case by simp
qed simp

lemma map_Suc_fst_enumerate: "map (\<lambda>x. Suc (fst x)) (enumerate n xs) = [Suc n..<Suc n + length xs]"
  by (induction xs arbitrary: n) (simp_all add: upt_conv_Cons del: upt_Suc)


lemma in_map_filter: "r \<in> set xs \<Longrightarrow> f r = Some v \<Longrightarrow> v \<in> set (List.map_filter f xs)"
  by (force simp: List.map_filter_def)

end
