(* ===== verification/KeyNormalizer.thy ===== *)
theory KeyNormalizer
  imports Prelude
begin

text \<open>
  The key normalizers that turn free-text vessel and place names into join keys.
  \<^item> \<open>normalize_vessel_name\<close>: \<open>match_usace_clearance_to_panjiva_exports_v1.0.0.py\<close>
    lines 80--84 (the same body is the local function of
    \<open>transform_usace_clearance_data_v2.0.0.py\<close>, lines 74--81): drop every character
    that is not an ASCII letter, digit or whitespace, lower-case, collapse whitespace.
  \<^item> \<open>normalize_port_name\<close>: the same script, lines 86--101: upper-case, keep the text
    before the first comma, remove qualifier words and institutional suffixes.
  \<^item> \<open>normalize_name\<close>: \<open>transform_usace_entrance_data_v2.1.0.py\<close>, lines 83--88, the
    ships-register key: upper-case and keep only ASCII letters and digits.
  The vessel normalizers are idempotent; the port normalizer is not, and its
  \<open>replace\<close> calls act anywhere in the name, not only on leading words.
\<close>

section \<open>Definitions\<close>

text \<open>The character class \<open>[a-zA-Z0-9\s]\<close> that \<open>re.sub(r'[^a-zA-Z0-9\s]', '', ...)\<close> keeps.\<close>

definition keep_vessel_char :: "char \<Rightarrow> bool" where
  "keep_vessel_char c \<longleftrightarrow> is_ascii_alnum c \<or> py_space c"

definition normalize_vessel_name :: "string option \<Rightarrow> string" where
  "normalize_vessel_name name =
     (case name of
        None \<Rightarrow> []
      | Some s \<Rightarrow>
          if s = [] then []
          else py_join '' '' (py_split_ws (py_lower (filter keep_vessel_char s))))"

definition normalize_port_name :: "string option \<Rightarrow> string" where
  "normalize_port_name name =
     (case name of
        None \<Rightarrow> []
      | Some s \<Rightarrow>
          if s = [] then []
          else
            (let name = py_upper s;
                 city = py_strip (py_split_first (CHR '','') name);
                 city = py_replace ''THE '' [] (py_replace ''PORT '' [] (py_replace ''PORT OF '' [] city));
                 city = py_replace '' PORT DISTRICT'' [] (py_replace '' UNIFIED PORT DISTRICT'' [] city);
                 city = py_replace '' AUTHORITY OF HARRIS COUNTY'' [] (py_replace '' PORT AUTHORITY'' [] city);
                 city = py_replace '' STATE AUTHORITY'' [] (py_replace '' STATE PORT AUTHORITY'' [] city)
             in py_strip city))"

definition normalize_name :: "string option \<Rightarrow> string" where
  "normalize_name name =
     (case name of
        None \<Rightarrow> []
      | Some s \<Rightarrow>
          if s = [] then [] else filter (\<lambda>c. is_ascii_upper c \<or> is_ascii_digit c) (py_upper s))"

text \<open>The characters a vessel key can contain: lower-case letters, digits and the blank.\<close>

definition vessel_key_char :: "char \<Rightarrow> bool" where
  "vessel_key_char c \<longleftrightarrow> (is_ascii_alnum c \<and> \<not> is_ascii_upper c) \<or> c = CHR '' ''"

section \<open>Character lemmas\<close>

lemma lower_char_not_upper [simp]: "\<not> is_ascii_upper (lower_char c)"
  by (auto simp: lower_char_def is_ascii_upper_def Let_def)

lemma lower_char_id [simp]: "\<not> is_ascii_upper c \<Longrightarrow> lower_char c = c"
  by (simp add: lower_char_def)

lemma py_space_not_alnum: "py_space c \<Longrightarrow> \<not> is_ascii_alnum c"
  by (auto simp: py_space_def is_ascii_alnum_def is_ascii_lower_def is_ascii_upper_def
      is_ascii_digit_def Let_def)

lemma lower_char_alnum [simp]: "is_ascii_alnum (lower_char c) \<longleftrightarrow> is_ascii_alnum c"
  by (auto simp: lower_char_def is_ascii_alnum_def is_ascii_lower_def is_ascii_upper_def
      is_ascii_digit_def Let_def)

lemma lower_char_space [simp]: "py_space (lower_char c) \<longleftrightarrow> py_space c"
  by (auto simp: lower_char_def py_space_def is_ascii_upper_def Let_def)

lemma upper_char_not_lower [simp]: "\<not> is_ascii_lower (upper_char c)"
  by (auto simp: upper_char_def is_ascii_lower_def Let_def)

lemma upper_char_id [simp]: "\<not> is_ascii_lower c \<Longrightarrow> upper_char c = c"
  by (simp add: upper_char_def)

lemma upper_char_class [simp]:
  "is_ascii_upper (upper_char c) \<longleftrightarrow> is_ascii_upper c \<or> is_ascii_lower c"
  "is_ascii_digit (upper_char c) \<longleftrightarrow> is_ascii_digit c"
  by (auto simp: upper_char_def is_ascii_upper_def is_ascii_lower_def is_ascii_digit_def Let_def)

section \<open>Whitespace splitting and joining\<close>

lemma py_split_ws_Nil [simp]: "py_split_ws [] = []"
  by (simp add: py_split_ws.simps)

lemma py_split_ws_space [simp]: "py_space c \<Longrightarrow> py_split_ws (c # s) = py_split_ws s"
  by (simp add: py_split_ws.simps [of "c # s"] py_split_ws.simps [of s])

lemma py_split_ws_word:
  assumes "w \<noteq> []" and "\<forall>c \<in> set w. \<not> py_space c" and "rest = [] \<or> py_space (hd rest)"
  shows "py_split_ws (w @ rest) = w # py_split_ws rest"
proof -
  have d: "dropWhile py_space (w @ rest) = w @ rest"
    using assms(1,2) by (cases w) auto
  have t: "takeWhile (\<lambda>c. \<not> py_space c) (w @ rest) = w"
    using assms(2,3) by (cases rest) (auto simp: takeWhile_append2)
  have r: "dropWhile (\<lambda>c. \<not> py_space c) (w @ rest) = rest"
    using assms(2,3) by (cases rest) (auto simp: dropWhile_append2)
  show ?thesis
    using assms(1) by (subst py_split_ws.simps) (simp add: d t r)
qed

text \<open>Every word of \<open>s.split()\<close> is non-empty, has no whitespace and comes from \<open>s\<close>.\<close>

lemma py_split_ws_words:
  "w \<in> set (py_split_ws s) \<Longrightarrow> w \<noteq> [] \<and> (\<forall>c \<in> set w. \<not> py_space c) \<and> set w \<subseteq> set s"
proof (induction s rule: py_split_ws.induct)
  case (1 s)
  let ?s' = "dropWhile py_space s"
  have sub: "set ?s' \<subseteq> set s" by (simp add: set_dropWhileD subsetI)
  show ?case
  proof (cases "?s' = []")
    case True
    with "1.prems" show ?thesis by (simp add: py_split_ws.simps [of s])
  next
    case False
    then obtain c t where c: "?s' = c # t" and nsp: "\<not> py_space c"
      by (metis (full_types) hd_dropWhile list.exhaust_sel)
    have eq: "py_split_ws s = takeWhile (\<lambda>c. \<not> py_space c) ?s' #
        py_split_ws (dropWhile (\<lambda>c. \<not> py_space c) ?s')"
      using False by (subst py_split_ws.simps) (simp add: Let_def del: dropWhile_eq_Nil_conv)
    from "1.prems" consider
        "w = takeWhile (\<lambda>c. \<not> py_space c) ?s'"
      | "w \<in> set (py_split_ws (dropWhile (\<lambda>c. \<not> py_space c) ?s'))"
      unfolding eq by auto
    then show ?thesis
    proof cases
      case 1
      then show ?thesis using c nsp sub
        by (auto dest: set_takeWhileD)
    next
      case 2
      from "1.IH" [OF refl False 2] sub show ?thesis
        by (auto dest: set_dropWhileD)
    qed
  qed
qed

lemma py_split_ws_join:
  "\<forall>w \<in> set ws. w \<noteq> [] \<and> (\<forall>c \<in> set w. \<not> py_space c) \<Longrightarrow> py_split_ws (py_join '' '' ws) = ws"
proof (induction ws rule: induct_list012)
  case 1
  then show ?case by simp
next
  case (2 w)
  then show ?case using py_split_ws_word [of w "[]"] by simp
next
  case (3 w v vs)
  have sp: "py_space (CHR '' '')" by (simp add: py_space_def)
  have "py_split_ws (w @ CHR '' '' # py_join '' '' (v # vs)) = w # py_split_ws (CHR '' '' # py_join '' '' (v # vs))"
    using "3.prems" sp by (intro py_split_ws_word) auto
  also have "\<dots> = w # (v # vs)"
    using "3" sp by simp
  finally show ?case by simp
qed

lemma set_py_join: "set (py_join sep ws) \<subseteq> set sep \<union> \<Union> (set ` set ws)"
  by (induction sep ws rule: py_join.induct) auto

lemma py_join_Nil_iff: "\<forall>w \<in> set ws. w \<noteq> [] \<Longrightarrow> py_join sep ws = [] \<longleftrightarrow> ws = []"
  by (induction sep ws rule: py_join.induct) auto

section \<open>Vessel keys\<close>


lemma vessel_words:
  assumes "w \<in> set (py_split_ws (py_lower (filter keep_vessel_char s)))"
  shows "w \<noteq> [] \<and> (\<forall>c \<in> set w. \<not> py_space c \<and> is_ascii_alnum c \<and> \<not> is_ascii_upper c)"
proof -
  from py_split_ws_words [OF assms]
  have w: "w \<noteq> []" "\<forall>c \<in> set w. \<not> py_space c"
    and sub: "set w \<subseteq> set (py_lower (filter keep_vessel_char s))" by auto
  have "\<forall>c \<in> set w. is_ascii_alnum c \<and> \<not> is_ascii_upper c"
  proof
    fix c assume c: "c \<in> set w"
    with sub obtain d where d: "c = lower_char d" "keep_vessel_char d"
      by (auto simp: py_lower_def)
    with c w(2) show "is_ascii_alnum c \<and> \<not> is_ascii_upper c"
      by (auto simp: keep_vessel_char_def)
  qed
  with w show ?thesis by blast
qed

lemma vessel_key_char_space [simp]: "vessel_key_char (CHR '' '')"
  by (simp add: vessel_key_char_def)

lemma vessel_key_fixed:
  assumes "\<forall>c \<in> set r. vessel_key_char c"
  shows "py_lower (filter keep_vessel_char r) = r"
proof -
  have sp: "py_space (CHR '' '')" by (simp add: py_space_def)
  have "filter keep_vessel_char r = r"
    using assms sp by (auto simp: filter_id_conv vessel_key_char_def keep_vessel_char_def)
  moreover have "map lower_char r = r"
    using assms by (induction r) (auto simp: vessel_key_char_def lower_char_def is_ascii_upper_def)
  ultimately show ?thesis by (simp add: py_lower_def)
qed

lemma vessel_key_chars:
  "\<forall>c \<in> set (normalize_vessel_name x). vessel_key_char c"
proof (cases x)
  case None
  then show ?thesis by (simp add: normalize_vessel_name_def)
next
  case (Some s)
  let ?ws = "py_split_ws (py_lower (filter keep_vessel_char s))"
  have "\<forall>c \<in> set (py_join '' '' ?ws). vessel_key_char c"
  proof
    fix c assume "c \<in> set (py_join '' '' ?ws)"
    with set_py_join obtain w where "c = CHR '' '' \<or> (w \<in> set ?ws \<and> c \<in> set w)"
      by fastforce
    with vessel_words [of w s] show "vessel_key_char c"
      by (auto simp: vessel_key_char_def)
  qed
  with Some show ?thesis by (simp add: normalize_vessel_name_def)
qed




section \<open>Properties of the normalizers\<close>

text \<open>
  C9. Normalizing a vessel name is idempotent: a normalized key normalizes to itself.
\<close>

theorem normalize_vessel_name_idempotent:
  "normalize_vessel_name (Some (normalize_vessel_name x)) = normalize_vessel_name x"
proof (cases "normalize_vessel_name x = []")
  case True
  then show ?thesis by (simp add: normalize_vessel_name_def)
next
  case False
  then obtain s where x: "x = Some s" and s: "s \<noteq> []"
    by (cases x) (auto simp: normalize_vessel_name_def split: if_splits)
  let ?ws = "py_split_ws (py_lower (filter keep_vessel_char s))"
  have r: "normalize_vessel_name x = py_join '' '' ?ws"
    using x s by (simp add: normalize_vessel_name_def)
  have words: "\<forall>w \<in> set ?ws. w \<noteq> [] \<and> (\<forall>c \<in> set w. \<not> py_space c)"
    using vessel_words by blast
  have "py_lower (filter keep_vessel_char (py_join '' '' ?ws)) = py_join '' '' ?ws"
    using vessel_key_chars [of x] r by (simp add: vessel_key_fixed)
  then show ?thesis
    using False r words by (simp add: normalize_vessel_name_def py_split_ws_join)
qed

text \<open>
  A vessel key consists of lower-case ASCII letters, digits and blanks only.
\<close>

theorem normalize_vessel_name_charset:
  "\<forall>c \<in> set (normalize_vessel_name x). vessel_key_char c"
  by (rule vessel_key_chars)

theorem normalize_vessel_name_charset_witness:
  "list_all vessel_key_char (normalize_vessel_name (Some ''M/V Alpha-1''))"
  using normalize_vessel_name_charset [of "Some ''M/V Alpha-1''"] by (simp add: list_all_iff)

text \<open>
  Normalizing a port name is not idempotent: the \<open>replace\<close> of \<open>'PORT '\<close>
  can create a new occurrence of \<open>'PORT '\<close> (\<open>'PORPORT T X'\<close> becomes \<open>'PORT X'\<close>,
  which normalizes further to \<open>'X'\<close>).
\<close>

theorem normalize_port_name_not_idempotent:
  "normalize_port_name (Some (normalize_port_name (Some ''PORPORT T X''))) \<noteq>
   normalize_port_name (Some ''PORPORT T X'')"
  by code_simp

text \<open>
  The qualifier words are removed anywhere in the name, not only in front:
  \<open>'Newport News, VA'\<close> becomes \<open>'NEWNEWS'\<close>.
\<close>

theorem normalize_port_name_inner_port:
  "normalize_port_name (Some ''Newport News, VA'') = ''NEWNEWS''"
  by code_simp

text \<open>
  The suffix \<open>' PORT AUTHORITY'\<close> is not removed: the earlier removal of
  \<open>'PORT '\<close> has already broken it, so \<open>'Houston Port Authority'\<close> becomes
  \<open>'HOUSTON AUTHORITY'\<close>, not \<open>'HOUSTON'\<close>.
\<close>

theorem normalize_port_name_suffix_missed:
  "normalize_port_name (Some ''Houston Port Authority'') = ''HOUSTON AUTHORITY''"
  by code_simp

end
