(* ===== verification/GenesisMatcher.thy ===== *)
theory GenesisMatcher
  imports Prelude
begin

text \<open>
  The sequential genesis matcher of \<open>marry_entrance_clearance_v1.0.0.py\<close>: every USACE
  entrance (arrival) record is paired with the first unclaimed clearance (departure)
  of the same vessel at the same port that is strictly later, first by IMO number and
  then by vessel name; the pairs, the unpaired entrances and the unpaired clearances
  make up the port-call master file.

  A record is a \<open>movement\<close> (the columns the matcher reads); the script's loop state
  (\<open>clearance_matched\<close>, \<open>matched_records\<close>, \<open>match_stats\<close>) is the record
  \<open>marry_state\<close>; one iteration of the loop body is \<open>match_entrance\<close> (the decision)
  followed by \<open>marry_step\<close> (the claim and the append); \<open>marry_entrance_clearance\<close> is
  the whole script from the sort to the list of output rows. Dates are whole days: both
  date columns are parsed to midnight timestamps, so \<open>Port_Stay_Days_Decimal\<close> is the
  integer difference of the two days and \<open>Port_Stay_Days_Int\<close> equals it.
\<close>

section \<open>Data\<close>

text \<open>
  The columns of a USACE entrance or clearance row that the matching scripts read:
  \<open>IMO\<close>, \<open>Vessel\<close>, \<open>PORT\<close>, the parsed date, \<open>ICST_DESC\<close> (the vessel type) and the
  date column as stored in the file (for a clearance the \<open>mmydd\<close> integer
  \<open>Clearance_Date\<close>).
\<close>

record movement =
  mv_imo :: "int option"
  mv_vessel :: "string option"
  mv_port :: "int option"
  mv_date :: "day option"
  mv_icst :: "string option"
  mv_raw_date :: "int option"

datatype match_type = BOTH | ENTRANCE_ONLY | CLEARANCE_ONLY | TUG_BARGE_PAIR

datatype match_method = IMO | Vessel_Name | NO_DATE

text \<open>One row of \<open>matched_records\<close>: the merged columns and the derived fields.\<close>

record portcall_row =
  pc_entrance :: "movement option"
  pc_clearance :: "movement option"
  pc_stay :: "int option"
  pc_score :: "rat option"
  pc_type :: match_type
  pc_method :: "match_method option"

record match_stats =
  st_imo :: nat
  st_name :: nat
  st_no_match :: nat

record marry_state =
  cleared :: "row_idx set"
  out :: "portcall_row list"
  stats :: match_stats

section \<open>Operations\<close>

text \<open>\<open>sort_values(['IMO', 'PORT', date])\<close>, missing values last.\<close>

definition movement_key :: "movement \<Rightarrow> (bool \<times> int) \<times> (bool \<times> int) \<times> (bool \<times> int)" where
  "movement_key m = (nan_last (mv_imo m), nan_last (mv_port m), nan_last (mv_date m))"

text \<open>The confidence tiers of \<open>Match_Score\<close>; a missing stay (NaN) fails both tests.\<close>

definition stay_score :: "int option \<Rightarrow> rat" where
  "stay_score stay =
     (case stay of
        Some g \<Rightarrow> if g \<le> 15 then 1 else if g \<le> 45 then 4 / 5 else 1 / 2
      | None \<Rightarrow> 1 / 2)"

text \<open>
  \<open>candidates.iloc[0]\<close> over \<open>clearance_sorted\<close> filtered by a predicate and by
  \<open>~index.isin(clearance_matched)\<close>: the first unclaimed position that satisfies it.
\<close>

definition first_unclaimed :: "(movement \<Rightarrow> bool) \<Rightarrow> movement list \<Rightarrow> row_idx set \<Rightarrow> row_idx option" where
  "first_unclaimed P cs M = find (\<lambda>i. i \<notin> M \<and> P (cs ! i)) [0..<length cs]"

definition imo_candidate :: "movement \<Rightarrow> day \<Rightarrow> movement \<Rightarrow> bool" where
  "imo_candidate e a c \<longleftrightarrow>
     pd_eq (mv_imo c) (mv_imo e) \<and> pd_eq (mv_port c) (mv_port e) \<and> pd_less (Some a) (mv_date c)"

definition name_candidate :: "movement \<Rightarrow> day \<Rightarrow> movement \<Rightarrow> bool" where
  "name_candidate e a c \<longleftrightarrow>
     pd_eq (mv_vessel c) (mv_vessel e) \<and> pd_eq (mv_port c) (mv_port e) \<and> pd_less (Some a) (mv_date c)"

text \<open>\<open>pd.notna(vessel_imo) and str(vessel_imo).strip() != ''\<close> (a numeric IMO prints non-empty).\<close>

definition has_imo :: "movement \<Rightarrow> bool" where
  "has_imo e \<longleftrightarrow> mv_imo e \<noteq> None"

definition has_name :: "movement \<Rightarrow> bool" where
  "has_name e \<longleftrightarrow> (case mv_vessel e of None \<Rightarrow> False | Some s \<Rightarrow> py_strip s \<noteq> [])"

definition entrance_only_row :: "movement \<Rightarrow> match_method option \<Rightarrow> portcall_row" where
  "entrance_only_row e m =
     \<lparr>pc_entrance = Some e, pc_clearance = None, pc_stay = None, pc_score = None,
      pc_type = ENTRANCE_ONLY, pc_method = m\<rparr>"

definition both_row :: "movement \<Rightarrow> movement \<Rightarrow> day \<Rightarrow> match_method \<Rightarrow> portcall_row" where
  "both_row e c a m =
     (let stay = map_option (\<lambda>d. d - a) (mv_date c)
      in \<lparr>pc_entrance = Some e, pc_clearance = Some c, pc_stay = stay,
          pc_score = Some (stay_score stay), pc_type = BOTH, pc_method = Some m\<rparr>)"

definition clearance_only_row :: "movement \<Rightarrow> portcall_row" where
  "clearance_only_row c =
     \<lparr>pc_entrance = None, pc_clearance = Some c, pc_stay = None, pc_score = None,
      pc_type = CLEARANCE_ONLY, pc_method = None\<rparr>"

text \<open>
  One pass of the loop body for entrance \<open>e\<close>: the merged row and the clearance position
  it claims. No date: \<open>ENTRANCE_ONLY\<close> with method \<open>NO_DATE\<close>. Otherwise the IMO search
  (when the IMO is present), then the name search (when no clearance was found and the
  name is present), else \<open>ENTRANCE_ONLY\<close> with no method.
\<close>

definition match_entrance :: "movement list \<Rightarrow> row_idx set \<Rightarrow> movement \<Rightarrow> portcall_row \<times> row_idx option" where
  "match_entrance cs M e =
     (case mv_date e of
        None \<Rightarrow> (entrance_only_row e (Some NO_DATE), None)
      | Some a \<Rightarrow>
          (case (if has_imo e then first_unclaimed (imo_candidate e a) cs M else None) of
             Some i \<Rightarrow> (both_row e (cs ! i) a IMO, Some i)
           | None \<Rightarrow>
               (case (if has_name e then first_unclaimed (name_candidate e a) cs M else None) of
                  Some i \<Rightarrow> (both_row e (cs ! i) a Vessel_Name, Some i)
                | None \<Rightarrow> (entrance_only_row e None, None))))"

text \<open>\<open>match_stats[...] += 1\<close>: each entrance counts once, under the method that matched it.\<close>

definition count_stat :: "match_stats \<Rightarrow> portcall_row \<Rightarrow> match_stats" where
  "count_stat s r =
     (case pc_method r of
        Some IMO \<Rightarrow> s\<lparr>st_imo := Suc (st_imo s)\<rparr>
      | Some Vessel_Name \<Rightarrow> s\<lparr>st_name := Suc (st_name s)\<rparr>
      | _ \<Rightarrow> s\<lparr>st_no_match := Suc (st_no_match s)\<rparr>)"

definition marry_step :: "movement list \<Rightarrow> marry_state \<Rightarrow> movement \<Rightarrow> marry_state" where
  "marry_step cs st e =
     (let (r, hit) = match_entrance cs (cleared st) e
      in \<lparr>cleared = (case hit of None \<Rightarrow> cleared st | Some i \<Rightarrow> insert i (cleared st)),
          out = out st @ [r], stats = count_stat (stats st) r\<rparr>)"

fun marry_loop :: "movement list \<Rightarrow> marry_state \<Rightarrow> movement list \<Rightarrow> marry_state" where
  "marry_loop cs st [] = st"
| "marry_loop cs st (e # es) = marry_loop cs (marry_step cs st e) es"

definition init_marry_state :: marry_state where
  "init_marry_state = \<lparr>cleared = {}, out = [], stats = \<lparr>st_imo = 0, st_name = 0, st_no_match = 0\<rparr>\<rparr>"

text \<open>Step 5: every clearance position never claimed, in sorted order.\<close>

definition unmatched_clearances :: "movement list \<Rightarrow> row_idx set \<Rightarrow> portcall_row list" where
  "unmatched_clearances cs M = map (\<lambda>i. clearance_only_row (cs ! i)) (filter (\<lambda>i. i \<notin> M) [0..<length cs])"

definition marry_entrance_clearance :: "movement list \<Rightarrow> movement list \<Rightarrow> portcall_row list \<times> match_stats" where
  "marry_entrance_clearance E C =
     (let es = sort_key movement_key E;
          cs = sort_key movement_key C;
          st = marry_loop cs init_marry_state es
      in (out st @ unmatched_clearances cs (cleared st), stats st))"

section \<open>Invariant\<close>

text \<open>
  What the loop keeps true: the claimed positions are positions of \<open>clearance_sorted\<close>,
  and the clearances merged into the output so far are exactly the claimed ones, each
  once.
\<close>

definition marry_inv :: "movement list \<Rightarrow> marry_state \<Rightarrow> bool" where
  "marry_inv cs st \<longleftrightarrow>
     cleared st \<subseteq> {..<length cs} \<and>
     mset (List.map_filter pc_clearance (out st)) = image_mset (\<lambda>i. cs ! i) (mset_set (cleared st))"

text \<open>The per-row guarantee of a \<open>BOTH\<close> row: a strictly later clearance, its stay and its score.\<close>

definition both_ok :: "portcall_row \<Rightarrow> bool" where
  "both_ok r \<longleftrightarrow>
     (pc_type r = BOTH \<longrightarrow>
        (\<exists>e c a d. pc_entrance r = Some e \<and> pc_clearance r = Some c \<and>
           mv_date e = Some a \<and> mv_date c = Some d \<and> a < d \<and>
           pc_stay r = Some (d - a) \<and> pc_score r = Some (stay_score (Some (d - a)))))"

section \<open>Concrete inputs\<close>

text \<open>
  The example of the specification (scenario 1): one entrance of IMO 123 at port 1 on
  day 0, clearances of the same vessel on days 10 and 20. And an input where the name
  fallback meets two clearances of the same name, one of them without an IMO.
\<close>

definition scen_mv :: "int option \<Rightarrow> day \<Rightarrow> movement" where
  "scen_mv imo d = \<lparr>mv_imo = imo, mv_vessel = Some ''MV ALPHA'', mv_port = Some 1,
     mv_date = Some d, mv_icst = None, mv_raw_date = None\<rparr>"

definition scen1_entrances :: "movement list" where
  "scen1_entrances = [scen_mv (Some 123) 0]"

definition scen1_clearances :: "movement list" where
  "scen1_clearances = [scen_mv (Some 123) 20, scen_mv (Some 123) 10]"

definition scen2_entrances :: "movement list" where
  "scen2_entrances = [scen_mv None 10]"

definition scen2_clearances :: "movement list" where
  "scen2_clearances = [scen_mv None 12, scen_mv (Some 9) 40]"

definition scen3_entrances :: "movement list" where
  "scen3_entrances = [(scen_mv (Some 123) 0)\<lparr>mv_date := None\<rparr>]"

section \<open>Lemmas\<close>

lemma first_unclaimed_SomeD:
  "first_unclaimed P cs M = Some i \<Longrightarrow>
     i < length cs \<and> i \<notin> M \<and> P (cs ! i) \<and> (\<forall>j < i. j \<notin> M \<longrightarrow> \<not> P (cs ! j))"
  by (auto simp: first_unclaimed_def find_Some_iff)

lemma first_unclaimed_None_iff:
  "first_unclaimed P cs M = None \<longleftrightarrow> (\<forall>i < length cs. i \<in> M \<or> \<not> P (cs ! i))"
  by (auto simp: first_unclaimed_def find_None_iff)

lemma first_unclaimed_exists:
  "i < length cs \<Longrightarrow> i \<notin> M \<Longrightarrow> P (cs ! i) \<Longrightarrow> \<exists>j. first_unclaimed P cs M = Some j"
  using first_unclaimed_None_iff by fastforce

lemma candidate_dates:
  "imo_candidate e a c \<Longrightarrow> \<exists>d. mv_date c = Some d \<and> a < d"
  "name_candidate e a c \<Longrightarrow> \<exists>d. mv_date c = Some d \<and> a < d"
  by (auto simp: imo_candidate_def name_candidate_def pd_less_iff)

lemmas row_defs = entrance_only_row_def both_row_def clearance_only_row_def

text \<open>The two outcomes of one loop iteration.\<close>

lemma match_entrance_cases:
  assumes "match_entrance cs M e = (r, hit)"
  shows "pc_entrance r = Some e \<and>
    ((hit = None \<and> pc_clearance r = None \<and> pc_type r = ENTRANCE_ONLY) \<or>
     (\<exists>i a. hit = Some i \<and> i < length cs \<and> i \<notin> M \<and> mv_date e = Some a \<and>
        (imo_candidate e a (cs ! i) \<or> name_candidate e a (cs ! i)) \<and>
        (\<exists>m. r = both_row e (cs ! i) a m)))"
  using assms
  by (auto simp: match_entrance_def row_defs Let_def
      split: option.splits if_splits dest!: first_unclaimed_SomeD)

lemma match_entrance_both_ok:
  assumes "match_entrance cs M e = (r, hit)"
  shows "both_ok r"
  using match_entrance_cases [OF assms]
  by (auto simp: both_ok_def both_row_def Let_def dest!: candidate_dates)

lemma marry_step_inv:
  assumes "marry_inv cs st"
  shows "marry_inv cs (marry_step cs st e)"
proof -
  obtain r hit where m: "match_entrance cs (cleared st) e = (r, hit)"
    by fastforce
  have fin: "finite (cleared st)"
    using assms by (auto simp: marry_inv_def intro: finite_subset)
  from match_entrance_cases [OF m] assms fin show ?thesis
    by (auto simp: marry_step_def m marry_inv_def both_row_def Let_def)
qed

lemma marry_step_out: "\<exists>r hit. match_entrance cs (cleared st) e = (r, hit) \<and>
    out (marry_step cs st e) = out st @ [r] \<and> stats (marry_step cs st e) = count_stat (stats st) r"
  by (cases "match_entrance cs (cleared st) e") (simp add: marry_step_def)

lemma marry_loop_inv: "marry_inv cs st \<Longrightarrow> marry_inv cs (marry_loop cs st es)"
  by (induction es arbitrary: st) (auto intro: marry_step_inv)

lemma marry_loop_entrances:
  "mset (List.map_filter pc_entrance (out (marry_loop cs st es))) =
   mset (List.map_filter pc_entrance (out st)) + mset es"
proof (induction es arbitrary: st)
  case Nil
  then show ?case by simp
next
  case (Cons e es)
  from marry_step_out [of cs st e] obtain r hit where
    "match_entrance cs (cleared st) e = (r, hit)" "out (marry_step cs st e) = out st @ [r]"
    by blast
  with match_entrance_cases [of cs "cleared st" e r hit] Cons.IH [of "marry_step cs st e"]
  show ?case by simp
qed

lemma marry_loop_rows:
  assumes "\<And>M e r hit. match_entrance cs M e = (r, hit) \<Longrightarrow> P r"
    and "\<forall>r \<in> set (out st). P r"
  shows "\<forall>r \<in> set (out (marry_loop cs st es)). P r"
  using assms(2)
proof (induction es arbitrary: st)
  case Nil
  then show ?case by simp
next
  case (Cons e es)
  from marry_step_out [of cs st e] obtain r hit where
    "match_entrance cs (cleared st) e = (r, hit)" "out (marry_step cs st e) = out st @ [r]"
    by blast
  with assms(1) Cons.prems have "\<forall>r \<in> set (out (marry_step cs st e)). P r"
    by auto
  then show ?case by (simp add: Cons.IH)
qed

lemma count_stat_total:
  "st_imo (count_stat s r) + st_name (count_stat s r) + st_no_match (count_stat s r) =
   Suc (st_imo s + st_name s + st_no_match s)"
  by (simp add: count_stat_def split: option.splits match_method.splits)

lemma marry_loop_stats:
  "st_imo (stats (marry_loop cs st es)) + st_name (stats (marry_loop cs st es)) +
   st_no_match (stats (marry_loop cs st es)) =
   st_imo (stats st) + st_name (stats st) + st_no_match (stats st) + length es"
proof (induction es arbitrary: st)
  case Nil
  then show ?case by simp
next
  case (Cons e es)
  from marry_step_out [of cs st e] obtain r where "stats (marry_step cs st e) = count_stat (stats st) r"
    by blast
  with Cons.IH [of "marry_step cs st e"] count_stat_total [of "stats st" r] show ?case
    by simp
qed

lemma marry_loop_length: "length (out (marry_loop cs st es)) = length (out st) + length es"
proof (induction es arbitrary: st)
  case Nil
  then show ?case by simp
next
  case (Cons e es)
  from marry_step_out [of cs st e] obtain r where "out (marry_step cs st e) = out st @ [r]"
    by blast
  with Cons.IH [of "marry_step cs st e"] show ?case by simp
qed

lemma scen1_result:
  "fst (marry_entrance_clearance scen1_entrances scen1_clearances) =
   [both_row (scen_mv (Some 123) 0) (scen_mv (Some 123) 10) 0 IMO,
    clearance_only_row (scen_mv (Some 123) 20)]"
  by code_simp

lemma scen3_result:
  "fst (marry_entrance_clearance scen3_entrances scen1_clearances) =
   [entrance_only_row ((scen_mv (Some 123) 0)\<lparr>mv_date := None\<rparr>) (Some NO_DATE),
    clearance_only_row (scen_mv (Some 123) 10), clearance_only_row (scen_mv (Some 123) 20)]"
  by code_simp

lemma init_marry_inv: "marry_inv cs init_marry_state"
  by (simp add: marry_inv_def init_marry_state_def)


lemma unmatched_clearances_facts:
  "List.map_filter pc_clearance (unmatched_clearances cs M) = map (\<lambda>i. cs ! i) (filter (\<lambda>i. i \<notin> M) [0..<length cs])"
  "List.map_filter pc_entrance (unmatched_clearances cs M) = []"
  "r \<in> set (unmatched_clearances cs M) \<Longrightarrow> \<exists>c. r = clearance_only_row c"
  by (auto simp: unmatched_clearances_def clearance_only_row_def List.map_filter_def comp_def)

lemma unmatched_clearances_length: "length (unmatched_clearances cs M) \<le> length cs"
  by (simp add: unmatched_clearances_def) (metis diff_zero length_filter_le length_upt)

lemma first_unclaimed_least:
  assumes "first_unclaimed P cs M = Some j" and "i < length cs" and "i \<notin> M" and "P (cs ! i)"
  shows "j \<le> i"
  using first_unclaimed_SomeD [OF assms(1)] assms(2-4) by (meson not_le)

lemma clearance_only_both_ok: "both_ok (clearance_only_row c)"
  by (simp add: both_ok_def clearance_only_row_def)

lemma match_entrance_no_date:
  "match_entrance cs M e = (r, hit) \<Longrightarrow> mv_date e = None \<Longrightarrow>
   pc_type r = ENTRANCE_ONLY \<and> pc_method r = Some NO_DATE"
  by (auto simp: match_entrance_def entrance_only_row_def)

text \<open>The final multiset identity: claimed plus unclaimed positions are all positions.\<close>

lemma claimed_plus_unclaimed:
  assumes "M \<subseteq> {..<length cs}"
  shows "image_mset (\<lambda>i. cs ! i) (mset_set M) +
         mset (map (\<lambda>i. cs ! i) (filter (\<lambda>i. i \<notin> M) [0..<length cs])) = mset cs"
proof -
  have "mset_set M + mset (filter (\<lambda>i. i \<notin> M) [0..<length cs]) = mset [0..<length cs]"
    using mset_filter_upt_set [OF assms] mset_filter_upt_partition [of "\<lambda>i. i \<in> M" "length cs"]
    by simp
  then have "image_mset (\<lambda>i. cs ! i) (mset_set M + mset (filter (\<lambda>i. i \<notin> M) [0..<length cs])) = mset cs"
    by (simp only: image_mset_nth_upt)
  then show ?thesis by simp
qed

text \<open>
  A property of every output row: it holds of every row one loop iteration can produce
  and of every \<open>CLEARANCE_ONLY\<close> row.
\<close>

lemma marry_rows_property:
  assumes "\<And>cs M e r hit. match_entrance cs M e = (r, hit) \<Longrightarrow> P r"
    and "\<And>c. P (clearance_only_row c)"
    and "r \<in> set (fst (marry_entrance_clearance E C))"
  shows "P r"
proof -
  let ?cs = "sort_key movement_key C"
  let ?st = "marry_loop ?cs init_marry_state (sort_key movement_key E)"
  have "\<forall>r \<in> set (out ?st). P r"
    by (rule marry_loop_rows) (auto simp: assms(1) init_marry_state_def)
  with assms(2,3) unmatched_clearances_facts(3) [of _ ?cs "cleared ?st"] show ?thesis
    by (auto simp: marry_entrance_clearance_def Let_def)
qed


section \<open>Properties of the matcher\<close>

text \<open>
  C1. No clearance is claimed twice and none is lost: the clearances that appear in the
  output rows, \<open>BOTH\<close> and \<open>CLEARANCE_ONLY\<close> together, are exactly the input clearances,
  each as often as in the input.
\<close>

theorem marry_clearances_complete:
  "mset (List.map_filter pc_clearance (fst (marry_entrance_clearance E C))) = mset C"
proof -
  let ?cs = "sort_key movement_key C"
  let ?st = "marry_loop ?cs init_marry_state (sort_key movement_key E)"
  have "marry_inv ?cs ?st" by (rule marry_loop_inv [OF init_marry_inv])
  then have sub: "cleared ?st \<subseteq> {..<length ?cs}"
    and m: "mset (List.map_filter pc_clearance (out ?st)) =
            image_mset (\<lambda>i. ?cs ! i) (mset_set (cleared ?st))"
    by (simp_all add: marry_inv_def)
  have "mset (List.map_filter pc_clearance (fst (marry_entrance_clearance E C))) =
        image_mset (\<lambda>i. ?cs ! i) (mset_set (cleared ?st)) +
        mset (map (\<lambda>i. ?cs ! i) (filter (\<lambda>i. i \<notin> cleared ?st) [0..<length ?cs]))"
    by (simp add: marry_entrance_clearance_def Let_def m unmatched_clearances_facts)
  also have "\<dots> = mset ?cs" by (rule claimed_plus_unclaimed [OF sub])
  finally show ?thesis by simp
qed

text \<open>
  C2. Every entrance yields exactly one output row: the entrances in the output are the
  input entrances, each as often as in the input.
\<close>

theorem marry_entrances_complete:
  "mset (List.map_filter pc_entrance (fst (marry_entrance_clearance E C))) = mset E"
  using marry_loop_entrances [of "sort_key movement_key C" init_marry_state "sort_key movement_key E"]
  by (simp add: marry_entrance_clearance_def Let_def unmatched_clearances_facts init_marry_state_def)

text \<open>
  C3. In every \<open>BOTH\<close> row both dates are present, the clearance is strictly later than
  the arrival, and the port stay is their difference.
\<close>

theorem marry_both_strictly_later:
  assumes "r \<in> set (fst (marry_entrance_clearance E C))" and "pc_type r = BOTH"
  shows "\<exists>e c a d. pc_entrance r = Some e \<and> pc_clearance r = Some c \<and>
           mv_date e = Some a \<and> mv_date c = Some d \<and> a < d \<and> pc_stay r = Some (d - a)"
proof -
  have "both_ok r"
    by (rule marry_rows_property [where P = both_ok,
          OF match_entrance_both_ok clearance_only_both_ok assms(1)])
  with assms(2) show ?thesis by (auto simp: both_ok_def)
qed

theorem marry_both_strictly_later_witness:
  "\<exists>e c a d. pc_entrance (both_row (scen_mv (Some 123) 0) (scen_mv (Some 123) 10) 0 IMO) = Some e \<and>
     pc_clearance (both_row (scen_mv (Some 123) 0) (scen_mv (Some 123) 10) 0 IMO) = Some c \<and>
     mv_date e = Some a \<and> mv_date c = Some d \<and> a < d \<and>
     pc_stay (both_row (scen_mv (Some 123) 0) (scen_mv (Some 123) 10) 0 IMO) = Some (d - a)"
  by (rule marry_both_strictly_later [of _ scen1_entrances scen1_clearances])
     (simp_all add: scen1_result both_row_def Let_def)

text \<open>
  C4. The score of every \<open>BOTH\<close> row is 1.0 for a stay of at most 15 days, 0.8 for at
  most 45 and 0.5 beyond, and the stay is positive.
\<close>

theorem marry_score_tiers:
  assumes "r \<in> set (fst (marry_entrance_clearance E C))" and "pc_type r = BOTH"
  shows "\<exists>g. pc_stay r = Some g \<and> 0 < g \<and>
           pc_score r = Some (if g \<le> 15 then 1 else if g \<le> 45 then 4 / 5 else 1 / 2)"
proof -
  have "both_ok r"
    by (rule marry_rows_property [where P = both_ok,
          OF match_entrance_both_ok clearance_only_both_ok assms(1)])
  with assms(2) show ?thesis by (auto simp: both_ok_def stay_score_def)
qed

theorem marry_score_tiers_witness:
  "\<exists>g. pc_stay (both_row (scen_mv (Some 123) 0) (scen_mv (Some 123) 10) 0 IMO) = Some g \<and> 0 < g \<and>
     pc_score (both_row (scen_mv (Some 123) 0) (scen_mv (Some 123) 10) 0 IMO) =
       Some (if g \<le> 15 then 1 else if g \<le> 45 then 4 / 5 else 1 / 2)"
  by (rule marry_score_tiers [of _ scen1_entrances scen1_clearances])
     (simp_all add: scen1_result both_row_def Let_def)


text \<open>
  C5. The IMO search returns the earliest candidate: over the sorted clearances, when an
  unclaimed clearance of the same IMO and port is strictly later than the arrival, the
  entrance is matched by IMO to an unclaimed candidate whose date is not later than that
  clearance's.
\<close>

theorem marry_imo_earliest:
  assumes "sorted (map movement_key cs)" and "mv_date e = Some a" and "has_imo e"
    and "i < length cs" and "i \<notin> M" and "imo_candidate e a (cs ! i)"
  shows "\<exists>j d d'. match_entrance cs M e = (both_row e (cs ! j) a IMO, Some j) \<and>
           j \<notin> M \<and> imo_candidate e a (cs ! j) \<and>
           mv_date (cs ! j) = Some d \<and> mv_date (cs ! i) = Some d' \<and> d \<le> d'"
proof -
  obtain j where fj: "first_unclaimed (imo_candidate e a) cs M = Some j"
    using first_unclaimed_exists [where P = "imo_candidate e a", OF assms(4-6)] by blast
  from first_unclaimed_SomeD [OF fj] have j: "j < length cs" "j \<notin> M" "imo_candidate e a (cs ! j)"
    by auto
  have "j \<le> i" by (rule first_unclaimed_least [where P = "imo_candidate e a", OF fj assms(4-6)])
  then have "map movement_key cs ! j \<le> map movement_key cs ! i"
    using assms(1,4) by (intro sorted_nth_mono) auto
  then have key: "movement_key (cs ! j) \<le> movement_key (cs ! i)"
    using j(1) assms(4) by simp
  from j(3) assms(6) obtain d d' where
    "mv_date (cs ! j) = Some d" "mv_date (cs ! i) = Some d'"
    "mv_imo (cs ! j) = mv_imo (cs ! i)" "mv_port (cs ! j) = mv_port (cs ! i)"
    "mv_imo (cs ! j) \<noteq> None" "mv_port (cs ! j) \<noteq> None"
    by (auto simp: imo_candidate_def pd_eq_iff pd_less_iff)
  with key have "d \<le> d'"
    by (auto simp: movement_key_def less_eq_prod_def nan_last_def split: option.splits)
  moreover have "match_entrance cs M e = (both_row e (cs ! j) a IMO, Some j)"
    using assms(2,3) fj by (simp add: match_entrance_def)
  ultimately show ?thesis
    using j \<open>mv_date (cs ! j) = Some d\<close> \<open>mv_date (cs ! i) = Some d'\<close> by blast
qed

theorem marry_imo_earliest_witness:
  "\<exists>j d d'. match_entrance [scen_mv (Some 123) 10, scen_mv (Some 123) 20] {} (scen_mv (Some 123) 0) =
      (both_row (scen_mv (Some 123) 0) ([scen_mv (Some 123) 10, scen_mv (Some 123) 20] ! j) 0 IMO, Some j) \<and>
    j \<notin> {} \<and> imo_candidate (scen_mv (Some 123) 0) 0 ([scen_mv (Some 123) 10, scen_mv (Some 123) 20] ! j) \<and>
    mv_date ([scen_mv (Some 123) 10, scen_mv (Some 123) 20] ! j) = Some d \<and>
    mv_date ([scen_mv (Some 123) 10, scen_mv (Some 123) 20] ! 1) = Some d' \<and> d \<le> d'"
  by (rule marry_imo_earliest)
     (simp_all add: scen_mv_def movement_key_def has_imo_def imo_candidate_def)

text \<open>
  C6. The vessel-name fallback takes the first unclaimed candidate in the
  \<open>(IMO, PORT, date)\<close> order of \<open>clearance_sorted\<close>, not the earliest one: the
  chosen clearance is the earliest only among candidates with its own IMO, and a
  candidate that has an IMO is chosen over every candidate without one (NaN sorts
  last), whatever their dates.
\<close>

theorem marry_name_fallback_key_order:
  assumes "sorted (map movement_key cs)" and "mv_date e = Some a" and "\<not> has_imo e" and "has_name e"
    and "i < length cs" and "i \<notin> M" and "name_candidate e a (cs ! i)"
  shows "\<exists>j d d'. match_entrance cs M e = (both_row e (cs ! j) a Vessel_Name, Some j) \<and>
           j \<notin> M \<and> name_candidate e a (cs ! j) \<and> movement_key (cs ! j) \<le> movement_key (cs ! i) \<and>
           mv_date (cs ! j) = Some d \<and> mv_date (cs ! i) = Some d' \<and>
           (mv_imo (cs ! j) = mv_imo (cs ! i) \<longrightarrow> d \<le> d') \<and>
           (mv_imo (cs ! i) \<noteq> None \<longrightarrow> mv_imo (cs ! j) \<noteq> None)"
proof -
  obtain j where fj: "first_unclaimed (name_candidate e a) cs M = Some j"
    using first_unclaimed_exists [where P = "name_candidate e a", OF assms(5-7)] by blast
  from first_unclaimed_SomeD [OF fj] have j: "j < length cs" "j \<notin> M" "name_candidate e a (cs ! j)"
    by auto
  have "j \<le> i" by (rule first_unclaimed_least [where P = "name_candidate e a", OF fj assms(5-7)])
  then have "map movement_key cs ! j \<le> map movement_key cs ! i"
    using assms(1,5) by (intro sorted_nth_mono) auto
  then have key: "movement_key (cs ! j) \<le> movement_key (cs ! i)"
    using j(1) assms(5) by simp
  from j(3) assms(7) obtain d d' where
    dd: "mv_date (cs ! j) = Some d" "mv_date (cs ! i) = Some d'"
    and port: "mv_port (cs ! j) = mv_port (cs ! i)" "mv_port (cs ! j) \<noteq> None"
    by (auto simp: name_candidate_def pd_eq_iff pd_less_iff)
  have "mv_imo (cs ! j) = mv_imo (cs ! i) \<longrightarrow> d \<le> d'"
    using key dd port by (auto simp: movement_key_def less_eq_prod_def nan_last_def split: option.splits)
  moreover have "mv_imo (cs ! i) \<noteq> None \<longrightarrow> mv_imo (cs ! j) \<noteq> None"
    using key by (auto simp: movement_key_def less_eq_prod_def nan_last_def split: option.splits)
  moreover have "match_entrance cs M e = (both_row e (cs ! j) a Vessel_Name, Some j)"
    using assms(2-4) fj by (simp add: match_entrance_def)
  ultimately show ?thesis
    using j key dd by blast
qed

theorem marry_name_fallback_key_order_witness:
  "\<exists>j d d'. match_entrance [scen_mv (Some 9) 40, scen_mv None 12] {} (scen_mv None 10) =
      (both_row (scen_mv None 10) ([scen_mv (Some 9) 40, scen_mv None 12] ! j) 10 Vessel_Name, Some j) \<and>
    j \<notin> {} \<and> name_candidate (scen_mv None 10) 10 ([scen_mv (Some 9) 40, scen_mv None 12] ! j) \<and>
    movement_key ([scen_mv (Some 9) 40, scen_mv None 12] ! j) \<le> movement_key ([scen_mv (Some 9) 40, scen_mv None 12] ! 1) \<and>
    mv_date ([scen_mv (Some 9) 40, scen_mv None 12] ! j) = Some d \<and>
    mv_date ([scen_mv (Some 9) 40, scen_mv None 12] ! 1) = Some d' \<and>
    (mv_imo ([scen_mv (Some 9) 40, scen_mv None 12] ! j) = mv_imo ([scen_mv (Some 9) 40, scen_mv None 12] ! 1) \<longrightarrow> d \<le> d') \<and>
    (mv_imo ([scen_mv (Some 9) 40, scen_mv None 12] ! 1) \<noteq> None \<longrightarrow> mv_imo ([scen_mv (Some 9) 40, scen_mv None 12] ! j) \<noteq> None)"
  by (rule marry_name_fallback_key_order)
     (simp_all add: scen_mv_def movement_key_def nan_last_def has_imo_def has_name_def name_candidate_def pd_eq_iff py_simps)

text \<open>
  On the inputs of the specification's wording: an entrance without IMO arriving on day
  10 is paired with the day-40 clearance, and the day-12 clearance is left
  \<open>CLEARANCE_ONLY\<close>.
\<close>

lemma marry_name_fallback_sort_order:
  "fst (marry_entrance_clearance scen2_entrances scen2_clearances) =
   [both_row (scen_mv None 10) (scen_mv (Some 9) 40) 10 Vessel_Name,
    clearance_only_row (scen_mv None 12)]"
  by code_simp

text \<open>
  C7. An entrance without an arrival date is never matched: its row is
  \<open>ENTRANCE_ONLY\<close> with method \<open>NO_DATE\<close>, whatever its IMO and name.
\<close>

theorem marry_no_date_unmatched:
  assumes "r \<in> set (fst (marry_entrance_clearance E C))"
    and "pc_entrance r = Some e" and "mv_date e = None"
  shows "pc_type r = ENTRANCE_ONLY \<and> pc_method r = Some NO_DATE"
proof -
  have "pc_entrance r = Some e \<longrightarrow> mv_date e = None \<longrightarrow>
        pc_type r = ENTRANCE_ONLY \<and> pc_method r = Some NO_DATE"
  proof (rule marry_rows_property [where P = "\<lambda>r. pc_entrance r = Some e \<longrightarrow> mv_date e = None \<longrightarrow>
        pc_type r = ENTRANCE_ONLY \<and> pc_method r = Some NO_DATE", OF _ _ assms(1)])
    fix cs M e' r' hit
    assume m: "match_entrance cs M e' = (r', hit)"
    from match_entrance_cases [OF m] have "pc_entrance r' = Some e'" by blast
    then show "pc_entrance r' = Some e \<longrightarrow> mv_date e = None \<longrightarrow>
        pc_type r' = ENTRANCE_ONLY \<and> pc_method r' = Some NO_DATE"
      using match_entrance_no_date [OF m] by auto
  qed (simp add: clearance_only_row_def)
  with assms(2,3) show ?thesis by blast
qed

theorem marry_no_date_unmatched_witness:
  "pc_type (entrance_only_row ((scen_mv (Some 123) 0)\<lparr>mv_date := None\<rparr>) (Some NO_DATE)) = ENTRANCE_ONLY \<and>
   pc_method (entrance_only_row ((scen_mv (Some 123) 0)\<lparr>mv_date := None\<rparr>) (Some NO_DATE)) = Some NO_DATE"
proof (rule marry_no_date_unmatched [of _ scen3_entrances scen1_clearances])
  show "entrance_only_row ((scen_mv (Some 123) 0)\<lparr>mv_date := None\<rparr>) (Some NO_DATE)
      \<in> set (fst (marry_entrance_clearance scen3_entrances scen1_clearances))"
    by (simp add: scen3_result)
  show "pc_entrance (entrance_only_row ((scen_mv (Some 123) 0)\<lparr>mv_date := None\<rparr>) (Some NO_DATE)) =
      Some ((scen_mv (Some 123) 0)\<lparr>mv_date := None\<rparr>)"
    by (simp add: entrance_only_row_def)
qed simp

text \<open>
  The three counters of \<open>match_stats\<close> add up to the number of entrances: every
  entrance is counted once.
\<close>

theorem marry_stats_total:
  "st_imo (snd (marry_entrance_clearance E C)) + st_name (snd (marry_entrance_clearance E C)) +
   st_no_match (snd (marry_entrance_clearance E C)) = length E"
  using marry_loop_stats [of "sort_key movement_key C" init_marry_state "sort_key movement_key E"]
  by (simp add: marry_entrance_clearance_def Let_def init_marry_state_def)

text \<open>
  The master file has between \<open>len(entrance)\<close> and \<open>len(entrance) + len(clearance)\<close>
  rows, the range the script prints as expected.
\<close>

theorem marry_output_length:
  "length E \<le> length (fst (marry_entrance_clearance E C)) \<and>
   length (fst (marry_entrance_clearance E C)) \<le> length E + length C"
  using marry_loop_length [of "sort_key movement_key C" init_marry_state "sort_key movement_key E"]
    unmatched_clearances_length [of "sort_key movement_key C"]
  by (simp add: marry_entrance_clearance_def Let_def init_marry_state_def)

text \<open>
  Scenario 1 of the specification: the day-0 entrance is paired with the day-10
  clearance (stay 10, score 1.0) and the day-20 clearance is emitted \<open>CLEARANCE_ONLY\<close>,
  whatever the input order of the clearances.
\<close>

theorem marry_scenario_1:
  "\<exists>r1 r2. fst (marry_entrance_clearance scen1_entrances scen1_clearances) = [r1, r2] \<and>
     pc_type r1 = BOTH \<and> pc_entrance r1 = Some (scen_mv (Some 123) 0) \<and>
     pc_clearance r1 = Some (scen_mv (Some 123) 10) \<and> pc_stay r1 = Some 10 \<and>
     pc_score r1 = Some 1 \<and> pc_method r1 = Some IMO \<and>
     pc_type r2 = CLEARANCE_ONLY \<and> pc_clearance r2 = Some (scen_mv (Some 123) 20)"
  by (simp add: scen1_result both_row_def clearance_only_row_def stay_score_def scen_mv_def Let_def)

end
