(* ===== verification/TugBarge.thy ===== *)
theory TugBarge
  imports GenesisMatcher
begin

text \<open>
  The co-occurrence disambiguator of \<open>match_tug_barge_pairs_v1.1.0_COMPLETE.py\<close>. It runs
  on the port-call master file that the genesis matcher writes, once over the unmatched
  entrances and once over the unmatched clearances. It pairs each unmatched tug with an
  unmatched barge at the same port within one day. Where several barges qualify, the
  winner is the one with the largest count in a table of how often the two vessel names
  were seen at the same port on the same day.

  \<open>legs_of\<close> selects the tugs or barges of one pass (the \<open>isin\<close> filters on
  \<open>ICST_DESC\<close>), \<open>pairing_table\<close> is the \<open>defaultdict\<close> built by the nested loops,
  \<open>tb_step\<close> is one iteration of the pairing loop with the two claimed-index sets and the
  pair list as its state (\<open>tb_state\<close>), \<open>tug_barge_pairs\<close> is one whole pass, and
  \<open>update_master\<close> writes the pairs back into the master rows. The date of a leg is the
  \<open>.dt.date\<close> of \<open>pd.to_datetime\<close> of the column the script names: the arrival date of
  an entrance, and for a clearance the raw \<open>mmydd\<close> integer \<open>Clearance_Clearance_Date\<close>,
  which \<open>pd.to_datetime\<close> reads as nanoseconds since 1970-01-01.
\<close>

section \<open>Data\<close>

datatype side = Entrance | Clearance

datatype confidence = SINGLE | HIST nat

text \<open>A tug or barge: its row index in the master file and the columns the pass reads.\<close>

record leg =
  lg_idx :: row_idx
  lg_vessel :: "string option"
  lg_port :: "int option"
  lg_date :: "day option"

record tb_pair =
  tp_id :: nat
  tp_tug :: row_idx
  tp_barge :: row_idx
  tp_conf :: confidence

record tb_state =
  matched_tugs :: "row_idx set"
  matched_barges :: "row_idx set"
  pairs :: "tb_pair list"

text \<open>A master row after the update: the two columns the script adds.\<close>

record tb_row = portcall_row +
  pair_id :: "(side \<times> nat) option"
  pair_conf :: "confidence option"

section \<open>Operations\<close>

definition TUG_TYPES :: "string list" where
  "TUG_TYPES = [''TUG'', ''PUSH BOAT'', ''TUG/SUPPLY OFFSHORE SUPPORT'']"

definition BARGE_TYPES :: "string list" where
  "BARGE_TYPES = [''DECK BARGE'', ''OTHER TANK BARGE'', ''DRY CARGO BARGE'',
     ''OTHER DRY CARGO BARGE NEI'', ''COVERED DRY CARGO BARGE'']"

definition side_mv :: "side \<Rightarrow> portcall_row \<Rightarrow> movement option" where
  "side_mv s r = (case s of Entrance \<Rightarrow> pc_entrance r | Clearance \<Rightarrow> pc_clearance r)"

definition side_only :: "side \<Rightarrow> match_type" where
  "side_only s = (case s of Entrance \<Rightarrow> ENTRANCE_ONLY | Clearance \<Rightarrow> CLEARANCE_ONLY)"

text \<open>
  \<open>pd.to_datetime(...).dt.date\<close> of the date column of each pass: the arrival date of an
  entrance, and for a clearance the integer read as nanoseconds since the epoch.
\<close>

definition side_date :: "side \<Rightarrow> movement \<Rightarrow> day option" where
  "side_date s m =
     (case s of
        Entrance \<Rightarrow> mv_date m
      | Clearance \<Rightarrow> map_option (\<lambda>n. n div 86400000000000) (mv_raw_date m))"

text \<open>\<open>df['ICST_DESC'].isin(types)\<close>: a missing type is in no list.\<close>

definition pd_isin :: "string option \<Rightarrow> string list \<Rightarrow> bool" where
  "pd_isin x ts = (case x of None \<Rightarrow> False | Some t \<Rightarrow> t \<in> set ts)"

definition legs_of :: "side \<Rightarrow> string list \<Rightarrow> portcall_row list \<Rightarrow> leg list" where
  "legs_of s ts df =
     List.map_filter
       (\<lambda>(i, r). if pc_type r = side_only s then
          (case side_mv s r of
             Some m \<Rightarrow> if pd_isin (mv_icst m) ts then
                 Some \<lparr>lg_idx = i, lg_vessel = mv_vessel m, lg_port = mv_port m,
                       lg_date = side_date s m\<rparr>
               else None
           | None \<Rightarrow> None)
        else None)
       (enumerate 0 df)"

definition port_dates :: "leg list \<Rightarrow> (int option \<times> day option) list" where
  "port_dates ls = map (\<lambda>l. (lg_port l, lg_date l)) ls"

text \<open>\<open>tug_port_dates & barge_port_dates\<close>, each pair once.\<close>

definition common_port_dates :: "leg list \<Rightarrow> leg list \<Rightarrow> (int option \<times> day option) list" where
  "common_port_dates tugs barges =
     filter (\<lambda>pd. pd \<in> set (port_dates barges)) (remdups (port_dates tugs))"

text \<open>\<open>tugs_here\<close>, \<open>barges_here\<close>: the vessel names at a port on a day (a missing port or date matches nothing).\<close>

definition here :: "leg list \<Rightarrow> int option \<times> day option \<Rightarrow> string option list" where
  "here ls pd = map lg_vessel (filter (\<lambda>l. pd_eq (lg_port l) (fst pd) \<and> pd_eq (lg_date l) (snd pd)) ls)"

type_synonym pair_table = "string option \<times> string option \<Rightarrow> nat"

definition bump_pair :: "pair_table \<Rightarrow> string option \<Rightarrow> string option \<Rightarrow> pair_table" where
  "bump_pair tbl t b = tbl((t, b) := tbl (t, b) + 1)"

definition pairing_table :: "leg list \<Rightarrow> leg list \<Rightarrow> pair_table" where
  "pairing_table tugs barges =
     fold (\<lambda>pd tbl. fold (\<lambda>t tbl. fold (\<lambda>b tbl. bump_pair tbl t b) (here barges pd) tbl) (here tugs pd) tbl)
       (common_port_dates tugs barges) (\<lambda>_. 0)"

text \<open>The barge candidates of a tug dated \<open>d\<close>: same port, within one day, not yet claimed.\<close>

definition barge_candidates :: "leg list \<Rightarrow> row_idx set \<Rightarrow> leg \<Rightarrow> day \<Rightarrow> leg list" where
  "barge_candidates barges M t d =
     filter (\<lambda>b. pd_eq (lg_port b) (lg_port t) \<and> pd_le (Some (d - 1)) (lg_date b) \<and>
                 pd_le (lg_date b) (Some (d + 1)) \<and> lg_idx b \<notin> M) barges"

text \<open>The \<open>best_score\<close> loop: a strictly larger count replaces the best so far.\<close>

fun best_barge :: "pair_table \<Rightarrow> string option \<Rightarrow> leg list \<Rightarrow> leg option \<times> nat \<Rightarrow> leg option \<times> nat" where
  "best_barge tbl tv [] acc = acc"
| "best_barge tbl tv (b # bs) (best, score) =
     best_barge tbl tv bs (if tbl (tv, lg_vessel b) > score then (Some b, tbl (tv, lg_vessel b)) else (best, score))"

definition claim_pair :: "tb_state \<Rightarrow> leg \<Rightarrow> leg \<Rightarrow> confidence \<Rightarrow> tb_state" where
  "claim_pair st t b c =
     \<lparr>matched_tugs = insert (lg_idx t) (matched_tugs st),
      matched_barges = insert (lg_idx b) (matched_barges st),
      pairs = pairs st @ [\<lparr>tp_id = Suc (length (pairs st)), tp_tug = lg_idx t, tp_barge = lg_idx b, tp_conf = c\<rparr>]\<rparr>"

definition tb_step :: "pair_table \<Rightarrow> leg list \<Rightarrow> tb_state \<Rightarrow> leg \<Rightarrow> tb_state" where
  "tb_step tbl barges st t =
     (if lg_idx t \<in> matched_tugs st then st
      else case lg_date t of
        None \<Rightarrow> st
      | Some d \<Rightarrow>
          (case barge_candidates barges (matched_barges st) t d of
             [] \<Rightarrow> st
           | [b] \<Rightarrow> claim_pair st t b SINGLE
           | cs \<Rightarrow>
               (case best_barge tbl (lg_vessel t) cs (None, 0) of
                  (Some b, score) \<Rightarrow> if 0 < score then claim_pair st t b (HIST score) else st
                | (None, _) \<Rightarrow> st)))"

definition init_tb_state :: tb_state where
  "init_tb_state = \<lparr>matched_tugs = {}, matched_barges = {}, pairs = []\<rparr>"

definition tug_barge_pairs :: "side \<Rightarrow> portcall_row list \<Rightarrow> tb_pair list" where
  "tug_barge_pairs s df =
     (let tugs = legs_of s TUG_TYPES df;
          barges = legs_of s BARGE_TYPES df;
          tbl = pairing_table tugs barges
      in pairs (fold (\<lambda>t st. tb_step tbl barges st t) tugs init_tb_state))"

definition entrance_tug_barge_pairs :: "portcall_row list \<Rightarrow> tb_pair list" where
  "entrance_tug_barge_pairs df = tug_barge_pairs Entrance df"

definition clearance_tug_barge_pairs :: "portcall_row list \<Rightarrow> tb_pair list" where
  "clearance_tug_barge_pairs df = tug_barge_pairs Clearance df"

text \<open>The update loops: both rows of a pair get the new type, the pair id and the confidence.\<close>

definition mark_row :: "side \<Rightarrow> tb_pair \<Rightarrow> tb_row list \<Rightarrow> row_idx \<Rightarrow> tb_row list" where
  "mark_row s p rows i =
     (if i < length rows then
        rows[i := (rows ! i)\<lparr>pc_type := TUG_BARGE_PAIR, pair_id := Some (s, tp_id p),
                             pair_conf := Some (tp_conf p)\<rparr>]
      else rows)"

definition apply_pairs :: "side \<Rightarrow> tb_pair list \<Rightarrow> tb_row list \<Rightarrow> tb_row list" where
  "apply_pairs s ps rows = fold (\<lambda>p rows. mark_row s p (mark_row s p rows (tp_tug p)) (tp_barge p)) ps rows"

definition init_tb_rows :: "portcall_row list \<Rightarrow> tb_row list" where
  "init_tb_rows df = map (\<lambda>r. portcall_row.extend r (tb_row.fields None None)) df"

definition update_master :: "portcall_row list \<Rightarrow> tb_row list" where
  "update_master df =
     apply_pairs Clearance (clearance_tug_barge_pairs df)
       (apply_pairs Entrance (entrance_tug_barge_pairs df) (init_tb_rows df))"


section \<open>Invariant and concrete inputs\<close>

text \<open>The master rows one pass can take as tugs (or as barges): its type and a listed \<open>ICST_DESC\<close>.\<close>

definition row_kind :: "side \<Rightarrow> string list \<Rightarrow> portcall_row \<Rightarrow> bool" where
  "row_kind s ts r \<longleftrightarrow>
     pc_type r = side_only s \<and> (case side_mv s r of Some m \<Rightarrow> pd_isin (mv_icst m) ts | None \<Rightarrow> False)"

definition kind_rows :: "side \<Rightarrow> string list \<Rightarrow> portcall_row list \<Rightarrow> row_idx set" where
  "kind_rows s ts df = {i. i < length df \<and> row_kind s ts (df ! i)}"

text \<open>
  What one pass keeps: the claimed index sets are the tugs and barges of the pairs so
  far, no index is claimed twice, and the pair ids count up from 1.
\<close>

definition tb_inv :: "tb_state \<Rightarrow> bool" where
  "tb_inv st \<longleftrightarrow>
     set (map tp_tug (pairs st)) = matched_tugs st \<and> distinct (map tp_tug (pairs st)) \<and>
     set (map tp_barge (pairs st)) = matched_barges st \<and> distinct (map tp_barge (pairs st)) \<and>
     map tp_id (pairs st) = [1..<Suc (length (pairs st))]"

text \<open>What justifies a pair: a tug and a barge leg at the same port within one day, with a
  \<open>SINGLE\<close> candidate or a positive count in the table.\<close>

definition pair_ok :: "pair_table \<Rightarrow> leg list \<Rightarrow> leg list \<Rightarrow> tb_pair \<Rightarrow> bool" where
  "pair_ok tbl tugs bs p \<longleftrightarrow>
     (\<exists>t b d. t \<in> set tugs \<and> b \<in> set bs \<and> tp_tug p = lg_idx t \<and> tp_barge p = lg_idx b \<and>
        lg_date t = Some d \<and> pd_eq (lg_port b) (lg_port t) \<and>
        pd_le (Some (d - 1)) (lg_date b) \<and> pd_le (lg_date b) (Some (d + 1)) \<and>
        (tp_conf p = SINGLE \<or> (\<exists>n. tp_conf p = HIST n \<and> 0 < n \<and> n = tbl (lg_vessel t, lg_vessel b))))"

text \<open>
  An unmatched entrance or clearance of a named vessel with a type, at a port, on a day
  (\<open>tb_mv\<close>), and the inputs of the specification's scenarios 3 and 4: tug T1 at port 1
  on day 1 and barges G1, G2 nearby; in scenario 3 T1 and G1 were also seen together at
  port 2 on days 10 and 20.
\<close>

definition tb_mv :: "string \<Rightarrow> int \<Rightarrow> day \<Rightarrow> string \<Rightarrow> movement" where
  "tb_mv v p d t = \<lparr>mv_imo = None, mv_vessel = Some v, mv_port = Some p, mv_date = Some d,
     mv_icst = Some t, mv_raw_date = None\<rparr>"

definition tb_scen3 :: "portcall_row list" where
  "tb_scen3 = map (\<lambda>m. entrance_only_row m None)
     [tb_mv ''T1'' 1 1 ''TUG'', tb_mv ''G1'' 1 1 ''DECK BARGE'', tb_mv ''G2'' 1 2 ''DECK BARGE'',
      tb_mv ''T1'' 2 10 ''TUG'', tb_mv ''G1'' 2 10 ''DECK BARGE'',
      tb_mv ''T1'' 2 20 ''TUG'', tb_mv ''G1'' 2 20 ''DECK BARGE'']"

definition tb_scen4 :: "portcall_row list" where
  "tb_scen4 = map (\<lambda>m. entrance_only_row m None)
     [tb_mv ''T1'' 1 1 ''TUG'', tb_mv ''G1'' 1 0 ''DECK BARGE'', tb_mv ''G2'' 1 2 ''DECK BARGE'']"

text \<open>Two barges seen with the tug equally often (a tie).\<close>

definition tb_tie :: "portcall_row list" where
  "tb_tie = map (\<lambda>m. entrance_only_row m None)
     [tb_mv ''T1'' 1 1 ''TUG'', tb_mv ''G1'' 1 1 ''DECK BARGE'', tb_mv ''G2'' 1 1 ''DECK BARGE'']"

text \<open>
  Two unmatched clearances at port 1, a tug cleared on 29 January 2023 (\<open>mmydd\<close> 1329) and
  a barge cleared on 29 August 2023 (\<open>mmydd\<close> 8329).
\<close>

definition tb_clr_months_apart :: "portcall_row list" where
  "tb_clr_months_apart =
     [clearance_only_row ((tb_mv ''T1'' 1 0 ''TUG'')\<lparr>mv_date := Some 19386, mv_raw_date := Some 1329\<rparr>),
      clearance_only_row ((tb_mv ''G1'' 1 0 ''DECK BARGE'')\<lparr>mv_date := Some 19598, mv_raw_date := Some 8329\<rparr>)]"

section \<open>Lemmas\<close>

lemma best_barge_Some:
  "best_barge tbl tv cs (best, score) = (Some b, s) \<Longrightarrow>
   (b \<in> set cs \<and> s = tbl (tv, lg_vessel b) \<and> score < s) \<or> (best = Some b \<and> s = score)"
proof (induction cs arbitrary: best score)
  case Nil
  then show ?case by simp
next
  case (Cons c cs)
  show ?case
  proof (cases "tbl (tv, lg_vessel c) > score")
    case True
    with Cons.IH [of "Some c" "tbl (tv, lg_vessel c)"] Cons.prems show ?thesis by auto
  next
    case False
    with Cons.IH [of best score] Cons.prems show ?thesis by auto
  qed
qed

lemma tb_step_cases:
  "tb_step tbl bs st t = st \<or>
   (\<exists>d b c. lg_date t = Some d \<and> lg_idx t \<notin> matched_tugs st \<and>
      b \<in> set (barge_candidates bs (matched_barges st) t d) \<and>
      tb_step tbl bs st t = claim_pair st t b c \<and>
      (c = SINGLE \<or> (\<exists>n. c = HIST n \<and> 0 < n \<and> n = tbl (lg_vessel t, lg_vessel b))))"
proof (cases "lg_idx t \<in> matched_tugs st \<or> lg_date t = None")
  case True
  then show ?thesis by (auto simp: tb_step_def)
next
  case False
  then obtain d where d: "lg_date t = Some d" "lg_idx t \<notin> matched_tugs st" by auto
  let ?cs = "barge_candidates bs (matched_barges st) t d"
  show ?thesis
  proof (cases ?cs rule: remdups_adj.cases)
    case 1
    then show ?thesis using d by (simp add: tb_step_def)
  next
    case (2 b)
    then show ?thesis using d by (auto simp: tb_step_def)
  next
    case (3 b1 b2 rest)
    show ?thesis
    proof (cases "best_barge tbl (lg_vessel t) ?cs (None, 0)")
      case (Pair best s)
      show ?thesis
      proof (cases "best \<noteq> None \<and> 0 < s")
        case True
        then obtain b where b: "best = Some b" by auto
        with Pair best_barge_Some [of tbl "lg_vessel t" ?cs None 0 b s]
        have "b \<in> set ?cs" "s = tbl (lg_vessel t, lg_vessel b)" by auto
        with d 3 Pair b True show ?thesis by (auto simp: tb_step_def)
      next
        case False
        with d 3 Pair show ?thesis by (auto simp: tb_step_def split: option.splits)
      qed
    qed
  qed
qed

lemma claim_pair_inv:
  "tb_inv st \<Longrightarrow> lg_idx t \<notin> matched_tugs st \<Longrightarrow> lg_idx b \<notin> matched_barges st \<Longrightarrow>
   tb_inv (claim_pair st t b c)"
  by (auto simp: tb_inv_def claim_pair_def)

lemma tb_step_inv: "tb_inv st \<Longrightarrow> tb_inv (tb_step tbl bs st t)"
  using tb_step_cases [of tbl bs st t]
  by (auto simp: barge_candidates_def intro: claim_pair_inv)

lemma tb_fold_inv: "tb_inv st \<Longrightarrow> tb_inv (fold (\<lambda>t st. tb_step tbl bs st t) ts st)"
  by (induction ts arbitrary: st) (auto intro: tb_step_inv)

lemma init_tb_inv: "tb_inv init_tb_state"
  by (simp add: tb_inv_def init_tb_state_def)

lemma tb_fold_pairs_ok:
  assumes "set ts \<subseteq> set tugs" and "\<forall>p \<in> set (pairs st). pair_ok tbl tugs bs p"
  shows "\<forall>p \<in> set (pairs (fold (\<lambda>t st. tb_step tbl bs st t) ts st)). pair_ok tbl tugs bs p"
  using assms
proof (induction ts arbitrary: st)
  case Nil
  then show ?case by simp
next
  case (Cons t ts)
  have "\<forall>p \<in> set (pairs (tb_step tbl bs st t)). pair_ok tbl tugs bs p"
    using tb_step_cases [of tbl bs st t] Cons.prems
    by (fastforce simp: claim_pair_def pair_ok_def barge_candidates_def)
  with Cons.IH [of "tb_step tbl bs st t"] Cons.prems show ?case by simp
qed

lemma pairing_inner:
  "fold (\<lambda>b tbl. bump_pair tbl t b) bs tbl = (\<lambda>k. tbl k + (if fst k = t then count_list bs (snd k) else 0))"
  by (induction bs arbitrary: tbl) (auto simp: bump_pair_def fun_eq_iff)

lemma pairing_mid:
  "fold (\<lambda>t tbl. fold (\<lambda>b tbl. bump_pair tbl t b) bs tbl) ts tbl =
   (\<lambda>k. tbl k + count_list ts (fst k) * count_list bs (snd k))"
  by (induction ts arbitrary: tbl) (auto simp: pairing_inner fun_eq_iff)

lemma pairing_outer:
  "fold (\<lambda>pd tbl. fold (\<lambda>t tbl. fold (\<lambda>b tbl. bump_pair tbl t b) (here barges pd) tbl) (here tugs pd) tbl) pds tbl =
   (\<lambda>k. tbl k + sum_list (map (\<lambda>pd. count_list (here tugs pd) (fst k) * count_list (here barges pd) (snd k)) pds))"
  by (induction pds arbitrary: tbl) (auto simp: pairing_mid fun_eq_iff)

lemma legs_of_mem:
  assumes "l \<in> set (legs_of s ts df)"
  shows "lg_idx l < length df \<and> pc_type (df ! lg_idx l) = side_only s \<and>
    (\<exists>m. side_mv s (df ! lg_idx l) = Some m \<and> pd_isin (mv_icst m) ts \<and>
       lg_vessel l = mv_vessel m \<and> lg_port l = mv_port m \<and> lg_date l = side_date s m)"
  using assms
  by (auto simp: legs_of_def List.map_filter_def in_set_enumerate_eq
      split: if_splits option.splits)

lemma tug_barge_pairs_inv: "tb_inv (fold (\<lambda>t st. tb_step tbl bs st t) ts init_tb_state)"
  by (rule tb_fold_inv [OF init_tb_inv])

lemma tug_barge_pairs_ok:
  "p \<in> set (tug_barge_pairs s df) \<Longrightarrow>
   pair_ok (pairing_table (legs_of s TUG_TYPES df) (legs_of s BARGE_TYPES df))
     (legs_of s TUG_TYPES df) (legs_of s BARGE_TYPES df) p"
  using tb_fold_pairs_ok [of "legs_of s TUG_TYPES df" "legs_of s TUG_TYPES df" init_tb_state]
  by (auto simp: tug_barge_pairs_def Let_def init_tb_state_def)

text \<open>The rows a pass marks: its tugs and barges, rows of that pass's type of distinct kinds.\<close>

lemma pair_rows:
  assumes "p \<in> set (tug_barge_pairs s df)"
  shows "tp_tug p < length df \<and> tp_barge p < length df \<and>
    pc_type (df ! tp_tug p) = side_only s \<and> pc_type (df ! tp_barge p) = side_only s \<and>
    tp_tug p \<noteq> tp_barge p"
proof -
  from tug_barge_pairs_ok [OF assms] obtain t b where
    t: "t \<in> set (legs_of s TUG_TYPES df)" and b: "b \<in> set (legs_of s BARGE_TYPES df)"
    and idx: "tp_tug p = lg_idx t" "tp_barge p = lg_idx b"
    by (auto simp: pair_ok_def)
  from legs_of_mem [OF t] obtain mt where mt: "side_mv s (df ! lg_idx t) = Some mt" "pd_isin (mv_icst mt) TUG_TYPES"
    by blast
  from legs_of_mem [OF b] obtain mb where mb: "side_mv s (df ! lg_idx b) = Some mb" "pd_isin (mv_icst mb) BARGE_TYPES"
    by blast
  have "lg_idx t \<noteq> lg_idx b"
  proof
    assume "lg_idx t = lg_idx b"
    with mt mb have "pd_isin (mv_icst mt) TUG_TYPES \<and> pd_isin (mv_icst mt) BARGE_TYPES" by simp
    then show False by (auto simp: pd_isin_def TUG_TYPES_def BARGE_TYPES_def split: option.splits)
  qed
  with legs_of_mem [OF t] legs_of_mem [OF b] idx show ?thesis by simp
qed

lemma pair_kind_rows:
  assumes "p \<in> set (tug_barge_pairs s df)"
  shows "tp_tug p \<in> kind_rows s TUG_TYPES df \<and> tp_barge p \<in> kind_rows s BARGE_TYPES df"
proof -
  from tug_barge_pairs_ok [OF assms] obtain t b where
    t: "t \<in> set (legs_of s TUG_TYPES df)" and b: "b \<in> set (legs_of s BARGE_TYPES df)"
    and idx: "tp_tug p = lg_idx t" "tp_barge p = lg_idx b"
    by (auto simp: pair_ok_def)
  from legs_of_mem [OF t] legs_of_mem [OF b] idx show ?thesis
    by (auto simp: kind_rows_def row_kind_def)
qed

lemma row_kind_exclusive:
  "row_kind s TUG_TYPES r \<Longrightarrow> row_kind s' BARGE_TYPES r \<Longrightarrow> False"
  "row_kind Entrance ts r \<Longrightarrow> row_kind Clearance ts' r \<Longrightarrow> False"
  "row_kind s ts r \<Longrightarrow> pc_type r = TUG_BARGE_PAIR \<Longrightarrow> False"
  by (cases s; cases s'; auto simp: row_kind_def side_only_def side_mv_def pd_isin_def
      TUG_TYPES_def BARGE_TYPES_def split: option.splits)+

lemma kind_rows_disjoint:
  "kind_rows s TUG_TYPES df \<inter> kind_rows s' BARGE_TYPES df = {}"
  "kind_rows Entrance ts df \<inter> kind_rows Clearance ts' df = {}"
  "kind_rows s ts df \<inter> {j. j < length df \<and> pc_type (df ! j) = TUG_BARGE_PAIR} = {}"
  by (auto simp: kind_rows_def dest: row_kind_exclusive)

lemma kind_rows_finite [simp]: "finite (kind_rows s ts df)"
  by (simp add: kind_rows_def)

lemma mark_row_length [simp]: "length (mark_row s p rows i) = length rows"
  by (simp add: mark_row_def)

lemma mark_row_type:
  "j < length rows \<Longrightarrow>
   pc_type (mark_row s p rows i ! j) = (if j = i then TUG_BARGE_PAIR else pc_type (rows ! j))"
  by (auto simp: mark_row_def nth_list_update)

lemma apply_pairs_length [simp]: "length (apply_pairs s ps rows) = length rows"
  by (induction ps arbitrary: rows) (simp_all add: apply_pairs_def)

lemma apply_pairs_type:
  "j < length rows \<Longrightarrow>
   pc_type (apply_pairs s ps rows ! j) =
     (if j \<in> set (map tp_tug ps) \<union> set (map tp_barge ps) then TUG_BARGE_PAIR else pc_type (rows ! j))"
proof (induction ps arbitrary: rows)
  case Nil
  then show ?case by (simp add: apply_pairs_def)
next
  case (Cons p ps)
  have "apply_pairs s (p # ps) rows = apply_pairs s ps (mark_row s p (mark_row s p rows (tp_tug p)) (tp_barge p))"
    by (simp add: apply_pairs_def)
  with Cons show ?case by (auto simp: mark_row_type)
qed

lemma init_tb_rows_type [simp]:
  "length (init_tb_rows df) = length df"
  "j < length df \<Longrightarrow> pc_type (init_tb_rows df ! j) = pc_type (df ! j)"
  by (simp_all add: init_tb_rows_def portcall_row.extend_def)

text \<open>The rows typed \<open>TUG_BARGE_PAIR\<close> after the update, as a set of indices.\<close>

lemma update_master_pair_set:
  "{j. j < length (update_master df) \<and> pc_type (update_master df ! j) = TUG_BARGE_PAIR} =
   {j. j < length df \<and> pc_type (df ! j) = TUG_BARGE_PAIR} \<union>
   set (map tp_tug (entrance_tug_barge_pairs df)) \<union> set (map tp_barge (entrance_tug_barge_pairs df)) \<union>
   set (map tp_tug (clearance_tug_barge_pairs df)) \<union> set (map tp_barge (clearance_tug_barge_pairs df))"
  using pair_rows [of _ Entrance df] pair_rows [of _ Clearance df]
  by (auto simp: update_master_def apply_pairs_type entrance_tug_barge_pairs_def
      clearance_tug_barge_pairs_def)

lemma distinct_pair_lists:
  "distinct (map tp_tug (tug_barge_pairs s df)) \<and> distinct (map tp_barge (tug_barge_pairs s df))"
  using tug_barge_pairs_inv by (simp add: tug_barge_pairs_def Let_def tb_inv_def)


lemma tb_scen3_result:
  "tug_barge_pairs Entrance tb_scen3 =
   [\<lparr>tp_id = 1, tp_tug = 0, tp_barge = 1, tp_conf = HIST 3\<rparr>,
    \<lparr>tp_id = 2, tp_tug = 3, tp_barge = 4, tp_conf = SINGLE\<rparr>,
    \<lparr>tp_id = 3, tp_tug = 5, tp_barge = 6, tp_conf = SINGLE\<rparr>]"
  by code_simp

lemma tb_scen3_legs:
  "\<lparr>lg_idx = 0, lg_vessel = Some ''T1'', lg_port = Some 1, lg_date = Some 1\<rparr> \<in> set (legs_of Entrance TUG_TYPES tb_scen3)"
  "\<lparr>lg_idx = 1, lg_vessel = Some ''G1'', lg_port = Some 1, lg_date = Some 1\<rparr> \<in> set (legs_of Entrance BARGE_TYPES tb_scen3)"
  by code_simp+

section \<open>Properties of the pairing passes\<close>

text \<open>
  C10. Within one pass no tug and no barge is paired twice.
\<close>

theorem tug_barge_pairs_distinct:
  "distinct (map tp_tug (tug_barge_pairs s df)) \<and> distinct (map tp_barge (tug_barge_pairs s df))"
  by (rule distinct_pair_lists)

text \<open>
  C11. Every pair joins a tug and a barge of the pass at the same port, the barge dated
  within one day of the tug.
\<close>

theorem tug_barge_pair_sound:
  assumes "p \<in> set (tug_barge_pairs s df)"
  shows "\<exists>t b d. t \<in> set (legs_of s TUG_TYPES df) \<and> b \<in> set (legs_of s BARGE_TYPES df) \<and>
     tp_tug p = lg_idx t \<and> tp_barge p = lg_idx b \<and> lg_date t = Some d \<and>
     pd_eq (lg_port b) (lg_port t) \<and> pd_le (Some (d - 1)) (lg_date b) \<and> pd_le (lg_date b) (Some (d + 1))"
  using tug_barge_pairs_ok [OF assms] by (auto simp: pair_ok_def)

theorem tug_barge_pair_sound_witness:
  "\<exists>t b d. t \<in> set (legs_of Entrance TUG_TYPES tb_scen3) \<and> b \<in> set (legs_of Entrance BARGE_TYPES tb_scen3) \<and>
     (0::nat) = lg_idx t \<and> (1::nat) = lg_idx b \<and> lg_date t = Some d \<and>
     pd_eq (lg_port b) (lg_port t) \<and> pd_le (Some (d - 1)) (lg_date b) \<and> pd_le (lg_date b) (Some (d + 1))"
proof -
  have "\<lparr>tp_id = 1, tp_tug = 0, tp_barge = 1, tp_conf = HIST 3\<rparr> \<in> set (tug_barge_pairs Entrance tb_scen3)"
    by (simp add: tb_scen3_result)
  from tug_barge_pair_sound [OF this] show ?thesis by simp
qed

text \<open>
  C12. A pair decided by history never rests on a zero count: its confidence
  \<open>HIST n\<close> has \<open>n > 0\<close>, and \<open>n\<close> is the table's count for the two vessel names.
\<close>

theorem tug_barge_hist_positive:
  assumes "p \<in> set (tug_barge_pairs s df)" and "tp_conf p = HIST n"
  shows "0 < n \<and> (\<exists>t b. t \<in> set (legs_of s TUG_TYPES df) \<and> b \<in> set (legs_of s BARGE_TYPES df) \<and>
     tp_tug p = lg_idx t \<and> tp_barge p = lg_idx b \<and>
     n = pairing_table (legs_of s TUG_TYPES df) (legs_of s BARGE_TYPES df) (lg_vessel t, lg_vessel b))"
  using tug_barge_pairs_ok [OF assms(1)] assms(2) by (auto simp: pair_ok_def)

theorem tug_barge_hist_positive_witness:
  "0 < (3::nat) \<and> (\<exists>t b. t \<in> set (legs_of Entrance TUG_TYPES tb_scen3) \<and> b \<in> set (legs_of Entrance BARGE_TYPES tb_scen3) \<and>
     (0::nat) = lg_idx t \<and> (1::nat) = lg_idx b \<and>
     3 = pairing_table (legs_of Entrance TUG_TYPES tb_scen3) (legs_of Entrance BARGE_TYPES tb_scen3) (lg_vessel t, lg_vessel b))"
proof -
  have "\<lparr>tp_id = 1, tp_tug = 0, tp_barge = 1, tp_conf = HIST 3\<rparr> \<in> set (tug_barge_pairs Entrance tb_scen3)"
    by (simp add: tb_scen3_result)
  from tug_barge_hist_positive [OF this] show ?thesis by simp
qed

text \<open>
  C13. The table built by the nested loops counts, for a tug name and a barge name, the
  pairs of records with these names seen at the same port on the same day, summed over
  every port and day where both kinds were seen.
\<close>

theorem pairing_table_counts:
  "pairing_table tugs barges (t, b) =
   (\<Sum>pd \<leftarrow> common_port_dates tugs barges. count_list (here tugs pd) t * count_list (here barges pd) b)"
  by (simp add: pairing_table_def pairing_outer)

text \<open>
  A barge seen at the tug's own port on the tug's own day always has a positive
  count: the table is learnt from the same batch it disambiguates.
\<close>

theorem pairing_same_day_positive:
  assumes "t \<in> set tugs" and "b \<in> set barges" and "lg_port t = Some p" and "lg_port b = Some p"
    and "lg_date t = Some d" and "lg_date b = Some d"
  shows "0 < pairing_table tugs barges (lg_vessel t, lg_vessel b)"
proof -
  let ?pd = "(Some p, Some d)"
  have mem: "?pd \<in> set (common_port_dates tugs barges)"
    using assms by (force simp: common_port_dates_def port_dates_def)
  have "lg_vessel t \<in> set (here tugs ?pd)" "lg_vessel b \<in> set (here barges ?pd)"
    using assms by (force simp: here_def)+
  then have pos: "0 < count_list (here tugs ?pd) (lg_vessel t) * count_list (here barges ?pd) (lg_vessel b)"
    by (simp add: count_list_pos)
  have le: "count_list (here tugs ?pd) (lg_vessel t) * count_list (here barges ?pd) (lg_vessel b) \<le>
    (\<Sum>pd \<leftarrow> common_port_dates tugs barges. count_list (here tugs pd) (lg_vessel t) * count_list (here barges pd) (lg_vessel b))"
    using mem by (intro member_le_sum_list) auto
  have "0 < (\<Sum>pd \<leftarrow> common_port_dates tugs barges.
      count_list (here tugs pd) (lg_vessel t) * count_list (here barges pd) (lg_vessel b))"
    by (rule less_le_trans [OF pos le])
  then show ?thesis by (simp add: pairing_table_def pairing_outer)
qed

theorem pairing_same_day_positive_witness:
  "0 < pairing_table (legs_of Entrance TUG_TYPES tb_scen3) (legs_of Entrance BARGE_TYPES tb_scen3)
         (Some ''T1'', Some ''G1'')"
  using pairing_same_day_positive [OF tb_scen3_legs(1) tb_scen3_legs(2)] by simp

text \<open>
  Scenario 3 of the specification: T1 has been seen with G1 three times and never
  with G2, so T1 is paired with G1 with confidence \<open>HIST_3X\<close>.
\<close>

theorem tug_barge_scenario_3:
  "pairing_table (legs_of Entrance TUG_TYPES tb_scen3) (legs_of Entrance BARGE_TYPES tb_scen3) (Some ''T1'', Some ''G1'') = 3 \<and>
   pairing_table (legs_of Entrance TUG_TYPES tb_scen3) (legs_of Entrance BARGE_TYPES tb_scen3) (Some ''T1'', Some ''G2'') = 0 \<and>
   hd (tug_barge_pairs Entrance tb_scen3) = \<lparr>tp_id = 1, tp_tug = 0, tp_barge = 1, tp_conf = HIST 3\<rparr>"
  by code_simp

text \<open>
  Scenario 4 of the specification: when neither candidate barge has ever been seen
  with the tug, the tug is left unpaired.
\<close>

theorem tug_barge_scenario_4:
  "pairing_table (legs_of Entrance TUG_TYPES tb_scen4) (legs_of Entrance BARGE_TYPES tb_scen4) (Some ''T1'', Some ''G1'') = 0 \<and>
   pairing_table (legs_of Entrance TUG_TYPES tb_scen4) (legs_of Entrance BARGE_TYPES tb_scen4) (Some ''T1'', Some ''G2'') = 0 \<and>
   tug_barge_pairs Entrance tb_scen4 = []"
  by code_simp

text \<open>
  Equal positive counts are not treated as ambiguous: the first barge in file order
  with the best count wins.
\<close>

theorem tug_barge_tie_first:
  "pairing_table (legs_of Entrance TUG_TYPES tb_tie) (legs_of Entrance BARGE_TYPES tb_tie) (Some ''T1'', Some ''G1'') = 1 \<and>
   pairing_table (legs_of Entrance TUG_TYPES tb_tie) (legs_of Entrance BARGE_TYPES tb_tie) (Some ''T1'', Some ''G2'') = 1 \<and>
   tug_barge_pairs Entrance tb_tie = [\<lparr>tp_id = 1, tp_tug = 0, tp_barge = 1, tp_conf = HIST 1\<rparr>]"
  by code_simp

text \<open>
  In the clearance pass every date is 1970-01-01: the date column is the raw
  \<open>mmydd\<close> integer, which \<open>pd.to_datetime\<close> reads as nanoseconds, so any value from 0 up to
  123199 falls on day 0 of the epoch.
\<close>

theorem clearance_pass_date_epoch:
  assumes "mv_raw_date m = Some n" and "0 \<le> n" and "n \<le> 123199"
  shows "side_date Clearance m = Some 0"
  using assms by (simp add: side_date_def)

theorem clearance_pass_date_epoch_witness:
  "side_date Clearance ((tb_mv ''T1'' 1 0 ''TUG'')\<lparr>mv_raw_date := Some 8329\<rparr>) = Some 0"
  by (rule clearance_pass_date_epoch [where n = 8329]) simp_all

text \<open>
  In the clearance pass two clearances seven months apart are paired (every date
  is read as 1970-01-01, see \<open>clearance_pass_date_epoch\<close>): a tug cleared on
  29 January and a barge cleared on 29 August at the same port become a \<open>SINGLE\<close> pair.
\<close>

theorem clearance_pass_months_apart:
  "tug_barge_pairs Clearance tb_clr_months_apart = [\<lparr>tp_id = 1, tp_tug = 0, tp_barge = 1, tp_conf = SINGLE\<rparr>]"
  by code_simp

text \<open>
  C14. The update marks exactly two new rows per pair: the number of
  \<open>TUG_BARGE_PAIR\<close> rows grows by twice the number of entrance and clearance pairs, as the
  summary the script prints assumes.
\<close>

theorem update_master_pair_count:
  "length (filter (\<lambda>r. pc_type r = TUG_BARGE_PAIR) (update_master df)) =
   length (filter (\<lambda>r. pc_type r = TUG_BARGE_PAIR) df) +
   2 * (length (entrance_tug_barge_pairs df) + length (clearance_tug_barge_pairs df))"
proof -
  let ?A = "{j. j < length df \<and> pc_type (df ! j) = TUG_BARGE_PAIR}"
  let ?E = "entrance_tug_barge_pairs df" and ?C = "clearance_tug_barge_pairs df"
  have sub: "set (map tp_tug ?E) \<subseteq> kind_rows Entrance TUG_TYPES df"
    "set (map tp_barge ?E) \<subseteq> kind_rows Entrance BARGE_TYPES df"
    "set (map tp_tug ?C) \<subseteq> kind_rows Clearance TUG_TYPES df"
    "set (map tp_barge ?C) \<subseteq> kind_rows Clearance BARGE_TYPES df"
    using pair_kind_rows [of _ Entrance df] pair_kind_rows [of _ Clearance df]
    by (auto simp: entrance_tug_barge_pairs_def clearance_tug_barge_pairs_def)
  have d: "distinct (map tp_tug ?E)" "distinct (map tp_barge ?E)"
    "distinct (map tp_tug ?C)" "distinct (map tp_barge ?C)"
    using distinct_pair_lists [of Entrance df] distinct_pair_lists [of Clearance df]
    by (simp_all add: entrance_tug_barge_pairs_def clearance_tug_barge_pairs_def)
  let ?Kte = "kind_rows Entrance TUG_TYPES df" and ?Kbe = "kind_rows Entrance BARGE_TYPES df"
  let ?Ktc = "kind_rows Clearance TUG_TYPES df" and ?Kbc = "kind_rows Clearance BARGE_TYPES df"
  have dis: "?Kte \<inter> ?Kbe = {}" "?Kbe \<inter> ?Ktc = {}" "?Kte \<inter> ?Kbc = {}" "?Ktc \<inter> ?Kbc = {}"
    "?Kte \<inter> ?Ktc = {}" "?Kbe \<inter> ?Kbc = {}"
    "?A \<inter> ?Kte = {}" "?A \<inter> ?Kbe = {}" "?A \<inter> ?Ktc = {}" "?A \<inter> ?Kbc = {}"
    using kind_rows_disjoint(1) [of Entrance df Entrance] kind_rows_disjoint(1) [of Clearance df Entrance]
      kind_rows_disjoint(1) [of Entrance df Clearance] kind_rows_disjoint(1) [of Clearance df Clearance]
      kind_rows_disjoint(2) [of TUG_TYPES df TUG_TYPES] kind_rows_disjoint(2) [of BARGE_TYPES df BARGE_TYPES]
      kind_rows_disjoint(3) [of _ _ df]
    by (simp_all add: Int_commute)
  have s: "tp_tug ` set ?E \<subseteq> ?Kte" "tp_barge ` set ?E \<subseteq> ?Kbe"
    "tp_tug ` set ?C \<subseteq> ?Ktc" "tp_barge ` set ?C \<subseteq> ?Kbc"
    using sub by simp_all
  have c1: "card (?A \<union> tp_tug ` set ?E) = card ?A + length ?E"
    by (rule card_Un_disjoint_distinct [OF _ s(1) dis(7) d(1)]) simp
  have c2: "card ((?A \<union> tp_tug ` set ?E) \<union> tp_barge ` set ?E) = card (?A \<union> tp_tug ` set ?E) + length ?E"
    by (rule card_Un_disjoint_distinct [OF _ s(2) Un_disjoint_sub [OF dis(8) s(1) dis(1)] d(2)]) simp
  have c3: "card ((?A \<union> tp_tug ` set ?E \<union> tp_barge ` set ?E) \<union> tp_tug ` set ?C) =
      card (?A \<union> tp_tug ` set ?E \<union> tp_barge ` set ?E) + length ?C"
    by (rule card_Un_disjoint_distinct [OF _ s(3)
          Un_disjoint_sub [OF Un_disjoint_sub [OF dis(9) s(1) dis(5)] s(2) dis(2)] d(3)]) simp
  have c4: "card ((?A \<union> tp_tug ` set ?E \<union> tp_barge ` set ?E \<union> tp_tug ` set ?C) \<union> tp_barge ` set ?C) =
      card (?A \<union> tp_tug ` set ?E \<union> tp_barge ` set ?E \<union> tp_tug ` set ?C) + length ?C"
    by (rule card_Un_disjoint_distinct [OF _ s(4)
          Un_disjoint_sub [OF Un_disjoint_sub [OF Un_disjoint_sub [OF dis(10) s(1) dis(3)] s(2) dis(6)] s(3) dis(4)]
          d(4)]) simp
  have "card (?A \<union> set (map tp_tug ?E) \<union> set (map tp_barge ?E) \<union> set (map tp_tug ?C) \<union> set (map tp_barge ?C)) =
        card ?A + length ?E + length ?E + length ?C + length ?C"
    using c1 c2 c3 c4 by simp
  moreover have "card {j. j < length (update_master df) \<and> pc_type (update_master df ! j) = TUG_BARGE_PAIR} =
      card (?A \<union> set (map tp_tug ?E) \<union> set (map tp_barge ?E) \<union> set (map tp_tug ?C) \<union> set (map tp_barge ?C))"
    by (simp only: update_master_pair_set)
  ultimately show ?thesis
    by (simp add: length_filter_conv_card)
qed

end
