(* ===== verification/PyText.thy ===== *)
theory PyText
  imports Prelude
begin

text \<open>
  Python's conversions between integers and decimal text, as the scripts use them:
  \<open>str(n)\<close> of an integer (\<open>py_str_int\<close>), \<open>s.zfill(w)\<close> (\<open>py_zfill\<close>), \<open>int(s)\<close> of a
  string of digits with an optional sign (\<open>py_int_of\<close>, \<open>None\<close> where Python raises
  \<open>ValueError\<close>), and the fixed-width decimal text \<open>fixed_digits k n\<close> of \<open>n mod 10^k\<close>
  that \<open>zfill\<close> produces. \<open>int(s)\<close> is modelled on the alphabet these scripts feed it
  (digits and a leading sign; Python also skips surrounding blanks and underscores).
\<close>

section \<open>Python integer text\<close>

definition digit_char :: "nat \<Rightarrow> char" where
  "digit_char n = char_of (48 + n)"

definition digit_val :: "char \<Rightarrow> nat" where
  "digit_val c = of_char c - 48"

fun nat_digits :: "nat \<Rightarrow> string" where
  "nat_digits n = (if n < 10 then [digit_char n] else nat_digits (n div 10) @ [digit_char (n mod 10)])"

declare nat_digits.simps [simp del]

definition py_str_int :: "int \<Rightarrow> string" where
  "py_str_int x = (if x < 0 then CHR ''-'' # nat_digits (nat (- x)) else nat_digits (nat x))"

definition py_zfill :: "nat \<Rightarrow> string \<Rightarrow> string" where
  "py_zfill w s =
     (if w \<le> length s then s
      else case s of
        c # cs \<Rightarrow> if c = CHR ''-'' \<or> c = CHR ''+'' then c # replicate (w - length s) CHR ''0'' @ cs
                  else replicate (w - length s) CHR ''0'' @ s
      | [] \<Rightarrow> replicate w CHR ''0'')"

text \<open>The \<open>k\<close>-digit zero-padded decimal text of \<open>n mod 10^k\<close>.\<close>

fun fixed_digits :: "nat \<Rightarrow> nat \<Rightarrow> string" where
  "fixed_digits 0 n = []"
| "fixed_digits (Suc k) n = fixed_digits k (n div 10) @ [digit_char (n mod 10)]"

definition digits_val :: "string \<Rightarrow> nat option" where
  "digits_val s = (if s \<noteq> [] \<and> list_all is_ascii_digit s
                   then Some (foldl (\<lambda>a c. 10 * a + digit_val c) 0 s) else None)"

definition py_int_of :: "string \<Rightarrow> int option" where
  "py_int_of s = (case s of
      c # cs \<Rightarrow> if c = CHR ''-'' then map_option (\<lambda>n. - int n) (digits_val cs)
               else if c = CHR ''+'' then map_option int (digits_val cs)
               else map_option int (digits_val s)
    | [] \<Rightarrow> None)"


text \<open>The value of a string of decimal digits.\<close>

definition dec_value :: "string \<Rightarrow> nat" where
  "dec_value s = foldl (\<lambda>a c. 10 * a + digit_val c) 0 s"

text \<open>
  \<open>float(s)\<close> on the decimal numerals \<open>[+-]ddd[.ddd]\<close> with surrounding blanks, as an
  exact rational; \<open>None\<close> where Python raises. \<open>nan\<close> is recognised by \<open>py_float_nan\<close>
  below; exponents, \<open>inf\<close> and underscores, which Python also accepts, are rejected here.
\<close>

definition py_float :: "string \<Rightarrow> rat option" where
  "py_float s =
     (let t = py_strip s;
          (sg, body) = (case t of
                          c # cs \<Rightarrow> if c = CHR ''-'' then (-1, cs) else if c = CHR ''+'' then (1, cs) else (1, t)
                        | [] \<Rightarrow> (1, []));
          ip = takeWhile is_ascii_digit body;
          rest = dropWhile is_ascii_digit body
      in if rest = [] then (if ip = [] then None else Some (sg * of_nat (dec_value ip)))
         else if hd rest = CHR ''.'' \<and> list_all is_ascii_digit (tl rest) \<and> (ip \<noteq> [] \<or> tl rest \<noteq> [])
         then Some (sg * (of_nat (dec_value ip) + of_nat (dec_value (tl rest)) / 10 ^ length (tl rest)))
         else None)"

text \<open>
  \<open>float(s)\<close> is NaN for \<open>nan\<close> in any case, signed or not, with surrounding blanks: a
  value that every fixed-point format prints as \<open>nan\<close> and every comparison rejects.
\<close>

definition py_float_nan :: "string \<Rightarrow> bool" where
  "py_float_nan s = (let t = py_lower (py_strip s) in t = ''nan'' \<or> t = ''+nan'' \<or> t = ''-nan'')"

text \<open>Rounding half to even, the rounding of Python's fixed-point formatting.\<close>

definition round_half_even :: "rat \<Rightarrow> int" where
  "round_half_even q =
     (let f = \<lfloor>q\<rfloor>; d = q - of_int f in
      if d > 1/2 then f + 1 else if d < 1/2 then f else if even f then f else f + 1)"

text \<open>
  \<open>f"{x:.kf}"\<close> for \<open>k > 0\<close>, on the exact rational value (Python rounds the binary
  double, which differs only when the double lies within an ulp of a tie).
\<close>

definition py_fmt :: "nat \<Rightarrow> rat \<Rightarrow> string" where
  "py_fmt k x =
     (let n = round_half_even (x * 10 ^ k); a = nat \<bar>n\<bar> in
      (if n < 0 then ''-'' else []) @ nat_digits (a div 10 ^ k) @ ''.'' @ fixed_digits k a)"

section \<open>pandas column types\<close>

text \<open>
  \<open>str(x)\<close> of a float, for the values these scripts read: a decimal with at most 16
  fraction digits prints as its shortest decimal text with at least one fraction digit
  (\<open>4110.0\<close>, \<open>8409.9\<close>); Python switches to exponent notation from \<open>1e16\<close> on and
  below \<open>1e-4\<close>, which codes never reach. Other values are printed with 16 digits.
\<close>

definition py_repr_float :: "rat \<Rightarrow> string" where
  "py_repr_float q =
     (case find (\<lambda>k. q * 10 ^ k = of_int \<lfloor>q * 10 ^ k\<rfloor>) [1..<17] of
        None \<Rightarrow> py_fmt 16 q
      | Some k \<Rightarrow> (let n = nat \<bar>\<lfloor>q * 10 ^ k\<rfloor>\<bar> in
                   (if q < 0 then ''-'' else []) @ nat_digits (n div 10 ^ k) @ ''.'' @ fixed_digits k n))"

text \<open>
  The dtype \<open>pd.read_csv\<close> infers for a column from its cells (\<open>None\<close> is an empty or
  NA cell): integers without missing cells are \<open>int64\<close>; numbers, or integers with a
  missing cell, are \<open>float64\<close>; anything else stays text.
\<close>

datatype col_dtype = Int64 | Float64 | Object

definition pd_infer_dtype :: "string option list \<Rightarrow> col_dtype" where
  "pd_infer_dtype cells =
     (if list_all (\<lambda>c. case c of None \<Rightarrow> False | Some t \<Rightarrow> py_int_of (py_strip t) \<noteq> None) cells then Int64
      else if list_all (\<lambda>c. case c of None \<Rightarrow> True | Some t \<Rightarrow> py_float t \<noteq> None) cells then Float64
      else Object)"

text \<open>\<open>str(x)\<close> (or \<open>astype(str)\<close>) of a cell of a column of the given dtype; NaN prints \<open>nan\<close>.\<close>

definition pd_cell_str :: "col_dtype \<Rightarrow> string option \<Rightarrow> string" where
  "pd_cell_str dt c =
     (case c of
        None \<Rightarrow> ''nan''
      | Some t \<Rightarrow>
          (case dt of
             Int64 \<Rightarrow> (case py_int_of (py_strip t) of None \<Rightarrow> t | Some n \<Rightarrow> py_str_int n)
           | Float64 \<Rightarrow> (case py_float t of None \<Rightarrow> t | Some q \<Rightarrow> py_repr_float q)
           | Object \<Rightarrow> t))"

section \<open>Digit lemmas\<close>

lemma digit_char_digit [simp]: "n < 10 \<Longrightarrow> is_ascii_digit (digit_char n)"
  by (simp add: digit_char_def is_ascii_digit_def)

lemma digit_val_char [simp]: "n < 10 \<Longrightarrow> digit_val (digit_char n) = n"
  by (simp add: digit_char_def digit_val_def)

lemma digit_char_sign [simp]:
  "n < 10 \<Longrightarrow> digit_char n \<noteq> CHR ''-''" "n < 10 \<Longrightarrow> digit_char n \<noteq> CHR ''+''"
  by (auto simp: digit_char_def dest!: arg_cong[where f = "of_char :: char \<Rightarrow> nat"])

lemma length_fixed_digits [simp]: "length (fixed_digits k n) = k"
  by (induction k arbitrary: n) auto

lemma fixed_digits_all_digits: "list_all is_ascii_digit (fixed_digits k n)"
  by (induction k arbitrary: n) auto

lemma fixed_digits_zero: "fixed_digits k 0 = replicate k CHR ''0''"
proof (induction k)
  case (Suc k)
  have "digit_char 0 = CHR ''0''" by (simp add: digit_char_def) code_simp
  with Suc show ?case by (simp add: replicate_append_same)
qed simp

lemma fixed_digits_add: "fixed_digits (a + b) n = fixed_digits a (n div 10 ^ b) @ fixed_digits b n"
  by (induction b arbitrary: n) (auto simp: div_mult2_eq mult.commute)

lemma foldl_digits_fixed:
  "foldl (\<lambda>a c. 10 * a + digit_val c) a (fixed_digits k n) = a * 10 ^ k + n mod 10 ^ k"
proof (induction k arbitrary: n)
  case (Suc k)
  have "10 * (n div 10 mod 10 ^ k) + n mod 10 = n mod (10 * 10 ^ k)"
    by (simp add: mod_mult2_eq)
  with Suc show ?case by (simp add: algebra_simps)
qed simp

lemma fixed_digits_small:
  "fixed_digits 1 n = [digit_char (n mod 10)]"
  "fixed_digits 2 n = [digit_char (n div 10 mod 10), digit_char (n mod 10)]"
  by (simp_all add: numeral_2_eq_2)

lemma floor_numeral_div [simp]: "\<lfloor>(numeral a :: rat) / numeral b\<rfloor> = numeral a div numeral b"
  using floor_divide_of_int_eq[of "numeral a" "numeral b", where 'a = rat] by simp

lemma fixed_digits_ne: "0 < k \<Longrightarrow> fixed_digits k n \<noteq> []"
  by (metis length_fixed_digits less_not_refl list.size(3))

lemma digits_val_fixed: "0 < k \<Longrightarrow> digits_val (fixed_digits k n) = Some (n mod 10 ^ k)"
  by (simp add: digits_val_def fixed_digits_ne fixed_digits_all_digits foldl_digits_fixed)

lemma digit_not_sign [simp]:
  "is_ascii_digit c \<Longrightarrow> c \<noteq> CHR ''-''" "is_ascii_digit c \<Longrightarrow> c \<noteq> CHR ''+''"
  by (auto simp: is_ascii_digit_def)

lemma py_int_of_digits:
  "s \<noteq> [] \<Longrightarrow> list_all is_ascii_digit s \<Longrightarrow> py_int_of s = map_option int (digits_val s)"
  by (cases s) (auto simp: py_int_of_def)

lemma py_int_of_fixed: "0 < k \<Longrightarrow> py_int_of (fixed_digits k n) = Some (int (n mod 10 ^ k))"
  by (simp add: py_int_of_digits fixed_digits_ne fixed_digits_all_digits digits_val_fixed)

lemma nat_digits_ne [simp]: "nat_digits n \<noteq> []"
  by (induction n rule: nat_digits.induct) (simp add: nat_digits.simps)

lemma nat_digits_all_digits: "list_all is_ascii_digit (nat_digits n)"
  by (induction n rule: nat_digits.induct) (simp add: nat_digits.simps)

lemma nat_digits_length: "n < 10 ^ k \<Longrightarrow> 0 < k \<Longrightarrow> length (nat_digits n) \<le> k"
proof (induction n arbitrary: k rule: nat_digits.induct)
  case (1 n)
  show ?case
  proof (cases "n < 10")
    case False
    then obtain k' where k: "k = Suc k'" and "0 < k'"
      using "1.prems" by (cases k; cases "k - 1") auto
    moreover have "n div 10 < 10 ^ k'"
      using "1.prems" k by (simp add: less_mult_imp_div_less)
    ultimately show ?thesis
      using "1.IH" False by (subst nat_digits.simps) simp
  qed (use "1.prems" in \<open>simp add: nat_digits.simps\<close>)
qed

lemma nat_digits_pad:
  "length (nat_digits n) \<le> k \<Longrightarrow>
   replicate (k - length (nat_digits n)) CHR ''0'' @ nat_digits n = fixed_digits k n"
proof (induction n arbitrary: k rule: nat_digits.induct)
  case (1 n)
  show ?case
  proof (cases "n < 10")
    case True
    then obtain k' where "k = Suc k'" using "1.prems" by (cases k) (auto simp: nat_digits.simps)
    with True show ?thesis by (simp add: nat_digits.simps fixed_digits_zero)
  next
    case False
    then have ds: "nat_digits n = nat_digits (n div 10) @ [digit_char (n mod 10)]"
      by (subst nat_digits.simps) simp
    then obtain k' where k: "k = Suc k'" using "1.prems" by (cases k) auto
    with "1.prems" ds have "length (nat_digits (n div 10)) \<le> k'" by simp
    with "1.IH" False k ds show ?thesis
      by (metis append.assoc diff_Suc_Suc fixed_digits.simps(2) length_append_singleton)
  qed
qed

lemma nat_digits_hd_digit: "\<exists>c cs. nat_digits n = c # cs \<and> is_ascii_digit c"
  using nat_digits_ne nat_digits_all_digits by (metis list.pred_inject(2) neq_Nil_conv)

lemma zfill_nat_digits:
  "n < 10 ^ k \<Longrightarrow> 0 < k \<Longrightarrow> py_zfill k (nat_digits n) = fixed_digits k n"
proof -
  assume n: "n < 10 ^ k" and k: "0 < k"
  then have len: "length (nat_digits n) \<le> k" by (rule nat_digits_length)
  obtain c cs where c: "nat_digits n = c # cs" "is_ascii_digit c" using nat_digits_hd_digit by blast
  show ?thesis
  proof (cases "k \<le> length (nat_digits n)")
    case True
    then show ?thesis using nat_digits_pad[OF len] len by (simp add: py_zfill_def)
  next
    case False
    then show ?thesis using nat_digits_pad[OF len] c by (simp add: py_zfill_def)
  qed
qed

lemma zero_digit [simp]: "is_ascii_digit CHR ''0''"
  by (simp add: is_ascii_digit_def)

lemma py_int_of_single: "py_int_of [c] = Some k \<Longrightarrow> 0 \<le> k \<and> k \<le> 9"
  by (auto simp: py_int_of_def digits_val_def digit_val_def is_ascii_digit_def Let_def
      split: if_splits)


lemma foldl_digit_snoc:
  "foldl (\<lambda>a c. 10 * a + digit_val c) a (xs @ [x]) = 10 * foldl (\<lambda>a c. 10 * a + digit_val c) a xs + digit_val x"
  by simp

lemma foldl_digits_nat: "foldl (\<lambda>a c. 10 * a + digit_val c) 0 (nat_digits n) = n"
  by (induction n rule: nat_digits.induct) (subst nat_digits.simps; simp)

lemma foldl_digits_zeros: "foldl (\<lambda>a c. 10 * a + digit_val c) 0 (replicate k CHR ''0'') = 0"
proof -
  have "digit_val CHR ''0'' = 0" by (simp add: digit_val_def)
  then show ?thesis by (induction k) (simp_all add: replicate_append_same[symmetric])
qed

text \<open>Round trip: the value of the zero-filled text of \<open>n\<close> is \<open>n\<close>.\<close>

lemma digits_val_zfill_nat: "digits_val (py_zfill w (nat_digits n)) = Some n"
proof -
  obtain c cs where c: "nat_digits n = c # cs" "is_ascii_digit c" using nat_digits_hd_digit by blast
  have all: "list_all is_ascii_digit (nat_digits n)" by (rule nat_digits_all_digits)
  show ?thesis
  proof (cases "w \<le> length (nat_digits n)")
    case True
    then show ?thesis using all by (simp add: py_zfill_def digits_val_def foldl_digits_nat)
  next
    case False
    then have "py_zfill w (nat_digits n) = replicate (w - length (nat_digits n)) CHR ''0'' @ nat_digits n"
      using c by (simp add: py_zfill_def)
    then show ?thesis using all
      by (auto simp: digits_val_def foldl_digits_zeros foldl_digits_nat list_all_iff set_replicate_conv_if)
  qed
qed


section \<open>Column types\<close>

lemma py_str_int_chars: "c \<in> set (py_str_int n) \<Longrightarrow> c = CHR ''-'' \<or> is_ascii_digit c"
  using nat_digits_all_digits by (auto simp: py_str_int_def list_all_iff split: if_splits)

lemma dot_in_py_fmt: "CHR ''.'' \<in> set (py_fmt k q)"
  by (simp add: py_fmt_def Let_def)

lemma dot_in_repr: "CHR ''.'' \<in> set (py_repr_float q)"
  by (auto simp: py_repr_float_def Let_def dot_in_py_fmt split: option.split)

lemma infer_Int64: "pd_infer_dtype cells = Int64 \<Longrightarrow> c \<in> set cells \<Longrightarrow> \<exists>t n. c = Some t \<and> py_int_of (py_strip t) = Some n"
  by (auto simp: pd_infer_dtype_def list_all_iff split: if_splits option.splits)

lemma infer_Float64: "pd_infer_dtype cells = Float64 \<Longrightarrow> c \<in> set cells \<Longrightarrow> c = None \<or> (\<exists>t q. c = Some t \<and> py_float t = Some q)"
  by (auto simp: pd_infer_dtype_def list_all_iff split: if_splits option.splits)


lemma nat_digits_hd_nonzero: "1 \<le> m \<Longrightarrow> hd (nat_digits m) \<noteq> CHR ''0''"
proof (induction m rule: nat_digits.induct)
  case (1 m)
  show ?case
  proof (cases "m < 10")
    case True
    then have "digit_char m \<noteq> CHR ''0''" using "1.prems"
      by (auto simp: digit_char_def dest!: arg_cong[where f = "of_char :: char \<Rightarrow> nat"])
    with True show ?thesis by (simp add: nat_digits.simps)
  next
    case False
    then have "1 \<le> m div 10" by simp
    with "1.IH" False show ?thesis by (simp add: nat_digits.simps [of m])
  qed
qed

lemma nat_digits_lead:
  "1 \<le> m \<Longrightarrow> \<exists>c cs. nat_digits m = c # cs \<and> is_ascii_digit c \<and> c \<noteq> CHR ''0''"
  using nat_digits_hd_digit [of m] nat_digits_hd_nonzero [of m] by fastforce

lemma round_half_even_ge: "\<lfloor>q\<rfloor> \<le> round_half_even q"
  by (simp add: round_half_even_def Let_def)

lemma repr_float_lead:
  assumes "1 \<le> q"
  shows "\<exists>m rest. py_repr_float q = nat_digits m @ rest \<and> 1 \<le> m"
proof (cases "find (\<lambda>k. q * 10 ^ k = of_int \<lfloor>q * 10 ^ k\<rfloor>) [1..<17]")
  case None
  let ?n = "round_half_even (q * 10 ^ 16)"
  have "(10::rat) ^ 16 \<le> q * 10 ^ 16" using assms by simp
  then have "(10::int) ^ 16 \<le> \<lfloor>q * 10 ^ 16\<rfloor>" by (simp add: le_floor_iff)
  then have n: "10 ^ 16 \<le> ?n" using round_half_even_ge [of "q * 10 ^ 16"] by linarith
  then have "10 ^ 16 \<le> nat \<bar>?n\<bar>" by (simp add: le_nat_iff)
  then have "1 \<le> nat \<bar>?n\<bar> div 10 ^ 16" by (simp add: div_greater_zero_iff Suc_le_eq)
  moreover have "\<not> ?n < 0" using n by simp
  ultimately show ?thesis using None by (auto simp: py_repr_float_def py_fmt_def Let_def)
next
  case (Some k)
  let ?n = "\<lfloor>q * 10 ^ k\<rfloor>"
  have "(10::rat) ^ k \<le> q * 10 ^ k" using assms by simp
  then have n: "(10::int) ^ k \<le> ?n" by (simp add: le_floor_iff)
  then have "10 ^ k \<le> nat \<bar>?n\<bar>" by (simp add: le_nat_iff)
  then have "1 \<le> nat \<bar>?n\<bar> div 10 ^ k" by (simp add: div_greater_zero_iff Suc_le_eq)
  moreover have "\<not> q < 0" using assms by simp
  ultimately show ?thesis using Some by (auto simp: py_repr_float_def Let_def)
qed



lemma py_str_int_nat: "py_str_int (int n) = nat_digits n"
  by (simp add: py_str_int_def)

lemma zfill_nat_digits_inj:
  assumes "py_zfill w (nat_digits a) = py_zfill w (nat_digits b)"
  shows "a = b"
proof -
  have "digits_val (py_zfill w (nat_digits a)) = digits_val (py_zfill w (nat_digits b))"
    by (simp only: assms)
  then show ?thesis by (simp only: digits_val_zfill_nat option.inject)
qed

text \<open>A cell of an \<open>int64\<close> column and a cell of a \<open>float64\<close> column never print alike: the
  float's text has a decimal point (\<open>5\<close>, \<open>5.0\<close>).\<close>

lemma cell_str_int_float_differ:
  assumes "py_int_of (py_strip t) = Some n" "py_float t' = Some q"
  shows "pd_cell_str Int64 (Some t) \<noteq> pd_cell_str Float64 (Some t')"
proof
  assume eq: "pd_cell_str Int64 (Some t) = pd_cell_str Float64 (Some t')"
  have "CHR ''.'' \<in> set (pd_cell_str Float64 (Some t'))"
    using assms(2) by (simp add: pd_cell_str_def dot_in_repr)
  then have "CHR ''.'' \<in> set (py_str_int n)"
    using eq assms(1) by (simp add: pd_cell_str_def)
  then show False
    using py_str_int_chars [of "CHR ''.''" n] by (simp add: is_ascii_digit_def)
qed

lemmas dtype_eval = pd_infer_dtype_def pd_cell_str_def py_int_of_def digits_val_def py_float_def dec_value_def
  digit_val_def py_repr_float_def py_str_int_def nat_digits.simps digit_char_def fixed_digits_small py_simps Let_def

end
