(* ===== verification/UsaceDate.thy ===== *)
theory UsaceDate
  imports PyText
begin

text \<open>
  The USACE date parser \<open>parse_usace_date\<close>, which \<open>marry_entrance_clearance_v1.0.0.py\<close>
  (lines 44--56) and \<open>match_usace_clearance_to_panjiva_exports_v1.0.0.py\<close> (lines 47--59)
  define with the same body: \<open>str(int(v)).zfill(5)\<close>, month \<open>= int(s[:2])\<close>, year
  \<open>= 2020 + int(s[2])\<close>, day \<open>= int(s[3:])\<close>, then \<open>pd.Timestamp(year, month, day)\<close>;
  every exception becomes \<open>None\<close>. The input is the integer the CSV cell holds
  (\<open>int()\<close> has already truncated a float cell); a date is a day count from 1970-01-01.

  Python's \<open>str\<close> of an integer, \<open>zfill\<close> and \<open>int\<close> of a string are those of \<open>PyText\<close>,
  on the alphabet \<open>str(int(v))\<close> produces (digits and a leading minus); \<open>pd.Timestamp\<close> is the
  proleptic Gregorian calendar, whose range (years 1677--2262) contains 2020--2029.
\<close>

section \<open>Calendar\<close>

definition is_leap :: "int \<Rightarrow> bool" where
  "is_leap y \<longleftrightarrow> (4 dvd y \<and> \<not> 100 dvd y) \<or> 400 dvd y"

definition days_in_month :: "int \<Rightarrow> int \<Rightarrow> int" where
  "days_in_month y m =
     (if m = 2 then (if is_leap y then 29 else 28)
      else if m = 4 \<or> m = 6 \<or> m = 9 \<or> m = 11 then 30 else 31)"

definition leaps_upto :: "int \<Rightarrow> int" where
  "leaps_upto y = y div 4 - y div 100 + y div 400"

definition days_before_year :: "int \<Rightarrow> int" where
  "days_before_year y = 365 * (y - 1970) + (leaps_upto (y - 1) - leaps_upto 1969)"

definition days_before_month :: "int \<Rightarrow> int \<Rightarrow> int" where
  "days_before_month y m = sum_list (map (days_in_month y) [1..m - 1])"

definition ts_days :: "int \<Rightarrow> int \<Rightarrow> int \<Rightarrow> day" where
  "ts_days y m d = days_before_year y + days_before_month y m + (d - 1)"

definition valid_ymd :: "int \<Rightarrow> int \<Rightarrow> int \<Rightarrow> bool" where
  "valid_ymd y m d \<longleftrightarrow> 1 \<le> m \<and> m \<le> 12 \<and> 1 \<le> d \<and> d \<le> days_in_month y m"

definition pd_timestamp :: "int \<Rightarrow> int \<Rightarrow> int \<Rightarrow> day option" where
  "pd_timestamp y m d = (if valid_ymd y m d then Some (ts_days y m d) else None)"

definition parse_usace_date :: "int option \<Rightarrow> day option" where
  "parse_usace_date date_val =
     (case date_val of
        None \<Rightarrow> None
      | Some v \<Rightarrow>
          (let date_str = py_zfill 5 (py_str_int v) in
           case py_int_of (take 2 date_str) of
             None \<Rightarrow> None
           | Some month \<Rightarrow>
               (case py_int_of [date_str ! 2] of
                  None \<Rightarrow> None
                | Some year_digit \<Rightarrow>
                    (case py_int_of (drop 3 date_str) of
                       None \<Rightarrow> None
                     | Some d \<Rightarrow> pd_timestamp (2020 + year_digit) month d))))"

section \<open>Evaluation rules\<close>

text \<open>
  The rules that evaluate the parser on a literal with \<open>simp\<close> (the simplifier's
  congruence on \<open>if\<close> decides \<open>n < 10\<close> before it unfolds the recursive call).
\<close>

lemmas usace_date_eval = parse_usace_date_def py_str_int_def nat_digits.simps digit_char_def
  py_zfill_def py_int_of_def digits_val_def digit_val_def is_ascii_digit_def pd_timestamp_def
  valid_ymd_def days_in_month_def is_leap_def ts_days_def days_before_year_def
  days_before_month_def leaps_upto_def upto.simps

section \<open>Lemmas\<close>

lemma fixed_digits_5:
  "fixed_digits 5 n = fixed_digits 2 (n div 1000) @ fixed_digits 1 (n div 100) @ fixed_digits 2 n"
proof -
  have e5: "(5::nat) = 2 + 3" and e3: "(3::nat) = 1 + 2" by simp_all
  have p: "(10::nat) ^ 3 = 1000" "(10::nat) ^ 2 = 100" by simp_all
  note A = fixed_digits_add[of 2 3 n, folded e5] and B = fixed_digits_add[of 1 2 n, folded e3]
  show ?thesis unfolding A B p by (rule refl)
qed

lemma usace_date_str:
  assumes "0 \<le> x" "x < 100000"
  shows "py_zfill 5 (py_str_int x) =
           fixed_digits 2 (nat x div 1000) @ fixed_digits 1 (nat x div 100) @ fixed_digits 2 (nat x)"
proof -
  have "nat x < 10 ^ 5" using assms by simp
  then show ?thesis using assms by (simp add: py_str_int_def zfill_nat_digits fixed_digits_5)
qed

lemma parse_usace_date_fields:
  assumes "0 \<le> x" "x < 100000"
  shows "parse_usace_date (Some x) = pd_timestamp (2020 + x div 100 mod 10) (x div 1000) (x mod 100)"
proof -
  have one: "py_int_of [digit_char (m mod 10)] = Some (int (m mod 10))" for m
    using py_int_of_fixed[of 1 m] by simp
  have "nat x div 1000 mod 100 = nat x div 1000" using assms by simp
  then show ?thesis using assms
    by (simp add: parse_usace_date_def usace_date_str nth_append drop_append py_int_of_fixed one
        zdiv_int zmod_int)
qed

lemma pd_timestamp_month_nonpos [simp]: "m \<le> 0 \<Longrightarrow> pd_timestamp y m d = None"
  by (simp add: pd_timestamp_def valid_ymd_def)

lemma py_int_of_neg_digit:
  "is_ascii_digit c \<Longrightarrow> py_int_of [CHR ''-'', c] = Some (- int (digit_val c))"
  by (simp add: py_int_of_def digits_val_def)

lemma negative_date_str:
  assumes "x < 0"
  shows "\<exists>c. is_ascii_digit c \<and> take 2 (py_zfill 5 (py_str_int x)) = [CHR ''-'', c]"
proof -
  obtain c cs where c: "nat_digits (nat (- x)) = c # cs" "is_ascii_digit c"
    using nat_digits_hd_digit by blast
  show ?thesis
  proof (cases "length cs < 3")
    case True
    then have "5 - length (CHR ''-'' # c # cs) = Suc (2 - length cs)" by simp
    then show ?thesis using assms c True by (simp add: py_str_int_def py_zfill_def)
  next
    case False
    then show ?thesis using assms c by (auto simp: py_str_int_def py_zfill_def)
  qed
qed

lemma days_in_month_le: "days_in_month y m \<le> 31"
  by (simp add: days_in_month_def)

lemma days_in_month_ge: "28 \<le> days_in_month y m"
  by (simp add: days_in_month_def)

lemma int_cases_10: "0 \<le> (i::int) \<Longrightarrow> i < 10 \<Longrightarrow> i = 0 \<or> i = 1 \<or> i = 2 \<or> i = 3 \<or> i = 4 \<or> i = 5 \<or> i = 6 \<or> i = 7 \<or> i = 8 \<or> i = 9"
  by presburger
lemma month_cases: "1 \<le> (m::int) \<Longrightarrow> m \<le> 12 \<Longrightarrow> m = 1 \<or> m = 2 \<or> m = 3 \<or> m = 4 \<or> m = 5 \<or> m = 6 \<or> m = 7 \<or> m = 8 \<or>
   m = 9 \<or> m = 10 \<or> m = 11 \<or> m = 12"
  by presburger

lemma days_before_month_bound:
  "valid_ymd y m d \<Longrightarrow> 0 \<le> days_before_month y m \<and>
     days_before_month y m + d \<le> 365 + (if is_leap y then 1 else 0)"
  using month_cases[of m]
  by (auto simp: valid_ymd_def days_before_month_def days_in_month_def upto.simps)

lemma decade_years:
  "0 \<le> yd \<Longrightarrow> yd < 10 \<Longrightarrow> days_before_year 2020 \<le> days_before_year (2020 + yd) \<and>
     days_before_year (2020 + yd) + 365 + (if is_leap (2020 + yd) then 1 else 0) \<le> days_before_year 2030"
  using int_cases_10[of yd] by (auto simp: days_before_year_def leaps_upto_def is_leap_def)

lemma mmydd_fields:
  fixes m yd d :: int
  assumes "0 \<le> yd" "yd < 10" "1 \<le> d" "d \<le> 31"
  shows "(1000 * m + 100 * yd + d) div 1000 = m" "(1000 * m + 100 * yd + d) div 100 mod 10 = yd"
    "(1000 * m + 100 * yd + d) mod 100 = d"
proof -
  have e1: "1000 * m + 100 * yd + d = (100 * yd + d) + m * 1000" by simp
  have e2: "1000 * m + 100 * yd + d = d + (10 * m + yd) * 100" by simp
  have e3: "10 * m + yd = yd + m * 10" by simp
  show "(1000 * m + 100 * yd + d) div 1000 = m" unfolding e1 using assms by simp
  have "(d + (10 * m + yd) * 100) div 100 = 10 * m + yd"
    using assms by (subst div_mult_self1) simp_all
  also have "10 * m + yd = yd + m * 10" by simp
  finally show "(1000 * m + 100 * yd + d) div 100 mod 10 = yd"
    unfolding e2 using assms by (simp only: mod_mult_self1) simp
  show "(1000 * m + 100 * yd + d) mod 100 = d" unfolding e2 using assms by (simp only: mod_mult_self1) simp
qed

lemma parse_usace_date_SomeD:
  "parse_usace_date v = Some t \<Longrightarrow>
   \<exists>yd m d. 0 \<le> yd \<and> yd \<le> 9 \<and> valid_ymd (2020 + yd) m d \<and> t = ts_days (2020 + yd) m d"
  by (auto simp: parse_usace_date_def Let_def pd_timestamp_def
      split: option.splits if_splits dest!: py_int_of_single)

lemma mmydd_split: "(x::int) = 1000 * (x div 1000) + 100 * (x div 100 mod 10) + x mod 100"
proof -
  have "x div 100 div 10 = x div 1000" by (simp add: zdiv_zmult2_eq[symmetric])
  moreover have "x div 100 = 10 * (x div 100 div 10) + x div 100 mod 10" by simp
  moreover have "x = 100 * (x div 100) + x mod 100" by simp
  ultimately show ?thesis by linarith
qed

section \<open>Properties of the parser\<close>

text \<open>
  C15. Round trip: a date of the 2020s written as the integer \<open>mmydd\<close> (month, last
  digit of the year, day) is parsed back to that very day.
\<close>

theorem parse_usace_date_roundtrip:
  assumes "valid_ymd (2020 + yd) m d" "0 \<le> yd" "yd < 10"
  shows "parse_usace_date (Some (1000 * m + 100 * yd + d)) = Some (ts_days (2020 + yd) m d)"
proof -
  have m: "1 \<le> m" "m \<le> 12" and d: "1 \<le> d" "d \<le> 31"
    using assms(1) days_in_month_le[of "2020 + yd" m] by (auto simp: valid_ymd_def)
  have b: "0 \<le> 1000 * m + 100 * yd + d" "1000 * m + 100 * yd + d < 100000"
    using assms m d by linarith+
  note f = mmydd_fields[OF assms(2,3) d]
  show ?thesis
    unfolding parse_usace_date_fields[OF b] f using assms(1) by (simp add: pd_timestamp_def)
qed

theorem parse_usace_date_roundtrip_witness:
  "valid_ymd (2020 + 3) 8 29 \<and> 0 \<le> (3::int) \<and> (3::int) < 10 \<and>
   parse_usace_date (Some (1000 * 8 + 100 * 3 + 29)) = Some (ts_days (2020 + 3) 8 29)"
  using parse_usace_date_roundtrip[of 3 8 29]
  by (simp add: valid_ymd_def days_in_month_def)

text \<open>
  C16. Inverse direction: every value in \<open>[0, 100000)\<close> that the parser accepts is the
  \<open>mmydd\<close> encoding of a valid calendar day of the 2020s, and the result is that day.
\<close>

theorem parse_usace_date_inverse:
  assumes "0 \<le> x" "x < 100000" "parse_usace_date (Some x) = Some t"
  shows "x = 1000 * (x div 1000) + 100 * (x div 100 mod 10) + x mod 100 \<and>
         valid_ymd (2020 + x div 100 mod 10) (x div 1000) (x mod 100) \<and>
         t = ts_days (2020 + x div 100 mod 10) (x div 1000) (x mod 100)"
  using assms(3) mmydd_split[of x] unfolding parse_usace_date_fields[OF assms(1,2)]
  by (simp add: pd_timestamp_def split: if_splits)
theorem parse_usace_date_inverse_witness:
  "0 \<le> (8329::int) \<and> (8329::int) < 100000 \<and> parse_usace_date (Some 8329) = Some 19598 \<and>
   valid_ymd 2023 8 29 \<and> 19598 = ts_days 2023 8 29"
  using parse_usace_date_inverse[of 8329 19598]
  by (simp add: usace_date_eval)

text \<open>
  Bounds: whatever the input, a parsed date lies in 2020-01-01 .. 2029-12-31; the
  single year digit pins every date to that decade.
\<close>

theorem parse_usace_date_decade:
  "parse_usace_date v = Some t \<Longrightarrow> ts_days 2020 1 1 \<le> t \<and> t < ts_days 2030 1 1"
proof -
  assume "parse_usace_date v = Some t"
  then obtain yd m d where yd: "0 \<le> yd" "yd \<le> 9" and v: "valid_ymd (2020 + yd) m d"
    and t: "t = ts_days (2020 + yd) m d"
    using parse_usace_date_SomeD by blast
  have "1 \<le> d" using v by (simp add: valid_ymd_def)
  moreover note days_before_month_bound[OF v] decade_years[of yd]
  moreover have "ts_days 2020 1 1 = days_before_year 2020" "ts_days 2030 1 1 = days_before_year 2030"
    by (simp_all add: ts_days_def days_before_month_def)
  ultimately show ?thesis using yd unfolding t ts_days_def by linarith
qed

theorem parse_usace_date_decade_witness:
  "parse_usace_date (Some 8329) = Some 19598 \<and> ts_days 2020 1 1 \<le> 19598 \<and> 19598 < ts_days 2030 1 1"
  using parse_usace_date_decade[of "Some 8329" 19598]
  by (simp add: usace_date_eval)

text \<open>
  Error path: a negative input never yields a date (the month field \<open>int('-d')\<close> is
  not positive and \<open>pd.Timestamp\<close> raises, which the bare \<open>except\<close> turns into \<open>None\<close>).
\<close>

theorem parse_usace_date_negative: "x < 0 \<Longrightarrow> parse_usace_date (Some x) = None"
proof -
  assume "x < 0"
  then obtain c where c: "is_ascii_digit c" "take 2 (py_zfill 5 (py_str_int x)) = [CHR ''-'', c]"
    using negative_date_str by blast
  then show ?thesis
    by (simp add: parse_usace_date_def Let_def py_int_of_neg_digit split: option.split)
qed

theorem parse_usace_date_negative_witness:
  "(-1234::int) < 0 \<and> parse_usace_date (Some (-1234)) = None"
  using parse_usace_date_negative[of "-1234"] by simp

text \<open>
  A six-digit value is not rejected: \<open>120031\<close> has month \<open>12\<close>, year digit \<open>0\<close> and
  day \<open>int('031') = 31\<close>, so it is read as 2020-12-31, the same day as \<open>12031\<close>.
\<close>

theorem parse_usace_date_six_digits:
  "parse_usace_date (Some 120031) = parse_usace_date (Some 12031) \<and>
   parse_usace_date (Some 12031) = Some (ts_days 2020 12 31)"
  by (simp add: usace_date_eval)

end
