(* ===== verification/ToleranceMatcher.thy ===== *)
theory ToleranceMatcher
  imports KeyNormalizer GenesisMatcher UsaceDate
begin

text \<open>
  The tolerance-window matcher \<open>match_usace_clearance_to_panjiva_exports_v1.0.0.py\<close>,
  which links USACE clearance records to Panjiva export port calls on
  (vessel name, port name, date) with a date offset of at most seven days.

  The script expands every Panjiva port call into fifteen copies shifted by
  \<open>-7 .. 7\<close> days (lines 111--126), left-merges the USACE rows with the copies on the three
  keys (lines 131--140), sorts the merged rows by offset and keeps \<open>groupby(index).first()\<close>
  (lines 142--144), and copies the columns of that frame into the USACE frame by index
  (lines 150--160). The model follows each of these steps: \<open>panjiva_expanded\<close>,
  \<open>merge_left\<close>, \<open>matched_best\<close> and \<open>tolerance_match\<close>.

  A pandas merge matches missing keys with each other, so the date key is compared with
  HOL equality on \<open>day option\<close> (\<open>None = None\<close>); the name keys are the strings of the
  normalizers, \<open>''''\<close> for a missing name.
\<close>

section \<open>Data\<close>

text \<open>A row of the USACE clearance file (the columns the script reads).\<close>

record usace_clr =
  uc_vessel :: "string option"
  uc_port_name :: "string option"
  uc_date :: "int option"

text \<open>A row of the Panjiva export port-call file, after \<open>pd.to_datetime\<close> of the date.\<close>

record pj_call =
  pj_voy :: "string option"
  pj_vessel :: "string option"
  pj_lading :: "string option"
  pj_ship :: "day option"
  pj_carrier :: "string option"
  pj_shipper :: "string option"
  pj_tons :: "rat option"

text \<open>A row of \<open>panjiva_expanded\<close>: the call with \<open>Match_Date\<close>, \<open>Days_Offset\<close> and \<open>Pass\<close>.\<close>

record pj_exp = pj_call +
  ex_match_date :: "day option"
  ex_offset :: nat
  ex_pass :: nat

text \<open>A row of the output file: the USACE row with the six columns of step 7.\<close>

record uc_out = usace_clr +
  out_voy :: "string option"
  out_carrier :: "string option"
  out_shipper :: "string option"
  out_tons :: "rat option"
  out_offset :: "nat option"
  out_pass :: "nat option"
  out_method :: "match_method option"

type_synonym merged_row = "usace_clr \<times> pj_exp option"

section \<open>Operations\<close>

text \<open>Lines 104--108 and 131: the three merge keys of each side.\<close>

definition usace_key :: "usace_clr \<Rightarrow> string \<times> string \<times> day option" where
  "usace_key u = (normalize_vessel_name (uc_vessel u), normalize_port_name (uc_port_name u),
                  parse_usace_date (uc_date u))"

definition exp_key :: "pj_exp \<Rightarrow> string \<times> string \<times> day option" where
  "exp_key e = (normalize_vessel_name (pj_vessel e), normalize_port_name (pj_lading e),
                ex_match_date e)"

text \<open>Lines 118--123.\<close>

definition pass_of :: "int \<Rightarrow> nat" where
  "pass_of offset = (if \<bar>offset\<bar> \<le> 2 then 1 else if \<bar>offset\<bar> \<le> 4 then 2 else 3)"

text \<open>Lines 114--124: one shifted copy of the port calls (\<open>NaT + Timedelta\<close> is \<open>NaT\<close>).\<close>

definition expand_offset :: "pj_call list \<Rightarrow> int \<Rightarrow> pj_exp list" where
  "expand_offset panjiva offset =
     map (\<lambda>p. \<lparr>pj_voy = pj_voy p, pj_vessel = pj_vessel p, pj_lading = pj_lading p,
                pj_ship = pj_ship p, pj_carrier = pj_carrier p, pj_shipper = pj_shipper p,
                pj_tons = pj_tons p, ex_match_date = map_option (\<lambda>d. d + offset) (pj_ship p),
                ex_offset = nat \<bar>offset\<bar>, ex_pass = pass_of offset\<rparr>)
       panjiva"

text \<open>Lines 112--126: \<open>pd.concat\<close> of the copies for \<open>range(-7, 8)\<close>.\<close>

definition panjiva_expanded :: "pj_call list \<Rightarrow> pj_exp list" where
  "panjiva_expanded panjiva = concat (map (expand_offset panjiva) [-7..7])"

text \<open>
  Lines 134--140: \<open>usace.merge(..., how='left')\<close>. Each left row, in order, is followed by
  its matching right rows in right order, or appears once with missing right columns.
\<close>

definition merge_left :: "usace_clr list \<Rightarrow> pj_exp list \<Rightarrow> merged_row list" where
  "merge_left usace expanded =
     concat (map (\<lambda>u. case filter (\<lambda>e. exp_key e = usace_key u) expanded of
                        [] \<Rightarrow> [(u, None)]
                      | es \<Rightarrow> map (\<lambda>e. (u, Some e)) es) usace)"

text \<open>The \<open>Days_Offset\<close> cell of a merged row (\<open>NaN\<close> when nothing matched).\<close>

definition row_offset :: "merged_row \<Rightarrow> nat option" where
  "row_offset r = map_option ex_offset (snd r)"

text \<open>
  Lines 143--144: \<open>matched.sort_values('Days_Offset')\<close> permutes the rows together with
  their index labels \<open>0 .. N-1\<close>; \<open>groupby(matched.index).first()\<close> forms one group per
  label, in label order, and keeps its (only) row.
\<close>

definition matched_best :: "merged_row list \<Rightarrow> merged_row list" where
  "matched_best matched =
     map snd (sort_key fst (sort_key (\<lambda>(i, r). nan_last (row_offset r)) (enumerate 0 matched)))"

text \<open>Lines 152--160: the columns of \<open>matched_best\<close> copied into row \<open>i\<close> of \<open>usace\<close> by index.\<close>

definition assign_row :: "usace_clr \<Rightarrow> merged_row \<Rightarrow> uc_out" where
  "assign_row u r =
     (let e = snd r; voy = Option.bind e pj_voy in
      \<lparr>uc_vessel = uc_vessel u, uc_port_name = uc_port_name u, uc_date = uc_date u,
       out_voy = voy, out_carrier = Option.bind e pj_carrier, out_shipper = Option.bind e pj_shipper,
       out_tons = Option.bind e pj_tons, out_offset = map_option ex_offset e,
       out_pass = map_option ex_pass e, out_method = (if voy = None then None else Some Vessel_Name)\<rparr>)"

definition tolerance_match :: "usace_clr list \<Rightarrow> pj_call list \<Rightarrow> uc_out list" where
  "tolerance_match usace panjiva =
     (let best = matched_best (merge_left usace (panjiva_expanded panjiva)) in
      map (\<lambda>i. assign_row (usace ! i) (best ! i)) [0..<length usace])"

text \<open>
  The Panjiva copies whose keys equal the keys of a USACE row, in the order of the
  expanded frame: the right rows the merge pairs with that row (line 137).
\<close>

definition candidates :: "pj_exp list \<Rightarrow> usace_clr \<Rightarrow> pj_exp list" where
  "candidates expanded u = filter (\<lambda>e. exp_key e = usace_key u) expanded"

definition rows_of :: "pj_exp list \<Rightarrow> usace_clr \<Rightarrow> merged_row list" where
  "rows_of expanded u =
     (case candidates expanded u of [] \<Rightarrow> [(u, None)] | es \<Rightarrow> map (\<lambda>e. (u, Some e)) es)"

section \<open>Reference: the candidate the specification selects\<close>

text \<open>
  Section 4.3 of the specification selects, for each record, the candidate with the
  smallest absolute day offset (earlier candidates first among equal offsets).
\<close>

definition best_candidate :: "pj_exp list \<Rightarrow> usace_clr \<Rightarrow> pj_exp option" where
  "best_candidate expanded u =
     (case sort_key ex_offset (candidates expanded u) of [] \<Rightarrow> None | e # _ \<Rightarrow> Some e)"

section \<open>Scenarios\<close>

definition tm_usace :: "string \<Rightarrow> int \<Rightarrow> usace_clr" where
  "tm_usace v d = \<lparr>uc_vessel = Some v, uc_port_name = Some ''HOUSTON'', uc_date = Some d\<rparr>"

definition tm_call :: "string \<Rightarrow> string \<Rightarrow> day \<Rightarrow> pj_call" where
  "tm_call voy v d = \<lparr>pj_voy = Some voy, pj_vessel = Some v, pj_lading = Some ''HOUSTON'',
     pj_ship = Some d, pj_carrier = None, pj_shipper = None, pj_tons = None\<rparr>"

text \<open>Scenario 2 of the specification: A1 on day 5, B1 on day 6, B2 on day 8 (January 2023).\<close>

definition tm_scen2_usace :: "usace_clr list" where
  "tm_scen2_usace = [tm_usace ''mv alpha'' 1305]"

definition tm_scen2_panjiva :: "pj_call list" where
  "tm_scen2_panjiva = [tm_call ''B1'' ''mv alpha'' (ts_days 2023 1 6), tm_call ''B2'' ''mv alpha'' (ts_days 2023 1 8)]"

text \<open>Two clearances of different vessels; two export calls of the first vessel.\<close>

definition tm_shift_usace :: "usace_clr list" where
  "tm_shift_usace = [tm_usace ''mv alpha'' 1310, tm_usace ''mv beta'' 2310]"

definition tm_shift_panjiva :: "pj_call list" where
  "tm_shift_panjiva = [tm_call ''P1'' ''mv alpha'' (ts_days 2023 1 9), tm_call ''P2'' ''mv alpha'' (ts_days 2023 1 12)]"

text \<open>Two clearances of one vessel on consecutive days; one export call.\<close>

definition tm_twice_usace :: "usace_clr list" where
  "tm_twice_usace = [tm_usace ''mv alpha'' 1310, tm_usace ''mv alpha'' 1311]"

definition tm_twice_panjiva :: "pj_call list" where
  "tm_twice_panjiva = [tm_call ''P1'' ''mv alpha'' (ts_days 2023 1 10)]"

section \<open>Lemmas\<close>

lemma sort_fst_enumerate:
  "mset ys = mset (enumerate 0 xs) \<Longrightarrow> sort_key fst ys = enumerate 0 xs"
proof (rule sort_key_inj_key_eq)
  assume m: "mset ys = mset (enumerate 0 xs)"
  then have "set ys = set (enumerate 0 xs)" by (metis set_mset_mset)
  moreover have "inj_on fst (set (enumerate 0 xs))"
    by (rule inj_onI) (auto simp: in_set_enumerate_eq)
  ultimately show "inj_on fst (set ys)" by simp
  show "sorted (map fst (enumerate 0 xs))" by (simp add: map_fst_enumerate)
qed

lemma matched_best_identity: "matched_best m = m"
  unfolding matched_best_def
  by (subst sort_fst_enumerate) (simp_all add: map_snd_enumerate)

lemma merge_left_rows: "merge_left us ex = concat (map (rows_of ex) us)"
  unfolding merge_left_def rows_of_def [abs_def] candidates_def by (rule refl)

lemma rows_of_ne: "rows_of ex u \<noteq> []"
  by (simp add: rows_of_def split: list.split)

lemma length_rows_of: "length (rows_of ex u) = max 1 (length (candidates ex u))"
  by (simp add: rows_of_def split: list.split)

lemma length_merge_left: "length us \<le> length (merge_left us ex)"
proof (induction us)
  case (Cons u us)
  have "1 \<le> length (rows_of ex u)" using rows_of_ne[of ex u] by (simp add: Suc_le_eq)
  with Cons show ?case by (simp add: merge_left_rows)
qed (simp add: merge_left_rows)

lemma rows_of_single:
  "length (candidates ex u) \<le> 1 \<Longrightarrow> rows_of ex u = [(u, best_candidate ex u)]"
  by (cases "candidates ex u" rule: list.exhaust)
     (auto simp: rows_of_def best_candidate_def length_Suc_conv)

lemma concat_rows_single:
  "\<forall>u \<in> set xs. length (candidates ex u) \<le> 1 \<Longrightarrow>
   concat (map (rows_of ex) xs) = map (\<lambda>u. (u, best_candidate ex u)) xs"
  by (induction xs) (simp_all add: rows_of_single)

text \<open>Row \<open>i\<close> of the output reads row \<open>i\<close> of the merged frame.\<close>

lemma tolerance_match_nth:
  "i < length us \<Longrightarrow>
   tolerance_match us pj ! i = assign_row (us ! i) (merge_left us (panjiva_expanded pj) ! i)"
  by (simp add: tolerance_match_def Let_def matched_best_identity)

text \<open>The merged rows of a prefix of single-candidate USACE rows: one row each.\<close>

lemma length_rows_prefix:
  assumes "\<forall>j<k. length (candidates ex (us ! j)) \<le> 1" and "k \<le> length us"
  shows "length (concat (map (rows_of ex) (take k us))) = k"
proof -
  have "\<forall>u \<in> set (take k us). length (candidates ex u) \<le> 1"
    using assms(1) by (auto simp: in_set_conv_nth)
  then show ?thesis
    using assms(2) by (simp add: concat_rows_single)
qed

text \<open>Evaluation of the scenarios: the keys of the literals first, then the pipeline.\<close>

lemma tm_names:
  "normalize_vessel_name (Some ''mv alpha'') = ''mv alpha''"
  "normalize_vessel_name (Some ''mv beta'') = ''mv beta''"
  "normalize_port_name (Some ''HOUSTON'') = ''HOUSTON''"
  by (simp_all add: normalize_vessel_name_def keep_vessel_char_def normalize_port_name_def py_simps)

lemma tm_dates:
  "parse_usace_date (Some 1305) = Some 19362" "parse_usace_date (Some 1310) = Some 19367"
  "parse_usace_date (Some 1311) = Some 19368" "parse_usace_date (Some 2310) = Some 19398"
  "ts_days 2023 1 d = 19357 + d"
  by (simp_all add: usace_date_eval)

lemmas tm_scen_eval = tm_names tm_dates tolerance_match_def matched_best_identity
  panjiva_expanded_def expand_offset_def pass_of_def merge_left_def usace_key_def assign_row_def
  tm_usace_def tm_call_def upto.simps Let_def exp_key_def

section \<open>Properties\<close>

text \<open>
  C17. Refinement: the sort by offset and \<open>groupby(matched.index).first()\<close> have no effect,
  and row \<open>i\<close> of the output is USACE row \<open>i\<close> with the Panjiva columns of row \<open>i\<close> of the
  merged frame, whichever USACE row that merged row belongs to.
\<close>

theorem tolerance_match_refines:
  "tolerance_match us pj = map2 assign_row us (merge_left us (panjiva_expanded pj))"
proof (rule nth_equalityI)
  show "length (tolerance_match us pj) = length (map2 assign_row us (merge_left us (panjiva_expanded pj)))"
    using length_merge_left[of us] by (simp add: tolerance_match_def Let_def min_def)
  fix i assume "i < length (tolerance_match us pj)"
  then show "tolerance_match us pj ! i = map2 assign_row us (merge_left us (panjiva_expanded pj)) ! i"
    using length_merge_left[of us "panjiva_expanded pj"]
    by (simp add: tolerance_match_def Let_def matched_best_identity)
qed

text \<open>
  C18. When no USACE row has more than one candidate, the output is the specification's:
  each row carries its own best candidate (no claim is taken, so two rows may carry the
  same port call, as the witness shows).
\<close>

theorem tolerance_match_single_candidate:
  assumes "\<forall>u \<in> set us. length (candidates (panjiva_expanded pj) u) \<le> 1"
  shows "tolerance_match us pj = map (\<lambda>u. assign_row u (u, best_candidate (panjiva_expanded pj) u)) us"
proof -
  have "merge_left us (panjiva_expanded pj) = map (\<lambda>u. (u, best_candidate (panjiva_expanded pj) u)) us"
    using assms by (induction us) (simp_all add: merge_left_rows rows_of_single)
  then show ?thesis
    by (auto simp: tolerance_match_def Let_def matched_best_identity intro: nth_equalityI)
qed

theorem tolerance_match_single_candidate_witness:
  "list_all (\<lambda>u. length (candidates (panjiva_expanded tm_twice_panjiva) u) \<le> 1) tm_twice_usace \<and>
   map (\<lambda>r. (out_voy r, out_offset r)) (tolerance_match tm_twice_usace tm_twice_panjiva) =
     [(Some ''P1'', Some 0), (Some ''P1'', Some 1)]"
proof -
  have h: "\<forall>u \<in> set tm_twice_usace. length (candidates (panjiva_expanded tm_twice_panjiva) u) \<le> 1"
    by (simp add: tm_scen_eval candidates_def tm_twice_usace_def tm_twice_panjiva_def)
  show ?thesis
    using h tolerance_match_single_candidate[OF h]
    by (simp add: tm_scen_eval candidates_def best_candidate_def tm_twice_usace_def tm_twice_panjiva_def)
qed

text \<open>
  Scenario 2 of the specification: A1 on day 5 has candidates B1 (offset 1) and B2
  (offset 3). The specification claims B1 at pass 1; the script assigns B2 at pass 2,
  because the merge lists the offset \<open>-3\<close> copy before the \<open>+1\<close> copy and the sort is
  discarded by the \<open>groupby\<close> on the index.
\<close>

lemma tolerance_spec_scenario_2:
  "map (\<lambda>r. (out_voy r, out_offset r, out_pass r)) (tolerance_match tm_scen2_usace tm_scen2_panjiva) =
   [(Some ''B2'', Some 3, Some 2)]"
  by (simp add: tm_scen_eval tm_scen2_usace_def tm_scen2_panjiva_def)

text \<open>
  C19. Misalignment: when the USACE rows before row \<open>k\<close> have at most one candidate
  each and row \<open>k\<close> has two or more, row \<open>k\<close> receives its first candidate in the order
  of the expanded frame, and the next USACE row receives row \<open>k\<close>'s second candidate
  instead of its own match.
\<close>

theorem tolerance_match_shift:
  assumes "\<forall>j<k. length (candidates (panjiva_expanded pj) (us ! j)) \<le> 1"
    and "Suc k < length us" and "2 \<le> length (candidates (panjiva_expanded pj) (us ! k))"
  shows "tolerance_match us pj ! k =
           assign_row (us ! k) (us ! k, Some (candidates (panjiva_expanded pj) (us ! k) ! 0)) \<and>
         tolerance_match us pj ! Suc k =
           assign_row (us ! Suc k) (us ! k, Some (candidates (panjiva_expanded pj) (us ! k) ! 1))"
proof -
  let ?X = "panjiva_expanded pj"
  let ?P = "concat (map (rows_of ?X) (take k us))"
  have "us = take k us @ us ! k # drop (Suc k) us"
    using assms(2) by (simp add: id_take_nth_drop)
  then have "merge_left us ?X = merge_left (take k us @ us ! k # drop (Suc k) us) ?X"
    by (rule arg_cong)
  then have m: "merge_left us ?X = ?P @ rows_of ?X (us ! k) @ concat (map (rows_of ?X) (drop (Suc k) us))"
    by (simp add: merge_left_rows)
  have lenP: "length ?P = k"
    using assms(1,2) by (intro length_rows_prefix) auto
  obtain c1 c2 cs where c: "candidates ?X (us ! k) = c1 # c2 # cs"
    using assms(3) by (metis Suc_le_length_iff numeral_2_eq_2)
  then have "rows_of ?X (us ! k) = (us ! k, Some c1) # (us ! k, Some c2) # map (\<lambda>e. (us ! k, Some e)) cs"
    by (simp add: rows_of_def)
  then have "merge_left us ?X ! k = (us ! k, Some c1)" "merge_left us ?X ! Suc k = (us ! k, Some c2)"
    by (simp_all add: m nth_append lenP)
  then show ?thesis
    using assms(2) c by (simp add: tolerance_match_nth)
qed

theorem tolerance_match_shift_witness:
  "Suc 0 < length tm_shift_usace \<and>
   2 \<le> length (candidates (panjiva_expanded tm_shift_panjiva) (tm_shift_usace ! 0)) \<and>
   tolerance_match tm_shift_usace tm_shift_panjiva ! Suc 0 =
     assign_row (tm_shift_usace ! Suc 0)
       (tm_shift_usace ! 0, Some (candidates (panjiva_expanded tm_shift_panjiva) (tm_shift_usace ! 0) ! 1))"
proof -
  have h1: "Suc 0 < length tm_shift_usace" by (simp add: tm_shift_usace_def)
  have h2: "2 \<le> length (candidates (panjiva_expanded tm_shift_panjiva) (tm_shift_usace ! 0))"
    by (simp add: tm_scen_eval candidates_def tm_shift_usace_def tm_shift_panjiva_def)
  show ?thesis
    using h1 h2 tolerance_match_shift [of 0 tm_shift_panjiva tm_shift_usace, OF _ h1 h2] by simp
qed

text \<open>On the witness's input the second clearance (another vessel, with no candidate of
  its own) carries the first vessel's export call \<open>P1\<close>.\<close>

lemma tolerance_match_misaligned:
  "map (\<lambda>r. (out_voy r, out_offset r)) (tolerance_match tm_shift_usace tm_shift_panjiva) =
     [(Some ''P2'', Some 2), (Some ''P1'', Some 1)] \<and>
   normalize_vessel_name (uc_vessel (tm_shift_usace ! 1)) \<noteq>
     normalize_vessel_name (pj_vessel (tm_shift_panjiva ! 0))"
  by (simp add: tm_scen_eval tm_shift_usace_def tm_shift_panjiva_def)

end
