(* ===== verification/VoyRecid.thy ===== *)
theory VoyRecid
  imports PyText "HOL-Library.Char_ord" "HOL-Library.List_Lexorder"
begin

text \<open>
  The export port-call grouping \<open>create_export_portcall_voy_recid_v1.0.0.py\<close>: every
  Panjiva export cargo record gets the identifier \<open>VOY_RECID\<close> of its port call, the
  group of records with the same vessel, port of lading, shipment date and carrier
  (lines 52--85), and the records of a group are aggregated into one port-call row
  (lines 89--123).

  \<^item> \<open>groupkey\<close>: the text key \<open>Vessel|Port of Lading|Shipment Date|Carrier\<close> built
    with \<open>astype(str)\<close> (a missing cell prints as \<open>nan\<close>), lines 70--76;
  \<^item> \<open>assign_voy_recid\<close>: \<open>unique()\<close> of the keys in order of first appearance, the
    dictionary \<open>group_to_recid\<close> to \<open>VOY_EXP_\<close> and the seven-digit number \<open>i + 1\<close>, and
    the \<open>.map\<close> of every record's key, lines 78--85;
  \<^item> \<open>portcall_table\<close>: \<open>groupby('VOY_RECID')\<close> (groups in sorted key order) with
    \<open>'first'\<close> for the descriptive columns, \<open>'sum'\<close> for the tons and \<open>concat_unique\<close>
    for Group and Commodity, lines 92--123.
  The input file is taken to have the Group and Commodity columns (lines 99--115) and
  tons are rationals (the float rounding of the sum is not modelled).
\<close>

section \<open>Data\<close>

text \<open>A record of the preprocessed export file (the columns the script reads).\<close>

record exp_cargo =
  ec_vessel :: "string option"
  ec_lading :: "string option"
  ec_date :: "string option"
  ec_carrier :: "string option"
  ec_shipper :: "string option"
  ec_tons :: "rat option"
  ec_group :: "string option"
  ec_commodity :: "string option"

text \<open>A row of the port-call file (lines 117--123).\<close>

record portcall_agg =
  pa_voy :: string
  pa_vessel :: "string option"
  pa_lading :: "string option"
  pa_date :: "string option"
  pa_carrier :: "string option"
  pa_shipper :: "string option"
  pa_total_tons :: rat
  pa_group_concat :: string
  pa_commodity_concat :: string

section \<open>Operations\<close>

text \<open>Lines 71--76.\<close>

definition groupkey :: "exp_cargo \<Rightarrow> string" where
  "groupkey r =
     py_str_cell (ec_vessel r) @ ''|'' @ py_str_cell (ec_lading r) @ ''|'' @
     py_str_cell (ec_date r) @ ''|'' @ py_str_cell (ec_carrier r)"

text \<open>Line 84: \<open>f"VOY_EXP_{i+1:07d}"\<close>.\<close>

definition voy_recid_str :: "nat \<Rightarrow> string" where
  "voy_recid_str i = ''VOY_EXP_'' @ py_zfill 7 (py_str_int (int i + 1))"

text \<open>Line 84: the dictionary over \<open>enumerate(unique_groups)\<close>.\<close>

definition group_to_recid :: "string list \<Rightarrow> string \<Rightarrow> string option" where
  "group_to_recid unique_groups = map_of (zip unique_groups (map voy_recid_str [0..<length unique_groups]))"

text \<open>Lines 79--85.\<close>

definition assign_voy_recid :: "exp_cargo list \<Rightarrow> string option list" where
  "assign_voy_recid df =
     (let unique_groups = pd_unique (map groupkey df) in
      map (\<lambda>r. group_to_recid unique_groups (groupkey r)) df)"

text \<open>Lines 92--96.\<close>

definition concat_unique :: "string option list \<Rightarrow> string" where
  "concat_unique series =
     (let values = [py_strip v. v \<leftarrow> pd_unique [v. Some v \<leftarrow> series], py_strip v \<noteq> [] \<and> v \<noteq> ''nan'']
      in if values \<noteq> [] then py_join '', '' (sort (remdups values)) else [])"

text \<open>Lines 102--117: the aggregation of one group.\<close>

definition agg_group :: "string \<Rightarrow> exp_cargo list \<Rightarrow> portcall_agg" where
  "agg_group v rs =
     \<lparr>pa_voy = v, pa_vessel = pd_first (map ec_vessel rs), pa_lading = pd_first (map ec_lading rs),
      pa_date = pd_first (map ec_date rs), pa_carrier = pd_first (map ec_carrier rs),
      pa_shipper = pd_first (map ec_shipper rs), pa_total_tons = pd_sum (map ec_tons rs),
      pa_group_concat = concat_unique (map ec_group rs),
      pa_commodity_concat = concat_unique (map ec_commodity rs)\<rparr>"

text \<open>Lines 85 and 117: \<open>df.groupby('VOY_RECID').agg(agg_dict).reset_index()\<close>.\<close>

definition portcall_table :: "exp_cargo list \<Rightarrow> portcall_agg list" where
  "portcall_table df =
     (let ids = assign_voy_recid df; keyed = zip ids df in
      map (\<lambda>v. agg_group v (map snd (filter (\<lambda>p. fst p = Some v) keyed)))
        (sort (remdups [v. Some v \<leftarrow> ids])))"

section \<open>Scenario\<close>

definition vr_rec :: "string \<Rightarrow> string option \<Rightarrow> rat \<Rightarrow> exp_cargo" where
  "vr_rec vessel port t =
     \<lparr>ec_vessel = Some vessel, ec_lading = port, ec_date = Some ''2023-05-01'', ec_carrier = Some ''ACME'',
      ec_shipper = None, ec_tons = Some t, ec_group = None, ec_commodity = None\<rparr>"

text \<open>Two different port calls whose key texts coincide.\<close>

definition vr_collide :: "exp_cargo list" where
  "vr_collide = [vr_rec ''A|B'' (Some ''C'') 10, vr_rec ''A'' (Some ''B|C'') 20,
                 vr_rec ''D'' None 5, vr_rec ''D'' (Some ''nan'') 7]"

section \<open>Lemmas\<close>

lemma py_str_int_Suc: "py_str_int (int n + 1) = nat_digits (Suc n)"
proof -
  have "nat (int n + 1) = Suc n" by arith
  then show ?thesis by (simp add: py_str_int_def)
qed

lemma in_set_somes: "Some v \<in> set xs \<Longrightarrow> v \<in> set [v. Some v \<leftarrow> xs]"
  by (induction xs) auto

lemma voy_recid_str_inj: "voy_recid_str a = voy_recid_str b \<Longrightarrow> a = b"
  by (simp add: voy_recid_str_def py_str_int_Suc) (drule zfill_nat_digits_inj, simp)

lemma map_of_zip_inj:
  assumes "distinct xs" "distinct ys" "length xs = length ys" "a \<in> set xs" "b \<in> set xs"
    and "map_of (zip xs ys) a = map_of (zip xs ys) b"
  shows "a = b"
proof -
  obtain i j where i: "i < length xs" "a = xs ! i" and j: "j < length xs" "b = xs ! j"
    using assms(4,5) by (auto simp: in_set_conv_nth)
  then have "ys ! i = ys ! j" using assms by (simp add: map_of_zip_nth)
  then have "i = j" using assms(2,3) i j by (simp add: nth_eq_iff_index_eq)
  then show ?thesis using i j by simp
qed

lemma group_to_recid_Some: "k \<in> set ug \<Longrightarrow> group_to_recid ug k \<noteq> None"
  by (simp add: group_to_recid_def)

lemma group_to_recid_inj:
  "distinct ug \<Longrightarrow> a \<in> set ug \<Longrightarrow> b \<in> set ug \<Longrightarrow> group_to_recid ug a = group_to_recid ug b \<Longrightarrow> a = b"
  unfolding group_to_recid_def
  by (erule map_of_zip_inj) (auto simp: distinct_map inj_on_def voy_recid_str_inj)

lemma assign_voy_recid_nth:
  "i < length df \<Longrightarrow> assign_voy_recid df ! i = group_to_recid (pd_unique (map groupkey df)) (groupkey (df ! i))"
  by (simp add: assign_voy_recid_def Let_def)

lemma pd_sum_conv: "pd_sum xs = sum_list (map (\<lambda>x. case x of None \<Rightarrow> 0 | Some t \<Rightarrow> t) xs)"
  by (induction xs) (auto simp: pd_sum_def split: option.split)

lemma assign_voy_recid_total: "x \<in> set (assign_voy_recid df) \<Longrightarrow> x \<noteq> None"
  unfolding assign_voy_recid_def Let_def using group_to_recid_Some by fastforce

lemma replicate_6_zero: "replicate 6 CHR ''0'' = ''000000''"
  by (simp add: numeral_eq_Suc)

lemmas vr_eval = assign_voy_recid_def portcall_table_def agg_group_def pd_sum_def pd_unique_def
  group_to_recid_def voy_recid_str_def groupkey_def py_str_cell_def vr_collide_def vr_rec_def
  py_zfill_def py_str_int_def nat_digits.simps digit_char_def py_simps replicate_6_zero
  less_eq_char_def less_char_def

section \<open>Properties\<close>

text \<open>
  C20. Equivalence: two records get the same \<open>VOY_RECID\<close> exactly when their key texts
  are equal, and every record gets one (the identifiers of distinct keys differ, since
  the seven-digit number reads back to \<open>i + 1\<close>).
\<close>

theorem voy_recid_same_group:
  assumes "i < length df" "j < length df"
  shows "(assign_voy_recid df ! i = assign_voy_recid df ! j \<longleftrightarrow> groupkey (df ! i) = groupkey (df ! j)) \<and>
         assign_voy_recid df ! i \<noteq> None"
proof -
  have in_i: "groupkey (df ! i) \<in> set (pd_unique (map groupkey df))" and
       in_j: "groupkey (df ! j) \<in> set (pd_unique (map groupkey df))"
    using assms by simp_all
  show ?thesis
    using assms group_to_recid_inj[OF distinct_pd_unique in_i in_j] group_to_recid_Some[OF in_i]
    by (auto simp: assign_voy_recid_nth)
qed

theorem voy_recid_same_group_witness:
  "0 < length vr_collide \<and> 1 < length vr_collide \<and>
   (assign_voy_recid vr_collide ! 0 = assign_voy_recid vr_collide ! 1 \<longleftrightarrow>
      groupkey (vr_collide ! 0) = groupkey (vr_collide ! 1)) \<and>
   assign_voy_recid vr_collide ! 0 \<noteq> None"
  using voy_recid_same_group[of 0 vr_collide 1] by (simp add: vr_collide_def)

text \<open>
  C21. Conservation: the Total_Tons of the port-call rows add up to the tons of the
  cargo records (missing tons count as zero on both sides).
\<close>

theorem voy_tons_conserved:
  "sum_list (map pa_total_tons (portcall_table df)) = pd_sum (map ec_tons df)"
proof -
  define ids where "ids = assign_voy_recid df"
  define keys where "keys = sort (remdups [v. Some v \<leftarrow> ids])"
  define f where "f = (\<lambda>p :: string option \<times> exp_cargo. case ec_tons (snd p) of None \<Rightarrow> 0 | Some t \<Rightarrow> t)"
  have len: "length ids = length df" by (simp add: ids_def assign_voy_recid_def)
  have cover: "set (map fst (zip ids df)) \<subseteq> set (map Some keys)"
  proof
    fix x assume "x \<in> set (map fst (zip ids df))"
    then have "x \<in> set ids" using len by simp
    moreover then have "x \<noteq> None" using assign_voy_recid_total ids_def by blast
    ultimately obtain v where "x = Some v" "Some v \<in> set ids" by auto
    then show "x \<in> set (map Some keys)" by (simp add: keys_def in_set_somes)
  qed
  have "sum_list (map pa_total_tons (portcall_table df)) =
        sum_list (map (\<lambda>k. sum_list (map f (filter (\<lambda>p. fst p = k) (zip ids df)))) (map Some keys))"
    by (simp add: portcall_table_def Let_def agg_group_def pd_sum_conv ids_def keys_def f_def o_def)
  also have "\<dots> = sum_list (map f (zip ids df))"
    by (rule sum_list_groups[OF _ cover]) (simp add: keys_def distinct_map)
  also have "map f (zip ids df) = map (\<lambda>x. case ec_tons x of None \<Rightarrow> 0 | Some t \<Rightarrow> t) df"
    unfolding f_def
    using map_map[of "\<lambda>x. case ec_tons x of None \<Rightarrow> 0 | Some t \<Rightarrow> t" snd "zip ids df"] map_snd_zip[OF len]
    by (simp add: o_def)
  also have "sum_list \<dots> = pd_sum (map ec_tons df)"
    by (simp add: pd_sum_conv o_def)
  finally show ?thesis .
qed

text \<open>
  The key text does not separate its fields: a vessel \<open>A|B\<close> at port \<open>C\<close> and a
  vessel \<open>A\<close> at port \<open>B|C\<close> share one port call, and so do a missing port and the
  literal port name \<open>nan\<close>; their tons are summed into one row.
\<close>

theorem voy_groupkey_collision:
  "assign_voy_recid vr_collide =
     [Some ''VOY_EXP_0000001'', Some ''VOY_EXP_0000001'', Some ''VOY_EXP_0000002'', Some ''VOY_EXP_0000002''] \<and>
   map pa_total_tons (portcall_table vr_collide) = [30, 12] \<and>
   ec_vessel (vr_collide ! 0) \<noteq> ec_vessel (vr_collide ! 1) \<and> ec_lading (vr_collide ! 2) \<noteq> ec_lading (vr_collide ! 3)"
  by (simp add: vr_eval)

end
