(* ===== verification/Classification.thy ===== *)
theory Classification
  imports PyText
begin

text \<open>
  The cargo classification rule engine \<open>classify_15k_sample_v3.6.0.py\<close>. Every import
  record is passed through the active dictionary rules phase by phase (ascending phase
  number); within a phase the first rule that matches the record (\<open>check_match\<close>) and
  may be applied to it (\<open>can_apply_rule\<close>) writes its taxonomy and lock flags into the
  record (\<open>apply_rule\<close>); a record whose Cargo_Detail level is locked is skipped.

  Records and rules are rows of frames read with \<open>dtype=str\<close>: every cell is a string or
  missing (\<open>None\<close>); \<open>str()\<close> of a missing cell is \<open>nan\<close> (\<open>py_str_cell\<close>), and the test
  \<open>x and pd.notna(x) and x.strip()\<close> is \<open>cell_set\<close>. The dictionary is taken to have
  all the columns the script reads, and the import file the Group, Commodity, Cargo
  and Cargo Detail columns. \<open>float()\<close> is \<open>py_float\<close> of \<open>PyText\<close>; where it returns
  \<open>None\<close> Python raises and the tonnage filter is skipped.
\<close>

section \<open>Data\<close>

text \<open>The columns of an import record the engine reads or writes.\<close>

record cls_rec =
  cr_vessel :: "string option"
  cr_carrier :: "string option"
  cr_vtype :: "string option"
  cr_hs2 :: "string option"
  cr_hs4 :: "string option"
  cr_hs6 :: "string option"
  cr_goods :: "string option"
  cr_tons :: "string option"
  cr_group :: "string option"
  cr_commodity :: "string option"
  cr_cargo :: "string option"
  cr_cargo_detail :: "string option"
  cr_group_locked :: "string option"
  cr_commodity_locked :: "string option"
  cr_cargo_locked :: "string option"
  cr_detail_locked :: "string option"
  cr_classified_phase :: "string option"
  cr_last_rule :: "string option"

text \<open>A row of the classification dictionary.\<close>

record cls_rule =
  ru_phase :: "string option"
  ru_id :: "string option"
  ru_active :: "string option"
  ru_carrier_scac :: "string option"
  ru_vessel_type :: "string option"
  ru_hs2 :: "string option"
  ru_hs4 :: "string option"
  ru_hs6 :: "string option"
  ru_key_phrases :: "string option"
  ru_primary_kw :: "string option"
  ru_descriptor_kw :: "string option"
  ru_match_strategy :: "string option"
  ru_keywords :: "string option"
  ru_exclude_kw :: "string option"
  ru_min_tons :: "string option"
  ru_max_tons :: "string option"
  ru_exclude_groups :: "string option"
  ru_group :: "string option"
  ru_commodity :: "string option"
  ru_cargo :: "string option"
  ru_cargo_detail :: "string option"
  ru_lock_group :: "string option"
  ru_lock_commodity :: "string option"
  ru_lock_cargo :: "string option"
  ru_lock_detail :: "string option"

section \<open>Cell tests and conversions\<close>

text \<open>\<open>x and pd.notna(x) and x.strip()\<close>.\<close>

definition cell_set :: "string option \<Rightarrow> bool" where
  "cell_set c = (case c of None \<Rightarrow> False | Some s \<Rightarrow> py_strip s \<noteq> [])"

text \<open>\<open>x == 'TRUE'\<close> on a cell.\<close>

definition cell_true :: "string option \<Rightarrow> bool" where
  "cell_true c \<longleftrightarrow> c = Some ''TRUE''"

text \<open>\<open>s != 'nan' and s\<close> on a stripped \<open>str()\<close> of a cell.\<close>

definition kw_present :: "string \<Rightarrow> bool" where
  "kw_present s \<longleftrightarrow> s \<noteq> ''nan'' \<and> s \<noteq> []"

text \<open>\<open>[k.strip().upper() for k in s.split(sep)]\<close>.\<close>

definition kw_list :: "char \<Rightarrow> string \<Rightarrow> string list" where
  "kw_list sep s = map (\<lambda>k. py_upper (py_strip k)) (py_split sep s)"

text \<open>\<open>any(k in text for k in ks if k)\<close>.\<close>

definition any_in :: "string list \<Rightarrow> string \<Rightarrow> bool" where
  "any_in ks text = list_ex (\<lambda>k. k \<noteq> [] \<and> py_in k text) ks"

section \<open>Vessel types\<close>

text \<open>Lines 32--55.\<close>

definition map_vessel_type :: "string option \<Rightarrow> string" where
  "map_vessel_type detailed_type =
     (case detailed_type of
        None \<Rightarrow> []
      | Some d \<Rightarrow>
          if d = [] then []
          else
            (let t = py_upper d; hit = (\<lambda>ws. list_ex (\<lambda>w. py_in w t) ws) in
             if hit [''BULK CARRIER'', ''BULKER'', ''CAPESIZE'', ''PANAMAX'', ''HANDYMAX'', ''HANDYSIZE'',
                     ''SUPRAMAX'', ''ULTRAMAX''] then ''Bulk Carrier''
             else if hit [''TANKER'', ''VLCC'', ''SUEZMAX'', ''AFRAMAX'', ''MR'', ''LR''] then ''Tanker''
             else if hit [''LPG'', ''LNG'', ''GAS CARRIER''] then ''LPG/LNG Carrier''
             else if hit [''CONTAINER'', ''TEU'', ''FEEDER''] then ''Container''
             else if hit [''RO-RO'', ''RORO'', ''CAR CARRIER'', ''PCTC''] then ''RoRo''
             else if hit [''REEFER'', ''REFRIGERAT''] then ''Reefer''
             else if hit [''GENERAL CARGO'', ''MULTI-PURPOSE''] then ''General Cargo''
             else []))"

text \<open>Lines 64--71: the registry lookup, later rows overriding earlier ones.\<close>

definition vessel_lookup :: "(string option \<times> string option) list \<Rightarrow> string \<Rightarrow> string option" where
  "vessel_lookup registry =
     foldl (\<lambda>m (v, ty). let name = py_strip (py_upper (py_str_cell v)); vt = map_vessel_type ty in
                        if name \<noteq> [] \<and> vt \<noteq> [] then m(name \<mapsto> vt) else m)
       Map.empty registry"

text \<open>Lines 76--78: \<open>Vessel_Type_Simple\<close> of a record with vessel name \<open>x\<close>.\<close>

definition vessel_type_simple :: "(string \<Rightarrow> string option) \<Rightarrow> string option \<Rightarrow> string" where
  "vessel_type_simple lookup x =
     (case x of None \<Rightarrow> [] | Some v \<Rightarrow> (case lookup (py_strip (py_upper v)) of None \<Rightarrow> [] | Some t \<Rightarrow> t))"

text \<open>Lines 57--83: \<open>add_vessel_types\<close>.\<close>

definition add_vessel_types :: "(string option \<times> string option) list \<Rightarrow> cls_rec list \<Rightarrow> cls_rec list" where
  "add_vessel_types registry df =
     (let lookup = vessel_lookup registry in
      map (\<lambda>r. r\<lparr>cr_vtype := Some (vessel_type_simple lookup (cr_vessel r))\<rparr>) df)"

section \<open>Matching\<close>

text \<open>Lines 115--167.\<close>

definition check_keyword_match :: "string \<Rightarrow> cls_rule \<Rightarrow> bool" where
  "check_keyword_match cargo_desc rule =
     (let desc = py_upper cargo_desc;
          key_phrases = py_strip (py_str_cell (ru_key_phrases rule));
          primary_kw = py_strip (py_str_cell (ru_primary_kw rule));
          descriptor_kw = py_strip (py_str_cell (ru_descriptor_kw rule));
          match_strategy = py_strip (py_str_cell (ru_match_strategy rule));
          legacy = py_strip (py_str_cell (ru_keywords rule))
      in if \<not> (kw_present key_phrases \<or> kw_present primary_kw \<or> kw_present descriptor_kw \<or> kw_present legacy)
         then True
         else if match_strategy = ''PHRASE_REQUIRED'' \<and> kw_present key_phrases
         then any_in (kw_list CHR '','' key_phrases) desc
         else (kw_present primary_kw \<and> any_in (kw_list CHR '','' primary_kw) desc) \<or>
              (kw_present key_phrases \<and> any_in (kw_list CHR '','' key_phrases) desc) \<or>
              (kw_present legacy \<and> any_in (kw_list CHR '';'' legacy) desc))"

text \<open>Lines 207--222: the tonnage filter inside \<open>try ... except: pass\<close>.\<close>

definition tons_ok :: "cls_rec \<Rightarrow> cls_rule \<Rightarrow> bool" where
  "tons_ok record rule =
     (if \<not> (cell_set (ru_min_tons rule) \<or> cell_set (ru_max_tons rule)) then True
      else
        (case py_float (py_replace '','' [] (py_str_cell (cr_tons record))) of
           None \<Rightarrow> True
         | Some record_tons \<Rightarrow>
             (if cell_set (ru_min_tons rule)
              then (case py_float (the (ru_min_tons rule)) of
                      None \<Rightarrow> True
                    | Some mn \<Rightarrow>
                        if record_tons < mn then False
                        else if cell_set (ru_max_tons rule)
                        then (case py_float (the (ru_max_tons rule)) of
                                None \<Rightarrow> True | Some mx \<Rightarrow> \<not> record_tons > mx)
                        else True)
              else (case py_float (the (ru_max_tons rule)) of
                      None \<Rightarrow> True | Some mx \<Rightarrow> \<not> record_tons > mx))))"

text \<open>Lines 169--224.\<close>

definition check_match :: "cls_rec \<Rightarrow> cls_rule \<Rightarrow> bool" where
  "check_match record rule =
     ((\<not> cell_set (ru_carrier_scac rule) \<or>
         py_in (py_upper (the (ru_carrier_scac rule))) (py_upper (py_str_cell (cr_carrier record)))) \<and>
      (\<not> cell_set (ru_vessel_type rule) \<or>
         list_ex (\<lambda>vt. py_in vt (py_upper (py_str_cell (cr_vtype record))))
           (kw_list CHR '';'' (the (ru_vessel_type rule)))) \<and>
      list_all (\<lambda>(rule_hs, record_hs). \<not> cell_set rule_hs \<or> py_strip (the rule_hs) = py_strip (py_str_cell record_hs))
        [(ru_hs2 rule, cr_hs2 record), (ru_hs4 rule, cr_hs4 record), (ru_hs6 rule, cr_hs6 record)] \<and>
      check_keyword_match (py_str_cell (cr_goods record)) rule \<and>
      (\<not> cell_set (ru_exclude_kw rule) \<or>
         \<not> list_ex (\<lambda>ex. py_in ex (py_upper (py_str_cell (cr_goods record))))
             (kw_list CHR '';'' (the (ru_exclude_kw rule)))) \<and>
      tons_ok record rule)"

text \<open>Lines 226--260: a locked level may only be re-applied with the same value.\<close>

definition lock_compatible :: "string option \<Rightarrow> string option \<Rightarrow> string option \<Rightarrow> bool" where
  "lock_compatible locked rule_val rec_val \<longleftrightarrow>
     \<not> cell_true locked \<or>
     (let r = py_strip (py_str_cell rule_val); c = py_strip (py_str_cell rec_val) in r = [] \<or> c = [] \<or> r = c)"

definition can_apply_rule :: "cls_rec \<Rightarrow> cls_rule \<Rightarrow> bool" where
  "can_apply_rule record rule =
     ((\<not> cell_set (ru_exclude_groups rule) \<or>
         (let current_group = py_strip (py_str_cell (cr_group record)) in
          current_group = [] \<or> current_group \<notin> set (map py_strip (py_split CHR '';'' (the (ru_exclude_groups rule)))))) \<and>
      lock_compatible (cr_group_locked record) (ru_group rule) (cr_group record) \<and>
      lock_compatible (cr_commodity_locked record) (ru_commodity rule) (cr_commodity record) \<and>
      lock_compatible (cr_cargo_locked record) (ru_cargo rule) (cr_cargo record) \<and>
      \<not> cell_true (cr_detail_locked record))"

text \<open>Lines 265--272.\<close>

definition clean_value :: "string option \<Rightarrow> string" where
  "clean_value val =
     (case val of
        None \<Rightarrow> ''TBN''
      | Some v \<Rightarrow> if v = [] then ''TBN''
                  else (let s = py_strip v in if s = [] \<or> py_lower s = ''nan'' then ''TBN'' else s))"

text \<open>Lines 262--307.\<close>

definition apply_rule :: "cls_rec \<Rightarrow> cls_rule \<Rightarrow> cls_rec" where
  "apply_rule record rule =
     (let g = ru_group rule;
          set_lock = (\<lambda>flag old. if cell_true flag then Some ''TRUE'' else old)
      in record\<lparr>
        cr_group := (if cell_set g \<and> py_lower (py_strip (the g)) \<noteq> ''nan'' then g else cr_group record),
        cr_commodity := Some (clean_value (ru_commodity rule)),
        cr_cargo := Some (clean_value (ru_cargo rule)),
        cr_cargo_detail := Some (clean_value (ru_cargo_detail rule)),
        cr_group_locked := set_lock (ru_lock_group rule) (cr_group_locked record),
        cr_commodity_locked := set_lock (ru_lock_commodity rule) (cr_commodity_locked record),
        cr_cargo_locked := set_lock (ru_lock_cargo rule) (cr_cargo_locked record),
        cr_detail_locked := set_lock (ru_lock_detail rule) (cr_detail_locked record),
        cr_classified_phase :=
          (if cr_classified_phase record = Some [] then ru_phase rule else cr_classified_phase record),
        cr_last_rule := ru_id rule\<rparr>)"

section \<open>The classification run\<close>

text \<open>Line 104: the active rules.\<close>

definition active_rules :: "cls_rule list \<Rightarrow> cls_rule list" where
  "active_rules rules = filter (\<lambda>r. cell_true (ru_active r)) rules"

text \<open>Lines 313--326: the columns the run initialises.\<close>

definition init_record :: "cls_rec \<Rightarrow> cls_rec" where
  "init_record r =
     r\<lparr>cr_group_locked := Some ''FALSE'', cr_commodity_locked := Some ''FALSE'',
       cr_cargo_locked := Some ''FALSE'', cr_detail_locked := Some ''FALSE'',
       cr_classified_phase := Some [], cr_last_rule := Some []\<rparr>"

text \<open>Lines 338--350: one record in one phase; the first rule that matches and applies wins.\<close>

definition classify_phase :: "cls_rule list \<Rightarrow> cls_rec \<Rightarrow> cls_rec" where
  "classify_phase phase_rules record =
     (if cell_true (cr_detail_locked record) then record
      else case find (\<lambda>rule. check_match record rule \<and> can_apply_rule record rule) phase_rules of
             None \<Rightarrow> record
           | Some rule \<Rightarrow> apply_rule record rule)"

text \<open>Line 329: \<open>astype(int)\<close> of a Phase cell (a missing or non-numeric cell raises).\<close>

definition phase_int :: "string option \<Rightarrow> int option" where
  "phase_int c = (case c of None \<Rightarrow> None | Some s \<Rightarrow> py_int_of (py_strip s))"

text \<open>Line 333: the rules of one phase, selected by comparing the cell with \<open>str(phase)\<close>.\<close>

definition phase_rules :: "cls_rule list \<Rightarrow> int \<Rightarrow> cls_rule list" where
  "phase_rules rules phase = filter (\<lambda>r. ru_phase r = Some (py_str_int phase)) rules"

text \<open>Lines 309--356: \<open>None\<close> where \<open>astype(int)\<close> raises.\<close>

definition classify_records :: "cls_rec list \<Rightarrow> cls_rule list \<Rightarrow> cls_rec list option" where
  "classify_records df rules =
     (case those (map (\<lambda>r. phase_int (ru_phase r)) rules) of
        None \<Rightarrow> None
      | Some ps \<Rightarrow>
          Some (foldl (\<lambda>df phase. map (classify_phase (phase_rules rules phase)) df)
                  (map init_record df) (sort (remdups ps))))"

text \<open>Lines 419--437 (\<open>main\<close>): vessel types, the active rules, the classification run.\<close>

definition classify_sample ::
  "(string option \<times> string option) list \<Rightarrow> cls_rec list \<Rightarrow> cls_rule list \<Rightarrow> cls_rec list option" where
  "classify_sample registry df dictionary =
     classify_records (add_vessel_types registry df) (active_rules dictionary)"

text \<open>One record through a sequence of phases (the run, record by record).\<close>

definition classify_row :: "cls_rule list \<Rightarrow> int list \<Rightarrow> cls_rec \<Rightarrow> cls_rec" where
  "classify_row rules phases r = foldl (\<lambda>r phase. classify_phase (phase_rules rules phase) r) r phases"

text \<open>The four lock flags of a record.\<close>

definition lock_flags :: "cls_rec \<Rightarrow> string option list" where
  "lock_flags r = [cr_group_locked r, cr_commodity_locked r, cr_cargo_locked r, cr_detail_locked r]"

section \<open>Scenarios\<close>

definition blank_rule :: cls_rule where
  "blank_rule =
     \<lparr>ru_phase = Some ''1'', ru_id = Some ''R1'', ru_active = Some ''TRUE'', ru_carrier_scac = None,
      ru_vessel_type = None, ru_hs2 = None, ru_hs4 = None, ru_hs6 = None, ru_key_phrases = None,
      ru_primary_kw = None, ru_descriptor_kw = None, ru_match_strategy = None, ru_keywords = None,
      ru_exclude_kw = None, ru_min_tons = None, ru_max_tons = None, ru_exclude_groups = None,
      ru_group = None, ru_commodity = None, ru_cargo = None, ru_cargo_detail = None,
      ru_lock_group = None, ru_lock_commodity = None, ru_lock_cargo = None, ru_lock_detail = None\<rparr>"

definition blank_rec :: cls_rec where
  "blank_rec =
     \<lparr>cr_vessel = Some ''MV ALPHA'', cr_carrier = None, cr_vtype = Some [], cr_hs2 = None, cr_hs4 = None,
      cr_hs6 = None, cr_goods = Some ''STEEL COILS'', cr_tons = Some ''1,200'', cr_group = None,
      cr_commodity = None, cr_cargo = None, cr_cargo_detail = None, cr_group_locked = Some ''FALSE'',
      cr_commodity_locked = Some ''FALSE'', cr_cargo_locked = Some ''FALSE'', cr_detail_locked = Some ''FALSE'',
      cr_classified_phase = Some [], cr_last_rule = Some []\<rparr>"

text \<open>A rule for steel whose exclusion list ends with a semicolon.\<close>

definition steel_rule :: cls_rule where
  "steel_rule = blank_rule\<lparr>ru_primary_kw := Some ''STEEL'', ru_exclude_kw := Some ''SCRAP;'',
                            ru_group := Some ''Metals'', ru_commodity := Some ''Steel''\<rparr>"

section \<open>Lemmas\<close>

lemma foldl_map_rows: "foldl (\<lambda>df x. map (g x) df) df xs = map (\<lambda>r. foldl (\<lambda>r x. g x r) r xs) df"
  by (induction xs arbitrary: df) (simp_all add: o_def)

lemma classify_records_rows:
  "classify_records df rules = Some out \<Longrightarrow>
   \<exists>ps. out = map (\<lambda>r. classify_row rules ps (init_record r)) df"
  by (auto simp: classify_records_def classify_row_def foldl_map_rows split: option.splits)

lemma length_classify_records:
  "classify_records df rules = Some out \<Longrightarrow> length out = length df"
  using classify_records_rows by fastforce

lemma apply_rule_locks:
  "list_all2 (\<lambda>a b. cell_true a \<longrightarrow> cell_true b) (lock_flags r) (lock_flags (apply_rule r rule))"
  by (simp add: apply_rule_def lock_flags_def Let_def cell_true_def)

lemma classify_phase_cases:
  "classify_phase rs r = r \<or> (\<exists>rule. classify_phase rs r = apply_rule r rule)"
  by (auto simp: classify_phase_def split: option.split)

lemma lock_step_refl: "list_all2 (\<lambda>a b. cell_true a \<longrightarrow> cell_true b) xs xs"
  by (simp add: list_all2_refl)

lemma lock_step_trans:
  "list_all2 (\<lambda>a b. cell_true a \<longrightarrow> cell_true b) xs ys \<Longrightarrow>
   list_all2 (\<lambda>a b. cell_true a \<longrightarrow> cell_true b) ys zs \<Longrightarrow>
   list_all2 (\<lambda>a b. cell_true a \<longrightarrow> cell_true b) xs zs"
  by (rule list_all2_trans) auto

lemma classify_phase_locks:
  "list_all2 (\<lambda>a b. cell_true a \<longrightarrow> cell_true b) (lock_flags r) (lock_flags (classify_phase rs r))"
  using classify_phase_cases[of rs r] apply_rule_locks lock_step_refl by metis

lemma classify_phase_detail_locked: "cell_true (cr_detail_locked r) \<Longrightarrow> classify_phase rs r = r"
  by (simp add: classify_phase_def)

lemma detail_lock_kept: "cell_true (cr_detail_locked r) \<Longrightarrow> cell_true (cr_detail_locked (classify_phase rs r))"
  by (simp add: classify_phase_detail_locked)

section \<open>Properties\<close>

text \<open>
  C22. Invariant of the run: a lock flag, once \<open>TRUE\<close>, stays \<open>TRUE\<close> through every later
  phase, and a record whose Cargo_Detail level is locked is never changed again.
\<close>

theorem classify_locks_monotone:
  "list_all2 (\<lambda>a b. cell_true a \<longrightarrow> cell_true b) (lock_flags r) (lock_flags (classify_row rules ps r)) \<and>
   (cell_true (cr_detail_locked r) \<longrightarrow> classify_row rules ps r = r)"
proof (induction ps arbitrary: r)
  case (Cons p ps)
  let ?r' = "classify_phase (phase_rules rules p) r"
  have "list_all2 (\<lambda>a b. cell_true a \<longrightarrow> cell_true b) (lock_flags r) (lock_flags (classify_row rules ps ?r'))"
    using lock_step_trans[OF classify_phase_locks Cons.IH[THEN conjunct1]] .
  moreover have "cell_true (cr_detail_locked r) \<longrightarrow> classify_row rules ps ?r' = r"
    using Cons.IH[of r] classify_phase_detail_locked by simp
  ultimately show ?case by (simp add: classify_row_def)
qed (simp add: classify_row_def lock_step_refl)

lemma check_match_exclude:
  "cell_set (ru_exclude_kw rule) \<Longrightarrow>
   list_ex (\<lambda>ex. py_in ex (py_upper (py_str_cell (cr_goods r)))) (kw_list CHR '';'' (the (ru_exclude_kw rule))) \<Longrightarrow>
   \<not> check_match r rule"
  by (simp add: check_match_def)

text \<open>
  C23. An empty entry in Exclude_Keywords (a doubled or trailing \<open>;\<close>) disables the rule:
  the exclusion test has no \<open>if ex\<close> guard and \<open>'' in s\<close> holds for every description.
\<close>

theorem exclude_empty_keyword_disables_rule:
  assumes "cell_set (ru_exclude_kw rule)" "[] \<in> set (kw_list CHR '';'' (the (ru_exclude_kw rule)))"
  shows "\<not> check_match r rule"
  using assms by (intro check_match_exclude) (auto simp: list_ex_iff intro!: bexI[of _ "[]"])

theorem exclude_empty_keyword_disables_rule_witness:
  "cell_set (ru_exclude_kw steel_rule) \<and> [] \<in> set (kw_list CHR '';'' (the (ru_exclude_kw steel_rule))) \<and>
   \<not> check_match blank_rec steel_rule"
proof -
  have h: "cell_set (ru_exclude_kw steel_rule)" "[] \<in> set (kw_list CHR '';'' (the (ru_exclude_kw steel_rule)))"
    by (simp_all add: steel_rule_def blank_rule_def cell_set_def kw_list_def py_simps)
  then show ?thesis using exclude_empty_keyword_disables_rule[OF h] by simp
qed

theorem classify_locks_monotone_witness:
  "cell_true (cr_detail_locked (blank_rec\<lparr>cr_detail_locked := Some ''TRUE''\<rparr>)) \<and>
   classify_row [steel_rule] [1, 2] (blank_rec\<lparr>cr_detail_locked := Some ''TRUE''\<rparr>) =
     blank_rec\<lparr>cr_detail_locked := Some ''TRUE''\<rparr>"
proof -
  have h: "cell_true (cr_detail_locked (blank_rec\<lparr>cr_detail_locked := Some ''TRUE''\<rparr>))"
    by (simp add: cell_true_def)
  show ?thesis
    using h classify_locks_monotone[of "blank_rec\<lparr>cr_detail_locked := Some ''TRUE''\<rparr>" "[steel_rule]" "[1, 2]"]
    by simp
qed

section \<open>Further behaviour\<close>

text \<open>The steel rule without the trailing semicolon classifies the sample record in phase 1.\<close>

lemma classify_steel_example:
  "map (\<lambda>r. (cr_group r, cr_commodity r, cr_cargo r, cr_classified_phase r, cr_last_rule r))
        (the (classify_records [blank_rec] [steel_rule\<lparr>ru_exclude_kw := Some ''SCRAP''\<rparr>])) =
   [(Some ''Metals'', Some ''Steel'', Some ''TBN'', Some ''1'', Some ''R1'')]"
  by (simp add: classify_records_def phase_int_def py_int_of_def digits_val_def digit_val_def
      phase_rules_def py_str_int_def nat_digits.simps digit_char_def classify_phase_def
      check_match_def can_apply_rule_def apply_rule_def init_record_def check_keyword_match_def
      tons_ok_def cell_set_def cell_true_def kw_present_def kw_list_def any_in_def py_str_cell_def
      lock_compatible_def clean_value_def steel_rule_def blank_rule_def blank_rec_def py_simps)


text \<open>
  A rule whose only keywords are Descriptor_Keywords never matches: they count as
  keywords for the \<open>no keyword filter\<close> test, but no branch matches on them.
\<close>

lemma descriptor_only_never_matches:
  assumes "ru_key_phrases rule = None" "ru_primary_kw rule = None" "ru_keywords rule = None"
    and "ru_descriptor_kw rule = Some d" "kw_present (py_strip d)"
  shows "\<not> check_keyword_match desc rule"
  using assms by (simp add: check_keyword_match_def kw_present_def py_str_cell_def py_simps)

text \<open>\<open>str(phase)\<close> has no leading zero, so a rule whose Phase cell is \<open>01\<close> belongs to no phase.\<close>

lemma py_str_int_not_01: "py_str_int p \<noteq> ''01''"
proof
  assume eq: "py_str_int p = ''01''"
  then have "0 \<le> p" by (auto simp: py_str_int_def split: if_splits)
  then have nd: "nat_digits (nat p) = ''01''" using eq by (simp add: py_str_int_def)
  have "digits_val (py_zfill 0 (nat_digits (nat p))) = Some (nat p)" by (rule digits_val_zfill_nat)
  then have "nat p = 1" using nd by (simp add: py_zfill_def digits_val_def digit_val_def is_ascii_digit_def)
  then show False using nd by (simp add: nat_digits.simps digit_char_def)
qed

lemma phase_01_never_applied: "ru_phase r = Some ''01'' \<Longrightarrow> r \<notin> set (phase_rules rules p)"
  using py_str_int_not_01[of p] by (auto simp: phase_rules_def)

end
