(* ===== verification/ClearanceTransform.thy ===== *)
theory ClearanceTransform
  imports KeyNormalizer PyText
begin

text \<open>
  The USACE clearance transform \<open>transform_usace_clearance_data_v2.0.0.py\<close>
  (\<open>transform_clearance_data\<close>): each row of the raw outbound file is turned into one row
  of the transformed file that the clearance matcher reads.

  \<^item> dictionaries (lines 38--110): USACE port codes, Sked K foreign ports, the ships
    register by IMO and by normalised name, the cargo classes by ICST type; a Python
    \<open>dict\<close> built in a loop is a map updated row by row (a later row wins);
  \<^item> code columns (lines 126--135): \<open>str(int(x))\<close> of a numeric cell, \<open>''\<close> when missing;
  \<^item> value recoding (lines 143--156), port mapping (lines 160--189);
  \<^item> vessel matching (lines 193--259): IMO first, then the normalised vessel name, with
    the register draft converted to feet and printed with two decimals;
  \<^item> draft percentage and forecast (lines 268--301), cargo class (lines 306--319),
    Count and RECID (lines 324--329), renaming and column selection (lines 332--403).

  The raw file is read without \<open>dtype\<close>: code, draft and TYPEDOC columns are numeric
  (\<open>rat option\<close>), the others text (\<open>string option\<close>); the dictionaries are read with
  \<open>dtype=str\<close>. Float arithmetic is exact rational arithmetic and \<open>f"{x:.2f}"\<close> is
  \<open>py_fmt\<close> of \<open>PyText\<close>.
\<close>

section \<open>Data\<close>

text \<open>A row of the raw outbound file (the columns the transform reads).\<close>

record clr_raw =
  cw_typedoc :: "rat option"
  cw_ecdate :: "int option"
  cw_port :: "rat option"
  cw_port_name :: "string option"
  cw_pww_ind :: "string option"
  cw_vessname :: "string option"
  cw_imo :: "rat option"
  cw_rig_desc :: "string option"
  cw_icst_desc :: "string option"
  cw_flag_ctry :: "string option"
  cw_nrt :: "rat option"
  cw_grt :: "rat option"
  cw_draft_ft :: "rat option"
  cw_draft_in :: "rat option"
  cw_container :: "string option"
  cw_where_ind :: "string option"
  cw_where_port :: "rat option"
  cw_where_schedk :: "rat option"
  cw_where_name :: "string option"
  cw_where_ctry :: "string option"

text \<open>A row of the ships register (read with \<open>dtype=str\<close>).\<close>

record ship_reg =
  sr_imo :: "string option"
  sr_vessel :: "string option"
  sr_type :: "string option"
  sr_dwt :: "string option"
  sr_grain :: "string option"
  sr_tpc :: "string option"
  sr_draft_m :: "string option"

text \<open>The vessel specification the register lookups store (lines 65--71, 89--95).\<close>

record vessel_spec =
  vs_type :: string
  vs_dwt :: string
  vs_grain :: string
  vs_tpc :: string
  vs_draft_m :: string

text \<open>Line 145: TYPEDOC after \<open>replace({0: 'Imports', 1: 'Exports', ...})\<close>.\<close>

datatype typedoc = Imports | Exports | TD_Other "rat option"

text \<open>A row of the transformed file: \<open>columns_to_keep\<close> of lines 350--401, in order.\<close>

record clr_out =
  co_recid :: nat
  co_count :: nat
  co_typedoc :: typedoc
  co_clearance_date :: "int option"
  co_port :: string
  co_clearance_port_name :: "string option"
  co_us_port_usace :: string
  co_pww_ind :: "string option"
  co_vessel :: "string option"
  co_imo :: string
  co_rig_desc :: "string option"
  co_icst_desc :: "string option"
  co_flag_ctry :: "string option"
  co_nrt :: string
  co_grt :: string
  co_draft_ft :: "rat option"
  co_draft_in :: "rat option"
  co_container :: "string option"
  co_vessel_type :: string
  co_vessel_dwt :: string
  co_vessel_grain :: string
  co_vessel_tpc :: string
  co_vessel_dwt_draft_m :: string
  co_vessel_dwt_draft_ft :: string
  co_vessel_match_method :: string
  co_draft_pct_of_max :: string
  co_forecasted_activity :: string
  co_where_ind :: "string option"
  co_where_port :: string
  co_previous_us_port_usace :: string
  co_where_schedk :: string
  co_previous_foreign_port :: string
  co_previous_foreign_country :: string
  co_where_name :: "string option"
  co_where_ctry :: "string option"
  co_group :: string
  co_commodity :: string

text \<open>The dictionaries of one run.\<close>

record clr_dicts =
  cd_usace_port :: "string \<Rightarrow> string option"
  cd_foreign_port :: "string \<Rightarrow> (string \<times> string) option"
  cd_imo :: "string \<Rightarrow> vessel_spec option"
  cd_vessel_name :: "string \<Rightarrow> vessel_spec option"
  cd_cargo_class :: "string \<Rightarrow> (string \<times> string) option"

section \<open>Dictionaries\<close>

text \<open>\<open>str(x).strip()\<close> of a dictionary cell.\<close>

abbreviation cell_text :: "string option \<Rightarrow> string" where
  "cell_text c \<equiv> py_strip (py_str_cell c)"

text \<open>Lines 38--42.\<close>

definition usace_port_lookup :: "(string option \<times> string option) list \<Rightarrow> string \<Rightarrow> string option" where
  "usace_port_lookup rows = foldl (\<lambda>m (code, name). m(cell_text code \<mapsto> cell_text name)) Map.empty rows"

text \<open>Lines 46--53.\<close>

definition foreign_port_lookup ::
  "(string option \<times> string option \<times> string option) list \<Rightarrow> string \<Rightarrow> (string \<times> string) option" where
  "foreign_port_lookup rows =
     foldl (\<lambda>m (code, port, ctry). m(cell_text code \<mapsto> (cell_text port, cell_text ctry))) Map.empty rows"

text \<open>Lines 65--71 and 89--95: the five register columns.\<close>

definition spec_of :: "ship_reg \<Rightarrow> vessel_spec" where
  "spec_of r = \<lparr>vs_type = cell_text (sr_type r), vs_dwt = cell_text (sr_dwt r), vs_grain = cell_text (sr_grain r),
                vs_tpc = cell_text (sr_tpc r), vs_draft_m = cell_text (sr_draft_m r)\<rparr>"

text \<open>Lines 61--71.\<close>

definition imo_lookup :: "ship_reg list \<Rightarrow> string \<Rightarrow> vessel_spec option" where
  "imo_lookup reg =
     foldl (\<lambda>m r. let imo = cell_text (sr_imo r) in if imo \<noteq> [] \<and> imo \<noteq> ''nan'' then m(imo \<mapsto> spec_of r) else m)
       Map.empty reg"

text \<open>Lines 84--95 (the local \<open>normalize_vessel_name\<close>, lines 74--82, is the one of \<open>KeyNormalizer\<close>).\<close>

definition vessel_name_lookup :: "ship_reg list \<Rightarrow> string \<Rightarrow> vessel_spec option" where
  "vessel_name_lookup reg =
     foldl (\<lambda>m r. let n = normalize_vessel_name (Some (cell_text (sr_vessel r))) in
                  if n \<noteq> [] then m(n \<mapsto> spec_of r) else m)
       Map.empty reg"

text \<open>Lines 102--109.\<close>

definition cargo_class_lookup ::
  "(string option \<times> string option \<times> string option) list \<Rightarrow> string \<Rightarrow> (string \<times> string) option" where
  "cargo_class_lookup rows =
     foldl (\<lambda>m (icst, g, c). m(py_upper (cell_text icst) \<mapsto> (cell_text g, cell_text c))) Map.empty rows"

section \<open>Row transformations\<close>

text \<open>\<open>int(x)\<close> of a number: truncation toward zero.\<close>

definition py_int_trunc :: "rat \<Rightarrow> int" where
  "py_int_trunc x = (if 0 \<le> x then \<lfloor>x\<rfloor> else \<lceil>x\<rceil>)"

text \<open>Line 134: \<open>str(int(x)) if pd.notna(x) and x != '' else ''\<close>.\<close>

definition code_text :: "rat option \<Rightarrow> string" where
  "code_text x = (case x of None \<Rightarrow> [] | Some v \<Rightarrow> py_str_int (py_int_trunc v))"

text \<open>Lines 145--155.\<close>

definition typedoc_of :: "rat option \<Rightarrow> typedoc" where
  "typedoc_of x = (if x = Some 0 then Imports else if x = Some 1 then Exports else TD_Other x)"

definition pww_ind_of :: "string option \<Rightarrow> string option" where
  "pww_ind_of x = (if x = Some ''P'' then Some ''Port'' else if x = Some ''W'' then Some ''Waterway'' else x)"

definition where_ind_of :: "string option \<Rightarrow> string option" where
  "where_ind_of x = (if x = Some ''F'' then Some ''Foreign'' else if x = Some ''D'' then Some ''Coastwise'' else x)"

text \<open>Lines 166--187: a lookup of a converted code, \<open>''\<close> when the code is empty or unknown.\<close>

definition code_lookup :: "(string \<Rightarrow> 'v option) \<Rightarrow> ('v \<Rightarrow> string) \<Rightarrow> string \<Rightarrow> string" where
  "code_lookup lk sel code = (if code \<noteq> [] then (case lk code of None \<Rightarrow> [] | Some v \<Rightarrow> sel v) else [])"

text \<open>
  Lines 224--229: \<open>try: f"{float(draft_m) * 3.28084:.2f}" except: ''\<close>. A register cell
  that was missing reads \<open>'nan'\<close> (\<open>dtype=str\<close>), which \<open>float\<close> accepts and prints back.
\<close>

definition py_draft_ft :: "string \<Rightarrow> string" where
  "py_draft_ft draft_m =
     (if py_float_nan draft_m then ''nan''
      else case py_float draft_m of None \<Rightarrow> [] | Some m \<Rightarrow> py_fmt 2 (m * 328084 / 100000))"

text \<open>Lines 222--229: the register draft in feet, \<open>''\<close> when empty or \<open>'0'\<close>.\<close>

definition draft_ft_text :: "vessel_spec \<Rightarrow> string" where
  "draft_ft_text spec =
     (let draft_m = vs_draft_m spec in
      if draft_m \<noteq> [] \<and> draft_m \<noteq> ''0'' then py_draft_ft draft_m else [])"

text \<open>Lines 209--259: the vessel columns of one row and the match method.\<close>

definition match_vessel :: "clr_dicts \<Rightarrow> string \<Rightarrow> string option \<Rightarrow> (vessel_spec \<times> string) option \<times> string" where
  "match_vessel d imo_text vessname =
     (let imo = py_strip imo_text; vessel_name = py_strip (py_str_cell vessname) in
      if imo \<noteq> [] \<and> imo \<noteq> ''nan'' \<and> cd_imo d imo \<noteq> None
      then (Some (the (cd_imo d imo), draft_ft_text (the (cd_imo d imo))), ''IMO'')
      else if vessel_name \<noteq> []
      then (let n = normalize_vessel_name (Some vessel_name) in
            if n \<noteq> [] \<and> cd_vessel_name d n \<noteq> None
            then (Some (the (cd_vessel_name d n), draft_ft_text (the (cd_vessel_name d n))), ''Name'')
            else (None, []))
      else (None, []))"

text \<open>Lines 275--301: the draft percentage and the forecast (both \<open>''\<close> when not computed).\<close>

definition draft_forecast :: "rat option \<Rightarrow> rat option \<Rightarrow> string \<Rightarrow> string \<times> string" where
  "draft_forecast draft_ft draft_in max_draft_str =
     (let ft = (case draft_ft of None \<Rightarrow> 0 | Some x \<Rightarrow> x);
          inch = (case draft_in of None \<Rightarrow> 0 | Some x \<Rightarrow> x);
          actual_draft = ft + inch / 12
      in if max_draft_str \<noteq> []
         then (case py_float max_draft_str of
                 None \<Rightarrow> ([], [])
               | Some max_draft \<Rightarrow>
                   if max_draft > 0 \<and> actual_draft > 0
                   then (let draft_pct = actual_draft / max_draft * 100 in
                         (py_fmt 1 draft_pct, if draft_pct > 50 then ''Discharge'' else ''Load''))
                   else ([], []))
         else ([], []))"

text \<open>Lines 313--319.\<close>

definition cargo_class_of :: "'a clr_dicts_scheme \<Rightarrow> string option \<Rightarrow> string \<times> string" where
  "cargo_class_of d icst =
     (let icst_desc = py_upper (py_strip (py_str_cell icst)) in
      if icst_desc \<noteq> [] \<and> cd_cargo_class d icst_desc \<noteq> None then the (cd_cargo_class d icst_desc) else ([], []))"

text \<open>One raw row, with its RECID, to one row of the transformed file.\<close>

definition transform_clearance_row :: "clr_dicts \<Rightarrow> nat \<Rightarrow> clr_raw \<Rightarrow> clr_out" where
  "transform_clearance_row d recid r =
     (let port = code_text (cw_port r); where_port = code_text (cw_where_port r);
          where_schedk = code_text (cw_where_schedk r); imo = code_text (cw_imo r);
          (vm, method) = match_vessel d imo (cw_vessname r);
          spec = map_option fst vm;
          sel = (\<lambda>f. case spec of None \<Rightarrow> [] | Some s \<Rightarrow> f s);
          draft_ft_str = (case vm of None \<Rightarrow> [] | Some (_, t) \<Rightarrow> t);
          (pct, activity) = draft_forecast (cw_draft_ft r) (cw_draft_in r) draft_ft_str;
          (grp, commodity) = cargo_class_of d (cw_icst_desc r)
      in \<lparr>co_recid = recid, co_count = 1, co_typedoc = typedoc_of (cw_typedoc r),
          co_clearance_date = cw_ecdate r, co_port = port, co_clearance_port_name = cw_port_name r,
          co_us_port_usace = code_lookup (cd_usace_port d) id port, co_pww_ind = pww_ind_of (cw_pww_ind r),
          co_vessel = cw_vessname r, co_imo = imo, co_rig_desc = cw_rig_desc r, co_icst_desc = cw_icst_desc r,
          co_flag_ctry = cw_flag_ctry r, co_nrt = code_text (cw_nrt r), co_grt = code_text (cw_grt r),
          co_draft_ft = cw_draft_ft r, co_draft_in = cw_draft_in r, co_container = cw_container r,
          co_vessel_type = sel vs_type, co_vessel_dwt = sel vs_dwt, co_vessel_grain = sel vs_grain,
          co_vessel_tpc = sel vs_tpc, co_vessel_dwt_draft_m = sel vs_draft_m,
          co_vessel_dwt_draft_ft = draft_ft_str, co_vessel_match_method = method,
          co_draft_pct_of_max = pct, co_forecasted_activity = activity,
          co_where_ind = where_ind_of (cw_where_ind r), co_where_port = where_port,
          co_previous_us_port_usace = code_lookup (cd_usace_port d) id where_port,
          co_where_schedk = where_schedk,
          co_previous_foreign_port = code_lookup (cd_foreign_port d) fst where_schedk,
          co_previous_foreign_country = code_lookup (cd_foreign_port d) snd where_schedk,
          co_where_name = cw_where_name r, co_where_ctry = cw_where_ctry r,
          co_group = grp, co_commodity = commodity\<rparr>)"

text \<open>Lines 23--495: the whole transform (RECID \<open>1 .. n\<close> in file order).\<close>

definition transform_clearance_data ::
  "(string option \<times> string option) list \<Rightarrow> (string option \<times> string option \<times> string option) list \<Rightarrow>
   ship_reg list \<Rightarrow> (string option \<times> string option \<times> string option) list \<Rightarrow> clr_raw list \<Rightarrow> clr_out list" where
  "transform_clearance_data port_rows foreign_rows ships cargo_rows df =
     (let d = \<lparr>cd_usace_port = usace_port_lookup port_rows, cd_foreign_port = foreign_port_lookup foreign_rows,
               cd_imo = imo_lookup ships, cd_vessel_name = vessel_name_lookup ships,
               cd_cargo_class = cargo_class_lookup cargo_rows\<rparr>
      in map (\<lambda>(i, r). transform_clearance_row d (Suc i) r) (enumerate 0 df))"

section \<open>Lemmas\<close>

lemma length_transform_clearance_data [simp]:
  "length (transform_clearance_data pr fr sh cr df) = length df"
  by (simp add: transform_clearance_data_def Let_def)

text \<open>Every raw row survives, and the RECIDs number the rows \<open>1 .. n\<close> in file order.\<close>

lemma co_recid_row [simp]: "co_recid (transform_clearance_row d n r) = n"
  by (simp add: transform_clearance_row_def Let_def split: prod.split)

lemma transform_clearance_recids:
  "map co_recid (transform_clearance_data pr fr sh cr df) = [1..<Suc (length df)]"
  unfolding transform_clearance_data_def Let_def by (subst map_enumerate_col) simp_all

text \<open>The register IMO takes precedence over the vessel name.\<close>

lemma match_vessel_imo:
  assumes "py_strip imo \<noteq> []" "py_strip imo \<noteq> ''nan''" "cd_imo d (py_strip imo) = Some s"
  shows "match_vessel d imo v = (Some (s, draft_ft_text s), ''IMO'')"
  using assms by (simp add: match_vessel_def Let_def)

text \<open>
  A missing VESSNAME prints as \<open>nan\<close>, which normalises to the key \<open>nan\<close>; a register
  row with a missing vessel name has that key, so the two are matched by name.
\<close>

lemma match_vessel_nan_name:
  assumes "cd_vessel_name d ''nan'' = Some s" "cd_imo d [] = None"
  shows "match_vessel d [] None = (Some (s, draft_ft_text s), ''Name'')"
proof -
  have "normalize_vessel_name (Some ''nan'') = ''nan''"
    by (simp add: normalize_vessel_name_def keep_vessel_char_def py_simps)
  with assms show ?thesis
    by (simp add: match_vessel_def Let_def py_str_cell_def py_simps)
qed

lemma vessel_name_lookup_nan:
  "sr_vessel r = None \<Longrightarrow> vessel_name_lookup [r] ''nan'' = Some (spec_of r)"
proof -
  have "normalize_vessel_name (Some ''nan'') = ''nan''"
    by (simp add: normalize_vessel_name_def keep_vessel_char_def py_simps)
  then show "sr_vessel r = None \<Longrightarrow> ?thesis"
    by (simp add: vessel_name_lookup_def py_str_cell_def py_simps)
qed

text \<open>
  The forecast rule of the entrance transform is used unchanged for departures: a
  vessel clearing at 80\% of its maximum draft, i.e. loaded, is forecast to discharge.
\<close>

lemma draft_forecast_departure_loaded:
  "draft_forecast (Some 40) None ''50.00'' = (''80.0'', ''Discharge'')"
  by (simp add: draft_forecast_def py_float_def dec_value_def digit_val_def py_fmt_def
      round_half_even_def nat_digits.simps digit_char_def py_simps fixed_digits_small)

text \<open>A code column reads back as the integer part of the number it held.\<close>

lemma digits_val_nat_digits: "digits_val (nat_digits n) = Some n"
proof -
  have "digits_val (py_zfill 0 (nat_digits n)) = Some n" by (rule digits_val_zfill_nat)
  then show ?thesis by (simp add: py_zfill_def)
qed

lemma py_int_of_nat_digits: "py_int_of (nat_digits n) = Some (int n)"
  using nat_digits_ne nat_digits_all_digits by (simp add: py_int_of_digits digits_val_nat_digits)

lemma code_text_roundtrip: "x \<noteq> None \<Longrightarrow> py_int_of (code_text x) = map_option py_int_trunc x"
proof -
  assume "x \<noteq> None"
  then obtain v where v: "x = Some v" by auto
  have neg: "py_int_of (CHR ''-'' # nat_digits m) = Some (- int m)" for m
    by (simp add: py_int_of_def digits_val_nat_digits)
  show ?thesis
    using v py_int_of_nat_digits[of "nat (py_int_trunc v)"] neg[of "nat (- py_int_trunc v)"]
    by (auto simp: code_text_def py_str_int_def)
qed


end
