(* ===== verification/EntranceTransform.thy ===== *)
theory EntranceTransform
  imports ClearanceTransform
begin

text \<open>
  The USACE entrance transform \<open>transform_usace_entrance_data_v2.1.0.py\<close>
  (\<open>transform_entrance_data\<close>): each row of the raw inbound file becomes one row of the
  transformed file the genesis matcher reads. The raw file has the columns of the
  clearance file (\<open>clr_raw\<close>); the script shares the code conversion, the value recoding,
  the port mapping, the cargo classes and the draft forecast of the clearance transform
  and differs from it in

  \<^item> two more dictionaries (lines 41--51 and 115--122): the US port statistical
    categories and the agency fee by ICST type;
  \<^item> the name key of the ships register (lines 83--100): \<open>normalize_name\<close> of
    \<open>KeyNormalizer\<close> (upper case, letters and digits), applied to the raw cell, so a
    register row without a vessel name has no key;
  \<^item> the draft conversion (lines 234--239): no test for \<open>''\<close> or \<open>'0'\<close> before
    \<open>float\<close>;
  \<^item> the placeholder columns Tons, Carrier_Name, Agency_Fee_Adj (lines 345--349).

  The dictionaries of a run are \<open>ent_dicts\<close>, an extension of \<open>clr_dicts\<close>: its
  \<open>cd_vessel_name\<close> field holds \<open>name_lookup\<close>, keyed by \<open>normalize_name\<close>.
\<close>

section \<open>Data\<close>

text \<open>A row of the transformed file: \<open>columns_to_keep\<close> of lines 379--432, in order.\<close>

record ent_out =
  eo_recid :: nat
  eo_count :: nat
  eo_typedoc :: typedoc
  eo_arrival_date :: "int option"
  eo_port :: string
  eo_arrival_port_name :: "string option"
  eo_us_port_usace :: string
  eo_port_consolidated :: string
  eo_port_coast :: string
  eo_port_region :: string
  eo_pww_ind :: "string option"
  eo_vessel :: "string option"
  eo_imo :: string
  eo_rig_desc :: "string option"
  eo_icst_desc :: "string option"
  eo_flag_ctry :: "string option"
  eo_nrt :: string
  eo_grt :: string
  eo_draft_ft :: "rat option"
  eo_draft_in :: "rat option"
  eo_container :: "string option"
  eo_vessel_type :: string
  eo_vessel_dwt :: string
  eo_vessel_grain :: string
  eo_vessel_tpc :: string
  eo_vessel_dwt_draft_m :: string
  eo_vessel_dwt_draft_ft :: string
  eo_vessel_match_method :: string
  eo_draft_pct_of_max :: string
  eo_forecasted_activity :: string
  eo_where_ind :: "string option"
  eo_where_port :: string
  eo_previous_us_port_usace :: string
  eo_where_schedk :: string
  eo_previous_foreign_port :: string
  eo_previous_foreign_country :: string
  eo_where_name :: "string option"
  eo_where_ctry :: "string option"
  eo_group :: string
  eo_commodity :: string
  eo_tons :: string
  eo_carrier_name :: string
  eo_agency_fee :: string
  eo_agency_fee_adj :: string

text \<open>The dictionaries of one run: those of the clearance transform and two more.\<close>

record ent_dicts = clr_dicts +
  ed_us_port :: "string \<Rightarrow> (string \<times> string \<times> string) option"
  ed_agency_fee :: "string \<Rightarrow> string option"

section \<open>Dictionaries\<close>

text \<open>Lines 42--50: Port_Consolidated, Port_Coast, Port_Region by \<open>Code\<close>.\<close>

definition us_port_lookup ::
  "(string option \<times> string option \<times> string option \<times> string option) list \<Rightarrow>
   string \<Rightarrow> (string \<times> string \<times> string) option" where
  "us_port_lookup rows =
     foldl (\<lambda>m (code, cons, coast, region). m(cell_text code \<mapsto> (cell_text cons, cell_text coast, cell_text region)))
       Map.empty rows"

text \<open>Lines 90--100: the register by \<open>normalize_name(row.get('Vessel', ''))\<close>, empty keys skipped.\<close>

definition name_lookup :: "ship_reg list \<Rightarrow> string \<Rightarrow> vessel_spec option" where
  "name_lookup reg =
     foldl (\<lambda>m r. let vessel = normalize_name (sr_vessel r) in if vessel \<noteq> [] then m(vessel \<mapsto> spec_of r) else m)
       Map.empty reg"

text \<open>Lines 117--121.\<close>

definition agency_fee_lookup :: "(string option \<times> string option) list \<Rightarrow> string \<Rightarrow> string option" where
  "agency_fee_lookup rows = foldl (\<lambda>m (icst, fee). m(py_upper (cell_text icst) \<mapsto> cell_text fee)) Map.empty rows"

section \<open>Row transformations\<close>

text \<open>
  Lines 226--276: IMO first (\<open>if imo and imo in imo_lookup\<close>), then the name
  (\<open>elif vessel_name\<close>, \<open>if normalized in name_lookup\<close>); the draft is converted by the
  \<open>try\<close> block alone.
\<close>

definition ent_match_vessel ::
  "ent_dicts \<Rightarrow> string \<Rightarrow> string option \<Rightarrow> (vessel_spec \<times> string) option \<times> string" where
  "ent_match_vessel d imo_text vessname =
     (let imo = py_strip imo_text; vessel_name = py_strip (py_str_cell vessname) in
      if imo \<noteq> [] \<and> cd_imo d imo \<noteq> None
      then (Some (the (cd_imo d imo), py_draft_ft (vs_draft_m (the (cd_imo d imo)))), ''IMO'')
      else if vessel_name \<noteq> []
      then (case cd_vessel_name d (normalize_name (Some vessel_name)) of
              None \<Rightarrow> (None, [])
            | Some s \<Rightarrow> (Some (s, py_draft_ft (vs_draft_m s)), ''Name''))
      else (None, []))"

text \<open>Lines 336--339.\<close>

definition agency_fee_of :: "ent_dicts \<Rightarrow> string option \<Rightarrow> string" where
  "agency_fee_of d icst =
     (let icst_desc = py_upper (py_strip (py_str_cell icst)) in
      if icst_desc \<noteq> [] then (case ed_agency_fee d icst_desc of None \<Rightarrow> [] | Some fee \<Rightarrow> fee) else [])"

text \<open>One raw row, with its RECID, to one row of the transformed file (lines 140--432).\<close>

definition transform_entrance_row :: "ent_dicts \<Rightarrow> nat \<Rightarrow> clr_raw \<Rightarrow> ent_out" where
  "transform_entrance_row d recid r =
     (let port = code_text (cw_port r); where_port = code_text (cw_where_port r);
          where_schedk = code_text (cw_where_schedk r); imo = code_text (cw_imo r);
          (vm, method) = ent_match_vessel d imo (cw_vessname r);
          spec = map_option fst vm;
          sel = (\<lambda>f. case spec of None \<Rightarrow> [] | Some s \<Rightarrow> f s);
          draft_ft_str = (case vm of None \<Rightarrow> [] | Some (_, t) \<Rightarrow> t);
          (pct, activity) = draft_forecast (cw_draft_ft r) (cw_draft_in r) draft_ft_str;
          (grp, commodity) = cargo_class_of d (cw_icst_desc r)
      in \<lparr>eo_recid = recid, eo_count = 1, eo_typedoc = typedoc_of (cw_typedoc r),
          eo_arrival_date = cw_ecdate r, eo_port = port, eo_arrival_port_name = cw_port_name r,
          eo_us_port_usace = code_lookup (cd_usace_port d) id port,
          eo_port_consolidated = code_lookup (ed_us_port d) fst port,
          eo_port_coast = code_lookup (ed_us_port d) (fst \<circ> snd) port,
          eo_port_region = code_lookup (ed_us_port d) (snd \<circ> snd) port,
          eo_pww_ind = pww_ind_of (cw_pww_ind r),
          eo_vessel = cw_vessname r, eo_imo = imo, eo_rig_desc = cw_rig_desc r, eo_icst_desc = cw_icst_desc r,
          eo_flag_ctry = cw_flag_ctry r, eo_nrt = code_text (cw_nrt r), eo_grt = code_text (cw_grt r),
          eo_draft_ft = cw_draft_ft r, eo_draft_in = cw_draft_in r, eo_container = cw_container r,
          eo_vessel_type = sel vs_type, eo_vessel_dwt = sel vs_dwt, eo_vessel_grain = sel vs_grain,
          eo_vessel_tpc = sel vs_tpc, eo_vessel_dwt_draft_m = sel vs_draft_m,
          eo_vessel_dwt_draft_ft = draft_ft_str, eo_vessel_match_method = method,
          eo_draft_pct_of_max = pct, eo_forecasted_activity = activity,
          eo_where_ind = where_ind_of (cw_where_ind r), eo_where_port = where_port,
          eo_previous_us_port_usace = code_lookup (cd_usace_port d) id where_port,
          eo_where_schedk = where_schedk,
          eo_previous_foreign_port = code_lookup (cd_foreign_port d) fst where_schedk,
          eo_previous_foreign_country = code_lookup (cd_foreign_port d) snd where_schedk,
          eo_where_name = cw_where_name r, eo_where_ctry = cw_where_ctry r,
          eo_group = grp, eo_commodity = commodity, eo_tons = [], eo_carrier_name = [],
          eo_agency_fee = agency_fee_of d (cw_icst_desc r), eo_agency_fee_adj = []\<rparr>)"

text \<open>Lines 20--477: the whole transform (RECID \<open>1 .. n\<close> in file order).\<close>

definition transform_entrance_data ::
  "(string option \<times> string option) list \<Rightarrow>
   (string option \<times> string option \<times> string option \<times> string option) list \<Rightarrow>
   (string option \<times> string option \<times> string option) list \<Rightarrow> ship_reg list \<Rightarrow>
   (string option \<times> string option \<times> string option) list \<Rightarrow> (string option \<times> string option) list \<Rightarrow>
   clr_raw list \<Rightarrow> ent_out list" where
  "transform_entrance_data port_rows us_port_rows foreign_rows ships cargo_rows fee_rows df =
     (let d = \<lparr>cd_usace_port = usace_port_lookup port_rows, cd_foreign_port = foreign_port_lookup foreign_rows,
               cd_imo = imo_lookup ships, cd_vessel_name = name_lookup ships,
               cd_cargo_class = cargo_class_lookup cargo_rows,
               ed_us_port = us_port_lookup us_port_rows, ed_agency_fee = agency_fee_lookup fee_rows\<rparr>
      in map (\<lambda>(i, r). transform_entrance_row d (Suc i) r) (enumerate 0 df))"

section \<open>Concrete inputs\<close>

text \<open>A raw row with every cell missing, and a register row with an IMO and no vessel name.\<close>

definition et_blank_row :: clr_raw where
  "et_blank_row =
     \<lparr>cw_typedoc = None, cw_ecdate = None, cw_port = None, cw_port_name = None, cw_pww_ind = None,
      cw_vessname = None, cw_imo = None, cw_rig_desc = None, cw_icst_desc = None, cw_flag_ctry = None,
      cw_nrt = None, cw_grt = None, cw_draft_ft = None, cw_draft_in = None, cw_container = None,
      cw_where_ind = None, cw_where_port = None, cw_where_schedk = None, cw_where_name = None,
      cw_where_ctry = None\<rparr>"

definition et_ship_noname :: ship_reg where
  "et_ship_noname =
     \<lparr>sr_imo = Some ''9000001'', sr_vessel = None, sr_type = Some ''Bulk Carrier'', sr_dwt = Some ''50000'',
      sr_grain = None, sr_tpc = None, sr_draft_m = Some ''12.5''\<rparr>"

section \<open>Lemmas\<close>

lemma length_transform_entrance_data [simp]:
  "length (transform_entrance_data pr ur fr sh cr ar df) = length df"
  by (simp add: transform_entrance_data_def Let_def)

lemma eo_recid_row [simp]: "eo_recid (transform_entrance_row d n r) = n"
  by (simp add: transform_entrance_row_def Let_def split: prod.split)


lemma transform_entrance_nth:
  "i < length df \<Longrightarrow> transform_entrance_data pr ur fr sh cr ar df ! i =
     transform_entrance_row \<lparr>cd_usace_port = usace_port_lookup pr, cd_foreign_port = foreign_port_lookup fr,
               cd_imo = imo_lookup sh, cd_vessel_name = name_lookup sh,
               cd_cargo_class = cargo_class_lookup cr,
               ed_us_port = us_port_lookup ur, ed_agency_fee = agency_fee_lookup ar\<rparr> (Suc i) (df ! i)"
  by (simp add: transform_entrance_data_def Let_def nth_enumerate_eq)

text \<open>Every key of the name dictionary is the non-empty \<open>normalize_name\<close> of a register row.\<close>

lemma name_lookup_Some:
  "name_lookup reg k = Some s \<Longrightarrow> \<exists>r \<in> set reg. normalize_name (sr_vessel r) = k \<and> k \<noteq> [] \<and> spec_of r = s"
  unfolding name_lookup_def Let_def by (drule foldl_dict_Some) auto

lemma normalize_name_nan: "normalize_name (Some ''nan'') = ''NAN''"
  by (simp add: normalize_name_def py_simps)

lemma eo_method_row:
  "eo_vessel_match_method (transform_entrance_row d n r) = snd (ent_match_vessel d (code_text (cw_imo r)) (cw_vessname r))"
  by (simp add: transform_entrance_row_def Let_def split: prod.split)

text \<open>A dictionary row whose key cell is missing is stored under \<open>'NAN'\<close> (\<open>str(nan).upper()\<close>).\<close>

lemma lookup_nan_last:
  "cargo_class_lookup (cr @ [(None, g, c)]) ''NAN'' = Some (cell_text g, cell_text c)"
  "agency_fee_lookup (ar @ [(None, f)]) ''NAN'' = Some (cell_text f)"
  by (simp_all add: cargo_class_lookup_def agency_fee_lookup_def py_str_cell_def py_simps)

text \<open>
  The entrance transform converts every register draft that \<open>float\<close> accepts: a draft
  of \<open>'0'\<close> gives \<open>'0.00'\<close> where the clearance transform leaves the column empty,
  and a missing draft (\<open>'nan'\<close>) gives \<open>'nan'\<close> in both.
\<close>

lemma entrance_draft_text:
  "py_draft_ft ''0'' = ''0.00''"
  "draft_ft_text (s\<lparr>vs_draft_m := ''0''\<rparr>) = []"
  "py_draft_ft ''nan'' = ''nan''"
  "draft_ft_text (s\<lparr>vs_draft_m := ''nan''\<rparr>) = ''nan''"
  by (simp_all add: draft_ft_text_def py_draft_ft_def py_float_nan_def py_simps py_float_def dec_value_def
      digit_val_def py_fmt_def round_half_even_def nat_digits.simps digit_char_def fixed_digits_small)


section \<open>Properties\<close>

text \<open>
  C24. An entrance without IMO and vessel name is left unmatched unless some register
  vessel's name normalises to \<open>NAN\<close>: a register row without a name gets no key. (The
  clearance transform matches such a row by name, as the witness shows.)
\<close>

theorem entrance_missing_name_unmatched:
  assumes "i < length df" "cw_imo (df ! i) = None" "cw_vessname (df ! i) = None"
    and "\<forall>r \<in> set sh. normalize_name (sr_vessel r) \<noteq> ''NAN''"
  shows "eo_vessel_match_method (transform_entrance_data pr ur fr sh cr ar df ! i) = []"
proof -
  have "name_lookup sh ''NAN'' = None"
    using assms(4) name_lookup_Some [of sh "''NAN''"] by (cases "name_lookup sh ''NAN''") auto
  then show ?thesis
    using assms(1-3)
    by (simp add: transform_entrance_nth eo_method_row ent_match_vessel_def code_text_def py_str_cell_def
        normalize_name_nan py_simps)
qed

theorem entrance_missing_name_unmatched_witness:
  "0 < length [et_blank_row] \<and> cw_imo ([et_blank_row] ! 0) = None \<and> cw_vessname ([et_blank_row] ! 0) = None \<and>
   list_all (\<lambda>r. normalize_name (sr_vessel r) \<noteq> ''NAN'') [et_ship_noname] \<and>
   eo_vessel_match_method (transform_entrance_data [] [] [] [et_ship_noname] [] [] [et_blank_row] ! 0) = [] \<and>
   co_vessel_match_method (transform_clearance_data [] [] [et_ship_noname] [] [et_blank_row] ! 0) = ''Name''"
proof -
  have h: "\<forall>r \<in> set [et_ship_noname]. normalize_name (sr_vessel r) \<noteq> ''NAN''"
    by (simp add: et_ship_noname_def normalize_name_def)
  have c: "co_vessel_match_method (transform_clearance_data [] [] [et_ship_noname] [] [et_blank_row] ! 0) = ''Name''"
    by (simp add: transform_clearance_data_def transform_clearance_row_def match_vessel_def imo_lookup_def
        vessel_name_lookup_def et_ship_noname_def et_blank_row_def code_text_def normalize_vessel_name_def
        keep_vessel_char_def py_str_cell_def py_simps Let_def split: prod.split)
  show ?thesis
    using entrance_missing_name_unmatched [of 0 "[et_blank_row]", OF _ _ _ h] c
    by (simp add: et_blank_row_def et_ship_noname_def normalize_name_def)
qed

text \<open>
  C25. A record whose ICST_DESC is missing reads \<open>'NAN'\<close> and takes the Group, Commodity
  and Agency_Fee of the last dictionary row whose ICST type is missing.
\<close>

theorem entrance_missing_icst_inherits:
  assumes "i < length df" "cw_icst_desc (df ! i) = None"
  shows "eo_group (transform_entrance_data pr ur fr sh (cr @ [(None, g, c)]) (ar @ [(None, f)]) df ! i) = cell_text g \<and>
         eo_commodity (transform_entrance_data pr ur fr sh (cr @ [(None, g, c)]) (ar @ [(None, f)]) df ! i) = cell_text c \<and>
         eo_agency_fee (transform_entrance_data pr ur fr sh (cr @ [(None, g, c)]) (ar @ [(None, f)]) df ! i) = cell_text f"
  using assms
  by (simp add: transform_entrance_nth transform_entrance_row_def Let_def cargo_class_of_def agency_fee_of_def
      lookup_nan_last py_str_cell_def py_simps split: prod.split)

theorem entrance_missing_icst_inherits_witness:
  "0 < length [et_blank_row] \<and> cw_icst_desc ([et_blank_row] ! 0) = None \<and>
   eo_group (transform_entrance_data [] [] [] [] ([] @ [(None, Some ''Dry Bulk'', Some ''Coal'')])
     ([] @ [(None, Some ''250'')]) [et_blank_row] ! 0) = ''Dry Bulk'' \<and>
   eo_commodity (transform_entrance_data [] [] [] [] ([] @ [(None, Some ''Dry Bulk'', Some ''Coal'')])
     ([] @ [(None, Some ''250'')]) [et_blank_row] ! 0) = ''Coal'' \<and>
   eo_agency_fee (transform_entrance_data [] [] [] [] ([] @ [(None, Some ''Dry Bulk'', Some ''Coal'')])
     ([] @ [(None, Some ''250'')]) [et_blank_row] ! 0) = ''250''"
  using entrance_missing_icst_inherits [of 0 "[et_blank_row]" "[]" "[]" "[]" "[]" "[]"
      "Some ''Dry Bulk''" "Some ''Coal''" "[]" "Some ''250''"]
  by (simp add: et_blank_row_def py_str_cell_def py_simps)

end
