(* ===== verification/PortRollups.thy ===== *)
theory PortRollups
  imports PyText "HOL-Library.AList"
begin

text \<open>
  \<open>add_port_rollups_to_exports_v1.0.0.py\<close>: the rollup columns Port_Consolidated,
  Port_Coast and Port_Region, looked up in the USACE-to-census port mapping

  \<^item> for the Panjiva export port calls by port name (\<open>match_port_name\<close>, lines 74--114:
    exact city, then the second comma part, then the first dictionary entry related to
    either by substring), lines 130--135;
  \<^item> for the USACE clearances by port code when a \<open>PORT\<close> or \<open>Clearance_Port\<close> column
    exists (lines 154--167, \<open>astype(str)\<close> of the column), else by name (lines 168--173).

  The name dictionary is a Python \<open>dict\<close> whose iteration order matters (the substring
  search takes the first entry): it is an association list updated by \<open>AList.update\<close>,
  which keeps a key at its first position and replaces its value, as \<open>dict\<close> does. The
  mapping file is read without \<open>dtype\<close>, so its code column is printed according to its
  inferred dtype (\<open>pd_infer_dtype\<close>, \<open>pd_cell_str\<close>); rollup cells are kept as read
  (\<open>None\<close> for NaN).
\<close>

section \<open>Data\<close>

type_synonym rollup = "string option \<times> string option \<times> string option"

text \<open>A row of \<open>usace_to_census_port_mapping.csv\<close> (the columns the script reads).\<close>

record pm_row =
  pm_usace_port :: "string option"
  pm_usace_port_name :: "string option"
  pm_cons :: "string option"
  pm_coast :: "string option"
  pm_region :: "string option"

section \<open>Dictionaries\<close>

text \<open>Lines 50--52 and 65--67: \<open>row.get('Port_Consolidated', '')\<close> and the other two, as read.\<close>

definition rollup_of :: "pm_row \<Rightarrow> rollup" where
  "rollup_of r = (pm_cons r, pm_coast r, pm_region r)"

text \<open>Lines 46--53: by \<open>str(row['USACE_PORT']).strip()\<close>.\<close>

definition port_lookup_usace :: "pm_row list \<Rightarrow> string \<Rightarrow> rollup option" where
  "port_lookup_usace rows =
     (let dt = pd_infer_dtype (map pm_usace_port rows) in
      foldl (\<lambda>m r. m(py_strip (pd_cell_str dt (pm_usace_port r)) \<mapsto> rollup_of r)) Map.empty rows)"

text \<open>Lines 63 and 90: the qualifier words removed from a city.\<close>

definition city_clean :: "string \<Rightarrow> string" where
  "city_clean c = py_replace ''THE '' [] (py_replace ''PORT '' [] (py_replace ''PORT OF '' [] c))"

text \<open>Lines 59--63: the key of a mapping row, \<open>None\<close> when the upper-cased name is empty.\<close>

definition name_key :: "pm_row \<Rightarrow> string option" where
  "name_key r =
     (let usace_name = py_upper (py_strip (py_str_cell (pm_usace_port_name r))) in
      if usace_name \<noteq> [] then Some (city_clean (py_strip (hd (py_split CHR '','' usace_name)))) else None)"

text \<open>Lines 57--68.\<close>

definition port_lookup_name :: "pm_row list \<Rightarrow> (string \<times> rollup) list" where
  "port_lookup_name rows =
     foldl (\<lambda>al r. case name_key r of None \<Rightarrow> al | Some city \<Rightarrow> AList.update city (rollup_of r) al) [] rows"

section \<open>Name matching\<close>

text \<open>Lines 80--91: the cleaned first comma part and the (uncleaned) second one.\<close>

definition panjiva_city :: "string \<Rightarrow> string \<times> string option" where
  "panjiva_city p =
     (let port_str = py_strip (py_upper p);
          parts = py_split CHR '','' port_str;
          city2 = (if length parts > 1 then Some (py_strip (parts ! 1)) else None);
          city = py_replace ''PORT ENTRY-'' [] (py_replace ''ENTRY-'' [] (city_clean (py_strip (parts ! 0))))
      in (city, city2))"

definition no_rollup :: rollup where
  "no_rollup = (None, None, None)"

text \<open>
  Lines 74--114. \<open>if city2:\<close> is false for \<open>None\<close> and for the empty string; the
  substring loop returns the rollup of the first entry related to \<open>city\<close> or to the
  cleaned \<open>city2\<close>.
\<close>

definition match_port_name :: "(string \<times> rollup) list \<Rightarrow> string option \<Rightarrow> rollup" where
  "match_port_name al panjiva_port =
     (case panjiva_port of
        None \<Rightarrow> no_rollup
      | Some p \<Rightarrow>
          if p = [] then no_rollup
          else (let (city, city2) = panjiva_city p;
                    has2 = (city2 \<noteq> None \<and> city2 \<noteq> Some []);
                    city2_clean = (case city2 of None \<Rightarrow> [] | Some c \<Rightarrow> city_clean c)
                in case map_of al city of
                     Some r \<Rightarrow> r
                   | None \<Rightarrow>
                       (case (if has2 then map_of al city2_clean else None) of
                          Some r \<Rightarrow> r
                        | None \<Rightarrow>
                            (case find (\<lambda>(port_name, _). py_in city port_name \<or> py_in port_name city \<or>
                                          (has2 \<and> (py_in city2_clean port_name \<or> py_in port_name city2_clean))) al of
                               Some (_, r) \<Rightarrow> r
                             | None \<Rightarrow> no_rollup))))"

section \<open>The two frames\<close>

text \<open>Lines 132--135: the export port calls by \<open>Port_of_Lading\<close>.\<close>

definition export_port_rollups :: "pm_row list \<Rightarrow> string option list \<Rightarrow> rollup list" where
  "export_port_rollups rows ports = map (match_port_name (port_lookup_name rows)) ports"

text \<open>
  Lines 154--173: the code column is \<open>PORT\<close> if present, else \<open>Clearance_Port\<close>; a code
  missing from the mapping gives \<open>''\<close> in all three columns. Without a code column the
  names are matched.
\<close>

definition clearance_port_rollups ::
  "pm_row list \<Rightarrow> string option list option \<Rightarrow> string option list option \<Rightarrow> string option list \<Rightarrow> rollup list" where
  "clearance_port_rollups rows port_col clr_port_col names =
     (case (case port_col of Some c \<Rightarrow> Some c | None \<Rightarrow> clr_port_col) of
        None \<Rightarrow> map (match_port_name (port_lookup_name rows)) names
      | Some codes \<Rightarrow>
          (let dt = pd_infer_dtype codes; lk = port_lookup_usace rows in
           map (\<lambda>c. case lk (py_strip (pd_cell_str dt c)) of
                      None \<Rightarrow> (Some [], Some [], Some [])
                    | Some r \<Rightarrow> r) codes))"


section \<open>Concrete inputs\<close>

text \<open>Mapping rows: Houston, the two Portlands, and a row whose port name is missing.\<close>

definition pr_houston :: pm_row where
  "pr_houston = \<lparr>pm_usace_port = Some ''5301'', pm_usace_port_name = Some ''Houston, TX'',
     pm_cons = Some ''Houston'', pm_coast = Some ''Gulf'', pm_region = Some ''Texas''\<rparr>"

definition pr_portland_me :: pm_row where
  "pr_portland_me = \<lparr>pm_usace_port = Some ''0102'', pm_usace_port_name = Some ''Portland, ME'',
     pm_cons = Some ''Portland ME'', pm_coast = Some ''East'', pm_region = Some ''New England''\<rparr>"

definition pr_portland_or :: pm_row where
  "pr_portland_or = \<lparr>pm_usace_port = Some ''2904'', pm_usace_port_name = Some ''Portland, OR'',
     pm_cons = Some ''Portland OR'', pm_coast = Some ''West'', pm_region = Some ''Pacific Northwest''\<rparr>"

definition pr_noname :: pm_row where
  "pr_noname = \<lparr>pm_usace_port = Some ''9999'', pm_usace_port_name = None,
     pm_cons = Some ''Unknown'', pm_coast = None, pm_region = None\<rparr>"

section \<open>Lemmas\<close>

lemma int64_key_chars:
  assumes "pd_infer_dtype cells = Int64" "c \<in> set cells"
  shows "CHR ''.'' \<notin> set (py_strip (pd_cell_str Int64 c)) \<and> CHR ''n'' \<notin> set (py_strip (pd_cell_str Int64 c))"
proof -
  obtain t n where "c = Some t" "py_int_of (py_strip t) = Some n" using infer_Int64 [OF assms] by blast
  then have "pd_cell_str Int64 c = py_str_int n" by (simp add: pd_cell_str_def)
  moreover have A: "x = CHR ''-'' \<or> is_ascii_digit x" if "x \<in> set (py_strip (py_str_int n))" for x
    using set_py_strip py_str_int_chars that by blast
  ultimately show ?thesis
    using A [of "CHR ''.''"] A [of "CHR ''n''"] by (auto simp: is_ascii_digit_def)
qed

lemma float64_key_chars:
  assumes "pd_infer_dtype cells = Float64" "c \<in> set cells"
  shows "CHR ''.'' \<in> set (py_strip (pd_cell_str Float64 c)) \<or> py_strip (pd_cell_str Float64 c) = ''nan''"
proof -
  have nan: "py_strip ''nan'' = ''nan''" by (simp add: py_strip_def py_space_def)
  have dot: "\<not> py_space CHR ''.''" by (simp add: py_space_def)
  show ?thesis
    using infer_Float64 [OF assms]
    by (auto simp: pd_cell_str_def nan dot dot_in_repr intro!: py_strip_keep)
qed

lemma port_lookup_usace_Some:
  "port_lookup_usace rows k = Some v \<Longrightarrow>
   \<exists>r \<in> set rows. k = py_strip (pd_cell_str (pd_infer_dtype (map pm_usace_port rows)) (pm_usace_port r))"
  unfolding port_lookup_usace_def Let_def by (drule foldl_map_Some) auto

lemma map_of_port_lookup_name_snoc:
  "name_key r = Some k \<Longrightarrow> map_of (port_lookup_name (rows @ [r])) k = Some (rollup_of r)"
  by (simp add: port_lookup_name_def update_conv')

lemmas rollup_eval = pd_infer_dtype_def pd_cell_str_def py_int_of_def digits_val_def py_float_def dec_value_def
  digit_val_def py_repr_float_def py_str_int_def nat_digits.simps digit_char_def fixed_digits_small
  port_lookup_usace_def clearance_port_rollups_def rollup_of_def py_simps Let_def

lemmas name_eval = name_key_def panjiva_city_def city_clean_def py_str_cell_def py_simps Let_def

text \<open>The code path works when both columns are read as integers.\<close>

lemma clearance_rollup_int_codes:
  "clearance_port_rollups [pr_houston] (Some [Some ''5301'']) None [] = [(Some ''Houston'', Some ''Gulf'', Some ''Texas'')]"
  by (simp add: pr_houston_def rollup_eval)

text \<open>
  A mapping row without a port name gets the key \<open>NAN\<close>, which the substring search
  finds inside \<open>FERNANDINA BEACH\<close>.
\<close>

lemma rollup_nan_name_substring:
  "export_port_rollups [pr_houston, pr_noname] [Some ''Fernandina Beach, Florida''] =
     [(Some ''Unknown'', None, None)]"
  by (simp add: export_port_rollups_def port_lookup_name_def match_port_name_def pr_houston_def pr_noname_def
      name_eval rollup_of_def py_in_def)

section \<open>Properties\<close>

text \<open>
  C26. When the mapping's USACE_PORT column is read as integers and the clearance code
  column as floats (it has a missing cell), every code prints as \<open>4110.0\<close> or \<open>nan\<close>,
  which is never a key, and every clearance row gets empty rollups.
\<close>

theorem clearance_rollup_dtype_mismatch:
  assumes "pd_infer_dtype (map pm_usace_port rows) = Int64" "pd_infer_dtype codes = Float64"
  shows "clearance_port_rollups rows (Some codes) cc names = replicate (length codes) (Some [], Some [], Some [])"
proof -
  have "port_lookup_usace rows (py_strip (pd_cell_str Float64 c)) = None" if c: "c \<in> set codes" for c
  proof (rule ccontr)
    assume "port_lookup_usace rows (py_strip (pd_cell_str Float64 c)) \<noteq> None"
    then obtain r where "r \<in> set rows" and
      k: "py_strip (pd_cell_str Float64 c) = py_strip (pd_cell_str Int64 (pm_usace_port r))"
      using port_lookup_usace_Some assms(1) by fastforce
    then have "pm_usace_port r \<in> set (map pm_usace_port rows)" by simp
    from int64_key_chars [OF assms(1) this] float64_key_chars [OF assms(2) c] k show False
      by auto
  qed
  then show ?thesis
    using assms(2) by (auto simp: clearance_port_rollups_def Let_def map_replicate_const intro!: nth_equalityI)
qed

theorem clearance_rollup_dtype_mismatch_witness:
  "pd_infer_dtype (map pm_usace_port [pr_houston]) = Int64 \<and> pd_infer_dtype [Some ''5301'', None] = Float64 \<and>
   clearance_port_rollups [pr_houston] (Some [Some ''5301'', None]) None [] =
     replicate 2 (Some [], Some [], Some [])"
proof -
  have a: "pd_infer_dtype (map pm_usace_port [pr_houston]) = Int64"
    by (simp add: pr_houston_def rollup_eval)
  have b: "pd_infer_dtype [Some ''5301'', None] = Float64"
    by (simp add: rollup_eval)
  show ?thesis using clearance_rollup_dtype_mismatch [OF a b] a b by (simp add: numeral_2_eq_2)
qed

text \<open>
  C27. Mapping rows whose names clean to the same city share one key: a Panjiva port
  whose city is that key gets the rollup of the last such row (both Portlands get
  Portland, Oregon).
\<close>

theorem rollup_name_last_row_wins:
  assumes "p \<noteq> []" "name_key r = Some (fst (panjiva_city p))"
  shows "match_port_name (port_lookup_name (rows @ [r])) (Some p) = rollup_of r"
proof -
  obtain c c2 where pc: "panjiva_city p = (c, c2)" by (cases "panjiva_city p")
  then show ?thesis
    using assms map_of_port_lookup_name_snoc [OF assms(2), of rows] by (simp add: match_port_name_def)
qed

theorem rollup_name_last_row_wins_witness:
  "''Portland, Maine'' \<noteq> [] \<and> name_key pr_portland_or = Some (fst (panjiva_city ''Portland, Maine'')) \<and>
   name_key pr_portland_me = name_key pr_portland_or \<and>
   match_port_name (port_lookup_name ([pr_portland_me] @ [pr_portland_or])) (Some ''Portland, Maine'') =
     (Some ''Portland OR'', Some ''West'', Some ''Pacific Northwest'')"
proof -
  have k: "name_key pr_portland_or = Some (fst (panjiva_city ''Portland, Maine''))"
    by (simp add: pr_portland_or_def name_eval)
  have m: "name_key pr_portland_me = name_key pr_portland_or"
    by (simp add: pr_portland_or_def pr_portland_me_def name_eval)
  show ?thesis
    using rollup_name_last_row_wins [OF _ k, of "[pr_portland_me]"] k m
    by (simp add: pr_portland_or_def rollup_of_def)
qed

end
