(* ===== verification/PanjivaPreprocess.thy ===== *)
theory PanjivaPreprocess
  imports PyText
begin

text \<open>
  \<open>process_panjiva_exports_v1.0.0.py\<close>: the raw Panjiva export files are concatenated,
  numbered (\<open>RAW_REC_ID\<close>), given a year, a \<open>Tons\<close> column and the HS levels HS2, HS4,
  HS6, and split into one file per year.

  Each CSV of the zip files is read separately (lines 45--56), so the dtype of its
  \<open>HS Code\<close> column is inferred per file (\<open>pd_infer_dtype\<close>); \<open>pd.concat\<close> (line 60)
  then gives the column one dtype: text if some file's column is text (each value keeps
  its own type), else float if some file's is float, else integer. \<open>str(hs_code)\<close>
  (line 91) prints the value accordingly (\<open>pd_cell_str\<close>). The parsing of
  \<open>Shipment Date\<close> by \<open>pd.to_datetime(..., errors='coerce')\<close> is not modelled: each raw
  row carries the year it yields, \<open>None\<close> for \<open>NaT\<close>.
\<close>

section \<open>Data\<close>

text \<open>A raw export row: the cells the script reads.\<close>

record pj_raw =
  px_hs_code :: "string option"
  px_weight :: "rat option"
  px_year :: "int option"

text \<open>A row after preprocessing: the raw row and the added columns.\<close>

record pj_pre =
  pp_raw :: pj_raw
  pp_raw_rec_id :: nat
  pp_year :: "int option"
  pp_tons :: "rat option"
  pp_hs2 :: string
  pp_hs4 :: string
  pp_hs6 :: string

section \<open>Operations\<close>

text \<open>\<open>s.ljust(w, c)\<close>.\<close>

definition py_ljust :: "nat \<Rightarrow> char \<Rightarrow> string \<Rightarrow> string" where
  "py_ljust w c s = s @ replicate (w - length s) c"

text \<open>Lines 86--100.\<close>

definition extract_hs_codes :: "string option \<Rightarrow> string \<times> string \<times> string" where
  "extract_hs_codes hs_code =
     (case hs_code of
        None \<Rightarrow> ([], [], [])
      | Some s \<Rightarrow>
          (let hs_str = py_ljust 6 CHR ''0'' (py_strip (py_replace ''.'' [] s))
           in (if length hs_str \<ge> 2 then take 2 hs_str else [],
               if length hs_str \<ge> 4 then take 4 hs_str else [],
               if length hs_str \<ge> 6 then take 6 hs_str else [])))"

text \<open>Line 60: the dtype of a cell after \<open>pd.concat\<close> of files with the given column dtypes.\<close>

definition concat_dtype :: "col_dtype list \<Rightarrow> col_dtype \<Rightarrow> col_dtype" where
  "concat_dtype dts dt = (if Object \<in> set dts then dt else if Float64 \<in> set dts then Float64 else Int64)"

text \<open>
  Lines 64--110 for one row of the concatenated frame: \<open>RAW_REC_ID\<close>, Year, \<open>Tons\<close>
  (when the \<open>Weight (t)\<close> column exists, else the column is absent: \<open>None\<close>) and the
  HS levels of the cell printed under dtype \<open>dt\<close>.
\<close>

definition pre_row :: "bool \<Rightarrow> nat \<Rightarrow> col_dtype \<Rightarrow> pj_raw \<Rightarrow> pj_pre" where
  "pre_row has_weight recid dt r =
     (let (hs2, hs4, hs6) = extract_hs_codes (map_option (\<lambda>t. pd_cell_str dt (Some t)) (px_hs_code r))
      in \<lparr>pp_raw = r, pp_raw_rec_id = recid, pp_year = px_year r,
          pp_tons = (if has_weight then px_weight r else None),
          pp_hs2 = hs2, pp_hs4 = hs4, pp_hs6 = hs6\<rparr>)"

text \<open>Lines 58--110: concatenation in file order and \<open>RAW_REC_ID = range(1, n + 1)\<close>.\<close>

definition preprocess_exports :: "bool \<Rightarrow> pj_raw list list \<Rightarrow> pj_pre list" where
  "preprocess_exports has_weight frames =
     (let dts = map (\<lambda>f. pd_infer_dtype (map px_hs_code f)) frames;
          cells = concat (map2 (\<lambda>f dt. map (\<lambda>r. (r, concat_dtype dts dt)) f) frames dts)
      in map (\<lambda>(i, (r, dt)). pre_row has_weight (Suc i) dt r) (enumerate 0 cells))"

text \<open>Lines 115--117: one frame per year, in ascending order, \<open>dropna()\<close> on the years.\<close>

definition split_by_year :: "pj_pre list \<Rightarrow> (int \<times> pj_pre list) list" where
  "split_by_year df =
     map (\<lambda>y. (y, filter (\<lambda>r. pp_year r = Some y) df)) (sort (pd_unique (List.map_filter pp_year df)))"

definition process_panjiva_exports :: "bool \<Rightarrow> pj_raw list list \<Rightarrow> (int \<times> pj_pre list) list" where
  "process_panjiva_exports has_weight frames = split_by_year (preprocess_exports has_weight frames)"


section \<open>Concrete inputs\<close>

text \<open>One file: a shipment of 2023 and one whose date does not parse.\<close>

definition pj_two_rows :: "pj_raw list list" where
  "pj_two_rows = [[\<lparr>px_hs_code = Some ''840999'', px_weight = Some 12, px_year = Some 2023\<rparr>,
                   \<lparr>px_hs_code = Some ''030389'', px_weight = Some 5, px_year = None\<rparr>]]"

section \<open>Lemmas\<close>

lemma py_replace_dot_Cons: "c \<noteq> CHR ''.'' \<Longrightarrow> \<exists>cs'. py_replace ''.'' [] (c # cs) = c # cs'"
  by simp

lemma length_py_ljust: "w \<le> length (py_ljust w c s)"
  by (simp add: py_ljust_def)

lemma extract_hs2_hd:
  assumes "s = c # cs" "c \<noteq> CHR ''.''" "\<not> py_space c"
  shows "hd (fst (extract_hs_codes (Some s))) = c"
proof -
  obtain cs' where r: "py_replace ''.'' [] (c # cs) = c # cs'" using py_replace_dot_Cons [OF assms(2)] by blast
  obtain cs'' where st: "py_strip (c # cs') = c # cs''" using py_strip_Cons_keep [OF assms(3)] by blast
  have "6 \<le> length (py_ljust 6 CHR ''0'' (c # cs''))" by (rule length_py_ljust)
  then show ?thesis using assms(1) r st by (simp add: extract_hs_codes_def Let_def py_ljust_def)
qed

lemma pp_raw_rec_id_row [simp]: "pp_raw_rec_id (pre_row hw n dt r) = n"
  by (simp add: pre_row_def split: prod.split)

lemma preprocess_rec_ids:
  "map pp_raw_rec_id (preprocess_exports hw frames) = [1..<Suc (length (preprocess_exports hw frames))]"
  by (simp add: preprocess_exports_def Let_def case_prod_beta o_def map_Suc_fst_enumerate)

text \<open>A text column keeps the leading zero of the HS chapter.\<close>

lemma hs_object_keeps_zero: "extract_hs_codes (Some (pd_cell_str Object (Some ''030389''))) = (''03'', ''0303'', ''030389'')"
  by (simp add: extract_hs_codes_def pd_cell_str_def py_ljust_def py_simps)

text \<open>The row whose date does not parse is in no year file.\<close>

lemma panjiva_nat_row_dropped:
  "map (\<lambda>(y, rs). (y, map pp_raw_rec_id rs)) (process_panjiva_exports True pj_two_rows) = [(2023, [1])]"
  by (simp add: process_panjiva_exports_def split_by_year_def preprocess_exports_def pre_row_def pj_two_rows_def
      pd_unique_def Let_def split: prod.split)

section \<open>Properties\<close>

text \<open>
  C28. The year files hold exactly the rows whose Shipment Date parsed, each once, and
  their RAW_REC_IDs are distinct; a row with an unparseable date is in no file.
\<close>

theorem panjiva_year_files:
  "mset (concat (map snd (process_panjiva_exports hw frames))) =
     mset (filter (\<lambda>r. pp_year r \<noteq> None) (preprocess_exports hw frames)) \<and>
   distinct (map pp_raw_rec_id (concat (map snd (process_panjiva_exports hw frames))))"
proof -
  let ?df = "preprocess_exports hw frames"
  let ?ys = "sort (pd_unique (List.map_filter pp_year ?df))"
  have ys: "distinct ?ys" by simp
  have "filter (\<lambda>r. \<exists>y \<in> set ?ys. pp_year r = Some y) ?df = filter (\<lambda>r. pp_year r \<noteq> None) ?df"
    by (rule filter_cong) (auto simp: List.map_filter_def)
  then have m: "mset (concat (map snd (process_panjiva_exports hw frames))) = mset (filter (\<lambda>r. pp_year r \<noteq> None) ?df)"
    using mset_concat_filters [OF ys, of pp_year ?df]
    by (simp add: process_panjiva_exports_def split_by_year_def o_def)
  have "distinct (map pp_raw_rec_id (filter (\<lambda>r. pp_year r \<noteq> None) ?df))"
    using preprocess_rec_ids [of hw frames] distinct_map_filter [of pp_raw_rec_id ?df]
    by (metis distinct_upt)
  moreover have "mset (map pp_raw_rec_id (concat (map snd (process_panjiva_exports hw frames)))) =
                 mset (map pp_raw_rec_id (filter (\<lambda>r. pp_year r \<noteq> None) ?df))"
    using m by (simp add: mset_map)
  ultimately show ?thesis using m mset_eq_imp_distinct_iff by blast
qed

text \<open>
  C29. In an integer or float HS Code column the chapter HS2 never starts with \<open>0\<close>:
  \<open>030389\<close> becomes \<open>30389\<close> (or \<open>30389.0\<close>), padded to \<open>303890\<close>, chapter \<open>30\<close>
  instead of \<open>03\<close>; chapters 01--09 can only come from text columns.
\<close>

theorem hs2_numeric_leading_digit:
  assumes "(dt = Int64 \<and> py_int_of (py_strip t) = Some n \<and> 1 \<le> n) \<or> (dt = Float64 \<and> py_float t = Some q \<and> 1 \<le> q)"
  shows "hd (fst (extract_hs_codes (Some (pd_cell_str dt (Some t))))) \<noteq> CHR ''0''"
proof -
  obtain m rest where s: "pd_cell_str dt (Some t) = nat_digits m @ rest" and m: "1 \<le> m"
  proof -
    from assms show ?thesis
    proof
      assume a: "dt = Int64 \<and> py_int_of (py_strip t) = Some n \<and> 1 \<le> n"
      then have "pd_cell_str dt (Some t) = nat_digits (nat n) @ []"
        by (simp add: pd_cell_str_def py_str_int_def)
      moreover have "1 \<le> nat n" using a by linarith
      ultimately show ?thesis using that by blast
    next
      assume a: "dt = Float64 \<and> py_float t = Some q \<and> 1 \<le> q"
      with repr_float_lead [of q] obtain m rest where "py_repr_float q = nat_digits m @ rest" "1 \<le> m"
        by blast
      then show ?thesis using that a by (simp add: pd_cell_str_def)
    qed
  qed
  obtain c cs where c: "nat_digits m = c # cs" "is_ascii_digit c" "c \<noteq> CHR ''0''"
    using nat_digits_lead [OF m] by blast
  show ?thesis
    using extract_hs2_hd [of _ c "cs @ rest"] s c digit_not_space_dot [OF c(2)] by simp
qed

theorem hs2_numeric_leading_digit_witness:
  "((Int64 = Int64 \<and> py_int_of (py_strip ''030389'') = Some 30389 \<and> (1::int) \<le> 30389) \<or>
    (Int64 = Float64 \<and> py_float ''030389'' = Some 1 \<and> (1::rat) \<le> 1)) \<and>
   extract_hs_codes (Some (pd_cell_str Int64 (Some ''030389''))) = (''30'', ''3038'', ''303890'')"
proof -
  have p: "py_int_of (py_strip ''030389'') = Some 30389"
    by (simp add: py_int_of_def digits_val_def digit_val_def py_simps)
  have "hd (fst (extract_hs_codes (Some (pd_cell_str Int64 (Some ''030389''))))) \<noteq> CHR ''0''"
    using hs2_numeric_leading_digit [of Int64 "''030389''" 30389 1] p by simp
  moreover have "extract_hs_codes (Some (pd_cell_str Int64 (Some ''030389''))) = (''30'', ''3038'', ''303890'')"
    using p by (simp add: extract_hs_codes_def pd_cell_str_def py_ljust_def py_str_int_def nat_digits.simps
        digit_char_def py_simps)
  ultimately show ?thesis using p by simp
qed


end
