(* ===== verification/PortcallMaster.thy ===== *)
theory PortcallMaster
  imports GenesisMatcher UsaceDate
begin

text \<open>
  The port-call master file of \<open>marry_entrance_clearance_v1.0.0.py\<close> as a whole: the
  clearance dates are parsed by \<open>parse_usace_date\<close> (lines 69--73, \<open>UsaceDate\<close>), the
  matcher of \<open>GenesisMatcher\<close> builds the rows, and every row gets the identifier
  \<open>PC_\<close> followed by its position zero-filled to six digits (lines 205--215). The
  entrance dates come from \<open>pd.to_datetime\<close> on text dates (line 62), whose parsing is
  not modelled: the entrance movements carry their parsed day.
\<close>

section \<open>Definitions\<close>

text \<open>Line 73: \<open>clearance['Clearance_Date_Parsed'] = clearance['Clearance_Date'].apply(parse_usace_date)\<close>.\<close>

definition load_clearance :: "movement list \<Rightarrow> movement list" where
  "load_clearance C = map (\<lambda>c. c\<lparr>mv_date := parse_usace_date (mv_raw_date c)\<rparr>) C"

text \<open>Lines 214--215: \<open>'PC_' + str(i).zfill(6)\<close>.\<close>

definition portcall_id :: "nat \<Rightarrow> string" where
  "portcall_id i = ''PC_'' @ py_zfill 6 (py_str_int (int i))"

record master_row =
  pcm_id :: string
  pcm_row :: portcall_row

text \<open>Lines 57--215: the master file from the two loaded frames.\<close>

definition portcall_master :: "movement list \<Rightarrow> movement list \<Rightarrow> master_row list" where
  "portcall_master E C =
     (let rows = fst (marry_entrance_clearance E (load_clearance C))
      in map2 (\<lambda>i r. \<lparr>pcm_id = portcall_id i, pcm_row = r\<rparr>) [1..<Suc (length rows)] rows)"

section \<open>Concrete inputs\<close>

text \<open>Scenario 1 with raw clearance dates: 2023-01-10, 2023-01-20 and a malformed 140000.\<close>

definition pm_entrances :: "movement list" where
  "pm_entrances = [\<lparr>mv_imo = Some 123, mv_vessel = Some ''ALPHA'', mv_port = Some 1,
                    mv_date = Some (ts_days 2023 1 1), mv_icst = None, mv_raw_date = None\<rparr>]"

definition pm_clearances :: "movement list" where
  "pm_clearances =
     [\<lparr>mv_imo = Some 123, mv_vessel = Some ''ALPHA'', mv_port = Some 1, mv_date = None, mv_icst = None,
       mv_raw_date = Some 1310\<rparr>,
      \<lparr>mv_imo = Some 123, mv_vessel = Some ''ALPHA'', mv_port = Some 1, mv_date = None, mv_icst = None,
       mv_raw_date = Some 1320\<rparr>,
      \<lparr>mv_imo = Some 123, mv_vessel = Some ''ALPHA'', mv_port = Some 1, mv_date = None, mv_icst = None,
       mv_raw_date = Some 140000\<rparr>]"

section \<open>Lemmas\<close>

lemma portcall_id_inj: "portcall_id a = portcall_id b \<Longrightarrow> a = b"
  by (simp add: portcall_id_def py_str_int_nat zfill_nat_digits_inj)

text \<open>Every clearance in the master file is one of the input clearances.\<close>

lemma marry_clearance_mem:
  assumes "r \<in> set (fst (marry_entrance_clearance E C))" "pc_clearance r = Some c"
  shows "c \<in> set C"
proof -
  let ?cs = "sort_key movement_key C"
  let ?st = "marry_loop ?cs init_marry_state (sort_key movement_key E)"
  have inv: "marry_inv ?cs ?st" by (rule marry_loop_inv [OF init_marry_inv])
  have "c \<in> set ?cs"
  proof (cases "r \<in> set (out ?st)")
    case True
    then have "c \<in> set (List.map_filter pc_clearance (out ?st))" using assms(2) by (rule in_map_filter)
    then have "c \<in># image_mset (\<lambda>i. ?cs ! i) (mset_set (cleared ?st))"
      using inv by (simp add: marry_inv_def flip: set_mset_mset)
    moreover have "finite (cleared ?st)" and sub: "cleared ?st \<subseteq> {..<length ?cs}"
      using inv by (auto simp: marry_inv_def finite_subset)
    moreover have "\<forall>i \<in> cleared ?st. ?cs ! i \<in> set ?cs"
      using sub by (auto simp del: set_sort intro!: nth_mem)
    ultimately show ?thesis by (auto simp del: set_sort)
  next
    case False
    then have "r \<in> set (unmatched_clearances ?cs (cleared ?st))"
      using assms(1) by (simp add: marry_entrance_clearance_def Let_def)
    then show ?thesis
      using assms(2) by (auto simp: unmatched_clearances_def clearance_only_row_def simp del: set_sort)
  qed
  then show ?thesis by simp
qed

lemma length_portcall_master:
  "length (portcall_master E C) = length (fst (marry_entrance_clearance E (load_clearance C)))"
  by (simp add: portcall_master_def Let_def del: upt_Suc)

lemma portcall_master_rows:
  "map pcm_row (portcall_master E C) = fst (marry_entrance_clearance E (load_clearance C))"
  by (simp add: portcall_master_def Let_def o_def case_prod_beta map_snd_zip del: upt_Suc)

lemma portcall_master_ids:
  "map pcm_id (portcall_master E C) = map portcall_id [1..<Suc (length (portcall_master E C))]"
proof -
  have "map (\<lambda>x. portcall_id (fst x)) (zip [1..<Suc n] xs) = map portcall_id [1..<Suc n]" if "length xs = n" for n xs
  proof -
    have "map fst (zip [1..<Suc n] xs) = [1..<Suc n]" using that by (simp del: upt_Suc)
    moreover have "map (\<lambda>x. portcall_id (fst x)) (zip [1..<Suc n] xs) = map portcall_id (map fst (zip [1..<Suc n] xs))"
      by (simp del: upt_Suc)
    ultimately show ?thesis by simp
  qed
  then show ?thesis by (simp add: portcall_master_def Let_def o_def case_prod_beta del: upt_Suc)
qed

lemma pm_loaded:
  "load_clearance pm_clearances =
     map (\<lambda>(raw, d). \<lparr>mv_imo = Some 123, mv_vessel = Some ''ALPHA'', mv_port = Some 1, mv_date = d, mv_icst = None,
                       mv_raw_date = Some raw\<rparr>)
       [(1310, Some (ts_days 2023 1 10)), (1320, Some (ts_days 2023 1 20)), (140000, None)]"
  by (simp add: load_clearance_def pm_clearances_def usace_date_eval)

lemma replicate_5: "replicate 5 c = [c, c, c, c, c]"
  by (simp add: numeral_eq_Suc)

text \<open>The concrete master file: the malformed date leaves its clearance \<open>CLEARANCE_ONLY\<close>.\<close>

lemma pm_master_rows:
  "map (\<lambda>r. (pc_type r, map_option mv_raw_date (pc_clearance r)))
     (map pcm_row (portcall_master pm_entrances pm_clearances)) =
   [(BOTH, Some (Some 1310)), (CLEARANCE_ONLY, Some (Some 1320)), (CLEARANCE_ONLY, Some (Some 140000))]"
  unfolding portcall_master_rows pm_loaded pm_entrances_def by code_simp

lemma pm_master_ids:
  "map pcm_id (portcall_master pm_entrances pm_clearances) = [''PC_000001'', ''PC_000002'', ''PC_000003'']"
proof -
  have "length (portcall_master pm_entrances pm_clearances) = 3"
    using arg_cong [OF pm_master_rows, of length] by simp
  moreover have "[1..<Suc 3] = [1::nat, 2, 3]" by code_simp
  ultimately show ?thesis
    unfolding portcall_master_ids
    by (simp add: portcall_id_def py_zfill_def py_str_int_def nat_digits.simps digit_char_def replicate_5 py_simps
        del: upt_Suc)
qed

section \<open>Properties\<close>

text \<open>
  C8. The master file's PORTCALL_IDs are distinct and of the form \<open>PC_\<close> followed by
  the zero-filled position, and the clearance of every \<open>BOTH\<close> row has a
  Clearance_Date that \<open>parse_usace_date\<close> accepts: a clearance with a malformed date is
  never married.
\<close>

theorem portcall_master_ids_and_dates:
  "distinct (map pcm_id (portcall_master E C)) \<and>
   list_all (\<lambda>r. take 3 (pcm_id r) = ''PC_'') (portcall_master E C) \<and>
   (\<forall>r \<in> set (portcall_master E C). pc_type (pcm_row r) = BOTH \<longrightarrow>
      (\<exists>c d. pc_clearance (pcm_row r) = Some c \<and> parse_usace_date (mv_raw_date c) = Some d))"
proof (intro conjI ballI impI)
  show "distinct (map pcm_id (portcall_master E C))"
    unfolding portcall_master_ids by (simp add: distinct_map inj_on_def portcall_id_inj)
  show "list_all (\<lambda>r. take 3 (pcm_id r) = ''PC_'') (portcall_master E C)"
  proof -
    have "\<forall>x \<in> set (map pcm_id (portcall_master E C)). take 3 x = ''PC_''"
      unfolding portcall_master_ids by (auto simp: portcall_id_def)
    then show ?thesis by (simp add: list_all_iff)
  qed
next
  fix r assume r: "r \<in> set (portcall_master E C)" "pc_type (pcm_row r) = BOTH"
  have mem: "pcm_row r \<in> set (fst (marry_entrance_clearance E (load_clearance C)))"
    using r(1) portcall_master_rows [of E C] by (metis image_eqI list.set_map)
  have "both_ok (pcm_row r)"
    by (rule marry_rows_property [where P = both_ok, OF match_entrance_both_ok clearance_only_both_ok mem])
  then obtain c d where c: "pc_clearance (pcm_row r) = Some c" "mv_date c = Some d"
    using r(2) by (auto simp: both_ok_def)
  have "c \<in> set (load_clearance C)" by (rule marry_clearance_mem [OF mem c(1)])
  then have "mv_date c = parse_usace_date (mv_raw_date c)" by (auto simp: load_clearance_def)
  with c show "\<exists>c d. pc_clearance (pcm_row r) = Some c \<and> parse_usace_date (mv_raw_date c) = Some d"
    by auto
qed

theorem portcall_master_ids_and_dates_witness:
  "distinct (map pcm_id (portcall_master pm_entrances pm_clearances)) \<and>
   pc_type (pcm_row (portcall_master pm_entrances pm_clearances ! 0)) = BOTH \<and>
   (\<exists>c d. pc_clearance (pcm_row (portcall_master pm_entrances pm_clearances ! 0)) = Some c \<and>
      parse_usace_date (mv_raw_date c) = Some d) \<and>
   map pcm_id (portcall_master pm_entrances pm_clearances) = [''PC_000001'', ''PC_000002'', ''PC_000003'']"
proof -
  have len: "0 < length (portcall_master pm_entrances pm_clearances)"
    using arg_cong [OF pm_master_ids, of length] by simp
  have both: "pc_type (pcm_row (portcall_master pm_entrances pm_clearances ! 0)) = BOTH"
    using arg_cong [OF pm_master_rows, of "\<lambda>xs. fst (xs ! 0)"] len by simp
  have mem: "portcall_master pm_entrances pm_clearances ! 0 \<in> set (portcall_master pm_entrances pm_clearances)"
    using len by simp
  show ?thesis
    using portcall_master_ids_and_dates [of pm_entrances pm_clearances] mem both pm_master_ids by blast
qed

end
