(* ===== verification/UserEdits.thy ===== *)
theory UserEdits
  imports PyText "HOL-Library.AList" "HOL-Library.Sublist"
begin

text \<open>
  \<open>analyze_user_edits_v1.0.0.py\<close>: the comparison of the port-call master file with a copy
  a user corrected by hand, and the extraction of edit patterns from it.

  \<^item> A CSV file is a \<open>frame\<close>: its column names and its rows of cells (\<open>None\<close> an empty
    or NA cell). \<open>pd.read_csv\<close> gives each column the dtype \<open>pd_infer_dtype\<close> of its
    cells; \<open>df.iloc[idx]\<close> (\<open>frame_row\<close>) is the row as a Series, whose values keep their
    column's dtype when the frame has a text column and are converted to float when all
    columns are numeric (\<open>iloc_dtype\<close>).
  \<^item> \<open>compare_rows\<close> (lines 95--117) returns the dict of changed columns, in the original
    column order; the main loop (lines 559--577, \<open>scan_edits\<close>) collects the change
    dicts of the modified rows, the changes of each column (a \<open>defaultdict(list)\<close>,
    \<open>dd_append\<close>) and the two counters.
  \<^item> The five pattern analyses (lines 139--305) read those collections; a \<open>Counter\<close> is an
    association list of counts and \<open>most_common(n)\<close> the first \<open>n\<close> entries of its stable
    sort by decreasing count, as \<open>heapq.nlargest\<close> promises.
  \<^item> \<open>analyze_user_edits\<close> is \<open>main\<close> from the two loaded frames (lines 584--616): the early
    return when nothing changed, the pattern list and the statistics of the report.

  Reading and writing the files and the text of the report and of the code suggestions
  are not modelled. pandas renames duplicate column names on reading, so the column
  names of a frame are distinct (\<open>wf_frame\<close>).
\<close>

section \<open>Frames and rows\<close>

record frame =
  fr_cols :: "string list"
  fr_rows :: "string option list list"

definition wf_frame :: "frame \<Rightarrow> bool" where
  "wf_frame F \<longleftrightarrow> distinct (fr_cols F)"

text \<open>A short CSV line is padded with NaN cells.\<close>

definition cell_at :: "string option list \<Rightarrow> nat \<Rightarrow> string option" where
  "cell_at r j = (if j < length r then r ! j else None)"

definition frame_dtypes :: "frame \<Rightarrow> col_dtype list" where
  "frame_dtypes F = map (\<lambda>j. pd_infer_dtype (map (\<lambda>r. cell_at r j) (fr_rows F))) [0..<length (fr_cols F)]"

text \<open>The dtype of a value of \<open>df.iloc[idx]\<close>: a row of a frame with a text column is an
  object Series holding each column's own scalar; a purely numeric row is \<open>float64\<close> as soon
  as one column is.\<close>

definition iloc_dtype :: "col_dtype list \<Rightarrow> col_dtype \<Rightarrow> col_dtype" where
  "iloc_dtype dts dt = (if Object \<in> set dts then dt else if Float64 \<in> set dts then Float64 else Int64)"

type_synonym cell = "col_dtype \<times> string option"

definition frame_row :: "frame \<Rightarrow> nat \<Rightarrow> (string \<times> cell) list" where
  "frame_row F i =
     (let dts = frame_dtypes F in
      map (\<lambda>j. (fr_cols F ! j, (iloc_dtype dts (dts ! j), cell_at (fr_rows F ! i) j))) [0..<length (fr_cols F)])"

text \<open>\<open>pd.isna(v)\<close> and \<open>str(v)\<close> of a row value.\<close>

definition pd_isna :: "cell \<Rightarrow> bool" where
  "pd_isna v \<longleftrightarrow> snd v = None"

definition cell_str :: "cell \<Rightarrow> string" where
  "cell_str v = pd_cell_str (fst v) (snd v)"

section \<open>Row comparison\<close>

record change =
  ch_original :: cell
  ch_edited :: cell
  ch_row :: nat

text \<open>Lines 95--117: the loop over \<open>row_original.index\<close>, with its two \<open>continue\<close>s.\<close>

fun compare_cols :: "(string \<times> cell) list \<Rightarrow> (string \<times> cell) list \<Rightarrow> nat \<Rightarrow> (string \<times> change) list \<Rightarrow>
    (string \<times> change) list" where
  "compare_cols [] re idx changes = changes"
| "compare_cols ((col, vo) # cs) re idx changes =
     (case map_of re col of
        None \<Rightarrow> compare_cols cs re idx changes
      | Some ve \<Rightarrow>
          (if pd_isna vo \<and> pd_isna ve then compare_cols cs re idx changes
           else if pd_isna vo \<or> pd_isna ve \<or> cell_str vo \<noteq> cell_str ve
           then compare_cols cs re idx
                  (AList.update col \<lparr>ch_original = vo, ch_edited = ve, ch_row = idx\<rparr> changes)
           else compare_cols cs re idx changes))"

definition compare_rows :: "(string \<times> cell) list \<Rightarrow> (string \<times> cell) list \<Rightarrow> nat \<Rightarrow> (string \<times> change) list" where
  "compare_rows ro re idx = compare_cols ro re idx []"

text \<open>Lines 119--133: the identification helpers (\<open>extract_imo\<close> is never called).\<close>

definition extract_vessel_name :: "(string \<times> cell) list \<Rightarrow> string" where
  "extract_vessel_name row =
     (case map_of row ''VESSEL_NAME'' of
        Some v \<Rightarrow> cell_str v
      | None \<Rightarrow> (case map_of row ''Vessel_Name'' of Some v \<Rightarrow> cell_str v | None \<Rightarrow> ''UNKNOWN''))"

definition extract_imo :: "(string \<times> cell) list \<Rightarrow> string" where
  "extract_imo row =
     (case map_of row ''IMO'' of
        Some v \<Rightarrow> cell_str v
      | None \<Rightarrow> (case map_of row ''IMO_NUMBER'' of Some v \<Rightarrow> cell_str v | None \<Rightarrow> []))"

section \<open>The scan of the two files\<close>

text \<open>\<open>d[k].append(v)\<close> on a \<open>defaultdict(list)\<close>.\<close>

definition dd_append :: "('k \<times> 'v list) list \<Rightarrow> 'k \<Rightarrow> 'v \<Rightarrow> ('k \<times> 'v list) list" where
  "dd_append m k v = AList.update k (case map_of m k of None \<Rightarrow> [v] | Some vs \<Rightarrow> vs @ [v]) m"

record scan_state =
  sc_all_changes :: "(string \<times> change) list list"
  sc_by_column :: "(string \<times> change list) list"
  sc_rows_modified :: nat
  sc_total_changes :: nat

definition scan_init :: scan_state where
  "scan_init = \<lparr>sc_all_changes = [], sc_by_column = [], sc_rows_modified = 0, sc_total_changes = 0\<rparr>"

text \<open>Lines 565--577: one iteration of the row loop.\<close>

definition scan_row :: "frame \<Rightarrow> frame \<Rightarrow> scan_state \<Rightarrow> nat \<Rightarrow> scan_state" where
  "scan_row Fo Fe st idx =
     (let changes = compare_rows (frame_row Fo idx) (frame_row Fe idx) idx in
      if changes = [] then st
      else st\<lparr>sc_all_changes := sc_all_changes st @ [changes],
              sc_by_column := foldl (\<lambda>m (col, ch). dd_append m col ch) (sc_by_column st) changes,
              sc_rows_modified := Suc (sc_rows_modified st),
              sc_total_changes := sc_total_changes st + length changes\<rparr>)"

text \<open>Lines 559--577: rows are compared by position, up to the shorter file.\<close>

definition scan_edits :: "frame \<Rightarrow> frame \<Rightarrow> scan_state" where
  "scan_edits Fo Fe = foldl (scan_row Fo Fe) scan_init [0..<min (length (fr_rows Fo)) (length (fr_rows Fe))]"

section \<open>Counters\<close>

text \<open>\<open>c[k] += 1\<close> on a \<open>Counter\<close>, and \<open>c.most_common(n)\<close>.\<close>

definition counter_add :: "('k \<times> nat) list \<Rightarrow> 'k \<Rightarrow> ('k \<times> nat) list" where
  "counter_add m k = AList.update k (case map_of m k of None \<Rightarrow> 1 | Some c \<Rightarrow> Suc c) m"

definition most_common :: "nat \<Rightarrow> ('k \<times> nat) list \<Rightarrow> ('k \<times> nat) list" where
  "most_common n m = take n (sort_key (\<lambda>p. - int (snd p)) m)"

text \<open>The \<open>Counter\<close> of \<open>(str(original), str(edited))\<close> over the changes of a column.\<close>

definition transformations :: "change list \<Rightarrow> ((string \<times> string) \<times> nat) list" where
  "transformations chs = foldl (\<lambda>m ch. counter_add m (cell_str (ch_original ch), cell_str (ch_edited ch))) [] chs"

section \<open>Pattern analyses\<close>

datatype potential = HIGH | MEDIUM | LOW

text \<open>A pattern dict by its \<open>'type'\<close>; the fields follow the dict's keys.\<close>

datatype pattern =
    VesselTypeTransformation string string string nat potential
  | MatchTypeTransformation string string string nat potential
  | TugBargePairing string "(string \<times> change) list" nat
  | ExclusionPattern string nat potential
  | FieldValueChange string string string nat potential

definition pattern_type :: "pattern \<Rightarrow> string" where
  "pattern_type p =
     (case p of
        VesselTypeTransformation _ _ _ _ _ \<Rightarrow> ''vessel_type_transformation''
      | MatchTypeTransformation _ _ _ _ _ \<Rightarrow> ''match_type_transformation''
      | TugBargePairing _ _ _ \<Rightarrow> ''tug_barge_pairing''
      | ExclusionPattern _ _ _ \<Rightarrow> ''exclusion_pattern''
      | FieldValueChange _ _ _ _ _ \<Rightarrow> ''field_value_change'')"

definition col_has :: "string list \<Rightarrow> string \<Rightarrow> bool" where
  "col_has keywords col \<longleftrightarrow> list_ex (\<lambda>k. py_in k (py_upper col)) keywords"

text \<open>Lines 139--169.\<close>

definition analyze_vessel_type_changes :: "(string \<times> change list) list \<Rightarrow> pattern list" where
  "analyze_vessel_type_changes by_col =
     concat (map (\<lambda>(col, chs).
         map (\<lambda>((orig, edit), count). VesselTypeTransformation col orig edit count (if 5 \<le> count then HIGH else MEDIUM))
           (filter (\<lambda>p. 2 \<le> snd p) (most_common 10 (transformations chs))))
       (filter (\<lambda>p. col_has [''TYPE'', ''VTYPE''] (fst p)) by_col))"

text \<open>Lines 171--199.\<close>

definition analyze_match_type_changes :: "(string \<times> change list) list \<Rightarrow> pattern list" where
  "analyze_match_type_changes by_col =
     concat (map (\<lambda>(col, chs).
         map (\<lambda>((orig, edit), count). MatchTypeTransformation col orig edit count (if 3 \<le> count then HIGH else MEDIUM))
           (filter (\<lambda>p. 1 \<le> snd p) (most_common 10 (transformations chs))))
       (filter (\<lambda>p. col_has [''MATCH''] (fst p)) by_col))"

definition tug_barge_keywords :: "string list" where
  "tug_barge_keywords = [''TUG'', ''BARGE'', ''PAIR'', ''TOW'']"

text \<open>Lines 201--233: the tug-barge columns are looked for among the keys of the first
  change dict only; \<open>all_changes[0]\<close> raises \<open>IndexError\<close> (\<open>None\<close>) on an empty list.\<close>

definition analyze_tug_barge_changes :: "(string \<times> change) list list \<Rightarrow> frame \<Rightarrow> pattern list option" where
  "analyze_tug_barge_changes all Fo =
     (case all of
        [] \<Rightarrow> None
      | first # _ \<Rightarrow>
          (if filter (\<lambda>col. col \<noteq> [] \<and> col_has tug_barge_keywords col) (map fst first) = [] then Some []
           else Some (List.map_filter (\<lambda>cd.
              if cd = [] then None
              else (let edits = filter (\<lambda>p. col_has tug_barge_keywords (fst p)) cd in
                    if edits = [] then None
                    else (let row_idx = ch_row (snd (hd edits)) in
                          Some (TugBargePairing (extract_vessel_name (frame_row Fo row_idx)) edits row_idx)))) all)))"

text \<open>Line 260: \<open>row.get('ICST_VESSEL_TYPE', row.get('Vessel_Type', 'UNKNOWN'))\<close>, printed.\<close>

definition row_vessel_type :: "(string \<times> cell) list \<Rightarrow> string" where
  "row_vessel_type row =
     (case map_of row ''ICST_VESSEL_TYPE'' of
        Some v \<Rightarrow> cell_str v
      | None \<Rightarrow> (case map_of row ''Vessel_Type'' of Some v \<Rightarrow> cell_str v | None \<Rightarrow> ''UNKNOWN''))"

text \<open>Lines 235--272.\<close>

definition analyze_exclusion_patterns :: "(string \<times> change) list list \<Rightarrow> frame \<Rightarrow> pattern list" where
  "analyze_exclusion_patterns all Fo =
     (let status_changes = concat (map (filter (\<lambda>p. col_has [''STATUS'', ''ACTIVE'', ''EXCLUDE''] (fst p))) all) in
      if status_changes = [] then []
      else (let by_type = foldl (\<lambda>m p. dd_append m (row_vessel_type (frame_row Fo (ch_row (snd p)))) p) [] status_changes in
            map (\<lambda>(vtype, chs). ExclusionPattern vtype (length chs) HIGH) (filter (\<lambda>g. 2 \<le> length (snd g)) by_type)))"

text \<open>Lines 274--305.\<close>

definition analyze_field_value_changes :: "(string \<times> change list) list \<Rightarrow> pattern list" where
  "analyze_field_value_changes by_col =
     concat (map (\<lambda>(col, chs).
         if col_has [''MATCH'', ''TYPE'', ''VTYPE'', ''TUG'', ''BARGE'', ''STATUS'', ''ACTIVE'', ''EXCLUDE''] col then []
         else if length chs < 2 then []
         else map (\<lambda>((orig, edit), count). FieldValueChange col orig edit count (if 3 \<le> count then MEDIUM else LOW))
                (most_common 5 (transformations chs)))
       by_col)"

section \<open>The analysis\<close>

record edit_stats =
  st_total_changes :: nat
  st_rows_modified :: nat
  st_total_rows :: nat
  st_columns_modified :: nat
  st_vessel_type_patterns :: nat
  st_match_type_patterns :: nat
  st_tug_barge_patterns :: nat
  st_exclusion_patterns :: nat
  st_other_patterns :: nat

datatype edit_outcome = NoChangesDetected | IndexErrorRaised | Report edit_stats "pattern list"

definition count_type :: "string \<Rightarrow> pattern list \<Rightarrow> nat" where
  "count_type t ps = length (filter (\<lambda>p. pattern_type p = t) ps)"

text \<open>Lines 584--616 of \<open>main\<close>, from the two loaded frames.\<close>

definition analyze_user_edits :: "frame \<Rightarrow> frame \<Rightarrow> edit_outcome" where
  "analyze_user_edits Fo Fe =
     (let st = scan_edits Fo Fe in
      if sc_total_changes st = 0 then NoChangesDetected
      else (case analyze_tug_barge_changes (sc_all_changes st) Fo of
              None \<Rightarrow> IndexErrorRaised
            | Some tb \<Rightarrow>
                (let ps = analyze_vessel_type_changes (sc_by_column st) @ analyze_match_type_changes (sc_by_column st)
                          @ tb @ analyze_exclusion_patterns (sc_all_changes st) Fo
                          @ analyze_field_value_changes (sc_by_column st) in
                 Report \<lparr>st_total_changes = sc_total_changes st, st_rows_modified = sc_rows_modified st,
                         st_total_rows = length (fr_rows Fo), st_columns_modified = length (sc_by_column st),
                         st_vessel_type_patterns = count_type ''vessel_type_transformation'' ps,
                         st_match_type_patterns = count_type ''match_type_transformation'' ps,
                         st_tug_barge_patterns = count_type ''tug_barge_pairing'' ps,
                         st_exclusion_patterns = count_type ''exclusion_pattern'' ps,
                         st_other_patterns = count_type ''field_value_change'' ps\<rparr> ps)))"

section \<open>Abstractions\<close>

text \<open>The pairs (column, change) held by a \<open>defaultdict(list)\<close>, and the invariant of the
  row loop's state.\<close>

definition flat_groups :: "('k \<times> 'v list) list \<Rightarrow> ('k \<times> 'v) list" where
  "flat_groups m = concat (map (\<lambda>(k, vs). map (Pair k) vs) m)"

definition scan_inv :: "scan_state \<Rightarrow> bool" where
  "scan_inv st \<longleftrightarrow>
     sc_rows_modified st = length (sc_all_changes st) \<and>
     sc_total_changes st = sum_list (map length (sc_all_changes st)) \<and>
     [] \<notin> set (sc_all_changes st) \<and>
     mset (flat_groups (sc_by_column st)) = mset (concat (sc_all_changes st)) \<and>
     distinct (map fst (sc_by_column st)) \<and>
     set (map fst (sc_by_column st)) = (\<Union>c \<in> set (sc_all_changes st). fst ` set c)"

section \<open>Concrete inputs\<close>

text \<open>A master file with a text, an integer and a tug column, and a copy in which the user
  blanked the first DWT cell and changed the second row's tug.\<close>

definition ue_orig :: frame where
  "ue_orig = \<lparr>fr_cols = [''PORTCALL_ID'', ''DWT'', ''TUG_NAME''],
     fr_rows = [[Some ''PC_000001'', Some ''5'', None], [Some ''PC_000002'', Some ''7'', Some ''T1'']]\<rparr>"

definition ue_edit :: frame where
  "ue_edit = \<lparr>fr_cols = [''PORTCALL_ID'', ''DWT'', ''TUG_NAME''],
     fr_rows = [[Some ''PC_000001'', None, None], [Some ''PC_000002'', Some ''7'', Some ''T2'']]\<rparr>"



text \<open>Two rows as Series: column \<open>C\<close> is missing from the edited row, \<open>B\<close> is NaN in both.\<close>

definition ue_ro :: "(string \<times> cell) list" where
  "ue_ro = [(''A'', (Object, Some ''x'')), (''B'', (Float64, None)), (''C'', (Int64, Some ''1''))]"

definition ue_re :: "(string \<times> cell) list" where
  "ue_re = [(''B'', (Float64, None)), (''A'', (Object, Some ''y''))]"

section \<open>Lemmas\<close>

lemma update_fresh: "k \<notin> set (map fst al) \<Longrightarrow> AList.update k v al = al @ [(k, v)]"
  by (induction al) auto

lemma compare_cols_map_filter:
  assumes "distinct (map fst ro)" "set (map fst ro) \<inter> set (map fst acc) = {}"
  shows "compare_cols ro re idx acc =
           acc @ List.map_filter (\<lambda>(col, vo). case map_of re col of
                   None \<Rightarrow> None
                 | Some ve \<Rightarrow> if pd_isna vo \<noteq> pd_isna ve \<or> cell_str vo \<noteq> cell_str ve
                             then Some (col, \<lparr>ch_original = vo, ch_edited = ve, ch_row = idx\<rparr>) else None) ro"
  using assms
proof (induction ro re idx acc rule: compare_cols.induct)
  case (1 re idx changes)
  then show ?case by (simp add: List.map_filter_def)
next
  case (2 col vo cs re idx changes)
  have nan: "pd_isna vo \<and> pd_isna ve \<Longrightarrow> cell_str vo = cell_str ve" for ve
    by (simp add: pd_isna_def cell_str_def pd_cell_str_def)
  show ?case
  proof (cases "map_of re col")
    case None
    then show ?thesis using 2 by (simp add: List.map_filter_def)
  next
    case (Some ve)
    then show ?thesis using 2 nan [of ve]
      by (auto simp: List.map_filter_def update_fresh)
  qed
qed

lemma mset_flat_dd_append:
  "mset (flat_groups (dd_append m k v)) = mset (flat_groups m) + {#(k, v)#}"
  by (induction m) (auto simp: dd_append_def flat_groups_def split: option.splits)

lemma distinct_dd_append: "distinct (map fst m) \<Longrightarrow> distinct (map fst (dd_append m k v))"
  by (simp add: dd_append_def distinct_update)

lemma keys_dd_append: "fst ` set (dd_append m k v) = insert k (fst ` set m)"
  by (simp add: dd_append_def update_conv' flip: dom_map_of_conv_image_fst)

lemma foldl_dd_append_mset:
  "mset (flat_groups (foldl (\<lambda>m (col, ch). dd_append m col ch) m cs)) = mset (flat_groups m) + mset cs"
  by (induction cs arbitrary: m) (simp_all add: mset_flat_dd_append split_def)

lemma foldl_dd_append_distinct:
  "distinct (map fst m) \<Longrightarrow> distinct (map fst (foldl (\<lambda>m (col, ch). dd_append m col ch) m cs))"
  by (induction cs arbitrary: m) (simp_all add: distinct_dd_append split_def)

lemma foldl_dd_append_keys:
  "fst ` set (foldl (\<lambda>m (col, ch). dd_append m col ch) m cs) = fst ` set m \<union> fst ` set cs"
  by (induction cs arbitrary: m) (simp_all add: keys_dd_append split_def)

lemmas foldl_dd_append = foldl_dd_append_mset foldl_dd_append_distinct foldl_dd_append_keys

lemma scan_row_inv: "scan_inv st \<Longrightarrow> scan_inv (scan_row Fo Fe st idx)"
  by (simp add: scan_inv_def scan_row_def Let_def foldl_dd_append Un_commute)

lemma scan_foldl:
  "sc_all_changes (foldl (scan_row Fo Fe) st xs) =
     sc_all_changes st @ filter (\<lambda>c. c \<noteq> []) (map (\<lambda>i. compare_rows (frame_row Fo i) (frame_row Fe i) i) xs)"
  by (induction xs arbitrary: st) (simp_all add: scan_row_def Let_def)

lemma scan_edits_inv: "scan_inv (scan_edits Fo Fe)"
proof -
  have "scan_inv (foldl (scan_row Fo Fe) st xs)" if "scan_inv st" for st xs
    using that by (induction xs arbitrary: st) (simp_all add: scan_row_inv)
  moreover have "scan_inv scan_init" by (simp add: scan_inv_def scan_init_def flat_groups_def)
  ultimately show ?thesis by (simp add: scan_edits_def)
qed

lemma length_frame_dtypes [simp]: "length (frame_dtypes F) = length (fr_cols F)"
  by (simp add: frame_dtypes_def)

lemma frame_dtypes_nth:
  "j < length (fr_cols F) \<Longrightarrow> frame_dtypes F ! j = pd_infer_dtype (map (\<lambda>r. cell_at r j) (fr_rows F))"
  by (simp add: frame_dtypes_def)

lemma keys_frame_row [simp]: "map fst (frame_row F i) = fr_cols F"
  by (simp add: frame_row_def Let_def comp_def map_nth)

lemma map_of_frame_row:
  assumes "wf_frame F" "j < length (fr_cols F)"
  shows "map_of (frame_row F i) (fr_cols F ! j) =
           Some (iloc_dtype (frame_dtypes F) (frame_dtypes F ! j), cell_at (fr_rows F ! i) j)"
proof -
  have "(fr_cols F ! j, (iloc_dtype (frame_dtypes F) (frame_dtypes F ! j), cell_at (fr_rows F ! i) j)) \<in> set (frame_row F i)"
    using assms(2) by (auto simp: frame_row_def Let_def)
  then show ?thesis
    using assms(1) by (simp add: wf_frame_def)
qed

lemma map_fst_map_filter_keep:
  "(\<And>x y. f x = Some y \<Longrightarrow> fst y = fst x) \<Longrightarrow>
   map fst (List.map_filter f xs) = map fst (filter (\<lambda>x. f x \<noteq> None) xs)"
  by (induction xs) (auto simp: List.map_filter_def)

lemma map_of_map_filter_keep:
  "distinct (map fst xs) \<Longrightarrow> (\<And>x y. f x = Some y \<Longrightarrow> fst y = fst x) \<Longrightarrow>
   map_of (List.map_filter f xs) k = (case map_of xs k of None \<Rightarrow> None | Some v \<Rightarrow> map_option snd (f (k, v)))"
proof (induction xs)
  case Nil
  then show ?case by (simp add: List.map_filter_def)
next
  case (Cons x xs)
  obtain a b where x: "x = (a, b)" by (cases x)
  have "a \<notin> fst ` set xs" using Cons.prems(1) x by simp
  then show ?case
    using Cons x by (cases "f x") (auto simp: map_filter_simps map_of_eq_None_iff image_iff split: option.splits)
qed

lemma compare_rows_spec_list:
  "distinct (map fst ro) \<Longrightarrow>
   compare_rows ro re idx =
     List.map_filter (\<lambda>(col, vo). case map_of re col of
         None \<Rightarrow> None
       | Some ve \<Rightarrow> if pd_isna vo \<noteq> pd_isna ve \<or> cell_str vo \<noteq> cell_str ve
                   then Some (col, \<lparr>ch_original = vo, ch_edited = ve, ch_row = idx\<rparr>) else None) ro"
  by (simp add: compare_rows_def compare_cols_map_filter)

lemma compare_rows_self: "distinct (map fst r) \<Longrightarrow> compare_rows r r idx = []"
  by (auto simp: compare_rows_spec_list List.map_filter_def filter_empty_conv)

lemma map_of_compare_rows:
  assumes "distinct (map fst ro)" "map_of ro col = Some vo" "map_of re col = Some ve"
    "pd_isna vo \<noteq> pd_isna ve \<or> cell_str vo \<noteq> cell_str ve"
  shows "map_of (compare_rows ro re idx) col = Some \<lparr>ch_original = vo, ch_edited = ve, ch_row = idx\<rparr>"
proof -
  have "(col, \<lparr>ch_original = vo, ch_edited = ve, ch_row = idx\<rparr>) \<in> set (compare_rows ro re idx)"
    using assms by (force simp: compare_rows_spec_list List.map_filter_def)
  moreover have "distinct (map fst (compare_rows ro re idx))"
    unfolding compare_rows_spec_list [OF assms(1)]
    by (subst map_fst_map_filter_keep) (auto split: option.splits if_splits intro: distinct_map_filter assms(1))
  ultimately show ?thesis by simp
qed

lemma scan_edits_all_changes:
  "sc_all_changes (scan_edits Fo Fe) =
     filter (\<lambda>c. c \<noteq> []) (map (\<lambda>i. compare_rows (frame_row Fo i) (frame_row Fe i) i)
       [0..<min (length (fr_rows Fo)) (length (fr_rows Fe))])"
  by (simp add: scan_edits_def scan_foldl scan_init_def)

lemma scan_edits_total_pos:
  "sc_total_changes (scan_edits Fo Fe) \<noteq> 0 \<Longrightarrow> sc_all_changes (scan_edits Fo Fe) \<noteq> []"
  using scan_edits_inv [of Fo Fe] by (auto simp: scan_inv_def)

lemma identical_files_no_changes: "wf_frame F \<Longrightarrow> analyze_user_edits F F = NoChangesDetected"
proof -
  assume "wf_frame F"
  then have "distinct (map fst (frame_row F i))" for i by (simp add: wf_frame_def)
  then have "sc_all_changes (scan_edits F F) = []"
    by (simp add: scan_edits_all_changes compare_rows_self)
  then have "sc_total_changes (scan_edits F F) = 0"
    using scan_edits_inv [of F F] by (simp add: scan_inv_def)
  then show ?thesis by (simp add: analyze_user_edits_def)
qed

lemma tug_barge_changes_Cons: "\<exists>tb. analyze_tug_barge_changes (c # cs) Fo = Some tb"
  by (simp add: analyze_tug_barge_changes_def)

lemma analyze_user_edits_no_index_error: "analyze_user_edits Fo Fe \<noteq> IndexErrorRaised"
proof (cases "sc_total_changes (scan_edits Fo Fe) = 0")
  case False
  then obtain c cs where "sc_all_changes (scan_edits Fo Fe) = c # cs"
    using scan_edits_total_pos [OF False] by (meson neq_Nil_conv)
  then obtain tb where "analyze_tug_barge_changes (sc_all_changes (scan_edits Fo Fe)) Fo = Some tb"
    using tug_barge_changes_Cons by metis
  then show ?thesis using False by (simp add: analyze_user_edits_def Let_def)
qed (simp add: analyze_user_edits_def)

lemma iloc_dtype_Object: "Object \<in> set dts \<Longrightarrow> iloc_dtype dts dt = dt"
  by (simp add: iloc_dtype_def)

lemma cell_at_mem: "i < length rows \<Longrightarrow> cell_at (rows ! i) j \<in> set (map (\<lambda>r. cell_at r j) rows)"
  by simp

text \<open>Row \<open>i\<close> reports column \<open>j\<close> changed when the original reads it as integers and the
  edited file as floats.\<close>

lemma int_float_column_changed:
  assumes "wf_frame Fo" "wf_frame Fe" "j < length (fr_cols Fo)" "k < length (fr_cols Fe)"
    "fr_cols Fe ! k = fr_cols Fo ! j"
    "frame_dtypes Fo ! j = Int64" "frame_dtypes Fe ! k = Float64"
    "Object \<in> set (frame_dtypes Fo)" "Object \<in> set (frame_dtypes Fe)"
    "i < length (fr_rows Fo)" "i < length (fr_rows Fe)"
  shows "fr_cols Fo ! j \<in> set (map fst (compare_rows (frame_row Fo i) (frame_row Fe i) i))"
proof -
  let ?co = "cell_at (fr_rows Fo ! i) j" and ?ce = "cell_at (fr_rows Fe ! i) k"
  have mo: "map_of (frame_row Fo i) (fr_cols Fo ! j) = Some (Int64, ?co)"
    using map_of_frame_row [OF assms(1,3), of i] assms(6,8) by (simp add: iloc_dtype_Object)
  have me: "map_of (frame_row Fe i) (fr_cols Fo ! j) = Some (Float64, ?ce)"
    using map_of_frame_row [OF assms(2,4), of i] assms(5,7,9) by (simp add: iloc_dtype_Object)
  obtain t n where t: "?co = Some t" "py_int_of (py_strip t) = Some n"
    using infer_Int64 [OF _ cell_at_mem [OF assms(10)]] assms(3,6) by (metis frame_dtypes_nth)
  have "?ce = None \<or> (\<exists>t' q. ?ce = Some t' \<and> py_float t' = Some q)"
    using infer_Float64 [OF _ cell_at_mem [OF assms(11)]] assms(4,7) by (metis frame_dtypes_nth)
  then have "pd_isna (Int64, ?co) \<noteq> pd_isna (Float64, ?ce) \<or> cell_str (Int64, ?co) \<noteq> cell_str (Float64, ?ce)"
    using t cell_str_int_float_differ by (auto simp: pd_isna_def cell_str_def)
  then have "map_of (compare_rows (frame_row Fo i) (frame_row Fe i) i) (fr_cols Fo ! j) \<noteq> None"
    using map_of_compare_rows [OF _ mo me] assms(1) by (simp add: wf_frame_def)
  then show ?thesis by (metis map_of_eq_None_iff list.set_map)
qed

lemma count_type_append [simp]: "count_type t (xs @ ys) = count_type t xs + count_type t ys"
  by (simp add: count_type_def)

lemma count_type_none: "(\<forall>p \<in> set ps. pattern_type p \<noteq> t) \<Longrightarrow> count_type t ps = 0"
  by (simp add: count_type_def filter_empty_conv)

lemma count_type_all: "(\<forall>p \<in> set ps. pattern_type p = t) \<Longrightarrow> count_type t ps = length ps"
  by (simp add: count_type_def)

lemma pattern_types:
  "\<forall>p \<in> set (analyze_vessel_type_changes m). pattern_type p = ''vessel_type_transformation''"
  "\<forall>p \<in> set (analyze_match_type_changes m). pattern_type p = ''match_type_transformation''"
  "\<forall>p \<in> set (analyze_exclusion_patterns all Fo). pattern_type p = ''exclusion_pattern''"
  "\<forall>p \<in> set (analyze_field_value_changes m). pattern_type p = ''field_value_change''"
  "analyze_tug_barge_changes all Fo = Some tb \<Longrightarrow> \<forall>p \<in> set tb. pattern_type p = ''tug_barge_pairing''"
  by (auto simp: analyze_vessel_type_changes_def analyze_match_type_changes_def analyze_exclusion_patterns_def
      analyze_field_value_changes_def analyze_tug_barge_changes_def pattern_type_def List.map_filter_def Let_def
      split: prod.splits if_splits list.splits)

lemma col_has_tug_barge_Nil [simp]: "\<not> col_has tug_barge_keywords []"
  by (simp add: col_has_def tug_barge_keywords_def py_simps)

lemma length_map_filter: "length (List.map_filter f xs) = length (filter (\<lambda>x. f x \<noteq> None) xs)"
  by (simp add: List.map_filter_def)

lemma tug_barge_changes_length:
  assumes "analyze_tug_barge_changes (c # cs) Fo = Some tb"
  shows "length tb = (if list_ex (col_has tug_barge_keywords) (map fst c)
                      then length (filter (list_ex (\<lambda>p. col_has tug_barge_keywords (fst p))) (c # cs)) else 0)"
proof -
  have nil: "filter (\<lambda>col. col \<noteq> [] \<and> col_has tug_barge_keywords col) (map fst c) = [] \<longleftrightarrow>
             \<not> list_ex (col_has tug_barge_keywords) (map fst c)"
    by (auto simp: filter_empty_conv list_ex_iff)
  define g where "g = (\<lambda>cd. if cd = [] then None
                    else let edits = filter (\<lambda>p. col_has tug_barge_keywords (fst p)) cd in
                         if edits = [] then None
                         else let row_idx = ch_row (snd (hd edits)) in
                              Some (TugBargePairing (extract_vessel_name (frame_row Fo row_idx)) edits row_idx))"
  have cnt: "(\<lambda>cd. g cd \<noteq> None) = list_ex (\<lambda>p. col_has tug_barge_keywords (fst p))"
    by (auto simp: g_def Let_def filter_empty_conv list_ex_iff fun_eq_iff)
  show ?thesis
  proof (cases "list_ex (col_has tug_barge_keywords) (map fst c)")
    case False
    then show ?thesis using assms nil by (simp add: analyze_tug_barge_changes_def)
  next
    case True
    then have "tb = List.map_filter g (c # cs)"
      using assms nil by (simp add: analyze_tug_barge_changes_def g_def)
    then show ?thesis using True by (simp only: length_map_filter cnt if_True)
  qed
qed

lemma analyze_user_edits_Report:
  "sc_total_changes (scan_edits Fo Fe) \<noteq> 0 \<Longrightarrow> \<exists>s ps. analyze_user_edits Fo Fe = Report s ps"
  using analyze_user_edits_no_index_error [of Fo Fe]
  by (auto simp: analyze_user_edits_def Let_def split: option.splits)

lemma match_type_reported_twice:
  assumes "col_has [''MATCH''] col" "VesselTypeTransformation col orig edit n p \<in> set (analyze_vessel_type_changes m)"
  shows "\<exists>p'. MatchTypeTransformation col orig edit n p' \<in> set (analyze_match_type_changes m)"
  using assms by (force simp: analyze_vessel_type_changes_def analyze_match_type_changes_def)

lemma card_keys_le_sum: "card (\<Union>c \<in> set cs. fst ` set c) \<le> sum_list (map length cs)"
proof (induction cs)
  case Nil
  then show ?case by simp
next
  case (Cons c cs)
  have "card (fst ` set c \<union> (\<Union>c \<in> set cs. fst ` set c)) \<le> card (fst ` set c) + card (\<Union>c \<in> set cs. fst ` set c)"
    by (rule card_Un_le)
  also have "card (fst ` set c) \<le> length c"
    using card_image_le [of "set c" fst] card_length [of c] by simp
  finally show ?case using Cons by simp
qed

text \<open>The statistics of a report are consistent: the percentage of modified rows that
  \<open>write_report\<close> prints (line 376) divides by a positive row count and is at most 100,
  and no more columns than changes are reported.\<close>

lemma report_stats_bounds:
  assumes "analyze_user_edits Fo Fe = Report s ps"
  shows "0 < st_rows_modified s \<and> st_rows_modified s \<le> st_total_rows s \<and>
         st_columns_modified s \<le> st_total_changes s"
proof -
  let ?st = "scan_edits Fo Fe"
  have tot: "sc_total_changes ?st \<noteq> 0"
  proof
    assume "sc_total_changes ?st = 0"
    then have "analyze_user_edits Fo Fe = NoChangesDetected" by (simp add: analyze_user_edits_def)
    with assms show False by simp
  qed
  obtain tb where tb: "analyze_tug_barge_changes (sc_all_changes ?st) Fo = Some tb"
    using scan_edits_total_pos [OF tot] tug_barge_changes_Cons by (metis neq_Nil_conv)
  have s: "st_rows_modified s = sc_rows_modified ?st" "st_total_rows s = length (fr_rows Fo)"
    "st_columns_modified s = length (sc_by_column ?st)" "st_total_changes s = sc_total_changes ?st"
    using assms tot tb by (auto simp: analyze_user_edits_def Let_def)
  have inv: "scan_inv ?st" by (rule scan_edits_inv)
  have "length (sc_all_changes ?st) \<le> length (fr_rows Fo)"
    unfolding scan_edits_all_changes by (rule order_trans [OF length_filter_le]) simp
  moreover have "sc_all_changes ?st \<noteq> []" by (rule scan_edits_total_pos [OF tot])
  moreover have "length (sc_by_column ?st) = card (\<Union>c \<in> set (sc_all_changes ?st). fst ` set c)"
  proof -
    have "length (sc_by_column ?st) = card (fst ` set (sc_by_column ?st))"
      using inv distinct_card [of "map fst (sc_by_column ?st)"] by (simp add: scan_inv_def)
    then show ?thesis using inv by (simp add: scan_inv_def)
  qed
  ultimately show ?thesis
    using inv card_keys_le_sum [of "sc_all_changes ?st"] s by (simp add: scan_inv_def)
qed

lemma ue_dtypes:
  "frame_dtypes ue_orig = [Object, Int64, Object]" "frame_dtypes ue_edit = [Object, Float64, Object]"
  by (simp_all add: frame_dtypes_def ue_orig_def ue_edit_def cell_at_def dtype_eval)

lemma ue_rows:
  "frame_row ue_orig i = [(''PORTCALL_ID'', (Object, cell_at (fr_rows ue_orig ! i) 0)),
     (''DWT'', (Int64, cell_at (fr_rows ue_orig ! i) 1)), (''TUG_NAME'', (Object, cell_at (fr_rows ue_orig ! i) 2))]"
  "frame_row ue_edit i = [(''PORTCALL_ID'', (Object, cell_at (fr_rows ue_edit ! i) 0)),
     (''DWT'', (Float64, cell_at (fr_rows ue_edit ! i) 1)), (''TUG_NAME'', (Object, cell_at (fr_rows ue_edit ! i) 2))]"
  unfolding frame_row_def ue_dtypes Let_def
  by (simp_all add: ue_orig_def ue_edit_def iloc_dtype_def upt_rec numeral_2_eq_2)

lemma ue_all_changes:
  "sc_all_changes (scan_edits ue_orig ue_edit) =
     [[(''DWT'', \<lparr>ch_original = (Int64, Some ''5''), ch_edited = (Float64, None), ch_row = 0\<rparr>)],
      [(''DWT'', \<lparr>ch_original = (Int64, Some ''7''), ch_edited = (Float64, Some ''7''), ch_row = 1\<rparr>),
       (''TUG_NAME'', \<lparr>ch_original = (Object, Some ''T1''), ch_edited = (Object, Some ''T2''), ch_row = 1\<rparr>)]]"
  unfolding scan_edits_all_changes ue_rows
  by (simp add: ue_orig_def ue_edit_def cell_at_def compare_rows_def pd_isna_def cell_str_def upt_rec dtype_eval)

section \<open>Properties\<close>

text \<open>
  C30. \<open>compare_rows\<close> returns a dict whose keys are original columns in their order, and
  which holds, for a column of both rows, the change exactly when one value is NaN and the
  other not, or when their \<open>str\<close> differ; two NaN cells are equal.
\<close>

theorem compare_rows_dict:
  assumes "distinct (map fst ro)"
  shows "subseq (map fst (compare_rows ro re idx)) (map fst ro) \<and>
         map_of (compare_rows ro re idx) col =
           (case (map_of ro col, map_of re col) of
              (Some vo, Some ve) \<Rightarrow>
                if pd_isna vo \<noteq> pd_isna ve \<or> cell_str vo \<noteq> cell_str ve
                then Some \<lparr>ch_original = vo, ch_edited = ve, ch_row = idx\<rparr> else None
            | _ \<Rightarrow> None)"
proof
  show "subseq (map fst (compare_rows ro re idx)) (map fst ro)"
    unfolding compare_rows_spec_list [OF assms]
    by (subst map_fst_map_filter_keep) (auto split: option.splits if_splits intro: subseq_map)
  show "map_of (compare_rows ro re idx) col = (case (map_of ro col, map_of re col) of
              (Some vo, Some ve) \<Rightarrow>
                if pd_isna vo \<noteq> pd_isna ve \<or> cell_str vo \<noteq> cell_str ve
                then Some \<lparr>ch_original = vo, ch_edited = ve, ch_row = idx\<rparr> else None
            | _ \<Rightarrow> None)"
    unfolding compare_rows_spec_list [OF assms]
    by (subst map_of_map_filter_keep [OF assms]) (auto split: option.splits if_splits)
qed

theorem compare_rows_dict_witness:
  "distinct (map fst ue_ro) \<and> subseq (map fst (compare_rows ue_ro ue_re 0)) (map fst ue_ro) \<and>
   map_of (compare_rows ue_ro ue_re 0) ''A'' =
     Some \<lparr>ch_original = (Object, Some ''x''), ch_edited = (Object, Some ''y''), ch_row = 0\<rparr>"
  using compare_rows_dict [where ro = ue_ro and re = ue_re and idx = 0 and col = "''A''"]
  by (simp add: ue_ro_def ue_re_def pd_isna_def cell_str_def pd_cell_str_def)

text \<open>
  C31. The row loop of \<open>main\<close> keeps, in file order, the change dict of every modified row
  and only those; rows_modified counts them, total_changes counts their entries, the
  per-column lists hold exactly the same changes under their own column, and the number
  of columns reported modified is the number of distinct changed columns.
\<close>

theorem scan_edits_counts:
  "sc_all_changes (scan_edits Fo Fe) =
     filter (\<lambda>c. c \<noteq> []) (map (\<lambda>i. compare_rows (frame_row Fo i) (frame_row Fe i) i)
       [0..<min (length (fr_rows Fo)) (length (fr_rows Fe))]) \<and>
   sc_rows_modified (scan_edits Fo Fe) = length (sc_all_changes (scan_edits Fo Fe)) \<and>
   sc_total_changes (scan_edits Fo Fe) = sum_list (map length (sc_all_changes (scan_edits Fo Fe))) \<and>
   mset (flat_groups (sc_by_column (scan_edits Fo Fe))) = mset (concat (sc_all_changes (scan_edits Fo Fe))) \<and>
   length (sc_by_column (scan_edits Fo Fe)) = card (\<Union>c \<in> set (sc_all_changes (scan_edits Fo Fe)). fst ` set c)"
proof -
  have inv: "scan_inv (scan_edits Fo Fe)" by (rule scan_edits_inv)
  then have d: "distinct (map fst (sc_by_column (scan_edits Fo Fe)))"
    and k: "fst ` set (sc_by_column (scan_edits Fo Fe)) = (\<Union>c \<in> set (sc_all_changes (scan_edits Fo Fe)). fst ` set c)"
    by (simp_all add: scan_inv_def)
  have "length (sc_by_column (scan_edits Fo Fe)) = card (fst ` set (sc_by_column (scan_edits Fo Fe)))"
    using distinct_card [OF d] by simp
  with k have card: "length (sc_by_column (scan_edits Fo Fe)) =
      card (\<Union>c \<in> set (sc_all_changes (scan_edits Fo Fe)). fst ` set c)" by simp
  show ?thesis using inv card by (simp add: scan_edits_all_changes scan_inv_def)
qed

text \<open>
  C32. When the original file reads a column as integers and the edited file reads the
  same column as floats (one cell blanked is enough), every compared row is reported
  modified and lists that column as changed, whatever the user did: \<open>str\<close> prints
  \<open>5\<close> against \<open>5.0\<close>.
\<close>

theorem int_column_read_as_float_all_rows_modified:
  assumes "wf_frame Fo" "wf_frame Fe" "j < length (fr_cols Fo)" "k < length (fr_cols Fe)"
    "fr_cols Fe ! k = fr_cols Fo ! j"
    "frame_dtypes Fo ! j = Int64" "frame_dtypes Fe ! k = Float64"
    "Object \<in> set (frame_dtypes Fo)" "Object \<in> set (frame_dtypes Fe)"
  shows "sc_rows_modified (scan_edits Fo Fe) = min (length (fr_rows Fo)) (length (fr_rows Fe)) \<and>
         list_all (\<lambda>c. fr_cols Fo ! j \<in> set (map fst c)) (sc_all_changes (scan_edits Fo Fe))"
proof -
  let ?n = "min (length (fr_rows Fo)) (length (fr_rows Fe))"
  let ?c = "\<lambda>i. compare_rows (frame_row Fo i) (frame_row Fe i) i"
  have col: "fr_cols Fo ! j \<in> set (map fst (?c i))" if "i < ?n" for i
    using int_float_column_changed [OF assms] that by simp
  then have "?c i \<noteq> []" if "i < ?n" for i using that by fastforce
  then have "sc_all_changes (scan_edits Fo Fe) = map ?c [0..<?n]"
    by (simp add: scan_edits_all_changes)
  moreover have "sc_rows_modified (scan_edits Fo Fe) = length (sc_all_changes (scan_edits Fo Fe))"
    using scan_edits_inv [of Fo Fe] by (simp add: scan_inv_def)
  ultimately show ?thesis using col by (simp add: list_all_iff)
qed

theorem int_column_read_as_float_all_rows_modified_witness:
  "wf_frame ue_orig \<and> wf_frame ue_edit \<and> frame_dtypes ue_orig ! 1 = Int64 \<and> frame_dtypes ue_edit ! 1 = Float64 \<and>
   sc_rows_modified (scan_edits ue_orig ue_edit) = 2 \<and>
   list_all (\<lambda>c. ''DWT'' \<in> set (map fst c)) (sc_all_changes (scan_edits ue_orig ue_edit))"
proof -
  have "sc_rows_modified (scan_edits ue_orig ue_edit) = min (length (fr_rows ue_orig)) (length (fr_rows ue_edit)) \<and>
        list_all (\<lambda>c. fr_cols ue_orig ! 1 \<in> set (map fst c)) (sc_all_changes (scan_edits ue_orig ue_edit))"
    by (rule int_column_read_as_float_all_rows_modified [where j = 1 and k = 1])
       (unfold ue_dtypes, simp_all add: wf_frame_def ue_orig_def ue_edit_def)
  then show ?thesis unfolding ue_dtypes by (simp add: wf_frame_def ue_orig_def ue_edit_def)
qed

text \<open>
  C33. The number of tug-barge pairing patterns in the report is the number of modified
  rows with a changed tug, barge, pair or tow column only when the first modified row has
  one; otherwise it is zero, whatever the later rows changed.
\<close>

theorem tug_barge_patterns_first_row:
  assumes "analyze_user_edits Fo Fe = Report s ps"
  shows "st_tug_barge_patterns s =
           (if list_ex (col_has tug_barge_keywords) (map fst (hd (sc_all_changes (scan_edits Fo Fe))))
            then length (filter (list_ex (\<lambda>p. col_has tug_barge_keywords (fst p))) (sc_all_changes (scan_edits Fo Fe)))
            else 0)"
proof -
  have tot: "sc_total_changes (scan_edits Fo Fe) \<noteq> 0"
  proof
    assume "sc_total_changes (scan_edits Fo Fe) = 0"
    then have "analyze_user_edits Fo Fe = NoChangesDetected" by (simp add: analyze_user_edits_def)
    with assms show False by simp
  qed
  then obtain c cs where all: "sc_all_changes (scan_edits Fo Fe) = c # cs"
    using scan_edits_total_pos [OF tot] by (meson neq_Nil_conv)
  then obtain tb where tb: "analyze_tug_barge_changes (sc_all_changes (scan_edits Fo Fe)) Fo = Some tb"
    using tug_barge_changes_Cons by metis
  have "st_tug_barge_patterns s = count_type ''tug_barge_pairing'' tb"
    using assms tot tb pattern_types(1-4) pattern_types(5) [OF tb]
    by (auto simp: analyze_user_edits_def Let_def count_type_none)
  also have "\<dots> = length tb"
    using pattern_types(5) [OF tb] by (rule count_type_all)
  finally show ?thesis
    using tug_barge_changes_length [of c cs Fo tb] tb all by simp
qed

theorem tug_barge_patterns_first_row_witness:
  "\<exists>s ps. analyze_user_edits ue_orig ue_edit = Report s ps \<and> st_tug_barge_patterns s = 0 \<and>
     list_ex (\<lambda>p. col_has tug_barge_keywords (fst p)) (sc_all_changes (scan_edits ue_orig ue_edit) ! 1)"
proof -
  have tb: "list_ex (\<lambda>p. col_has tug_barge_keywords (fst p)) (sc_all_changes (scan_edits ue_orig ue_edit) ! 1)"
    and first: "\<not> list_ex (col_has tug_barge_keywords) (map fst (hd (sc_all_changes (scan_edits ue_orig ue_edit))))"
    by (simp_all add: ue_all_changes col_has_def tug_barge_keywords_def py_simps)
  have "sc_total_changes (scan_edits ue_orig ue_edit) \<noteq> 0"
    using scan_edits_inv [of ue_orig ue_edit] by (simp add: scan_inv_def ue_all_changes)
  then obtain s ps where r: "analyze_user_edits ue_orig ue_edit = Report s ps"
    using analyze_user_edits_Report by blast
  then have "st_tug_barge_patterns s = 0"
    using tug_barge_patterns_first_row [OF r] first by simp
  then show ?thesis using r tb by blast
qed

end
