(* ===== verification/Deploy.thy ===== *)
theory Deploy
  imports Prelude "HOL-Library.Char_ord" "HOL-Library.List_Lexorder"
begin

text \<open>
  \<open>deploy_v3.6.0_to_production.py\<close>: the deployment of the classification dictionary.
  The script runs four steps on four files and stops at the first exception, leaving the
  files written by the earlier steps in place:

  \<^enum> copy the draft dictionary to the production file and read it back (lines 35--42);
  \<^enum> insert the version entry into the version history after its header line, or
    create the history (lines 44--133);
  \<^enum> replace the \<open>## Latest Version:\<close> section of the README, or prepend one
    (lines 135--187);
  \<^enum> compute the summary it prints: rule and active counts, the phase breakdown over
    the sorted distinct phases, and the five largest groups (lines 189--219).

  The files are the fields of the record \<open>files\<close> (\<open>None\<close>: the file does not exist). The
  dictionary file is held as the rows \<open>pd.read_csv(..., dtype=str)\<close> gives (every cell text,
  an empty cell \<open>None\<close>); the documents are held as their text. The time stamps of the
  printed lines, the printed text itself and the directories (assumed to exist) are not
  modelled.
\<close>

section \<open>Files\<close>

record dict_row =
  dr_active :: "string option"
  dr_phase :: "string option"
  dr_group :: "string option"

record files =
  f_source :: "dict_row list option"
  f_production :: "dict_row list option"
  f_history :: "string option"
  f_readme :: "string option"

datatype deploy_error = FileNotFoundError | IndexError | TypeError

section \<open>Text\<close>

text \<open>\<open>s.startswith(p)\<close>.\<close>

definition py_startswith :: "string \<Rightarrow> string \<Rightarrow> bool" where
  "py_startswith p s \<longleftrightarrow> take (length p) s = p"

text \<open>\<open>s.split(sep, 1)\<close> when \<open>sep\<close> occurs in \<open>s\<close>: the text before its first occurrence and
  the text after it; \<open>None\<close> when it does not occur (Python then returns \<open>[s]\<close>).\<close>

fun split_once :: "string \<Rightarrow> string \<Rightarrow> (string \<times> string) option" where
  "split_once sep [] = (if sep = [] then Some ([], []) else None)"
| "split_once sep (c # cs) =
     (if take (length sep) (c # cs) = sep then Some ([], drop (length sep) (c # cs))
      else map_option (\<lambda>(a, b). (c # a, b)) (split_once sep cs))"

text \<open>A triple-quoted literal that starts and ends with a line break.\<close>

definition py_text_block :: "string list \<Rightarrow> string" where
  "py_text_block ls = concat (map (\<lambda>l. CHR 0x0A # l) ls) @ [CHR 0x0A]"

text \<open>Lines 48--114.\<close>

definition version_entry :: "string" where
  \<open>version_entry = py_text_block
     [''## Version 3.6.0 - 2026-01-14 18:30'',
      '''',
      ''**Major Release: Refined Keywords & Comprehensive Commodity Coverage**'',
      '''',
      ''### Summary'',
      ''- **668 total rules** (+95 from v3.4.0, +16.6%)'',
      ''- **218 new user-edited rules** across 31 HS2 chapters'',
      ''- **100% test classification rate** on 15K sample'',
      ''- **Break-Bulk group eliminated** - replaced with reliable Dry Bulk/Liquid Bulk/Liquid Gas'',
      '''',
      ''### New Features'',
      '''',
      ''#### 1. Refined Keyword Strategy'',
      ''- **Key_Phrases**: Multi-word phrases requiring exact matches (e.g., "CRUDE OIL", "PIG IRON")'',
      ''- **Primary_Keywords**: Standalone product terms (e.g., "CEMENT", "STEEL")'',
      ''- **Descriptor_Keywords**: Modifiers and qualifiers (e.g., "HOT", "ROLLED", "PRIME")'',
      ''- **Match_Strategy**: PHRASE_REQUIRED vs PRIMARY_SUFFICIENT'',
      '''',
      ''#### 2. Comprehensive Coverage (218 New Rules)'',
      ''- **HS27 Mineral Fuels** (13): Crude Oil, Petroleum Products, Coal, LNG'',
      ''- **HS28 Inorganic Chemicals** (42): Caustic Soda, Ammonia, Fertilizers, Alumina'',
      ''- **HS29 Organic Chemicals** (40): Alcohols, Ketones, Benzene, Acids'',
      ''- **HS72-73 Iron & Steel** (40): Pig Iron, Flat Rolled, Long Products, Semi-Finished'',
      ''- **HS76 Aluminum** (16): Unwrought, Plates, Bars, Wire, Foil'',
      ''- **HS74 Copper** (2): Cathodes, Mattes'',
      ''- **HS78-79 Lead & Zinc** (8): Unwrought, Concentrates'',
      ''- **HS25 Stone/Earth** (9): Salt, Cement, Aggregates, Gypsum'',
      ''- **HS31 Fertilizers** (3): Nitrogen, Potash, Compounds'',
      ''- **HS26 Ores** (5): Bauxite, Iron Ore, Titanium Ore'',
      ''- **Agricultural Products** (14): Grain, Oils, Coffee, Sugar, Rubber'',
      ''- **Forestry** (6): Lumber, Paper, Wood Pulp'',
      ''- **Construction** (17): Cement, Aggregates, Gypsum, Slag'',
      ''- **General Cargo** (7): Vehicles, Machinery'',
      '''',
      ''### Test Results (15K Sample)'',
      '''',
      ''| Metric | v3.4.0 | v3.6.0 | Change |'',
      ''|--------|--------|--------|--------|'',
      ''| Total Rules | 573 | 668 | +95 (+16.6%) |'',
      ''| Phase 3 Rules | 0 | 218 | +218 |'',
      ''| Phase 3 Classifications | 0 | 1,443 | +1,443 (9.6%) |'',
      ''| Dry Bulk % | 11.4% | 95.7% | +84.3 points |'',
      ''| Break-Bulk % | 82.0% | 0.0% | -82.0 points |'',
      ''| Classification Rate | 100% | 100% | Maintained |'',
      '''',
      ''### Breaking Changes'',
      ''- **Break-Bulk group eliminated**: All records reclassified to Dry Bulk, Liquid Bulk, or Liquid Gas'',
      ''- **Keyword columns changed**: Added Key_Phrases, Primary_Keywords, Descriptor_Keywords, Match_Strategy'',
      ''- **Old Keywords column**: Still present but deprecated, will be removed in v4.0'',
      '''',
      ''### Files Changed'',
      ''- `03_DICTIONARIES/03.01_cargo_classification/cargo_classification_dictionary_v3.6.0_20260114_1830.csv`'',
      ''- `05_DOCUMENTATION/DICTIONARY_V3.6.0_SUMMARY.md`'',
      ''- `05_DOCUMENTATION/DICTIONARY_V3.6.0_TEST_RESULTS.md`'',
      '''',
      ''### Classification Scripts'',
      ''- Updated keyword matching logic in `classify_15k_sample_v3.6.0.py`'',
      ''- Added `check_keyword_match()` function supporting refined strategy'',
      '''',
      ''### Contributors'',
      ''- WSD3 (User) - Manual classification of 218 specialized rules'',
      ''- Claude Code - Script development, testing, documentation'',
      '''',
      ''---'',
      '''']\<close>

text \<open>Lines 139--156.\<close>

definition readme_update :: "string" where
  \<open>readme_update = py_text_block
     [''## Latest Version: v3.6.0 (2026-01-14)'',
      '''',
      ''**Major Release: 218 new user-edited rules with refined keyword strategy**'',
      '''',
      ''- [OK] 668 total rules (+95 from v3.4.0)'',
      ''- [OK] 100% classification rate on 15K test sample'',
      ''- [OK] Break-Bulk group eliminated (improved from 82% vague to 95.7% Dry Bulk)'',
      ''- [OK] Comprehensive coverage: Crude Oil, Steel, Chemicals, Metals, Fertilizers'',
      ''- [OK] Refined keyword strategy: Key_Phrases, Primary_Keywords, Match_Strategy'',
      '''',
      ''**Quick Links:**'',
      ''- [Version History](05_DOCUMENTATION/DICTIONARY_VERSION_HISTORY.md)'',
      ''- [v3.6.0 Summary](user_notes/DICTIONARY_V3.6.0_SUMMARY.md)'',
      ''- [v3.6.0 Test Results](user_notes/DICTIONARY_V3.6.0_TEST_RESULTS.md)'',
      ''- [Dictionary File](03_DICTIONARIES/03.01_cargo_classification/cargo_classification_dictionary_v3.6.0_20260114_1830.csv)'',
      '''']\<close>

definition history_header :: string where
  "history_header = ''# Dictionary Version History''"

definition latest_marker :: string where
  "latest_marker = ''## Latest Version:''"

section \<open>The four steps\<close>

text \<open>Lines 35--42: \<open>shutil.copy2\<close> raises when the draft is missing; the production
  file is overwritten and read back.\<close>

definition deploy_copy :: "files \<Rightarrow> deploy_error + files \<times> dict_row list" where
  "deploy_copy fs =
     (case f_source fs of
        None \<Rightarrow> Inl FileNotFoundError
      | Some t \<Rightarrow> Inr (fs\<lparr>f_production := Some t\<rparr>, t))"

text \<open>Lines 116--128: the new text of the version history; \<open>parts[1]\<close> raises
  \<open>IndexError\<close> when the header occurs but not followed by a line break.\<close>

definition update_history :: "string option \<Rightarrow> deploy_error + string" where
  "update_history h =
     (case h of
        None \<Rightarrow> Inr (history_header @ [CHR 0x0A, CHR 0x0A] @ version_entry)
      | Some existing \<Rightarrow>
          (if py_in history_header existing then
             (case split_once (history_header @ [CHR 0x0A]) existing of
                None \<Rightarrow> Inl IndexError
              | Some (p0, p1) \<Rightarrow> Inr (p0 @ history_header @ [CHR 0x0A] @ version_entry @ p1))
           else Inr (history_header @ [CHR 0x0A, CHR 0x0A] @ version_entry @ existing)))"

text \<open>Lines 116--131.\<close>

definition deploy_history :: "files \<Rightarrow> deploy_error + files" where
  "deploy_history fs =
     (case update_history (f_history fs) of
        Inl e \<Rightarrow> Inl e
      | Inr h \<Rightarrow> Inr (fs\<lparr>f_history := Some h\<rparr>))"

text \<open>Lines 165--176: the line loop with its \<open>skip\<close> flag; \<open>upd\<close> is
  \<open>readme_update.strip().split('\n')\<close>.\<close>

fun readme_loop :: "string list \<Rightarrow> string list \<Rightarrow> bool \<Rightarrow> string list \<Rightarrow> string list" where
  "readme_loop upd [] skip acc = acc"
| "readme_loop upd (line # ls) skip acc =
     (if py_startswith latest_marker line then readme_loop upd ls True (acc @ upd)
      else if skip \<and> py_startswith ''##'' line then readme_loop upd ls False (acc @ [line])
      else if \<not> skip then readme_loop upd ls skip (acc @ [line])
      else readme_loop upd ls skip acc)"

text \<open>Lines 162--180.\<close>

definition update_readme :: "string \<Rightarrow> string" where
  "update_readme readme =
     (if py_in latest_marker readme
      then py_join [CHR 0x0A]
             (readme_loop (py_split (CHR 0x0A) (py_strip readme_update)) (py_split (CHR 0x0A) readme) False [])
      else readme_update @ [CHR 0x0A] @ readme)"

text \<open>Lines 158--187: a missing README is skipped with a warning.\<close>

definition deploy_readme :: "files \<Rightarrow> files" where
  "deploy_readme fs =
     (case f_readme fs of
        None \<Rightarrow> fs
      | Some r \<Rightarrow> fs\<lparr>f_readme := Some (update_readme r)\<rparr>)"

section \<open>The summary\<close>

record summary_stats =
  ds_rules :: nat
  ds_active :: nat
  ds_phases :: "(string option \<times> nat) list"
  ds_groups :: "(string \<times> nat) list"

text \<open>Lines 200--203: \<open>sorted(df['Phase'].unique())\<close> compares NaN with text and raises
  \<open>TypeError\<close> as soon as the distinct phases hold both; the count of the NaN phase is
  \<open>0\<close>, as \<open>NaN == NaN\<close> is false.\<close>

definition phase_breakdown :: "dict_row list \<Rightarrow> deploy_error + (string option \<times> nat) list" where
  "phase_breakdown df =
     (let ps = pd_unique (map dr_phase df) in
      if list_ex (\<lambda>p. p = None) ps \<and> list_ex (\<lambda>p. p \<noteq> None) ps then Inl TypeError
      else Inr (map (\<lambda>ph. (ph, length (filter (\<lambda>r. pd_eq (dr_phase r) ph) df)))
                  (sort_key (\<lambda>p. case p of None \<Rightarrow> [] | Some s \<Rightarrow> s) ps)))"

text \<open>Lines 205--207: \<open>groupby\<close> drops NaN and sorts the groups; the sizes are sorted in
  descending order, ties kept in group order (numpy's quicksort is an insertion sort on
  at most 16 values, and the dictionary has fewer groups), and the first five kept.\<close>

definition group_breakdown :: "dict_row list \<Rightarrow> (string \<times> nat) list" where
  "group_breakdown df =
     take 5 (sort_key (\<lambda>g. - int (snd g))
       (map (\<lambda>g. (g, count_list (map dr_group df) (Some g))) (sort (remdups (List.map_filter dr_group df)))))"

text \<open>Lines 189--207.\<close>

definition deploy_summary :: "dict_row list \<Rightarrow> deploy_error + summary_stats" where
  "deploy_summary df =
     (case phase_breakdown df of
        Inl e \<Rightarrow> Inl e
      | Inr ps \<Rightarrow> Inr \<lparr>ds_rules = length df, ds_active = length (filter (\<lambda>r. dr_active r = Some ''TRUE'') df),
                      ds_phases = ps, ds_groups = group_breakdown df\<rparr>)"

section \<open>The script\<close>

datatype deploy_outcome = Crashed deploy_error files | Finished files summary_stats

text \<open>The whole script: each step sees the files the previous one left.\<close>

definition deploy :: "files \<Rightarrow> deploy_outcome" where
  "deploy fs0 =
     (case deploy_copy fs0 of
        Inl e \<Rightarrow> Crashed e fs0
      | Inr (fs1, df) \<Rightarrow>
          (case deploy_history fs1 of
             Inl e \<Rightarrow> Crashed e fs1
           | Inr fs2 \<Rightarrow>
               (let fs3 = deploy_readme fs2 in
                case deploy_summary df of
                  Inl e \<Rightarrow> Crashed e fs3
                | Inr s \<Rightarrow> Finished fs3 s)))"

section \<open>Abstractions and concrete inputs\<close>

text \<open>The lines of \<open>readme_update.strip().split('\n')\<close>.\<close>

definition readme_lines :: "string list" where
  "readme_lines = [''## Latest Version: v3.6.0 (2026-01-14)'', [],
      ''**Major Release: 218 new user-edited rules with refined keyword strategy**'', [],
      ''- [OK] 668 total rules (+95 from v3.4.0)'',
      ''- [OK] 100% classification rate on 15K test sample'',
      ''- [OK] Break-Bulk group eliminated (improved from 82% vague to 95.7% Dry Bulk)'',
      ''- [OK] Comprehensive coverage: Crude Oil, Steel, Chemicals, Metals, Fertilizers'',
      ''- [OK] Refined keyword strategy: Key_Phrases, Primary_Keywords, Match_Strategy'', [],
      ''**Quick Links:**'',
      ''- [Version History](05_DOCUMENTATION/DICTIONARY_VERSION_HISTORY.md)'',
      ''- [v3.6.0 Summary](user_notes/DICTIONARY_V3.6.0_SUMMARY.md)'',
      ''- [v3.6.0 Test Results](user_notes/DICTIONARY_V3.6.0_TEST_RESULTS.md)'',
      ''- [Dictionary File](03_DICTIONARIES/03.01_cargo_classification/cargo_classification_dictionary_v3.6.0_20260114_1830.csv)'']"

text \<open>A dictionary whose second rule has no Phase, a version history with its header, and
  a README with a version section.\<close>

definition dp_rows :: "dict_row list" where
  "dp_rows = [\<lparr>dr_active = Some ''TRUE'', dr_phase = Some ''1'', dr_group = Some ''Dry Bulk''\<rparr>,
              \<lparr>dr_active = Some ''FALSE'', dr_phase = None, dr_group = Some ''Liquid Bulk''\<rparr>,
              \<lparr>dr_active = Some ''TRUE'', dr_phase = Some ''3'', dr_group = Some ''Dry Bulk''\<rparr>]"

definition dp_history :: string where
  "dp_history = history_header @ [CHR 0x0A] @ ''old entries''"

definition dp_files :: files where
  "dp_files = \<lparr>f_source = Some dp_rows, f_production = None, f_history = Some dp_history, f_readme = None\<rparr>"

definition dp_files_ok :: files where
  "dp_files_ok = dp_files\<lparr>f_source := Some (take 1 dp_rows)\<rparr>"

definition dp_readme :: string where
  "dp_readme = ''# Project'' @ [CHR 0x0A] @ ''## Latest Version: v3.4.0'' @ [CHR 0x0A] @ ''old'' @ [CHR 0x0A] @ ''## Setup''"

section \<open>Lemmas\<close>

lemma py_split_no_sep: "sep \<notin> set w \<Longrightarrow> py_split sep w = [w]"
  by (induction w) auto

lemma py_split_append_sep: "sep \<notin> set w \<Longrightarrow> py_split sep (w @ sep # r) = w # py_split sep r"
  by (induction w) auto

lemma py_split_join:
  "ls \<noteq> [] \<Longrightarrow> \<forall>l \<in> set ls. sep \<notin> set l \<Longrightarrow> py_split sep (py_join [sep] ls) = ls"
  by (induction "[sep]" ls rule: py_join.induct) (auto simp: py_split_no_sep py_split_append_sep)

lemma concat_map_Cons_join: "ls \<noteq> [] \<Longrightarrow> concat (map (\<lambda>l. c # l) ls) = c # py_join [c] ls"
  by (induction "[c]" ls rule: py_join.induct) auto

lemma py_text_block_join: "ls \<noteq> [] \<Longrightarrow> py_text_block ls = CHR 0x0A # py_join [CHR 0x0A] ls @ [CHR 0x0A]"
  using concat_map_Cons_join [of ls "CHR 0x0A"] by (simp add: py_text_block_def)

lemma py_strip_frame:
  assumes "s \<noteq> []" "\<not> py_space (hd s)" "\<not> py_space (last s)" "list_all py_space pre" "list_all py_space post"
  shows "py_strip (pre @ s @ post) = s"
proof -
  obtain c cs where s: "s = c # cs" using assms(1) by (cases s) auto
  have "dropWhile py_space (pre @ s @ post) = dropWhile py_space (s @ post)"
    using assms(4) by (simp add: dropWhile_append list_all_iff)
  also have "\<dots> = s @ post" using assms(2) s by simp
  finally have d1: "dropWhile py_space (pre @ s @ post) = s @ post" .
  obtain d ds where r: "rev s = d # ds" using assms(1) by (cases "rev s") auto
  then have "last s = d" by (metis last_rev list.sel(1) rev_rev_ident)
  have "dropWhile py_space (rev (s @ post)) = dropWhile py_space (rev s)"
    using assms(5) by (simp add: dropWhile_append list_all_iff)
  also have "\<dots> = rev s" using assms(3) r \<open>last s = d\<close> by simp
  finally show ?thesis using d1 by (simp add: py_strip_def)
qed

lemma readme_update_join: "readme_update = CHR 0x0A # py_join [CHR 0x0A] readme_lines @ [CHR 0x0A, CHR 0x0A]"
proof -
  have "readme_update = py_text_block (readme_lines @ [[]])"
    by (simp add: readme_update_def readme_lines_def)
  also have "\<dots> = CHR 0x0A # py_join [CHR 0x0A] readme_lines @ [CHR 0x0A, CHR 0x0A]"
    by (simp add: py_text_block_join readme_lines_def)
  finally show ?thesis .
qed

lemma readme_lines_nl: "\<forall>l \<in> set readme_lines. CHR 0x0A \<notin> set l"
  unfolding readme_lines_def by code_simp

lemma readme_lines_ends:
  "\<not> py_space (hd (py_join [CHR 0x0A] readme_lines)) \<and> \<not> py_space (last (py_join [CHR 0x0A] readme_lines))"
  unfolding readme_lines_def by code_simp

lemma readme_lines_shape:
  "readme_lines = hd readme_lines # tl readme_lines \<and> py_startswith latest_marker (hd readme_lines) \<and>
   (\<forall>l \<in> set (tl readme_lines). \<not> py_startswith ''##'' l)"
  unfolding readme_lines_def latest_marker_def py_startswith_def by code_simp

lemma readme_update_lines: "py_split (CHR 0x0A) (py_strip readme_update) = readme_lines"
proof -
  have ne: "readme_lines \<noteq> []" by (simp add: readme_lines_def)
  have "py_join [CHR 0x0A] readme_lines \<noteq> []" by (simp add: readme_lines_def)
  then have "py_strip readme_update = py_join [CHR 0x0A] readme_lines"
    unfolding readme_update_join
    using py_strip_frame [where pre = "[CHR 0x0A]" and post = "[CHR 0x0A, CHR 0x0A]"] readme_lines_ends
    by (simp add: py_space_def)
  moreover have "py_split (CHR 0x0A) (py_join [CHR 0x0A] readme_lines) = readme_lines"
    using py_split_join [OF ne readme_lines_nl] .
  ultimately show ?thesis by simp
qed

lemma readme_loop_acc: "readme_loop upd ls skip acc = acc @ readme_loop upd ls skip []"
proof (induction ls arbitrary: skip acc)
  case (Cons l ls)
  show ?case
    using Cons.IH [of True "acc @ upd"] Cons.IH [of True upd] Cons.IH [of False "acc @ [l]"] Cons.IH [of False "[l]"]
      Cons.IH [of skip "acc @ [l]"] Cons.IH [of skip "[l]"] Cons.IH [of skip acc]
    by (cases skip) (simp_all del: readme_loop.simps(2) add: readme_loop.simps(2) [of upd l ls _ acc]
        readme_loop.simps(2) [of upd l ls _ "[]"])
qed simp

lemma readme_loop_acc_ne: "acc \<noteq> [] \<Longrightarrow> readme_loop upd ls skip acc = acc @ readme_loop upd ls skip []"
  by (rule readme_loop_acc)

lemma latest_marker_hh: "py_startswith latest_marker l \<Longrightarrow> py_startswith ''##'' l"
proof -
  assume "py_startswith latest_marker l"
  then have "take 2 (take (length latest_marker) l) = take 2 latest_marker"
    by (simp only: py_startswith_def)
  moreover have "take 2 (take (length latest_marker) l) = take 2 l"
    by (simp add: latest_marker_def min_def)
  ultimately have "take 2 l = ''##''" by (simp add: latest_marker_def)
  moreover have "length ''##'' = (2::nat)" by simp
  ultimately show ?thesis unfolding py_startswith_def by metis
qed

lemma readme_loop_step:
  "readme_loop U (l # ls) s [] =
     (if py_startswith latest_marker l then U @ readme_loop U ls True []
      else if s \<and> py_startswith ''##'' l then l # readme_loop U ls False []
      else if \<not> s then l # readme_loop U ls s []
      else readme_loop U ls s [])"
  using readme_loop_acc [of U ls True U] readme_loop_acc [of U ls False "[l]"] readme_loop_acc [of U ls s "[l]"]
  by simp

declare readme_loop.simps(2) [simp del]

lemma readme_loop_skip:
  "\<forall>l \<in> set us. \<not> py_startswith ''##'' l \<Longrightarrow> readme_loop U (us @ X) True [] = readme_loop U X True []"
proof (induction us)
  case (Cons l us)
  then have "\<not> py_startswith latest_marker l" using latest_marker_hh by auto
  then show ?case using Cons by (simp add: readme_loop_step)
qed simp

lemma readme_loop_block:
  assumes "U = u # us" "py_startswith latest_marker u" "\<forall>l \<in> set us. \<not> py_startswith ''##'' l"
  shows "readme_loop U (U @ X) s [] = U @ readme_loop U X True []"
proof -
  have "readme_loop U (U @ X) s [] = readme_loop U (u # (us @ X)) s []" using assms(1) by simp
  also have "\<dots> = U @ readme_loop U (us @ X) True []" using assms(2) by (simp only: readme_loop_step if_True)
  finally show ?thesis using readme_loop_skip [OF assms(3)] by simp
qed

lemma readme_loop_idem:
  assumes "U = u # us" "py_startswith latest_marker u" "\<forall>l \<in> set us. \<not> py_startswith ''##'' l"
  shows "readme_loop U (readme_loop U ls s []) s [] = readme_loop U ls s []"
proof (induction ls arbitrary: s)
  case Nil
  then show ?case by simp
next
  case (Cons l ls)
  show ?case
  proof (cases "py_startswith latest_marker l")
    case True
    then show ?thesis using readme_loop_block [OF assms] Cons.IH [of True] by (simp add: readme_loop_step)
  next
    case False
    then show ?thesis using Cons.IH [of False] Cons.IH [of True]
      by (cases s; cases "py_startswith ''##'' l") (simp_all add: readme_loop_step)
  qed
qed

lemma readme_loop_set: "set (readme_loop U ls s []) \<subseteq> set ls \<union> set U"
  by (induction ls arbitrary: s) (auto simp: readme_loop_step)

lemma readme_loop_plain: "\<not> list_ex (py_startswith latest_marker) ls \<Longrightarrow> readme_loop U ls False [] = ls"
  by (induction ls) (simp_all add: readme_loop_step)

lemma readme_loop_marker: "list_ex (py_startswith latest_marker) ls \<Longrightarrow> set U \<subseteq> set (readme_loop U ls s [])"
  by (induction ls arbitrary: s) (auto simp: readme_loop_step)

lemma py_in_iff: "py_in n h \<longleftrightarrow> (\<exists>a b. h = a @ n @ b)"
proof
  assume "py_in n h"
  then obtain i where "take (length n) (drop i h) = n"
    by (auto simp: py_in_def list_ex_iff)
  then have "h = take i h @ n @ drop (length n) (drop i h)"
    by (metis append_take_drop_id)
  then show "\<exists>a b. h = a @ n @ b" by blast
next
  assume "\<exists>a b. h = a @ n @ b"
  then obtain a b where "h = a @ n @ b" by blast
  then show "py_in n h" by (auto simp: py_in_def list_ex_iff intro!: bexI [of _ "length a"])
qed

lemma py_startswith_in: "py_startswith p l \<Longrightarrow> py_in p l"
  unfolding py_startswith_def py_in_iff by (metis append_Nil append_take_drop_id)

lemma py_join_mem: "l \<in> set ls \<Longrightarrow> \<exists>a b. py_join sep ls = a @ l @ b"
proof (induction sep ls rule: py_join.induct)
  case (3 sep w v vs)
  then show ?case by (auto, metis append.assoc append_Nil, metis append.assoc)
qed (auto intro: exI [of _ "[]"])

lemma py_in_join: "l \<in> set ls \<Longrightarrow> py_in n l \<Longrightarrow> py_in n (py_join sep ls)"
  unfolding py_in_iff by (metis append.assoc py_join_mem)

lemma py_split_pieces: "l \<in> set (py_split sep s) \<Longrightarrow> sep \<notin> set l"
  by (induction sep s arbitrary: l rule: py_split.induct) (auto split: if_splits list.splits)

lemma update_readme_lines:
  "py_in latest_marker r \<Longrightarrow>
   update_readme r = py_join [CHR 0x0A] (readme_loop readme_lines (py_split (CHR 0x0A) r) False [])"
  by (simp add: update_readme_def readme_update_lines)

text \<open>Text before a separator only adds pieces in front of the pieces after it.\<close>

lemma py_split_after_sep: "\<exists>ws. py_split sep (p @ sep # s) = ws @ py_split sep s"
proof -
  have "\<exists>ws. ws \<noteq> [] \<and> py_split sep (p @ sep # s) = ws @ py_split sep s"
  proof (induction p)
    case (Cons c p)
    then obtain w ws where "py_split sep (p @ sep # s) = (w # ws) @ py_split sep s"
      by (metis neq_Nil_conv)
    then show ?case
      by (cases "c = sep") (auto intro: exI [of _ "(c # w) # ws"])
  qed (auto intro: exI [of _ "[[]]"])
  then show ?thesis by blast
qed

text \<open>A text that starts with a separator-free \<open>l\<close> has a first piece that starts with \<open>l\<close>.\<close>

lemma py_split_first_piece:
  "sep \<notin> set l \<Longrightarrow> \<exists>w ws. py_split sep (l @ q) = w # ws \<and> take (length l) w = l"
proof (induction l)
  case Nil
  show ?case using py_split_ne [of sep q] by (cases "py_split sep q") auto
next
  case (Cons c l)
  then obtain w ws where "py_split sep (l @ q) = w # ws" "take (length l) w = l" by auto
  moreover have "c \<noteq> sep" using Cons.prems by auto
  ultimately show ?case by simp
qed

lemma py_join_hd: "\<exists>rest. py_join sep (h # t) = h @ rest"
  by (cases t) auto

text \<open>A README that holds the update block has a line starting with the marker.\<close>

lemma readme_update_in_marker_line:
  assumes "py_in readme_update r"
  shows "list_ex (py_startswith latest_marker) (py_split (CHR 0x0A) r)"
proof -
  obtain p q where r: "r = p @ readme_update @ q" using assms by (auto simp: py_in_iff)
  have shape: "readme_lines = hd readme_lines # tl readme_lines" "py_startswith latest_marker (hd readme_lines)"
    using readme_lines_shape by blast+
  have nl: "CHR 0x0A \<notin> set (hd readme_lines)"
    using readme_lines_nl shape(1) by (metis list.set_intros(1))
  obtain rest where j: "py_join [CHR 0x0A] readme_lines = hd readme_lines @ rest"
    using py_join_hd [of "[CHR 0x0A]" "hd readme_lines" "tl readme_lines"] shape(1) by metis
  have r': "r = p @ CHR 0x0A # (hd readme_lines @ rest @ [CHR 0x0A, CHR 0x0A] @ q)"
    by (simp add: r readme_update_join j)
  obtain ws where s: "py_split (CHR 0x0A) r = ws @ py_split (CHR 0x0A) (hd readme_lines @ rest @ [CHR 0x0A, CHR 0x0A] @ q)"
    using py_split_after_sep [of "CHR 0x0A" p "hd readme_lines @ rest @ [CHR 0x0A, CHR 0x0A] @ q"]
    unfolding r' by blast
  obtain w ws' where w: "py_split (CHR 0x0A) (hd readme_lines @ rest @ [CHR 0x0A, CHR 0x0A] @ q) = w # ws'"
    "take (length (hd readme_lines)) w = hd readme_lines"
    using py_split_first_piece [OF nl] by blast
  have "py_startswith latest_marker w"
    using shape(2) w(2) by (simp add: py_startswith_def) (metis min.absorb1 take_take nat_le_linear take_all)
  then show ?thesis using s w(1) by (auto simp: list_ex_iff)
qed

lemma update_readme_inside_line:
  assumes "py_in latest_marker r" "\<not> list_ex (py_startswith latest_marker) (py_split (CHR 0x0A) r)"
  shows "update_readme r = r"
  using assms by (simp add: update_readme_lines readme_loop_plain py_join_py_split)

lemma split_once_Some: "split_once sep s = Some (a, b) \<Longrightarrow> s = a @ sep @ b"
  by (induction sep s arbitrary: a b rule: split_once.induct)
     (auto split: if_splits, metis append_take_drop_id)

lemma take_common_prefix: "n \<le> length p \<Longrightarrow> take n (p @ r) = take n (p @ r')"
  by simp

lemma split_once_at_start: "split_once sep (sep @ b) = Some ([], b)"
proof (cases "sep @ b")
  case Nil
  then show ?thesis by simp
next
  case (Cons c cs)
  then have "take (length sep) (c # cs) = sep" "drop (length sep) (c # cs) = b" by (metis append_eq_conv_conj)+
  then show ?thesis using Cons by simp
qed

lemma split_once_first:
  "split_once sep s = Some (a, b) \<Longrightarrow> split_once sep (a @ sep @ b') = Some (a, b')"
proof (induction sep s arbitrary: a b rule: split_once.induct)
  case (1 sep)
  then show ?case by (cases b') (auto split: if_splits)
next
  case (2 sep c cs)
  show ?case
  proof (cases "take (length sep) (c # cs) = sep")
    case True
    then show ?thesis using 2 by (auto simp: split_once_at_start)
  next
    case False
    with 2 obtain a' where a: "a = c # a'" "split_once sep cs = Some (a', b)" by (auto split: if_splits)
    have s: "c # cs = c # a' @ sep @ b" using split_once_Some [OF a(2)] by simp
    have "take (length sep) (c # a' @ sep @ b') \<noteq> sep"
    proof -
      have "take (length sep) (c # a' @ sep @ b') = take (length sep) (c # a' @ sep @ b)"
        using take_common_prefix [of "length sep" "c # a' @ sep" b' b] by simp
      then show ?thesis using False s by simp
    qed
    then show ?thesis using 2(1) [OF False a(2)] a(1) by simp
  qed
qed

lemma update_history_ok_iff:
  "(\<exists>h'. update_history h = Inr h') \<longleftrightarrow>
   (case h of None \<Rightarrow> True | Some x \<Rightarrow> py_in history_header x \<longrightarrow> split_once (history_header @ [CHR 0x0A]) x \<noteq> None)"
  by (auto simp: update_history_def split: option.splits)

lemma update_history_split:
  assumes "split_once (history_header @ [CHR 0x0A]) h = Some (p0, p1)"
  shows "update_history (Some h) = Inr (p0 @ history_header @ [CHR 0x0A] @ version_entry @ p1)"
proof -
  have "py_in history_header h"
    using split_once_Some [OF assms] by (auto simp: py_in_iff)
  then show ?thesis using assms by (simp add: update_history_def)
qed

lemma deploy_readme_fields [simp]:
  "f_source (deploy_readme fs) = f_source fs" "f_production (deploy_readme fs) = f_production fs"
  "f_history (deploy_readme fs) = f_history fs"
  by (simp_all add: deploy_readme_def split: option.splits)

lemma deploy_ran:
  assumes "f_source fs = Some df" "update_history (f_history fs) = Inr h"
  shows "deploy fs = (case deploy_summary df of
                        Inl e \<Rightarrow> Crashed e (deploy_readme (fs\<lparr>f_production := Some df, f_history := Some h\<rparr>))
                      | Inr s \<Rightarrow> Finished (deploy_readme (fs\<lparr>f_production := Some df, f_history := Some h\<rparr>)) s)"
  using assms by (simp add: deploy_def deploy_copy_def deploy_history_def Let_def)

lemma deploy_Finished:
  assumes "deploy fs = Finished fs1 s1"
  shows "\<exists>df h. f_source fs = Some df \<and> update_history (f_history fs) = Inr h \<and> deploy_summary df = Inr s1 \<and>
           fs1 = deploy_readme (fs\<lparr>f_production := Some df, f_history := Some h\<rparr>)"
  using assms
  by (auto simp: deploy_def deploy_copy_def deploy_history_def Let_def
      split: option.splits sum.splits deploy_outcome.splits)

lemma phase_breakdown_Inr_iff:
  "(\<exists>ps. phase_breakdown df = Inr ps) \<longleftrightarrow> \<not> (None \<in> set (map dr_phase df) \<and> list_ex (\<lambda>p. p \<noteq> None) (map dr_phase df))"
proof -
  have "list_ex P (pd_unique xs) \<longleftrightarrow> list_ex P xs" for P and xs :: "string option list"
    by (simp only: list_ex_iff set_pd_unique)
  moreover have "list_ex (\<lambda>p. p = None) xs \<longleftrightarrow> None \<in> set xs" for xs :: "string option list"
    by (auto simp: list_ex_iff)
  ultimately show ?thesis by (simp add: phase_breakdown_def Let_def del: list_ex_iff)
qed

lemma sum_count_list: "sum_list (map (\<lambda>_. Suc 0) xs) = length xs"
  by (induction xs) auto

lemma phase_breakdown_sum:
  assumes "phase_breakdown df = Inr ps"
  shows "sum_list (map snd ps) = length (filter (\<lambda>r. dr_phase r \<noteq> None) df)"
proof -
  let ?us = "pd_unique (map dr_phase df)"
  let ?ks = "sort_key (\<lambda>p. case p of None \<Rightarrow> [] | Some s \<Rightarrow> s) ?us"
  have ps: "ps = map (\<lambda>ph. (ph, length (filter (\<lambda>r. pd_eq (dr_phase r) ph) df))) ?ks"
    and ok: "\<not> (list_ex (\<lambda>p. p = None) ?us \<and> list_ex (\<lambda>p. p \<noteq> None) ?us)"
    using assms by (auto simp: phase_breakdown_def Let_def split: if_splits)
  have set_ks: "set ?ks = set (map dr_phase df)" by simp
  show ?thesis
  proof (cases "None \<in> set (map dr_phase df)")
    case False
    then have eq: "pd_eq (dr_phase r) k \<longleftrightarrow> dr_phase r = k" if "k \<in> set ?ks" for r k
      using that set_ks by (cases k; cases "dr_phase r") (auto simp: pd_eq_iff)
    have "sum_list (map snd ps) = sum_list (map (\<lambda>k. length (filter (\<lambda>r. dr_phase r = k) df)) ?ks)"
      unfolding ps by (simp add: comp_def cong: map_cong) (rule arg_cong [where f = sum_list], rule map_cong, simp_all add: eq cong: filter_cong)
    also have "\<dots> = sum_list (map (\<lambda>k. sum_list (map (\<lambda>_. Suc 0) (filter (\<lambda>r. dr_phase r = k) df))) ?ks)"
      by (simp add: sum_count_list)
    also have "\<dots> = length df"
      using sum_list_groups [of ?ks dr_phase df "\<lambda>_. Suc 0"] by (simp add: sum_count_list)
    moreover have "filter (\<lambda>r. dr_phase r \<noteq> None) df = df"
    proof (rule filter_True)
      show "\<forall>r \<in> set df. dr_phase r \<noteq> None"
        using False by (metis image_eqI list.set_map)
    qed
    ultimately show ?thesis by simp
  next
    case True
    then have "\<forall>p \<in> set ?us. p = None" using ok by (auto simp: list_ex_iff)
    then have "\<forall>r \<in> set df. dr_phase r = None" by auto
    moreover have "\<forall>k \<in> set ?ks. k = None" using \<open>\<forall>p \<in> set ?us. p = None\<close> by simp
    ultimately show ?thesis unfolding ps by (simp add: pd_eq_iff comp_def filter_empty_conv)
  qed
qed

section \<open>Properties\<close>

text \<open>
  C34. When the dictionary has rules with and without a Phase, the deployment stops with
  \<open>TypeError\<close> in the summary, after it has overwritten the production dictionary and
  rewritten the version history and the README: the crash leaves the new files in place.
\<close>

theorem deploy_nan_phase_crashes_after_writes:
  assumes "f_source fs = Some df" "update_history (f_history fs) = Inr h"
    "None \<in> set (map dr_phase df)" "Some p \<in> set (map dr_phase df)"
  shows "deploy fs = Crashed TypeError (deploy_readme (fs\<lparr>f_production := Some df, f_history := Some h\<rparr>))"
proof -
  have "\<not> (\<exists>ps. phase_breakdown df = Inr ps)"
    using assms(3,4) phase_breakdown_Inr_iff [of df] by (force simp: list_ex_iff)
  then have "phase_breakdown df = Inl TypeError"
    by (auto simp: phase_breakdown_def Let_def split: if_splits)
  then show ?thesis using deploy_ran [OF assms(1,2)] by (simp add: deploy_summary_def)
qed

theorem deploy_nan_phase_crashes_after_writes_witness:
  "\<exists>h. deploy dp_files = Crashed TypeError (deploy_readme (dp_files\<lparr>f_production := Some dp_rows, f_history := Some h\<rparr>)) \<and>
       f_production (deploy_readme (dp_files\<lparr>f_production := Some dp_rows, f_history := Some h\<rparr>)) = Some dp_rows"
proof -
  have split: "split_once (history_header @ [CHR 0x0A]) dp_history = Some ([], ''old entries'')"
    using split_once_at_start [of "history_header @ [CHR 0x0A]" "''old entries''"] by (simp add: dp_history_def)
  have "update_history (f_history dp_files) = Inr (history_header @ [CHR 0x0A] @ version_entry @ ''old entries'')"
    using update_history_split [OF split] by (simp add: dp_files_def)
  moreover have "None \<in> set (map dr_phase dp_rows)" "Some ''1'' \<in> set (map dr_phase dp_rows)"
    by (simp_all add: dp_rows_def)
  moreover have "f_source dp_files = Some dp_rows" by (simp add: dp_files_def)
  ultimately show ?thesis using deploy_nan_phase_crashes_after_writes by fastforce
qed

text \<open>
  C35. The deployment runs to its end whenever the draft exists, the version history (if
  any) has its header on a line of its own, and the phases are not a mix of empty and
  non-empty cells; the summary then counts every rule, and its phase counts add up to
  the rules that have a phase.
\<close>

theorem deploy_finishes:
  assumes "f_source fs = Some df" "update_history (f_history fs) = Inr h"
    "\<not> (None \<in> set (map dr_phase df) \<and> list_ex (\<lambda>p. p \<noteq> None) (map dr_phase df))"
  shows "\<exists>s. deploy fs = Finished (deploy_readme (fs\<lparr>f_production := Some df, f_history := Some h\<rparr>)) s \<and>
             ds_rules s = length df \<and> sum_list (map snd (ds_phases s)) = length (filter (\<lambda>r. dr_phase r \<noteq> None) df)"
proof -
  obtain ps where ps: "phase_breakdown df = Inr ps" using assms(3) phase_breakdown_Inr_iff by blast
  then show ?thesis
    using deploy_ran [OF assms(1,2)] phase_breakdown_sum [OF ps] by (simp add: deploy_summary_def)
qed

theorem deploy_finishes_witness:
  "\<exists>s. deploy dp_files_ok = Finished (deploy_readme (dp_files_ok\<lparr>f_production := Some (take 1 dp_rows),
         f_history := Some (history_header @ [CHR 0x0A] @ version_entry @ ''old entries'')\<rparr>)) s \<and>
       ds_rules s = 1 \<and> sum_list (map snd (ds_phases s)) = 1"
proof -
  have split: "split_once (history_header @ [CHR 0x0A]) dp_history = Some ([], ''old entries'')"
    using split_once_at_start [of "history_header @ [CHR 0x0A]" "''old entries''"] by (simp add: dp_history_def)
  have h: "update_history (f_history dp_files_ok) = Inr (history_header @ [CHR 0x0A] @ version_entry @ ''old entries'')"
    using update_history_split [OF split] by (simp add: dp_files_ok_def dp_files_def)
  have src: "f_source dp_files_ok = Some (take 1 dp_rows)" by (simp add: dp_files_ok_def)
  have ph: "\<not> (None \<in> set (map dr_phase (take 1 dp_rows)) \<and> list_ex (\<lambda>p. p \<noteq> None) (map dr_phase (take 1 dp_rows)))"
    by (simp add: dp_rows_def)
  show ?thesis
    using deploy_finishes [OF src h ph] by (simp add: dp_rows_def)
qed

text \<open>
  C36. Deploying a second time inserts the version entry again: after two runs the history
  holds the v3.6.0 entry twice, one after the other, below its header.
\<close>

theorem deploy_rerun_duplicates_history_entry:
  assumes "deploy fs = Finished fs1 s1" "f_history fs = Some h"
    "split_once (history_header @ [CHR 0x0A]) h = Some (p0, p1)"
  shows "\<exists>fs2 s2. deploy fs1 = Finished fs2 s2 \<and>
           f_history fs2 = Some (p0 @ history_header @ [CHR 0x0A] @ version_entry @ version_entry @ p1)"
proof -
  obtain df h1 where run: "f_source fs = Some df" "update_history (f_history fs) = Inr h1"
    "deploy_summary df = Inr s1" "fs1 = deploy_readme (fs\<lparr>f_production := Some df, f_history := Some h1\<rparr>)"
    using deploy_Finished [OF assms(1)] by blast
  have h1: "h1 = p0 @ history_header @ [CHR 0x0A] @ version_entry @ p1"
    using run(2) update_history_split [OF assms(3)] assms(2) by simp
  have "split_once (history_header @ [CHR 0x0A]) h1 = Some (p0, version_entry @ p1)"
    using split_once_first [OF assms(3), of "version_entry @ p1"] h1 by simp
  from update_history_split [OF this]
  have "update_history (f_history fs1) = Inr (p0 @ history_header @ [CHR 0x0A] @ version_entry @ version_entry @ p1)"
    using run(4) by simp
  moreover have "f_source fs1 = Some df" using run(1,4) by simp
  ultimately show ?thesis
    using deploy_ran [of fs1 df] run(3) by auto
qed

theorem deploy_rerun_duplicates_history_entry_witness:
  "\<exists>fs1 s1 fs2 s2. deploy dp_files_ok = Finished fs1 s1 \<and> deploy fs1 = Finished fs2 s2 \<and>
     f_history fs2 = Some (history_header @ [CHR 0x0A] @ version_entry @ version_entry @ ''old entries'')"
proof -
  have split: "split_once (history_header @ [CHR 0x0A]) dp_history = Some ([], ''old entries'')"
    using split_once_at_start [of "history_header @ [CHR 0x0A]" "''old entries''"] by (simp add: dp_history_def)
  have h: "update_history (f_history dp_files_ok) = Inr (history_header @ [CHR 0x0A] @ version_entry @ ''old entries'')"
    using update_history_split [OF split] by (simp add: dp_files_ok_def dp_files_def)
  have src: "f_source dp_files_ok = Some (take 1 dp_rows)" by (simp add: dp_files_ok_def)
  have "\<exists>ps. phase_breakdown (take 1 dp_rows) = Inr ps"
    unfolding phase_breakdown_Inr_iff by (simp add: dp_rows_def)
  then obtain s1 where s1: "deploy_summary (take 1 dp_rows) = Inr s1"
    by (auto simp: deploy_summary_def)
  obtain fs1 where fs1: "deploy dp_files_ok = Finished fs1 s1"
    using deploy_ran [OF src h] s1 by simp
  have hist: "f_history dp_files_ok = Some dp_history" by (simp add: dp_files_ok_def dp_files_def)
  show ?thesis
    using deploy_rerun_duplicates_history_entry [OF fs1 hist split] fs1 by auto
qed

text \<open>
  C37. The README update is idempotent on a README that contains the
  \<open>## Latest Version:\<close> marker: running it again changes nothing.
\<close>

theorem readme_update_idempotent:
  assumes "py_in latest_marker r"
  shows "update_readme (update_readme r) = update_readme r"
proof (cases "list_ex (py_startswith latest_marker) (py_split (CHR 0x0A) r)")
  case True
  let ?L1 = "readme_loop readme_lines (py_split (CHR 0x0A) r) False []"
  have u: "update_readme r = py_join [CHR 0x0A] ?L1" by (rule update_readme_lines [OF assms])
  have shape: "readme_lines = hd readme_lines # tl readme_lines" "py_startswith latest_marker (hd readme_lines)"
    "\<forall>l \<in> set (tl readme_lines). \<not> py_startswith ''##'' l"
    using readme_lines_shape by blast+
  have hd_in: "hd readme_lines \<in> set ?L1"
    using readme_loop_marker [OF True] shape(1) by (metis list.set_intros(1) subsetD)
  then have ne: "?L1 \<noteq> []" by auto
  have "\<forall>l \<in> set ?L1. CHR 0x0A \<notin> set l"
    using readme_loop_set [of readme_lines "py_split (CHR 0x0A) r" False] readme_lines_nl py_split_pieces by blast
  then have split: "py_split (CHR 0x0A) (py_join [CHR 0x0A] ?L1) = ?L1" by (rule py_split_join [OF ne])
  have "py_in latest_marker (py_join [CHR 0x0A] ?L1)"
    using py_in_join [OF hd_in py_startswith_in [OF shape(2)]] .
  then have "update_readme (py_join [CHR 0x0A] ?L1) = py_join [CHR 0x0A] (readme_loop readme_lines ?L1 False [])"
    using split by (simp add: update_readme_lines)
  also have "\<dots> = py_join [CHR 0x0A] ?L1"
    using readme_loop_idem [OF shape] by simp
  finally show ?thesis using u by simp
next
  case False
  then show ?thesis using update_readme_inside_line [OF assms False] by simp
qed

theorem readme_update_idempotent_witness:
  "py_in latest_marker dp_readme \<and> update_readme (update_readme dp_readme) = update_readme dp_readme"
proof -
  have "py_in latest_marker dp_readme"
    unfolding py_in_iff dp_readme_def latest_marker_def
    by (rule exI [of _ "''# Project'' @ [CHR 0x0A]"], rule exI [of _ "'' v3.4.0'' @ [CHR 0x0A] @ ''old'' @ [CHR 0x0A] @ ''## Setup''"]) simp
  then show ?thesis using readme_update_idempotent by blast
qed

text \<open>
  C38. The README test looks for \<open>## Latest Version:\<close> anywhere in the text, but the loop
  only replaces a line that starts with it: when the marker occurs only inside lines,
  the README is written back unchanged and no line of it starts with the marker, so the
  new version section is never added.
\<close>

theorem readme_marker_inside_line_no_section:
  assumes "py_in latest_marker r" and "\<not> list_ex (py_startswith latest_marker) (py_split (CHR 0x0A) r)"
  shows "update_readme r = r \<and>
         \<not> list_ex (py_startswith latest_marker) (py_split (CHR 0x0A) (update_readme r)) \<and>
         \<not> py_in readme_update (update_readme r)"
proof -
  have u: "update_readme r = r" by (rule update_readme_inside_line [OF assms])
  have "\<not> py_in readme_update r"
    using readme_update_in_marker_line assms(2) by blast
  with u assms(2) show ?thesis by simp
qed

theorem readme_marker_inside_line_no_section_witness:
  "py_in latest_marker ''See the ## Latest Version: section'' \<and>
   \<not> list_ex (py_startswith latest_marker) (py_split (CHR 0x0A) ''See the ## Latest Version: section'') \<and>
   update_readme ''See the ## Latest Version: section'' = ''See the ## Latest Version: section''"
proof -
  have h1: "py_in latest_marker ''See the ## Latest Version: section''"
    unfolding py_in_iff latest_marker_def
    by (rule exI [of _ "''See the ''"], rule exI [of _ "'' section''"]) simp
  have h2: "\<not> list_ex (py_startswith latest_marker) (py_split (CHR 0x0A) ''See the ## Latest Version: section'')"
    by (simp add: latest_marker_def py_startswith_def)
  show ?thesis using h1 h2 readme_marker_inside_line_no_section [OF h1 h2] by blast
qed

end
