(* ===== verification/ColumnCompare.thy ===== *)
theory ColumnCompare
  imports Prelude "HOL-Library.Char_ord" "HOL-Library.List_Lexorder"
begin

text \<open>
  \<open>compare_import_export_columns.py\<close>: the comparison of the column names of a Panjiva
  import file with those of the first CSV file of the first zip archive of the export
  directory. The import file is given by its column names; the export directory by its
  listing in \<open>os.listdir\<close> order, each entry with the members of the archive (member name
  and column names). The script only prints; \<open>compare_columns\<close> returns the values it
  prints, or \<open>NameError\<close> when \<open>df_export\<close> was never assigned (line 24). The printed
  text and the check marks are not modelled.
\<close>

section \<open>Definitions\<close>











section \<open>Lemmas\<close>






end
