(* ===== verification/Spec2Isabelle.thy ===== *)
theory Spec2Isabelle
  imports KeyNormalizer GenesisMatcher TugBarge UsaceDate ToleranceMatcher VoyRecid Classification EntranceTransform
    ClearanceTransform PortRollups PanjivaPreprocess PortcallMaster UserEdits Deploy ColumnCompare
begin

text \<open>
  A shallow embedding of the record-linkage pipeline of the Panjiva classification
  system (the Python scripts under \<open>src/04_SCRIPTS\<close>), with the theorems that state what
  each stage does, including where it departs from \<open>spec.md\<close>.

  \<^bold>\<open>The program.\<close> The raw Panjiva export files are concatenated, numbered and split
  by year, with HS levels (\<open>process_panjiva_exports\<close>); export cargo records are grouped
  into port calls (\<open>VOY_RECID\<close>); raw USACE entrance and clearance rows are transformed
  (codes to text, register and dictionary lookups, draft forecast); the tolerance-window
  matcher links clearances to export port calls on (vessel, port, date \<open>\<plusminus>\<close>7 days);
  port rollups are added to both by code or by name; the genesis matcher marries each
  entrance with the next clearance of the same vessel at the same port and numbers the
  port calls; the co-occurrence disambiguator pairs unidentified tugs and barges; the
  classification engine assigns a cargo taxonomy to import records by dictionary rules.
  A separate report script compares the master file with a copy corrected by hand and
  extracts edit patterns from the differences; a deployment script installs a new
  dictionary version and updates its documentation, and a diagnostic script compares the
  column names of an import and an export file. All stages share the key normalizers and
  Python's and pandas' text/number conversions.

  \<^bold>\<open>Theories and correspondence.\<close>
  \<^item> \<open>Prelude\<close>: Python string methods (\<open>upper\<close>, \<open>strip\<close>, \<open>split\<close>, \<open>replace\<close>, \<open>in\<close>,
    \<open>join\<close>) on ASCII, pandas comparison and missing-value semantics (\<open>None\<close> is NaN/NaT,
    \<open>str(NaN) = 'nan'\<close>, \<open>unique\<close>, \<open>first\<close>, \<open>sum\<close>), and shared list, multiset and
    dictionary-loop lemmas, with the collections \<open>py_simps\<close> and \<open>pd_simps\<close>.
  \<^item> \<open>PyText\<close>: \<open>str(int)\<close>, \<open>zfill\<close>, \<open>int(str)\<close>, \<open>float(str)\<close> (with \<open>nan\<close>),
    fixed-point formatting and \<open>str(float)\<close>, the column dtype \<open>pd.read_csv\<close> infers and
    the text of a cell under it, with the digit round trips.
  \<^item> \<open>KeyNormalizer\<close>: \<open>normalize_vessel_name\<close> and \<open>normalize_port_name\<close>
    (\<open>match_usace_clearance_to_panjiva_exports_v1.0.0.py\<close> 80--101) and \<open>normalize_name\<close>
    (\<open>transform_usace_entrance_data_v2.1.0.py\<close> 83--88).
  \<^item> \<open>UsaceDate\<close>: \<open>parse_usace_date\<close> (same body in the matcher, 47--59, and in
    \<open>marry_entrance_clearance_v1.0.0.py\<close>, 44--56) over a Gregorian day count.
  \<^item> \<open>GenesisMatcher\<close>: \<open>marry_entrance_clearance_v1.0.0.py\<close> 76--199; the loop over
    the sorted entrances is \<open>marry_loop\<close>/\<open>marry_step\<close> on the state record
    \<open>marry_state\<close> (the \<open>clearance_matched\<close> ledger, the output rows, the counters).
    \<open>PortcallMaster\<close> composes it with the clearance date parser and the PORTCALL_ID
    numbering (lines 57--215).
  \<^item> \<open>TugBarge\<close>: \<open>match_tug_barge_pairs_v1.1.0_COMPLETE.py\<close>; both passes are
    \<open>tug_barge_pairs\<close> (pairing table, then a fold of \<open>tb_step\<close> over the tugs on the state
    \<open>tb_state\<close>), and \<open>update_master\<close> writes the pairs into the master rows.
  \<^item> \<open>ToleranceMatcher\<close>: \<open>match_usace_clearance_to_panjiva_exports_v1.0.0.py\<close> 103--164:
    date expansion, left merge, sort and \<open>groupby(index).first()\<close>, index assignment.
  \<^item> \<open>VoyRecid\<close>: \<open>create_export_portcall_voy_recid_v1.0.0.py\<close> 52--123.
  \<^item> \<open>Classification\<close>: \<open>classify_15k_sample_v3.6.0.py\<close> 32--356 and \<open>main\<close>.
  \<^item> \<open>ClearanceTransform\<close>: \<open>transform_usace_clearance_data_v2.0.0.py\<close> 23--495;
    \<open>EntranceTransform\<close>: \<open>transform_usace_entrance_data_v2.1.0.py\<close> 20--507, reusing
    the clearance transform's shared steps and extending its dictionary record.
  \<^item> \<open>PortRollups\<close>: \<open>add_port_rollups_to_exports_v1.0.0.py\<close>; the name dictionary is
    an association list with \<open>dict\<close> insertion order (\<open>AList.update\<close>).
  \<^item> \<open>PanjivaPreprocess\<close>: \<open>process_panjiva_exports_v1.0.0.py\<close> 40--122.
  \<^item> \<open>UserEdits\<close>: \<open>analyze_user_edits_v1.0.0.py\<close> 95--305 and 559--616: a CSV file is a
    \<open>frame\<close> whose columns have the dtype \<open>pd.read_csv\<close> infers, \<open>compare_rows\<close> on the
    rows of \<open>df.iloc\<close>, the row loop \<open>scan_edits\<close> (a fold of \<open>scan_row\<close> on the record
    \<open>scan_state\<close>), the five pattern analyses with \<open>Counter\<close> and \<open>most_common\<close>, and the
    report statistics of \<open>main\<close> (\<open>analyze_user_edits\<close>).
  \<^item> \<open>Deploy\<close>: \<open>deploy_v3.6.0_to_production.py\<close>; the four files are the record
    \<open>files\<close>, each step (\<open>deploy_copy\<close>, \<open>deploy_history\<close>, \<open>deploy_readme\<close>,
    \<open>deploy_summary\<close>) returns its exception as a value, and \<open>deploy\<close> chains them so
    that a crash keeps the files written before it (\<open>deploy_outcome\<close>). The README loop
    with its \<open>skip\<close> flag is \<open>readme_loop\<close>.
  \<^item> \<open>ColumnCompare\<close>: \<open>compare_import_export_columns.py\<close> 9--69 as
    \<open>compare_columns\<close>, returning the printed values or \<open>NameError\<close>.

  \<^bold>\<open>What the lemmas show.\<close> For the genesis matcher: no clearance is claimed twice or
  lost and every entrance yields one row (multiset invariants of the loop), BOTH rows
  are strictly later with the stated score tiers, the IMO search takes the earliest
  candidate while the name fallback takes the first candidate in \<open>(IMO, PORT, date)\<close>
  order, the counters and output size are as printed, the spec's scenario 1, and
  for the master file distinct PORTCALL_IDs and parsed dates on every married clearance.
  For the disambiguator: pairs are disjoint and sound (same port, \<open>\<plusminus>\<close>1 day), the
  pairing table equals its closed form, HIST counts are positive, the spec's scenarios 3
  and 4, and the epoch collapse of the clearance pass. For the date parser: round trips
  in both directions on \<open>[0, 100000)\<close>, the 2020s bound, the error path on negative and
  the acceptance of six-digit values. For the tolerance matcher: the output is row \<open>i\<close>
  of the merge (a refinement of the code to its simplest form), agreement with the
  spec's best candidate when no row has two candidates, and the shift after the first row
  with two candidates: the next row receives that row's second candidate. For \<open>VOY_RECID\<close>: same identifier iff same key,
  conservation of tons, and key collisions. For the classification engine: locks are
  monotone and a fully locked record is final; an empty exclusion entry disables a rule.
  For the two USACE transforms: IMO precedence, the code-text round trip, the \<open>nan\<close>
  name match of the
  clearance transform that the entrance transform avoids, and the \<open>NAN\<close> ICST key. For
  the rollups: the dtype mismatch that empties every code lookup and the name
  collisions. For the preprocessing: the year files hold exactly the dated rows, and
  numeric HS columns lose the leading zero of the chapter. For the user-edit report:
  \<open>compare_rows\<close> is equal to its declarative dict specification, the row loop's
  counters and per-column lists agree with the change dicts, an integer column read
  back as floats makes every row look modified, and tug-barge patterns are found only
  when the first modified row touched a tug column. For the deployment: a dictionary with
  rules with and without a Phase crashes the summary after every file was written, the
  script otherwise runs to its end with consistent counts, a second run duplicates the
  history entry, the README update is idempotent once the marker is present (and leaves a
  README with the marker inside a line unchanged). For the column comparison: the
  export-only listing is sorted, distinct and complete up to its count, and the script
  fails exactly when the first archive in listing order holds no CSV file.

  \<^bold>\<open>Loops, bounds and fuel.\<close> Every loop of the scripts runs over a finite frame and is a
  \<open>fold\<close>, \<open>map\<close>, \<open>find\<close> or structural recursion; the string scanners \<open>py_split_ws\<close> and
  \<open>py_replace\<close> are \<open>function\<close>s with measure-based termination proofs. No fuel is used.
  The date parser is exact on the 5-digit \<open>mmydd\<close> range and total elsewhere;
  \<open>str(float)\<close> is exact for decimals with at most 16 fraction digits below \<open>1e16\<close>.

  \<^bold>\<open>Not modelled.\<close> File discovery, zip extraction, CSV/zip I/O, printing and summary
  statistics (they do not change the data), except where a script's printed values are
  its only result (deployment summary, column comparison), which are modelled as values
  without their text; the time stamps of the deployment log; \<open>pd.to_datetime\<close> on text
  dates (the entrance arrival dates and the Panjiva shipment dates are taken as parsed);
  the text of the user-edit report and of its code suggestions. The deployment's group
  breakdown keeps ties in group order, which numpy's sort guarantees for at most 16
  groups. Floating point is exact rational arithmetic
  (\<open>float\<close> on decimal numerals and \<open>nan\<close>; exponents and \<open>inf\<close> are rejected); Python
  string case mapping is modelled on ASCII.
\<close>

end
